(* ===== verification/Prelude.thy ===== *)
theory Prelude
  imports Main "HOL-Library.Word" "HOL-Library.List_Lexorder"
begin

text \<open>
  Shared vocabulary of the development: octets and C strings, the outcome of a C function
  (a value, or a fault the C standard leaves undefined), the error values of the DDS Security
  plugin interface, and the generic facts on them that the component theories use.

  C strings are \<open>string\<close> values without their terminating NUL; memory blocks are lists of
  octets.  A pointer that may be NULL is an \<open>option\<close>.
\<close>

section \<open>Octets, C strings, memory comparison\<close>

type_synonym octet = "8 word"
type_synonym bytes = "octet list"
type_synonym addr = "64 word"

definition octets_of :: "string \<Rightarrow> bytes" where
  "octets_of s = map of_char s"

definition cstring_octets :: "string \<Rightarrow> bytes" where
  \<comment> \<open>the octets of a C string with its terminating NUL\<close>
  "cstring_octets s = octets_of s @ [0]"

definition nul_free :: "string \<Rightarrow> bool" where
  "nul_free s \<longleftrightarrow> (0 :: octet) \<notin> set (octets_of s)"

text \<open>\<open>strncmp(s, p, strlen(p)) == 0\<close>: the prefix test the sources spell with \<open>strncmp\<close>.\<close>

definition strncmp_prefix :: "string \<Rightarrow> string \<Rightarrow> bool" where
  "strncmp_prefix s p \<longleftrightarrow> take (length p) s = p"

text \<open>
  \<open>memcmp(a, b, n)\<close>: the difference of the first two octets that differ.  The C standard
  fixes only its sign, and the sources only test the sign.  Both operands must hold \<open>n\<close> octets: a
  buffer of a received message, which may be NULL, is fetched with \<open>read_buffer\<close> below.
\<close>

fun memcmp :: "bytes \<Rightarrow> bytes \<Rightarrow> nat \<Rightarrow> int" where
  "memcmp (x # xs) (y # ys) n =
     (if n = 0 then 0 else if x = y then memcmp xs ys (n - 1) else uint x - uint y)"
| "memcmp _ _ _ = 0"

definition SHA256_DIGEST_LENGTH :: nat where
  "SHA256_DIGEST_LENGTH = 32"

text \<open>
  \<open>DDS_Security_OctetSeq\<close>: a length and a buffer that may be NULL.  A sequence is well
  formed when the buffer holds \<open>_length\<close> octets, and a NULL buffer comes with length 0.
\<close>

record octseq =
  oct_length :: nat
  oct_buffer :: "bytes option"

definition oct_data :: "octseq \<Rightarrow> bytes" where
  "oct_data q = (case oct_buffer q of None \<Rightarrow> [] | Some b \<Rightarrow> b)"

definition oct_wf :: "octseq \<Rightarrow> bool" where
  "oct_wf q \<longleftrightarrow> oct_length q = length (oct_data q)"

definition octets_to_seq :: "bytes \<Rightarrow> octseq" where
  "octets_to_seq b = \<lparr>oct_length = length b, oct_buffer = Some b\<rparr>"

lemma octets_to_seq_simps [simp]:
  "oct_length (octets_to_seq b) = length b" "oct_buffer (octets_to_seq b) = Some b"
  "oct_data (octets_to_seq b) = b" "oct_wf (octets_to_seq b)"
  by (simp_all add: octets_to_seq_def oct_data_def oct_wf_def)

section \<open>Results of the plugin functions\<close>

text \<open>
  What a C function can do besides returning: fail an assertion (in a build without
  \<open>NDEBUG\<close>; with it the code goes on with a NULL pointer), read an uninitialised
  variable, follow a NULL or dangling pointer, read past the end of a buffer, or overflow a
  signed integer; and \<open>ddsrt_malloc\<close> aborts the process when memory is exhausted.
\<close>

datatype fault =
    Assertion_failed
  | Null_dereference
  | Uninitialised_read
  | Dangling_pointer
  | Out_of_bounds
  | Out_of_memory
  | Signed_overflow

datatype 'a outcome = Ret 'a | Fault fault

primrec bind_outcome :: "'a outcome \<Rightarrow> ('a \<Rightarrow> 'b outcome) \<Rightarrow> 'b outcome" where
  "bind_outcome (Ret x) f = f x"
| "bind_outcome (Fault e) f = Fault e"

lemma bind_outcome_Ret_iff [simp]:
  "bind_outcome m f = Ret y \<longleftrightarrow> (\<exists>x. m = Ret x \<and> f x = Ret y)"
  by (cases m) auto

lemma bind_outcome_assoc:
  "bind_outcome (bind_outcome m f) g = bind_outcome m (\<lambda>x. bind_outcome (f x) g)"
  by (cases m) simp_all

lemma outcome_not_fault: "(\<forall>e. r \<noteq> Fault e) \<longleftrightarrow> (\<exists>x. r = Ret x)"
  by (cases r) auto

text \<open>
  The codes of \<open>DDS_Security_SecurityException\<close> the sources use; \<open>OPENDDS_ERROR_CODE\<close> is the -1 of
  the OpenDDS adapter.
\<close>

datatype err_code =
    ERR_UNDEFINED_CODE
  | ERR_INVALID_PARAMETER_CODE
  | ERR_OPERATION_NOT_PERMITTED_CODE
  | ERR_MISSING_REMOTE_PERMISSIONS_DOCUMENT_CODE
  | ERR_CERT_STARTDATE_IN_FUTURE_CODE
  | ERR_CERT_EXPIRED_CODE
  | ERR_CERT_AUTH_ALGO_KIND_UNKNOWN_CODE
  | ERR_INVALID_FILE_PATH_CODE
  | ERR_INVALID_TRUSTED_CA_DIR_CODE
  | ERR_TRUSTED_CA_DIR_MAX_EXCEEDED_CODE
  | ERR_CA_NOT_TRUSTED_CODE
  | OPENDDS_ERROR_CODE

text \<open>
  A set exception: its code and the format string of its message.  The arguments of the
  format, and what OpenSSL's error queue appends, only reach log output and are not kept.
\<close>

datatype sec_exception = Exn err_code string

text \<open>
  The result of a function that returns \<open>DDS_Security_ValidationResult_t\<close>: \<open>Inr\<close> for
  \<open>DDS_SECURITY_VALIDATION_OK\<close> with what it stored through its out-parameters, \<open>Inl\<close> for
  \<open>DDS_SECURITY_VALIDATION_FAILED\<close> with the exception it set, if it set one.
\<close>

type_synonym 'a vres = "sec_exception option + 'a"

definition failed :: "string \<Rightarrow> 'a vres" where
  "failed msg = Inl (Some (Exn ERR_UNDEFINED_CODE msg))"

definition failed_code :: "err_code \<Rightarrow> string \<Rightarrow> 'a vres" where
  "failed_code c msg = Inl (Some (Exn c msg))"

definition failed_silent :: "'a vres" where
  "failed_silent = Inl None"

primrec bind_vres :: "'a vres \<Rightarrow> ('a \<Rightarrow> 'b vres) \<Rightarrow> 'b vres" where
  "bind_vres (Inl e) f = Inl e"
| "bind_vres (Inr x) f = f x"

definition check_vres :: "bool \<Rightarrow> string \<Rightarrow> unit vres" where
  \<comment> \<open>\<open>if (!b) \<lbrace> set the exception; return FAILED; \<rbrace>\<close>\<close>
  "check_vres b msg = (if b then Inr () else failed msg)"

definition is_ok :: "'a vres \<Rightarrow> bool" where
  "is_ok r \<longleftrightarrow> (\<exists>x. r = Inr x)"

named_theorems vres_simps \<open>evaluation of validation results\<close>

lemma failed_neq_Inr [simp]:
  "failed m \<noteq> Inr x" "failed_code c m \<noteq> Inr x" "failed_silent \<noteq> Inr x"
  "Inr x \<noteq> failed m" "Inr x \<noteq> failed_code c m" "Inr x \<noteq> failed_silent"
  by (simp_all add: failed_def failed_code_def failed_silent_def)

lemma bind_vres_Inr_iff [simp]:
  "bind_vres m f = Inr y \<longleftrightarrow> (\<exists>x. m = Inr x \<and> f x = Inr y)"
  by (cases m) auto

lemma bind_vres_Inl_iff:
  "bind_vres m f = Inl e \<longleftrightarrow> m = Inl e \<or> (\<exists>x. m = Inr x \<and> f x = Inl e)"
  by (cases m) auto

lemma bind_vres_failed [simp, vres_simps]:
  "bind_vres (failed m) f = failed m"
  "bind_vres (failed_code c m) f = failed_code c m"
  "bind_vres failed_silent f = failed_silent"
  by (simp_all add: failed_def failed_code_def failed_silent_def)

lemma check_vres_Inr_iff [simp]: "check_vres b m = Inr u \<longleftrightarrow> b"
  by (simp add: check_vres_def)

lemma is_ok_simps [simp, vres_simps]:
  "is_ok (Inr x)" "\<not> is_ok (Inl e)" "\<not> is_ok (failed m)"
  "\<not> is_ok (failed_code c m)" "\<not> is_ok failed_silent"
  by (simp_all add: is_ok_def failed_def failed_code_def failed_silent_def)

section \<open>Operations on a state\<close>

text \<open>
  A C function that works on shared state: it ends in a result and a new state, or faults.
  A failure keeps the state changes made before it, as an early return does in C.
\<close>

type_synonym ('s, 'a) op = "'s \<Rightarrow> ('a vres \<times> 's) outcome"

definition ret_op :: "'a \<Rightarrow> ('s, 'a) op" where
  "ret_op x s = Ret (Inr x, s)"

definition lift_op :: "'a vres \<Rightarrow> ('s, 'a) op" where
  "lift_op r s = Ret (r, s)"

definition fault_op :: "fault \<Rightarrow> ('s, 'a) op" where
  "fault_op f s = Fault f"

definition bind_op :: "('s, 'a) op \<Rightarrow> ('a \<Rightarrow> ('s, 'b) op) \<Rightarrow> ('s, 'b) op" where
  "bind_op m f s =
     (case m s of
        Fault e \<Rightarrow> Fault e
      | Ret (r, s') \<Rightarrow> (case r of Inl e \<Rightarrow> Ret (Inl e, s') | Inr x \<Rightarrow> f x s'))"

definition get_op :: "('s, 's) op" where
  "get_op s = Ret (Inr s, s)"

definition modify_op :: "('s \<Rightarrow> 's) \<Rightarrow> ('s, unit) op" where
  "modify_op f s = Ret (Inr (), f s)"

definition assert_op :: "bool \<Rightarrow> ('s, unit) op" where
  "assert_op b = (if b then ret_op () else fault_op Assertion_failed)"

definition check_op :: "bool \<Rightarrow> string \<Rightarrow> ('s, unit) op" where
  \<comment> \<open>\<open>if (!b) \<lbrace> set the exception; return FAILED; \<rbrace>\<close>\<close>
  "check_op b msg = lift_op (check_vres b msg)"

text \<open>\<open>on_fail m clean\<close>: the \<open>goto err\<close> idiom, the clean-up code runs when \<open>m\<close> fails.\<close>

definition on_fail :: "('s, 'a) op \<Rightarrow> ('s, unit) op \<Rightarrow> ('s, 'a) op" where
  "on_fail m clean s =
     (case m s of
        Fault e \<Rightarrow> Fault e
      | Ret (r, s') \<Rightarrow>
          (case r of
             Inr x \<Rightarrow> Ret (Inr x, s')
           | Inl e \<Rightarrow> (case clean s' of Fault f \<Rightarrow> Fault f | Ret (_, s'') \<Rightarrow> Ret (Inl e, s''))))"

text \<open>
  Reading \<open>n\<close> octets at the \<open>_buffer\<close> of a sequence, as \<open>memcmp\<close> and \<open>ddsrt_memdup\<close> do: the fault
  this is, if the buffer is NULL or too short, and the octets at the buffer otherwise.
\<close>

definition buffer_fault :: "octseq \<Rightarrow> nat \<Rightarrow> fault option" where
  "buffer_fault q n =
     (case oct_buffer q of
        None \<Rightarrow> Some Null_dereference
      | Some b \<Rightarrow> if length b < n then Some Out_of_bounds else None)"

definition read_buffer :: "octseq \<Rightarrow> nat \<Rightarrow> ('s, bytes) op" where
  "read_buffer q n =
     (case buffer_fault q n of None \<Rightarrow> ret_op (oct_data q) | Some f \<Rightarrow> fault_op f)"

named_theorems op_simps \<open>evaluation of operations\<close>
named_theorems op_ok \<open>what a successful operation did\<close>

lemmas op_defs = ret_op_def lift_op_def fault_op_def get_op_def modify_op_def assert_op_def
  check_op_def

lemma op_eval [simp, op_simps]:
  "ret_op x s = Ret (Inr x, s)" "lift_op r s = Ret (r, s)" "fault_op f s = Fault f"
  "get_op s = Ret (Inr s, s)" "modify_op g s = Ret (Inr (), g s)"
  "assert_op b s = (if b then Ret (Inr (), s) else Fault Assertion_failed)"
  "check_op b msg s = Ret (check_vres b msg, s)"
  by (simp_all add: op_defs)

lemma bind_op_eval [op_simps]:
  "m s = Ret (Inr x, s') \<Longrightarrow> bind_op m f s = f x s'"
  "m s = Ret (Inl e, s') \<Longrightarrow> bind_op m f s = Ret (Inl e, s')"
  "m s = Fault q \<Longrightarrow> bind_op m f s = Fault q"
  by (simp_all add: bind_op_def)

lemma bind_op_ok [op_ok]:
  "bind_op m f s = Ret (Inr y, s'') \<longleftrightarrow>
     (\<exists>x s'. m s = Ret (Inr x, s') \<and> f x s' = Ret (Inr y, s''))"
  by (auto simp: bind_op_def split: outcome.splits sum.splits)

lemma bind_op_assoc:
  "bind_op (bind_op m f) g = bind_op m (\<lambda>x. bind_op (f x) g)"
  by (rule ext) (auto simp: bind_op_def split: outcome.splits sum.splits)

lemma on_fail_ok [op_ok]: "on_fail m c s = Ret (Inr y, s') \<longleftrightarrow> m s = Ret (Inr y, s')"
  by (auto simp: on_fail_def split: outcome.splits sum.splits)

lemma read_buffer_ok [op_ok]:
  "read_buffer q n s = Ret (Inr b, s') \<longleftrightarrow> buffer_fault q n = None \<and> b = oct_data q \<and> s' = s"
  by (auto simp: read_buffer_def split: option.splits)

lemma buffer_fault_None_iff: "buffer_fault q n = None \<longleftrightarrow> oct_buffer q \<noteq> None \<and> n \<le> length (oct_data q)"
  by (auto simp: buffer_fault_def oct_data_def split: option.splits)

lemma buffer_fault_Some_iff:
  "buffer_fault q n = Some f \<longleftrightarrow>
     f = Null_dereference \<and> oct_buffer q = None \<or>
     f = Out_of_bounds \<and> (\<exists>b. oct_buffer q = Some b \<and> length b < n)"
  by (auto simp: buffer_fault_def split: option.splits if_splits)

lemma buffer_fault_octets_to_seq [simp]: "buffer_fault (octets_to_seq b) n = None \<longleftrightarrow> n \<le> length b"
  by (simp add: buffer_fault_None_iff)

text \<open>
  What an operation guarantees from a state with \<open>P\<close>: \<open>Q\<close> of its value and the new state on
  success, \<open>X\<close> of the new state on failure, and a fault only if it is one of \<open>Z\<close>.
\<close>

definition triple ::
  "('s \<Rightarrow> bool) \<Rightarrow> ('s, 'a) op \<Rightarrow> ('a \<Rightarrow> 's \<Rightarrow> bool) \<Rightarrow> ('s \<Rightarrow> bool) \<Rightarrow> fault set \<Rightarrow> bool" where
  "triple P m Q X Z \<longleftrightarrow>
     (\<forall>s. P s \<longrightarrow>
        (case m s of
           Fault f \<Rightarrow> f \<in> Z
         | Ret (r, s') \<Rightarrow> (case r of Inl e \<Rightarrow> X s' | Inr x \<Rightarrow> Q x s')))"

lemma tripleD:
  "triple P m Q X Z \<Longrightarrow> P s \<Longrightarrow>
     (case m s of
        Fault f \<Rightarrow> f \<in> Z
      | Ret (r, s') \<Rightarrow> (case r of Inl e \<Rightarrow> X s' | Inr x \<Rightarrow> Q x s'))"
  by (simp add: triple_def)

lemma triple_bind:
  assumes "triple P m R X Z" and "\<And>x. triple (R x) (f x) Q X Z"
  shows "triple P (bind_op m f) Q X Z"
  unfolding triple_def
proof (intro allI impI)
  fix s assume "P s"
  then have m: "case m s of Fault e \<Rightarrow> e \<in> Z
    | Ret (r, s') \<Rightarrow> (case r of Inl e \<Rightarrow> X s' | Inr x \<Rightarrow> R x s')"
    using assms(1) by (simp add: triple_def)
  show "case bind_op m f s of Fault e \<Rightarrow> e \<in> Z
    | Ret (r, s') \<Rightarrow> (case r of Inl e \<Rightarrow> X s' | Inr x \<Rightarrow> Q x s')"
  proof (cases "m s")
    case (Ret p)
    then show ?thesis
      using m assms(2) by (cases p; cases "fst p") (auto simp: bind_op_def triple_def)
  qed (use m in \<open>simp add: bind_op_def\<close>)
qed

lemma triple_on_fail:
  assumes "triple P m Q Y Z" and "triple Y c (\<lambda>_. X) X Z"
  shows "triple P (on_fail m c) Q X Z"
  unfolding triple_def
proof (intro allI impI)
  fix s assume "P s"
  then have m: "case m s of Fault e \<Rightarrow> e \<in> Z
    | Ret (r, s') \<Rightarrow> (case r of Inl e \<Rightarrow> Y s' | Inr x \<Rightarrow> Q x s')"
    using assms(1) by (simp add: triple_def)
  show "case on_fail m c s of Fault e \<Rightarrow> e \<in> Z
    | Ret (r, s') \<Rightarrow> (case r of Inl e \<Rightarrow> X s' | Inr x \<Rightarrow> Q x s')"
  proof (cases "m s")
    case (Ret p)
    obtain r s' where p: "p = (r, s')" by fastforce
    show ?thesis
    proof (cases r)
      case (Inl e)
      then have "Y s'" using m Ret p by simp
      then have "case c s' of Fault f \<Rightarrow> f \<in> Z
        | Ret (r, s'') \<Rightarrow> (case r of Inl e \<Rightarrow> X s'' | Inr x \<Rightarrow> X s'')"
        using assms(2) by (simp add: triple_def)
      then show ?thesis
        using Ret p Inl by (auto simp: on_fail_def split: outcome.splits sum.splits)
    qed (use m Ret p in \<open>simp add: on_fail_def\<close>)
  qed (use m in \<open>simp add: on_fail_def\<close>)
qed

lemma triple_weaken:
  assumes "triple P m Q X Z" and "\<And>s. P' s \<Longrightarrow> P s" and "\<And>x s. Q x s \<Longrightarrow> Q' x s"
    and "\<And>s. X s \<Longrightarrow> X' s" and "Z \<subseteq> Z'"
  shows "triple P' m Q' X' Z'"
  unfolding triple_def
proof (intro allI impI)
  fix s assume "P' s"
  then have m: "case m s of Fault e \<Rightarrow> e \<in> Z
    | Ret (r, s') \<Rightarrow> (case r of Inl e \<Rightarrow> X s' | Inr x \<Rightarrow> Q x s')"
    using assms(1,2) by (simp add: triple_def)
  show "case m s of Fault e \<Rightarrow> e \<in> Z'
    | Ret (r, s') \<Rightarrow> (case r of Inl e \<Rightarrow> X' s' | Inr x \<Rightarrow> Q' x s')"
  proof (cases "m s")
    case (Ret p)
    then show ?thesis
      using m assms(3,4) by (cases p; cases "fst p") simp_all
  next
    case (Fault f)
    then show ?thesis using m assms(5) by auto
  qed
qed

lemma triple_if:
  "(b \<Longrightarrow> triple P m Q X Z) \<Longrightarrow> (\<not> b \<Longrightarrow> triple P n Q X Z) \<Longrightarrow>
   triple P (if b then m else n) Q X Z"
  by simp

lemma triple_basic:
  "(\<And>s. P s \<Longrightarrow> Q x s) \<Longrightarrow> triple P (ret_op x) Q X Z"
  "(\<And>s. P s \<Longrightarrow> Q s s) \<Longrightarrow> triple P get_op Q X Z"
  "(\<And>s. P s \<Longrightarrow> R (g s)) \<Longrightarrow> triple P (modify_op g) (\<lambda>_. R) X Z"
  "(\<And>s. P s \<Longrightarrow> b \<Longrightarrow> R s) \<Longrightarrow> (\<And>s. P s \<Longrightarrow> \<not> b \<Longrightarrow> X s) \<Longrightarrow>
     triple P (check_op b msg) (\<lambda>_. R) X Z"
  "(\<And>s. P s \<Longrightarrow> b) \<Longrightarrow> (\<And>s. P s \<Longrightarrow> R s) \<Longrightarrow> triple P (assert_op b) (\<lambda>_. R) X Z"
  "(\<And>s x. P s \<Longrightarrow> r = Inr x \<Longrightarrow> Q x s) \<Longrightarrow> (\<And>s e. P s \<Longrightarrow> r = Inl e \<Longrightarrow> X s) \<Longrightarrow>
     triple P (lift_op r) Q X Z"
  by (auto simp: triple_def check_vres_def failed_def split: sum.splits)

section \<open>Generic facts\<close>

lemma octets_of_length [simp]: "length (octets_of s) = length s"
  by (simp add: octets_of_def)

lemma unat_of_char [simp]: "unat (of_char c :: octet) = of_char c"
proof -
  have "(of_char c :: octet) = of_nat (of_char c)"
    by (simp add: of_nat_of_char)
  then show ?thesis
    by (simp add: unat_of_nat)
qed

lemma of_char_octet_inj: "(of_char c :: octet) = of_char d \<longleftrightarrow> c = d"
  by (metis unat_of_char of_char_eq_iff)

lemma octets_of_inj [simp]: "octets_of s = octets_of t \<longleftrightarrow> s = t"
  by (simp add: octets_of_def inj_map_eq_map inj_def of_char_octet_inj)

lemma memcmp_self [simp]: "memcmp xs xs n = 0"
proof (induction xs arbitrary: n)
  case (Cons x xs)
  then show ?case by (cases n) auto
qed simp

lemma memcmp_antisym: "memcmp ys xs n = - memcmp xs ys n"
  by (induction xs ys n rule: memcmp.induct) auto

lemma memcmp_eq_0_iff:
  "length xs = n \<Longrightarrow> length ys = n \<Longrightarrow> memcmp xs ys n = 0 \<longleftrightarrow> xs = ys"
proof (induction xs ys n rule: memcmp.induct)
  case (1 x xs y ys n)
  then show ?case by (auto simp: word_uint_eq_iff)
qed auto

lemma memcmp_take:
  "memcmp xs ys n = memcmp (take n xs) (take n ys) n"
proof (induction xs ys n rule: memcmp.induct)
  case (1 x xs y ys n)
  then show ?case by (cases n) auto
qed auto

lemma memcmp_less_0_iff:
  "length xs = n \<Longrightarrow> length ys = n \<Longrightarrow> memcmp xs ys n < 0 \<longleftrightarrow> xs < ys"
proof (induction xs ys n rule: memcmp.induct)
  case (1 x xs y ys n)
  then show ?case by (auto simp: word_less_def)
qed auto

end
