(* ===== verification/AuthAlgs.thy ===== *)
theory AuthAlgs
  imports Prelude
begin

text \<open>
  \<open>auth_algs.h\<close> and \<open>auth_algs.c\<close>: the algorithm kinds, the two algorithm tables and the key
  size table, the searches on them, and the classification of a certificate's public key.
  The arrays of the source end in an entry whose name is NULL (whose kind is UNKNOWN for the
  size table); here they are the lists of the entries before it.

  The locale \<open>algorithm_table\<close> is what the searches rely on: kinds and wire names are
  unambiguous and wire names contain no NUL.  Both tables of the source are interpretations.
\<close>

section \<open>Algorithm kinds\<close>

datatype AuthenticationAlgoKind_t =
    AUTH_ALGO_KIND_UNKNOWN
  | AUTH_ALGO_KIND_RSA_2048
  | AUTH_ALGO_KIND_EC_PRIME256V1
  | AUTH_ALGO_KIND_ML_KEM_512
  | AUTH_ALGO_KIND_ML_KEM_768
  | AUTH_ALGO_KIND_ML_KEM_1024
  | AUTH_ALGO_KIND_ML_DSA_44
  | AUTH_ALGO_KIND_ML_DSA_65
  | AUTH_ALGO_KIND_ML_DSA_87
  | AUTH_ALGO_KIND_X25519_ML_KEM_768
  | AUTH_ALGO_KIND_P256_ML_KEM_768
  | AUTH_ALGO_KIND_FRODO_640_SHAKE
  | AUTH_ALGO_KIND_BIKE_L1
  | AUTH_ALGO_KIND_HQC_128

text \<open>The value of an enumerator: kinds are ordered as C orders them.\<close>

fun kind_value :: "AuthenticationAlgoKind_t \<Rightarrow> nat" where
  "kind_value AUTH_ALGO_KIND_UNKNOWN = 0"
| "kind_value AUTH_ALGO_KIND_RSA_2048 = 1"
| "kind_value AUTH_ALGO_KIND_EC_PRIME256V1 = 2"
| "kind_value AUTH_ALGO_KIND_ML_KEM_512 = 3"
| "kind_value AUTH_ALGO_KIND_ML_KEM_768 = 4"
| "kind_value AUTH_ALGO_KIND_ML_KEM_1024 = 5"
| "kind_value AUTH_ALGO_KIND_ML_DSA_44 = 6"
| "kind_value AUTH_ALGO_KIND_ML_DSA_65 = 7"
| "kind_value AUTH_ALGO_KIND_ML_DSA_87 = 8"
| "kind_value AUTH_ALGO_KIND_X25519_ML_KEM_768 = 9"
| "kind_value AUTH_ALGO_KIND_P256_ML_KEM_768 = 10"
| "kind_value AUTH_ALGO_KIND_FRODO_640_SHAKE = 11"
| "kind_value AUTH_ALGO_KIND_BIKE_L1 = 12"
| "kind_value AUTH_ALGO_KIND_HQC_128 = 13"

lemma kind_value_inj: "kind_value k = kind_value l \<longleftrightarrow> k = l"
  by (cases k; cases l) simp_all

instantiation AuthenticationAlgoKind_t :: linorder
begin

definition less_eq_AuthenticationAlgoKind_t where
  "k \<le> l \<longleftrightarrow> kind_value k \<le> kind_value l"

definition less_AuthenticationAlgoKind_t where
  "k < l \<longleftrightarrow> kind_value k < kind_value l"

instance
  by standard (auto simp: less_eq_AuthenticationAlgoKind_t_def less_AuthenticationAlgoKind_t_def
      kind_value_inj)

end

section \<open>The algorithm tables\<close>

record AlgorithmInfo =
  configuration_name :: string
  ai_kind :: AuthenticationAlgoKind_t
  openssl_name :: string
  wire_name :: string

definition algorithm_info ::
  "string \<Rightarrow> AuthenticationAlgoKind_t \<Rightarrow> string \<Rightarrow> string \<Rightarrow> AlgorithmInfo" where
  "algorithm_info c k n w =
     \<lparr>configuration_name = c, ai_kind = k, openssl_name = n, wire_name = w\<rparr>"

definition kem_algorithms :: "AlgorithmInfo list" where
  "kem_algorithms =
    [algorithm_info ''ecdh_p256'' AUTH_ALGO_KIND_EC_PRIME256V1 ''EC'' ''ECDH+prime256v1-CEUM'',
     algorithm_info ''dh_2048'' AUTH_ALGO_KIND_RSA_2048 ''DH'' ''DH+MODP-2048-256'',
     algorithm_info ''mlkem512'' AUTH_ALGO_KIND_ML_KEM_512 ''ML-KEM-512'' ''ML-KEM-512'',
     algorithm_info ''mlkem768'' AUTH_ALGO_KIND_ML_KEM_768 ''ML-KEM-768'' ''ML-KEM-768'',
     algorithm_info ''mlkem1024'' AUTH_ALGO_KIND_ML_KEM_1024 ''ML-KEM-1024'' ''ML-KEM-1024'',
     algorithm_info ''x25519_mlkem768'' AUTH_ALGO_KIND_X25519_ML_KEM_768
       ''X25519MLKEM768'' ''X25519MLKEM768'',
     algorithm_info ''p256_mlkem768'' AUTH_ALGO_KIND_P256_ML_KEM_768
       ''SecP256r1MLKEM768'' ''SecP256r1MLKEM768'',
     algorithm_info ''frodo640shake'' AUTH_ALGO_KIND_FRODO_640_SHAKE
       ''frodo640shake'' ''FrodoKEM-640-SHAKE'',
     algorithm_info ''bikel1'' AUTH_ALGO_KIND_BIKE_L1 ''bikel1'' ''BIKE-L1'',
     algorithm_info ''hqc128'' AUTH_ALGO_KIND_HQC_128 ''hqc128'' ''HQC-128'']"

definition signature_algorithms :: "AlgorithmInfo list" where
  "signature_algorithms =
    [algorithm_info ''rsa2048'' AUTH_ALGO_KIND_RSA_2048 ''RSA'' ''RSASSA-PSS-SHA256'',
     algorithm_info ''ecdsa_p256'' AUTH_ALGO_KIND_EC_PRIME256V1 ''EC'' ''ECDSA-SHA256'',
     algorithm_info ''mldsa44'' AUTH_ALGO_KIND_ML_DSA_44 ''ML-DSA-44'' ''ML-DSA-44'',
     algorithm_info ''mldsa65'' AUTH_ALGO_KIND_ML_DSA_65 ''ML-DSA-65'' ''ML-DSA-65'',
     algorithm_info ''mldsa87'' AUTH_ALGO_KIND_ML_DSA_87 ''ML-DSA-87'' ''ML-DSA-87'']"

fun find_by_configuration_name ::
  "AlgorithmInfo list \<Rightarrow> string option \<Rightarrow> AlgorithmInfo option" where
  "find_by_configuration_name table None = None"
| "find_by_configuration_name table (Some name) =
     find (\<lambda>a. configuration_name a = name) table"

definition find_by_kind ::
  "AlgorithmInfo list \<Rightarrow> AuthenticationAlgoKind_t \<Rightarrow> AlgorithmInfo option" where
  "find_by_kind table kind = find (\<lambda>a. ai_kind a = kind) table"

definition octets_equal_string :: "octseq option \<Rightarrow> string option \<Rightarrow> bool" where
  "octets_equal_string octets text =
     (case (octets, text) of
        (Some q, Some t) \<Rightarrow>
          if oct_buffer q = None \<and> oct_length q \<noteq> 0 then False
          else
            (oct_length q = length t \<or>
             (oct_length q = length t + 1 \<and> oct_data q ! length t = 0)) \<and>
            memcmp (oct_data q) (octets_of t) (length t) = 0
      | _ \<Rightarrow> False)"

fun find_wire_kind :: "AlgorithmInfo list \<Rightarrow> octseq option \<Rightarrow> AuthenticationAlgoKind_t" where
  "find_wire_kind [] name = AUTH_ALGO_KIND_UNKNOWN"
| "find_wire_kind (a # table) name =
     (if octets_equal_string name (Some (wire_name a)) then ai_kind a
      else find_wire_kind table name)"

section \<open>Lookups by kind and by name\<close>

definition get_authentication_algo :: "AuthenticationAlgoKind_t \<Rightarrow> string" where
  "get_authentication_algo kind =
     (case find_by_kind signature_algorithms kind of
        Some info \<Rightarrow> configuration_name info
      | None \<Rightarrow>
          (case find_by_kind kem_algorithms kind of
             Some info \<Rightarrow> configuration_name info
           | None \<Rightarrow> ''unknown''))"

definition get_dsign_algo :: "AuthenticationAlgoKind_t \<Rightarrow> string" where
  "get_dsign_algo kind =
     (case find_by_kind signature_algorithms kind of Some info \<Rightarrow> wire_name info | None \<Rightarrow> '''')"

definition get_kagree_algo :: "AuthenticationAlgoKind_t \<Rightarrow> string" where
  "get_kagree_algo kind =
     (case find_by_kind kem_algorithms kind of Some info \<Rightarrow> wire_name info | None \<Rightarrow> '''')"

definition get_dsign_algo_from_octseq :: "octseq option \<Rightarrow> AuthenticationAlgoKind_t" where
  "get_dsign_algo_from_octseq name = find_wire_kind signature_algorithms name"

definition get_kagree_algo_from_octseq :: "octseq option \<Rightarrow> AuthenticationAlgoKind_t" where
  "get_kagree_algo_from_octseq name = find_wire_kind kem_algorithms name"

text \<open>\<open>SELECTED_KEM_ALGORITHM\<close> is a macro of the build: the first argument below.\<close>

definition get_default_kem_algorithm_kind :: "string \<Rightarrow> AuthenticationAlgoKind_t" where
  "get_default_kem_algorithm_kind selected =
     (case find_by_configuration_name kem_algorithms (Some selected) of
        Some info \<Rightarrow> ai_kind info | None \<Rightarrow> AUTH_ALGO_KIND_UNKNOWN)"

definition get_kem_openssl_name_by_kind :: "AuthenticationAlgoKind_t \<Rightarrow> string option" where
  "get_kem_openssl_name_by_kind kind =
     (case find_by_kind kem_algorithms kind of
        Some info \<Rightarrow> Some (openssl_name info) | None \<Rightarrow> None)"

definition get_default_kem_openssl_name :: "string \<Rightarrow> string option" where
  "get_default_kem_openssl_name selected =
     get_kem_openssl_name_by_kind (get_default_kem_algorithm_kind selected)"

definition get_default_kem_name :: "string \<Rightarrow> string" where
  "get_default_kem_name selected = selected"

definition is_supported_kem_algorithm :: "string option \<Rightarrow> bool" where
  "is_supported_kem_algorithm name \<longleftrightarrow>
     (case find_by_configuration_name kem_algorithms name of None \<Rightarrow> False | Some _ \<Rightarrow> True)"

section \<open>Key sizes\<close>

record KemKeySizes =
  ks_kind :: AuthenticationAlgoKind_t
  public_key_size :: nat
  secret_key_size :: nat
  ciphertext_size :: nat

definition kem_sizes :: "AuthenticationAlgoKind_t \<Rightarrow> nat \<Rightarrow> nat \<Rightarrow> nat \<Rightarrow> KemKeySizes" where
  "kem_sizes k p s c =
     \<lparr>ks_kind = k, public_key_size = p, secret_key_size = s, ciphertext_size = c\<rparr>"

definition kem_key_sizes :: "KemKeySizes list" where
  "kem_key_sizes =
    [kem_sizes AUTH_ALGO_KIND_EC_PRIME256V1 65 32 65,
     kem_sizes AUTH_ALGO_KIND_RSA_2048 256 256 256,
     kem_sizes AUTH_ALGO_KIND_ML_KEM_512 800 1632 768,
     kem_sizes AUTH_ALGO_KIND_ML_KEM_768 1184 2400 1088,
     kem_sizes AUTH_ALGO_KIND_ML_KEM_1024 1568 3168 1568,
     kem_sizes AUTH_ALGO_KIND_X25519_ML_KEM_768 1216 0 1120,
     kem_sizes AUTH_ALGO_KIND_P256_ML_KEM_768 1249 0 1153,
     kem_sizes AUTH_ALGO_KIND_FRODO_640_SHAKE 9616 19888 9720,
     kem_sizes AUTH_ALGO_KIND_BIKE_L1 1541 5223 1573,
     kem_sizes AUTH_ALGO_KIND_HQC_128 2249 2289 4481]"

definition find_sizes :: "AuthenticationAlgoKind_t \<Rightarrow> KemKeySizes option" where
  "find_sizes kind = find (\<lambda>z. ks_kind z = kind) kem_key_sizes"

definition get_kem_public_key_size :: "AuthenticationAlgoKind_t \<Rightarrow> nat" where
  "get_kem_public_key_size kind =
     (case find_sizes kind of Some z \<Rightarrow> public_key_size z | None \<Rightarrow> 0)"

definition get_kem_ciphertext_size :: "AuthenticationAlgoKind_t \<Rightarrow> nat" where
  "get_kem_ciphertext_size kind =
     (case find_sizes kind of Some z \<Rightarrow> ciphertext_size z | None \<Rightarrow> 0)"

definition get_kem_secret_key_size :: "AuthenticationAlgoKind_t \<Rightarrow> nat" where
  "get_kem_secret_key_size kind =
     (case find_sizes kind of Some z \<Rightarrow> secret_key_size z | None \<Rightarrow> 0)"

definition validate_kem_public_key_size :: "AuthenticationAlgoKind_t \<Rightarrow> nat \<Rightarrow> bool" where
  "validate_kem_public_key_size kind actual_size \<longleftrightarrow>
     actual_size \<noteq> 0 \<and> actual_size = get_kem_public_key_size kind"

text \<open>
  \<open>get_kem_key_sizes(kind, sizes)\<close>: \<open>sizes\<close> is what the out-parameter points to, or NULL;
  the result is the return value and what it points to afterwards.
\<close>

definition get_kem_key_sizes ::
  "AuthenticationAlgoKind_t \<Rightarrow> KemKeySizes option \<Rightarrow> bool \<times> KemKeySizes option" where
  "get_kem_key_sizes kind sizes =
     (case (find_sizes kind, sizes) of
        (Some found, Some _) \<Rightarrow> (True, Some found)
      | _ \<Rightarrow> (False, sizes))"

section \<open>The kind of a certificate's key\<close>

datatype evp_pkey = EVP_PKEY nat
datatype x509 = X509 nat

datatype evp_pkey_id = EVP_PKEY_RSA | EVP_PKEY_EC | EVP_PKEY_OTHER nat

text \<open>
  What the code asks OpenSSL about keys: \<open>evp_pkey\<close> and \<open>x509\<close> are opaque references, the
  record holds the library's accessors.
\<close>

record openssl_pkey =
  X509_get_pubkey :: "x509 \<Rightarrow> evp_pkey option"
  EVP_PKEY_is_a :: "evp_pkey \<Rightarrow> string \<Rightarrow> bool"
  EVP_PKEY_get_bits :: "evp_pkey \<Rightarrow> int"
  EVP_PKEY_id :: "evp_pkey \<Rightarrow> evp_pkey_id"
  EVP_PKEY_can_sign :: "evp_pkey \<Rightarrow> bool"

definition get_authentication_algo_kind ::
  "('a) openssl_pkey_scheme \<Rightarrow> x509 option \<Rightarrow> AuthenticationAlgoKind_t" where
  "get_authentication_algo_kind E certificate =
     (case certificate of
        None \<Rightarrow> AUTH_ALGO_KIND_UNKNOWN
      | Some cert \<Rightarrow>
          (case X509_get_pubkey E cert of
             None \<Rightarrow> AUTH_ALGO_KIND_UNKNOWN
           | Some key \<Rightarrow>
               if EVP_PKEY_is_a E key ''ML-DSA-44'' \<or> EVP_PKEY_is_a E key ''MLDSA44''
               then AUTH_ALGO_KIND_ML_DSA_44
               else if EVP_PKEY_is_a E key ''ML-DSA-65'' \<or> EVP_PKEY_is_a E key ''MLDSA65''
               then AUTH_ALGO_KIND_ML_DSA_65
               else if EVP_PKEY_is_a E key ''ML-DSA-87'' \<or> EVP_PKEY_is_a E key ''MLDSA87''
               then AUTH_ALGO_KIND_ML_DSA_87
               else if EVP_PKEY_is_a E key ''RSA'' \<and> EVP_PKEY_get_bits E key = 2048
               then AUTH_ALGO_KIND_RSA_2048
               else if EVP_PKEY_is_a E key ''EC'' \<and> EVP_PKEY_get_bits E key = 256
               then AUTH_ALGO_KIND_EC_PRIME256V1
               else AUTH_ALGO_KIND_UNKNOWN))"

section \<open>The contract of an algorithm table\<close>

lemma find_distinct_key:
  assumes "x \<in> set xs" and "distinct (map f xs)"
  shows "find (\<lambda>y. f y = f x) xs = Some x"
  using assms by (induction xs) (auto simp: rev_image_eqI)

lemma octets_equal_string_iff:
  assumes "oct_wf q"
  shows "octets_equal_string (Some q) (Some t) \<longleftrightarrow>
         oct_data q = octets_of t \<or> oct_data q = cstring_octets t"
    (is "?L \<longleftrightarrow> ?R")
proof -
  have len: "oct_length q = length (oct_data q)"
    using assms by (simp add: oct_wf_def)
  have null: "oct_buffer q = None \<Longrightarrow> oct_length q = 0"
    using len by (simp add: oct_data_def)
  have cmp: "length xs \<ge> length t \<Longrightarrow>
      memcmp xs (octets_of t) (length t) = 0 \<longleftrightarrow> take (length t) xs = octets_of t" for xs
    by (subst memcmp_take) (simp add: memcmp_eq_0_iff)
  have snoc: "length xs = Suc (length t) \<and> xs ! length t = 0 \<and> take (length t) xs = octets_of t
      \<longleftrightarrow> xs = cstring_octets t" for xs
    by (auto simp: cstring_octets_def nth_append)
       (metis append_take_drop_id Cons_nth_drop_Suc drop_all lessI order_refl)
  have same: "length xs = length t \<and> take (length t) xs = octets_of t \<longleftrightarrow> xs = octets_of t" for xs
    by auto
  show ?thesis
    using null same [of "oct_data q"] snoc [of "oct_data q"] cmp [of "oct_data q"]
    by (auto simp: octets_equal_string_def len)
qed

lemma cstring_octets_eq_iff [simp]: "cstring_octets s = cstring_octets t \<longleftrightarrow> s = t"
  by (simp add: cstring_octets_def)

lemma cstring_octets_neq_nul_free: "nul_free t \<Longrightarrow> cstring_octets s \<noteq> octets_of t"
  unfolding nul_free_def cstring_octets_def by (metis in_set_conv_decomp)

lemma octets_equal_string_unique:
  assumes "oct_wf q" "nul_free s" "nul_free t"
    and "octets_equal_string (Some q) (Some s)" "octets_equal_string (Some q) (Some t)"
  shows "s = t"
  using assms by (auto simp: octets_equal_string_iff dest: cstring_octets_neq_nul_free
      cstring_octets_neq_nul_free [THEN not_sym])

locale algorithm_table =
  fixes table :: "AlgorithmInfo list"
  assumes kinds_distinct: "distinct (map ai_kind table)"
    and names_distinct: "distinct (map configuration_name table)"
    and wires_distinct: "distinct (map wire_name table)"
    and wires_nul_free: "a \<in> set table \<Longrightarrow> nul_free (wire_name a)"
    and kinds_known: "a \<in> set table \<Longrightarrow> ai_kind a \<noteq> AUTH_ALGO_KIND_UNKNOWN"
begin

lemma by_kind: "a \<in> set table \<Longrightarrow> find_by_kind table (ai_kind a) = Some a"
  unfolding find_by_kind_def by (rule find_distinct_key [OF _ kinds_distinct])

lemma by_kind_Some: "find_by_kind table k = Some a \<Longrightarrow> a \<in> set table \<and> ai_kind a = k"
  by (auto simp: find_by_kind_def find_Some_iff)

lemma by_name:
  "a \<in> set table \<Longrightarrow> find_by_configuration_name table (Some (configuration_name a)) = Some a"
  by (simp add: find_distinct_key [OF _ names_distinct])

lemma wire_kind_char:
  assumes "oct_wf q" "set xs \<subseteq> set table" "distinct (map wire_name xs)" "k \<noteq> AUTH_ALGO_KIND_UNKNOWN"
  shows "find_wire_kind xs (Some q) = k \<longleftrightarrow>
         (\<exists>a\<in>set xs. ai_kind a = k \<and> octets_equal_string (Some q) (Some (wire_name a)))"
  using assms(2,3)
proof (induction xs)
  case Nil
  then show ?case using assms(4) by auto
next
  case (Cons a xs)
  show ?case
  proof (cases "octets_equal_string (Some q) (Some (wire_name a))")
    case True
    have "wire_name b = wire_name a"
      if "b \<in> set xs" "octets_equal_string (Some q) (Some (wire_name b))" for b
      using octets_equal_string_unique [OF assms(1) _ _ that(2) True] Cons.prems(1) that(1)
        wires_nul_free by auto
    with Cons.prems(2) have "\<not> octets_equal_string (Some q) (Some (wire_name b))"
      if "b \<in> set xs" for b
      using that by (metis distinct.simps(2) image_eqI list.set_map list.simps(9))
    with True show ?thesis by auto
  next
    case False
    with Cons show ?thesis by auto
  qed
qed

lemma wire_kind_sound_complete:
  assumes "oct_wf q" "k \<noteq> AUTH_ALGO_KIND_UNKNOWN"
  shows "find_wire_kind table (Some q) = k \<longleftrightarrow>
         (\<exists>a\<in>set table. ai_kind a = k \<and>
            (oct_data q = octets_of (wire_name a) \<or> oct_data q = cstring_octets (wire_name a)))"
  using wire_kind_char [OF assms(1) order_refl wires_distinct assms(2)] assms(1)
  by (simp add: octets_equal_string_iff)

lemma wire_roundtrip:
  assumes "find_by_kind table k = Some a"
  shows "find_wire_kind table (Some (octets_to_seq (cstring_octets (wire_name a)))) = k"
    and "find_wire_kind table (Some (octets_to_seq (octets_of (wire_name a)))) = k"
  using by_kind_Some [OF assms] kinds_known [of a]
    wire_kind_sound_complete [of "octets_to_seq (cstring_octets (wire_name a))" k]
    wire_kind_sound_complete [of "octets_to_seq (octets_of (wire_name a))" k]
  by auto

end

lemmas table_defs = kem_algorithms_def signature_algorithms_def algorithm_info_def

lemma of_char_octet_0_iff: "(of_char c :: octet) = 0 \<longleftrightarrow> c = CHR 0x00"
proof -
  have "(of_char c :: octet) = 0 \<longleftrightarrow> unat (of_char c :: octet) = 0"
    by (simp only: unat_eq_0)
  also have "\<dots> \<longleftrightarrow> (of_char c :: nat) = of_char (CHR 0x00)"
    by (simp only: unat_of_char) simp
  finally show ?thesis
    by (simp only: of_char_eq_iff)
qed

lemma nul_free_iff: "nul_free s \<longleftrightarrow> CHR 0x00 \<notin> set s"
  unfolding nul_free_def octets_of_def set_map
  by (metis (no_types, lifting) image_iff of_char_octet_0_iff)

text \<open>The laws, evaluated on the two tables of the source.\<close>

definition table_ok :: "AlgorithmInfo list \<Rightarrow> bool" where
  "table_ok table \<longleftrightarrow>
     distinct (map ai_kind table) \<and> distinct (map configuration_name table) \<and>
     distinct (map wire_name table) \<and>
     list_all (\<lambda>a. CHR 0x00 \<notin> set (wire_name a)) table \<and>
     list_all (\<lambda>a. ai_kind a \<noteq> AUTH_ALGO_KIND_UNKNOWN) table"

lemma table_ok_laws: "table_ok table \<Longrightarrow> algorithm_table table"
  by unfold_locales (auto simp: table_ok_def nul_free_iff list_all_iff)

lemma table_ok_source: "table_ok kem_algorithms" "table_ok signature_algorithms"
  by code_simp+

interpretation kem: algorithm_table kem_algorithms
  by (rule table_ok_laws [OF table_ok_source(1)])

interpretation dsign: algorithm_table signature_algorithms
  by (rule table_ok_laws [OF table_ok_source(2)])

section \<open>Properties\<close>

lemma sig_info_of_kind:
  "get_authentication_algo_kind E c = k \<Longrightarrow> k \<noteq> AUTH_ALGO_KIND_UNKNOWN \<Longrightarrow>
   \<exists>a. find_by_kind signature_algorithms k = Some a"
  by (auto simp: get_authentication_algo_kind_def find_by_kind_def table_defs
      split: option.splits if_splits)

lemma empty_name_unknown:
  "find_wire_kind kem_algorithms (Some (octets_to_seq (cstring_octets ''''))) = AUTH_ALGO_KIND_UNKNOWN"
  "find_wire_kind signature_algorithms (Some (octets_to_seq (cstring_octets ''''))) =
     AUTH_ALGO_KIND_UNKNOWN"
  by (simp_all add: table_defs octets_equal_string_def cstring_octets_def octets_of_def)

lemma unknown_kind_no_info:
  "find_by_kind kem_algorithms AUTH_ALGO_KIND_UNKNOWN = None"
  "find_by_kind signature_algorithms AUTH_ALGO_KIND_UNKNOWN = None"
  by (simp_all add: find_by_kind_def table_defs)

lemma default_kind_info:
  "get_default_kem_algorithm_kind sel = AUTH_ALGO_KIND_UNKNOWN \<or>
   (\<exists>a. find_by_kind kem_algorithms (get_default_kem_algorithm_kind sel) = Some a)"
proof (cases "find_by_configuration_name kem_algorithms (Some sel)")
  case None
  then show ?thesis by (simp add: get_default_kem_algorithm_kind_def)
next
  case (Some a)
  then have "a \<in> set kem_algorithms" by (auto simp: find_Some_iff)
  with Some show ?thesis by (simp add: get_default_kem_algorithm_kind_def kem.by_kind)
qed

lemma kagree_wire_roundtrip:
  "k = AUTH_ALGO_KIND_UNKNOWN \<or> find_by_kind kem_algorithms k = Some a \<Longrightarrow>
   get_kagree_algo_from_octseq (Some (octets_to_seq (cstring_octets (get_kagree_algo k)))) = k"
  by (auto simp: get_kagree_algo_from_octseq_def get_kagree_algo_def kem.wire_roundtrip
      empty_name_unknown unknown_kind_no_info)

lemma dsign_wire_roundtrip:
  "k = AUTH_ALGO_KIND_UNKNOWN \<or> find_by_kind signature_algorithms k = Some a \<Longrightarrow>
   get_dsign_algo_from_octseq (Some (octets_to_seq (cstring_octets (get_dsign_algo k)))) = k"
  by (auto simp: get_dsign_algo_from_octseq_def get_dsign_algo_def dsign.wire_roundtrip
      empty_name_unknown unknown_kind_no_info)

text \<open>
  C27: the algorithm names a participant sends are the ones its peer understands: the receiver
  maps the signature name of any certificate, and the key agreement name of any configured
  KEM, back to the sender's kind (an unsupported certificate or configuration is sent as an
  empty name, which the receiver maps to UNKNOWN and rejects).
\<close>
theorem algorithm_names_roundtrip:
  "get_dsign_algo_from_octseq (Some (octets_to_seq (cstring_octets
     (get_dsign_algo (get_authentication_algo_kind E cert))))) = get_authentication_algo_kind E cert
   \<and> get_kagree_algo_from_octseq (Some (octets_to_seq (cstring_octets
     (get_kagree_algo (get_default_kem_algorithm_kind selected)))))
     = get_default_kem_algorithm_kind selected"
  by (metis dsign_wire_roundtrip kagree_wire_roundtrip sig_info_of_kind default_kind_info)

text \<open>
  A received key agreement name selects a kind exactly when its octets are that kind's wire
  name, with or without one terminating NUL: no other octet sequence is taken for a supported
  algorithm, and no sequence for two of them.
\<close>
lemma kagree_name_recognised_iff:
  assumes "oct_wf q" and "k \<noteq> AUTH_ALGO_KIND_UNKNOWN"
  shows "get_kagree_algo_from_octseq (Some q) = k \<longleftrightarrow>
    (\<exists>a. find_by_kind kem_algorithms k = Some a \<and>
      (oct_data q = octets_of (wire_name a) \<or> oct_data q = octets_of (wire_name a) @ [0]))"
  unfolding get_kagree_algo_from_octseq_def kem.wire_kind_sound_complete [OF assms]
  by (metis cstring_octets_def kem.by_kind kem.by_kind_Some)

theorem kagree_name_recognised_iff_witness:
  "get_kagree_algo_from_octseq (Some (octets_to_seq (octets_of ''ML-KEM-768'')))
     = AUTH_ALGO_KIND_ML_KEM_768"
proof -
  have "find_by_kind kem_algorithms AUTH_ALGO_KIND_ML_KEM_768 =
      Some (algorithm_info ''mlkem768'' AUTH_ALGO_KIND_ML_KEM_768 ''ML-KEM-768'' ''ML-KEM-768'')"
    by (simp add: find_by_kind_def table_defs)
  then show ?thesis
    using kagree_name_recognised_iff [of "octets_to_seq (octets_of ''ML-KEM-768'')"
        AUTH_ALGO_KIND_ML_KEM_768]
    by (simp add: algorithm_info_def)
qed

lemma kem_kind_has_sizes:
  "(\<exists>a. find_by_kind kem_algorithms kind = Some a) \<longleftrightarrow> 0 < get_kem_public_key_size kind"
  "0 < get_kem_ciphertext_size kind \<longleftrightarrow> 0 < get_kem_public_key_size kind"
  by (cases kind; simp add: find_by_kind_def table_defs get_kem_public_key_size_def
      get_kem_ciphertext_size_def find_sizes_def kem_key_sizes_def kem_sizes_def)+

text \<open>
  The two tables agree: a kind has a key exchange implementation exactly when the size
  table gives it a positive public key size, and then a positive ciphertext size; so the
  size checks of the handshake reject every kind that is not a key exchange kind.
\<close>
lemma kem_tables_agree:
  "(find_by_kind kem_algorithms kind \<noteq> None \<longleftrightarrow> 0 < get_kem_public_key_size kind)
   \<and> (0 < get_kem_public_key_size kind \<longleftrightarrow> 0 < get_kem_ciphertext_size kind)
   \<and> (validate_kem_public_key_size kind n \<longleftrightarrow>
        find_by_kind kem_algorithms kind \<noteq> None \<and> n = get_kem_public_key_size kind)"
  by (cases kind) (auto simp: find_by_kind_def table_defs get_kem_public_key_size_def
      get_kem_ciphertext_size_def find_sizes_def kem_key_sizes_def kem_sizes_def
      validate_kem_public_key_size_def)

end
