(* ===== verification/PqKem.thy ===== *)
theory PqKem
  imports AuthAlgs
begin

text \<open>
  \<open>pq_kem.c\<close>: the key encapsulation layer over OpenSSL EVP.  The EVP functions are the fields of
  \<open>openssl_kem\<close>; those that draw randomness, allocate, or depend on the loaded providers take
  the time of the call as their first argument, so that two calls may differ.  An EVP context
  is represented by what it was created from (an algorithm name or a key).  An \<open>int\<close> result is
  OpenSSL's return code, 1 for success.
\<close>

section \<open>The OpenSSL functions used\<close>

record openssl_kem = openssl_pkey +
  EVP_PKEY_CTX_new_from_name :: "nat \<Rightarrow> string \<Rightarrow> bool"
  EVP_PKEY_keygen_init :: "nat \<Rightarrow> string \<Rightarrow> int"
  EVP_PKEY_generate :: "nat \<Rightarrow> string \<Rightarrow> int \<times> evp_pkey option"
  EVP_PKEY_get1_encoded_public_key :: "evp_pkey \<Rightarrow> bytes"
  EVP_PKEY_raw_public_key_size :: "evp_pkey \<Rightarrow> int \<times> nat"
  EVP_PKEY_get_raw_public_key :: "evp_pkey \<Rightarrow> int \<times> bytes"
  OPENSSL_malloc :: "nat \<Rightarrow> nat \<Rightarrow> bool"
  calloc :: "nat \<Rightarrow> bool"
  EVP_PKEY_fromdata_init :: "nat \<Rightarrow> string \<Rightarrow> int"
  EVP_PKEY_fromdata :: "nat \<Rightarrow> string \<Rightarrow> bytes \<Rightarrow> int \<times> evp_pkey option"
  EVP_PKEY_new_raw_public_key_ex :: "nat \<Rightarrow> string \<Rightarrow> bytes \<Rightarrow> evp_pkey option"
  EVP_PKEY_CTX_new_from_pkey :: "nat \<Rightarrow> evp_pkey \<Rightarrow> bool"
  EVP_PKEY_encapsulate_init :: "nat \<Rightarrow> evp_pkey \<Rightarrow> int"
  EVP_PKEY_encapsulate_sizes :: "nat \<Rightarrow> evp_pkey \<Rightarrow> int \<times> nat \<times> nat"
  EVP_PKEY_encapsulate :: "nat \<Rightarrow> evp_pkey \<Rightarrow> int \<times> bytes \<times> bytes"
  EVP_PKEY_decapsulate_init :: "nat \<Rightarrow> evp_pkey \<Rightarrow> int"
  EVP_PKEY_decapsulate_size :: "nat \<Rightarrow> evp_pkey \<Rightarrow> bytes \<Rightarrow> int \<times> nat"
  EVP_PKEY_decapsulate :: "nat \<Rightarrow> evp_pkey \<Rightarrow> bytes \<Rightarrow> int \<times> bytes"

section \<open>State\<close>

record pqsec_kem_keypair =
  kp_kind :: AuthenticationAlgoKind_t
  kp_key :: "evp_pkey option"
  kp_public_key :: "bytes option"
  kp_public_key_size :: nat

text \<open>What the out-parameters of encapsulation point to: two buffers and their sizes.\<close>

record kem_buffers =
  kem_ct :: "bytes option"
  kem_ct_len :: nat
  kem_ss :: "bytes option"
  kem_ss_len :: nat

definition kem_buffers_empty :: kem_buffers where
  "kem_buffers_empty = \<lparr>kem_ct = None, kem_ct_len = 0, kem_ss = None, kem_ss_len = 0\<rparr>"

section \<open>Operations\<close>

definition new_keygen_context ::
  "('a) openssl_kem_scheme \<Rightarrow> nat \<Rightarrow> AuthenticationAlgoKind_t \<Rightarrow> string option" where
  "new_keygen_context E t kind =
     (case get_kem_openssl_name_by_kind kind of
        None \<Rightarrow> None
      | Some name \<Rightarrow>
          if name \<noteq> [] \<and> EVP_PKEY_CTX_new_from_name E t name then Some name else None)"

text \<open>\<open>export_public_key\<close>: the return value, the buffer and its size.\<close>

definition export_public_key ::
  "('a) openssl_kem_scheme \<Rightarrow> nat \<Rightarrow> evp_pkey \<Rightarrow> bool \<times> bytes option \<times> nat" where
  "export_public_key E t key =
     (let enc = EVP_PKEY_get1_encoded_public_key E key in
      if length enc \<noteq> 0 then (True, Some enc, length enc)
      else
        (case EVP_PKEY_raw_public_key_size E key of
           (rc, n) \<Rightarrow>
             if rc \<noteq> 1 then (False, None, n)
             else if \<not> OPENSSL_malloc E t n then (False, None, n)
             else
               (case EVP_PKEY_get_raw_public_key E key of
                  (rc', raw) \<Rightarrow> (rc' = 1, Some raw, length raw))))"

definition import_public_key ::
  "('a) openssl_kem_scheme \<Rightarrow> nat \<Rightarrow> string \<Rightarrow> bytes \<Rightarrow> evp_pkey option" where
  "import_public_key E t name public_key =
     (if EVP_PKEY_CTX_new_from_name E t name \<and> EVP_PKEY_fromdata_init E t name = 1 \<and>
         fst (EVP_PKEY_fromdata E t name public_key) = 1
      then snd (EVP_PKEY_fromdata E t name public_key)
      else EVP_PKEY_new_raw_public_key_ex E t name public_key)"

definition pqsec_kem_is_available ::
  "('a) openssl_kem_scheme \<Rightarrow> nat \<Rightarrow> AuthenticationAlgoKind_t \<Rightarrow> bool" where
  "pqsec_kem_is_available E t kind \<longleftrightarrow> new_keygen_context E t kind \<noteq> None"

text \<open>
  \<open>pqsec_kem_keypair_generate(kind, keypair)\<close>: the first boolean is \<open>keypair != NULL\<close>; the
  result is the return value and \<open>*keypair\<close>.
\<close>

definition pqsec_kem_keypair_generate ::
  "('a) openssl_kem_scheme \<Rightarrow> nat \<Rightarrow> AuthenticationAlgoKind_t \<Rightarrow> bool \<Rightarrow>
   bool \<times> pqsec_kem_keypair option" where
  "pqsec_kem_keypair_generate E t kind keypair =
     (if \<not> keypair then (False, None)
      else
        (case new_keygen_context E t kind of
           None \<Rightarrow> (False, None)
         | Some context \<Rightarrow>
             if \<not> calloc E t \<or> EVP_PKEY_keygen_init E t context \<noteq> 1 then (False, None)
             else
               (case EVP_PKEY_generate E t context of
                  (rc, key) \<Rightarrow>
                    (case key of
                       None \<Rightarrow> (False, None)
                     | Some k \<Rightarrow>
                         if rc \<noteq> 1 then (False, None)
                         else
                           (case export_public_key E t k of
                              (ok, pk, n) \<Rightarrow>
                                if ok then
                                  (True, Some \<lparr>kp_kind = kind, kp_key = Some k,
                                    kp_public_key = pk, kp_public_key_size = n\<rparr>)
                                else (False, None))))))"

text \<open>
  \<open>pqsec_kem_encapsulate\<close>: the boolean says that the four out-parameters are not NULL, \<open>bufs\<close>
  is what they point to before the call; the result is the return value and what they point
  to after it.
\<close>

definition pqsec_kem_encapsulate ::
  "('a) openssl_kem_scheme \<Rightarrow> nat \<Rightarrow> AuthenticationAlgoKind_t \<Rightarrow> bytes option \<Rightarrow> bool \<Rightarrow>
   kem_buffers \<Rightarrow> bool \<times> kem_buffers" where
  "pqsec_kem_encapsulate E t kind public_key outs bufs =
     (case (get_kem_openssl_name_by_kind kind, public_key) of
        (Some name, Some pk) \<Rightarrow>
          if \<not> outs then (False, bufs)
          else
            (case import_public_key E t name pk of
               None \<Rightarrow> (False, kem_buffers_empty)
             | Some remote_key \<Rightarrow>
                 if \<not> EVP_PKEY_CTX_new_from_pkey E t remote_key \<or>
                    EVP_PKEY_encapsulate_init E t remote_key \<noteq> 1
                 then (False, kem_buffers_empty)
                 else
                   (case EVP_PKEY_encapsulate_sizes E t remote_key of
                      (rc, ct_size, ss_size) \<Rightarrow>
                        if rc \<noteq> 1 \<or> \<not> OPENSSL_malloc E t ct_size \<or> \<not> OPENSSL_malloc E t ss_size
                        then (False, kem_buffers_empty)
                        else
                          (case EVP_PKEY_encapsulate E t remote_key of
                             (rc', ct, ss) \<Rightarrow>
                               if rc' \<noteq> 1 then (False, kem_buffers_empty)
                               else (True, \<lparr>kem_ct = Some ct, kem_ct_len = length ct,
                                            kem_ss = Some ss, kem_ss_len = length ss\<rparr>))))
      | _ \<Rightarrow> (False, bufs))"

text \<open>
  \<open>pqsec_kem_decapsulate\<close>: only the shared secret and its size change; \<open>bufs\<close> holds what the
  two out-parameters point to in its \<open>kem_ss\<close> fields.
\<close>

definition pqsec_kem_decapsulate ::
  "('a) openssl_kem_scheme \<Rightarrow> nat \<Rightarrow> pqsec_kem_keypair option \<Rightarrow> bytes option \<Rightarrow> bool \<Rightarrow>
   kem_buffers \<Rightarrow> bool \<times> kem_buffers" where
  "pqsec_kem_decapsulate E t keypair ciphertext outs bufs =
     (let cleared = bufs\<lparr>kem_ss := None, kem_ss_len := 0\<rparr> in
      case (keypair, ciphertext) of
        (Some kp, Some ct) \<Rightarrow>
          (case kp_key kp of
             None \<Rightarrow> (False, bufs)
           | Some key \<Rightarrow>
               if \<not> outs then (False, bufs)
               else if \<not> EVP_PKEY_CTX_new_from_pkey E t key \<or>
                  EVP_PKEY_decapsulate_init E t key \<noteq> 1
               then (False, cleared)
               else
                 (case EVP_PKEY_decapsulate_size E t key ct of
                    (rc, n) \<Rightarrow>
                      if rc \<noteq> 1 \<or> \<not> OPENSSL_malloc E t n then (False, cleared)
                      else
                        (case EVP_PKEY_decapsulate E t key ct of
                           (rc', ss) \<Rightarrow>
                             if rc' \<noteq> 1 then (False, cleared)
                             else (True, bufs\<lparr>kem_ss := Some ss, kem_ss_len := length ss\<rparr>))))
      | _ \<Rightarrow> (False, bufs))"

section \<open>Facts\<close>

text \<open>The octets under which a key's public part is published.\<close>

definition public_encoding :: "('a) openssl_kem_scheme \<Rightarrow> evp_pkey \<Rightarrow> bytes \<Rightarrow> bool" where
  "public_encoding E key enc \<longleftrightarrow>
     (if EVP_PKEY_get1_encoded_public_key E key \<noteq> []
      then enc = EVP_PKEY_get1_encoded_public_key E key
      else fst (EVP_PKEY_raw_public_key_size E key) = 1 \<and> EVP_PKEY_get_raw_public_key E key = (1, enc))"

lemma export_public_encoding:
  "export_public_key E t key = (True, Some enc, n) \<Longrightarrow> public_encoding E key enc"
  by (auto simp: export_public_key_def public_encoding_def Let_def split: if_splits prod.splits)

text \<open>
  What OpenSSL documents of a KEM: a secret encapsulated to the public half of a generated key
  is what decapsulation with that key returns.
\<close>

definition kem_correct :: "('a) openssl_kem_scheme \<Rightarrow> bool" where
  "kem_correct E \<longleftrightarrow>
     (\<forall>t1 t2 t3 name key enc remote_key ct ss.
        EVP_PKEY_generate E t1 name = (1, Some key) \<longrightarrow>
        public_encoding E key enc \<longrightarrow>
        import_public_key E t2 name enc = Some remote_key \<longrightarrow>
        EVP_PKEY_encapsulate E t2 remote_key = (1, ct, ss) \<longrightarrow>
        EVP_PKEY_decapsulate E t3 key ct = (1, ss))"

lemma kem_generate_SomeE:
  assumes "pqsec_kem_keypair_generate E t kind out = (True, kp)"
  obtains name key pk n where "out" "get_kem_openssl_name_by_kind kind = Some name"
    "EVP_PKEY_generate E t name = (1, Some key)"
    "export_public_key E t key = (True, pk, n)"
    "kp = Some \<lparr>kp_kind = kind, kp_key = Some key, kp_public_key = pk, kp_public_key_size = n\<rparr>"
  using assms
  by (auto simp: pqsec_kem_keypair_generate_def new_keygen_context_def
      split: option.splits if_splits prod.splits)

lemma export_public_key_ok:
  "export_public_key E t key = (True, pk, n) \<Longrightarrow> \<exists>b. pk = Some b \<and> n = length b"
  by (auto simp: export_public_key_def Let_def split: if_splits prod.splits)

lemma kem_generate_public_key:
  assumes "pqsec_kem_keypair_generate E t kind out = (True, kp)"
  shows "\<exists>k pk. kp = Some k \<and> kp_kind k = kind \<and> kp_public_key k = Some pk \<and>
    kp_public_key_size k = length pk \<and> kp_key k \<noteq> None"
  using assms by (elim kem_generate_SomeE) (auto dest: export_public_key_ok)

lemma kem_generate_False: "pqsec_kem_keypair_generate E t kind out = (False, kp) \<Longrightarrow> kp = None"
  by (auto simp: pqsec_kem_keypair_generate_def split: option.splits if_splits prod.splits)

lemma kem_encapsulate_TrueE:
  assumes "pqsec_kem_encapsulate E t kind pk outs bufs = (True, b)"
  obtains name p rk ct ss where "get_kem_openssl_name_by_kind kind = Some name" "pk = Some p"
    "import_public_key E t name p = Some rk" "EVP_PKEY_encapsulate E t rk = (1, ct, ss)"
    "b = \<lparr>kem_ct = Some ct, kem_ct_len = length ct, kem_ss = Some ss, kem_ss_len = length ss\<rparr>"
  using assms
  by (auto simp: pqsec_kem_encapsulate_def split: option.splits if_splits prod.splits)

lemma kem_decapsulate_TrueE:
  assumes "pqsec_kem_decapsulate E t kp ct outs bufs = (True, b)"
  obtains k key c ss where "kp = Some k" "kp_key k = Some key" "ct = Some c"
    "EVP_PKEY_decapsulate E t key c = (1, ss)"
    "b = bufs\<lparr>kem_ss := Some ss, kem_ss_len := length ss\<rparr>"
  using assms
  by (auto simp: pqsec_kem_decapsulate_def Let_def split: option.splits if_splits prod.splits)

lemma kem_secrets_agree:
  assumes "kem_correct E"
    and "pqsec_kem_keypair_generate E t1 kind out1 = (True, Some kp)"
    and "pqsec_kem_encapsulate E t2 kind (kp_public_key kp) out2 bufs = (True, sent)"
    and "pqsec_kem_decapsulate E t3 (Some kp) (kem_ct sent) out3 bufs' = (True, received)"
  shows "\<exists>ss. kem_ss sent = Some ss \<and> kem_ss_len sent = length ss \<and>
    kem_ss received = Some ss \<and> kem_ss_len received = length ss"
  using assms
  by (elim kem_generate_SomeE kem_encapsulate_TrueE kem_decapsulate_TrueE)
    (fastforce simp: kem_correct_def dest: export_public_encoding)

section \<open>Properties\<close>

text \<open>
  C10: the KEM layer is correct where OpenSSL's KEM is: when a key pair is generated, a secret
  is encapsulated to its exported public key for the same kind, and the ciphertext is
  decapsulated with that key pair, both sides hold the same shared secret.
\<close>
theorem pqsec_kem_roundtrip:
  assumes "kem_correct E"
    and "pqsec_kem_keypair_generate E t1 kind out1 = (True, Some kp)"
    and "pqsec_kem_encapsulate E t2 kind (kp_public_key kp) out2 bufs = (True, sent)"
    and "pqsec_kem_decapsulate E t3 (Some kp) (kem_ct sent) out3 bufs' = (True, received)"
  shows "kem_ss received = kem_ss sent \<and> kem_ss_len received = kem_ss_len sent"
  using kem_secrets_agree [OF assms] by auto

text \<open>
  Every outcome of encapsulation leaves the out-parameters in a defined state: on success
  both buffers are present with their sizes; after a failure inside OpenSSL both are NULL with
  size 0, so a caller that frees or tests them is safe; a rejected argument changes nothing.
\<close>
lemma pqsec_kem_encapsulate_outputs:
  "case pqsec_kem_encapsulate E t kind pk outs bufs of (ok, b) \<Rightarrow>
     let valid = get_kem_openssl_name_by_kind kind \<noteq> None \<and> pk \<noteq> None \<and> outs in
     if ok then valid \<and> (\<exists>ct ss. b = \<lparr>kem_ct = Some ct, kem_ct_len = length ct,
                                      kem_ss = Some ss, kem_ss_len = length ss\<rparr>)
     else b = (if valid then kem_buffers_empty else bufs)"
  by (auto simp: pqsec_kem_encapsulate_def Let_def split: option.splits if_splits prod.splits)

end
