(* ===== verification/CertUtils.thy ===== *)
theory CertUtils
  imports PqKem "HOL-Library.Signed_Division"
begin

text \<open>
  The certificate and key half of \<open>auth_utils.c\<close>: checks of keys and validity periods, the
  loaders of certificates, private keys and revocation lists from a configuration item (a
  file or inline data), the reader of a file into memory, chain verification, and the expiry
  time of a certificate.  In the modelled build (\<open>PQ_CRYPTO\<close>) the library context
  \<open>oqs_libctx\<close> the functions receive is always NULL (\<open>get_oqs_context\<close>), and is left out.

  stdio is modelled by its standard: a stream holds the octets still to be read, and \<open>fread\<close>
  sets the end-of-file or the error indicator when it comes up short.
\<close>

datatype x509_crl = X509_CRL nat
datatype x509_name = X509_NAME nat
datatype asn1_time = ASN1_TIME nat

record stdio_file =
  sf_seek_end :: int
  sf_tell :: "int option"
  sf_seek_set :: int
  sf_content :: bytes
  sf_error_at_end :: bool

record openssl_x509 = openssl_kem +
  X509_get_subject_name :: "x509 \<Rightarrow> x509_name option"
  X509_NAME_oneline :: "x509_name \<Rightarrow> string"
  i2d_X509_NAME_length :: "x509_name \<Rightarrow> int"
  i2d_X509_NAME :: "x509_name \<Rightarrow> int \<times> bytes"
  X509_get_notBefore :: "x509 \<Rightarrow> asn1_time"
  X509_get_notAfter :: "x509 \<Rightarrow> asn1_time option"
  X509_cmp_current_time :: "nat \<Rightarrow> asn1_time option \<Rightarrow> int"
  ASN1_TIME_diff :: "nat \<Rightarrow> asn1_time \<Rightarrow> int \<times> 32 word \<times> 32 word"
  dds_time :: "nat \<Rightarrow> 64 word"
  EVP_PKEY_private_check :: "evp_pkey \<Rightarrow> int"
  EVP_PKEY_public_check :: "evp_pkey \<Rightarrow> int"
  EVP_PKEY_bits :: "evp_pkey \<Rightarrow> int"
  RSA_check_key :: "evp_pkey \<Rightarrow> int option"
  EC_KEY_check_key :: "evp_pkey \<Rightarrow> int option"
  BIO_new :: "nat \<Rightarrow> bool"
  BIO_write :: "nat \<Rightarrow> bytes \<Rightarrow> int"
  PEM_read_bio_X509 :: "bytes \<Rightarrow> x509 option"
  PEM_read_bio_PrivateKey :: "bytes \<Rightarrow> string \<Rightarrow> evp_pkey option"
  PEM_read_bio_X509_CRL :: "bytes \<Rightarrow> x509_crl option"
  PEM_write_bio_X509 :: "x509 \<Rightarrow> bytes option"
  X509_STORE_new :: "nat \<Rightarrow> bool"
  X509_STORE_add_cert :: "nat \<Rightarrow> x509 \<Rightarrow> int"
  X509_STORE_add_crl :: "nat \<Rightarrow> x509_crl \<Rightarrow> int"
  X509_STORE_CTX_new :: "nat \<Rightarrow> bool"
  X509_STORE_CTX_init :: "nat \<Rightarrow> x509 \<Rightarrow> int"
  X509_verify_cert :: "nat \<Rightarrow> x509 \<Rightarrow> x509_crl option \<Rightarrow> x509 \<Rightarrow> int"
  RAND_bytes :: "nat \<Rightarrow> int \<times> bytes"
  fopen :: "nat \<Rightarrow> string \<Rightarrow> stdio_file option"
  ddsrt_file_normalize :: "string \<Rightarrow> string option"
  ddsrt_file_sep :: string
  ddsrt_opendir :: "nat \<Rightarrow> string option \<Rightarrow> string list option"
  ddsrt_stat :: "nat \<Rightarrow> string \<Rightarrow> bool"

section \<open>Subject names\<close>

definition get_certificate_subject_name ::
  "('a) openssl_x509_scheme \<Rightarrow> x509 \<Rightarrow> string vres" where
  "get_certificate_subject_name E cert =
     (case X509_get_subject_name E cert of
        None \<Rightarrow> failed ''X509_get_subject_name failed : ''
      | Some name \<Rightarrow> Inr (X509_NAME_oneline E name))"

definition get_subject_name_DER_encoded ::
  "('a) openssl_x509_scheme \<Rightarrow> x509 \<Rightarrow> bytes vres" where
  "get_subject_name_DER_encoded E cert =
     (case X509_get_subject_name E cert of
        None \<Rightarrow> failed ''X509_get_subject_name failed : ''
      | Some name \<Rightarrow>
          if i2d_X509_NAME_length E name \<le> 0 then failed ''i2d_X509_NAME failed : ''
          else
            (case i2d_X509_NAME E name of
               (sz, tmp) \<Rightarrow>
                 if sz \<le> 0 then failed ''i2d_X509_NAME failed : ''
                 else Inr (take (nat sz) tmp)))"

section \<open>Expiry time\<close>

text \<open>\<open>dds_time_t\<close> and \<open>dds_duration_t\<close> are 64-bit signed nanosecond counts.\<close>

definition INT64_MAX :: "64 word" where "INT64_MAX = 0x7FFFFFFFFFFFFFFF"
definition DDS_NEVER :: "64 word" where "DDS_NEVER = INT64_MAX"
definition DDS_TIME_INVALID :: "64 word" where "DDS_TIME_INVALID = 0x8000000000000000"
definition DDS_NSECS_IN_SEC :: "64 word" where "DDS_NSECS_IN_SEC = 1000000000"
definition secs_in_day :: "64 word" where "secs_in_day = 86400"

definition c_sdiv :: "64 word \<Rightarrow> 64 word \<Rightarrow> 64 word" where
  \<comment> \<open>signed division of C, which truncates towards zero\<close>
  "c_sdiv a b = word_of_int (sint a sdiv sint b)"

definition get_certificate_expiry ::
  "('a) openssl_x509_scheme \<Rightarrow> nat \<Rightarrow> x509 \<Rightarrow> 64 word" where
  "get_certificate_expiry E t cert =
     (case X509_get_notAfter E cert of
        None \<Rightarrow> DDS_TIME_INVALID
      | Some asn1 \<Rightarrow>
          (case ASN1_TIME_diff E t asn1 of
             (rc, days, seconds) \<Rightarrow>
               if rc \<noteq> 1 then DDS_TIME_INVALID
               else
                 (let now = dds_time E t;
                      max_valid_days_to_wait =
                        c_sdiv (c_sdiv (INT64_MAX - now) DDS_NSECS_IN_SEC) secs_in_day
                  in if sint days < sint max_valid_days_to_wait
                     then
                       (let delta =
                          (scast seconds + (scast days * secs_in_day)) * DDS_NSECS_IN_SEC
                        in now + delta)
                     else DDS_NEVER)))"

section \<open>Checks of keys and validity periods\<close>

definition is_ml_dsa :: "('a) openssl_pkey_scheme \<Rightarrow> evp_pkey \<Rightarrow> bool" where
  "is_ml_dsa E key \<longleftrightarrow>
     EVP_PKEY_is_a E key ''ML-DSA-44'' \<or> EVP_PKEY_is_a E key ''MLDSA44'' \<or>
     EVP_PKEY_is_a E key ''ML-DSA-65'' \<or> EVP_PKEY_is_a E key ''MLDSA65'' \<or>
     EVP_PKEY_is_a E key ''ML-DSA-87'' \<or> EVP_PKEY_is_a E key ''MLDSA87''"

definition check_key_type_and_size ::
  "('a) openssl_x509_scheme \<Rightarrow> nat \<Rightarrow> evp_pkey \<Rightarrow> bool \<Rightarrow> unit vres" where
  "check_key_type_and_size E t key isPrivate =
     (if is_ml_dsa E key then
        check_vres
          (EVP_PKEY_CTX_new_from_pkey E t key \<and>
           (if isPrivate then EVP_PKEY_private_check E key else EVP_PKEY_public_check E key) = 1)
          ''Invalid ML-DSA %s''
      else
        (case EVP_PKEY_id E key of
           EVP_PKEY_RSA \<Rightarrow>
             if EVP_PKEY_bits E key \<noteq> 2048
             then failed ''RSA %s has unsupported key size (%d)''
             else if isPrivate \<and> (case RSA_check_key E key of None \<Rightarrow> False | Some rc \<Rightarrow> rc \<noteq> 1)
             then failed ''RSA key not correct : ''
             else Inr ()
         | EVP_PKEY_EC \<Rightarrow>
             if EVP_PKEY_bits E key \<noteq> 256
             then failed ''EC %s has unsupported key size (%d)''
             else if (case EC_KEY_check_key E key of None \<Rightarrow> False | Some rc \<Rightarrow> rc \<noteq> 1)
             then failed ''EC key not correct : ''
             else Inr ()
         | EVP_PKEY_OTHER _ \<Rightarrow> failed ''%s has not supported type''))"

definition check_certificate_type_and_size ::
  "('a) openssl_x509_scheme \<Rightarrow> nat \<Rightarrow> x509 \<Rightarrow> unit vres" where
  "check_certificate_type_and_size E t cert =
     (case X509_get_pubkey E cert of
        None \<Rightarrow> failed ''X509_get_pubkey failed''
      | Some pkey \<Rightarrow> check_key_type_and_size E t pkey False)"

definition check_certificate_expiry ::
  "('a) openssl_x509_scheme \<Rightarrow> nat \<Rightarrow> x509 \<Rightarrow> unit vres" where
  "check_certificate_expiry E t cert =
     (let comparison = X509_cmp_current_time E t (Some (X509_get_notBefore E cert)) in
      if comparison = 0 then failed ''Certificate has an invalid notBefore value''
      else if comparison > 0
      then failed_code ERR_CERT_STARTDATE_IN_FUTURE_CODE ''CERT_STARTDATE_IN_FUTURE''
      else
        (let comparison = X509_cmp_current_time E t (X509_get_notAfter E cert) in
         if comparison = 0 then failed ''Certificate has an invalid notAfter value''
         else if comparison < 0 then failed_code ERR_CERT_EXPIRED_CODE ''CERT_EXPIRED''
         else Inr ()))"

section \<open>Reading a file into memory\<close>

record stream =
  st_rest :: bytes
  st_eof :: bool
  st_err :: bool
  st_error_at_end :: bool

text \<open>\<open>fread(tmp, 1, 512, fp)\<close>: what it stores, and the stream after it.\<close>

definition fread512 :: "stream \<Rightarrow> bytes \<times> stream" where
  "fread512 fp =
     (if 512 \<le> length (st_rest fp)
      then (take 512 (st_rest fp), fp\<lparr>st_rest := drop 512 (st_rest fp)\<rparr>)
      else (st_rest fp,
            fp\<lparr>st_rest := [], st_eof := \<not> st_error_at_end fp, st_err := st_error_at_end fp\<rparr>))"

function read_loop ::
  "('a) openssl_x509_scheme \<Rightarrow> nat \<Rightarrow> stream \<Rightarrow> bytes \<Rightarrow> nat \<Rightarrow> (bytes \<times> stream) vres" where
  "read_loop E t fp bio remain =
     (if st_eof fp \<or> st_err fp then Inr (bio, fp)
      else
        (let (tmp, fp') = fread512 fp; n = length tmp in
         if n = 0 \<or> remain = 0 then Inr (bio, fp')
         else if BIO_write E t tmp = 0
         then failed ''load_file_into_BIO: failed to append data to BIO''
         else read_loop E t fp' (bio @ tmp) (remain - (if n \<le> remain then n else remain))))"
  by pat_completeness auto
termination
  by (relation "measure (\<lambda>(E, t, fp, bio, remain). length (st_rest fp))")
    (auto simp: fread512_def split: if_splits)

declare read_loop.simps [simp del]

definition load_file_into_BIO ::
  "('a) openssl_x509_scheme \<Rightarrow> nat \<Rightarrow> string \<Rightarrow> bytes vres" where
  "load_file_into_BIO E t filename =
     (if \<not> BIO_new E t then failed ''load_file_into_BIO: BIO_new_mem (BIO_s_mem ())''
      else
        (case fopen E t filename of
           None \<Rightarrow> failed_code ERR_INVALID_FILE_PATH_CODE ''load_file_into_BIO: INVALID_FILE_PATH''
         | Some fp \<Rightarrow>
             if sf_seek_end fp \<noteq> 0 then failed ''load_file_into_BIO: seek to end failed''
             else
               (case sf_tell fp of
                  None \<Rightarrow> failed ''load_file_into_BIO: ftell failed''
                | Some remain \<Rightarrow>
                    if remain < 0 then failed ''load_file_into_BIO: ftell failed''
                    else if sf_seek_set fp \<noteq> 0
                    then failed ''load_file_into_BIO: seek to begin failed''
                    else
                      bind_vres
                        (read_loop E t
                          \<lparr>st_rest = sf_content fp, st_eof = False, st_err = False,
                           st_error_at_end = sf_error_at_end fp\<rparr> [] (nat remain))
                        (\<lambda>(bio, st).
                           if \<not> st_eof st \<or> st_err st
                           then failed ''load_file_into_BIO: read from failed''
                           else Inr bio))))"

section \<open>Loading from configuration items\<close>

datatype AuthConfItemPrefix_t =
    AUTH_CONF_ITEM_PREFIX_UNKNOWN
  | AUTH_CONF_ITEM_PREFIX_FILE
  | AUTH_CONF_ITEM_PREFIX_DATA
  | AUTH_CONF_ITEM_PREFIX_PKCS11

definition get_conf_item_type :: "string \<Rightarrow> AuthConfItemPrefix_t \<times> string option" where
  "get_conf_item_type str =
     (let f = ''file:''; d = ''data:,''; p = ''pkcs11:'';
          ptr = dropWhile (\<lambda>c. c = CHR '' '' \<or> c = CHR 0x09) str
      in if strncmp_prefix ptr f
         then (let e = (if strncmp_prefix (drop (length f) ptr) ''//'' then 2 else 0)
               in (AUTH_CONF_ITEM_PREFIX_FILE, Some (drop (length f + e) ptr)))
         else if strncmp_prefix ptr d
         then (AUTH_CONF_ITEM_PREFIX_DATA, Some (drop (length d) ptr))
         else if strncmp_prefix ptr p
         then (AUTH_CONF_ITEM_PREFIX_PKCS11, Some (drop (length p) ptr))
         else (AUTH_CONF_ITEM_PREFIX_UNKNOWN, None))"

definition load_X509_certificate_from_bio ::
  "('a) openssl_x509_scheme \<Rightarrow> bytes \<Rightarrow> x509 vres" where
  "load_X509_certificate_from_bio E bio =
     (case PEM_read_bio_X509 E bio of
        None \<Rightarrow> failed ''Failed to parse certificate: ''
      | Some cert \<Rightarrow>
          if get_authentication_algo_kind E (Some cert) = AUTH_ALGO_KIND_UNKNOWN
          then failed_code ERR_CERT_AUTH_ALGO_KIND_UNKNOWN_CODE ''CERT_AUTH_ALGO_KIND_UNKNOWN''
          else Inr cert)"

definition load_X509_certificate_from_data ::
  "('a) openssl_x509_scheme \<Rightarrow> nat \<Rightarrow> bytes \<Rightarrow> x509 vres" where
  "load_X509_certificate_from_data E t data =
     (if \<not> BIO_new E t then failed ''BIO_new_mem_buf failed''
      else load_X509_certificate_from_bio E data)"

definition load_X509_certificate_from_file ::
  "('a) openssl_x509_scheme \<Rightarrow> nat \<Rightarrow> string \<Rightarrow> x509 vres" where
  "load_X509_certificate_from_file E t filename =
     bind_vres (load_file_into_BIO E t filename) (load_X509_certificate_from_bio E)"

definition load_private_key_from_data ::
  "('a) openssl_x509_scheme \<Rightarrow> nat \<Rightarrow> string \<Rightarrow> string option \<Rightarrow> evp_pkey vres" where
  "load_private_key_from_data E t data password =
     (if \<not> BIO_new E t then failed ''BIO_new_mem_buf failed''
      else
        (case PEM_read_bio_PrivateKey E (octets_of data)
                (case password of None \<Rightarrow> '''' | Some p \<Rightarrow> p) of
           None \<Rightarrow> failed ''Failed to parse private key: ''
         | Some key \<Rightarrow> Inr key))"

definition load_private_key_from_file ::
  "('a) openssl_x509_scheme \<Rightarrow> nat \<Rightarrow> string \<Rightarrow> string option \<Rightarrow> evp_pkey vres" where
  "load_private_key_from_file E t filepath password =
     bind_vres (load_file_into_BIO E t filepath)
       (\<lambda>bio. case PEM_read_bio_PrivateKey E bio
                (case password of None \<Rightarrow> '''' | Some p \<Rightarrow> p) of
           None \<Rightarrow> failed ''Failed to parse private key: ''
         | Some key \<Rightarrow> Inr key)"

definition load_X509_certificate ::
  "('a) openssl_x509_scheme \<Rightarrow> nat \<Rightarrow> string \<Rightarrow> x509 vres" where
  "load_X509_certificate E t data =
     bind_vres
       (case get_conf_item_type data of
          (AUTH_CONF_ITEM_PREFIX_FILE, Some contents) \<Rightarrow>
            load_X509_certificate_from_file E t contents
        | (AUTH_CONF_ITEM_PREFIX_DATA, Some contents) \<Rightarrow>
            load_X509_certificate_from_data E t (octets_of contents)
        | (AUTH_CONF_ITEM_PREFIX_PKCS11, _) \<Rightarrow>
            failed ''Certificate pkcs11 format currently not supported:''
        | _ \<Rightarrow> failed ''Specified certificate has wrong format:'')
       (\<lambda>cert.
          bind_vres (check_certificate_type_and_size E t cert)
            (\<lambda>_. bind_vres (check_certificate_expiry E t cert) (\<lambda>_. Inr cert)))"

definition load_X509_private_key ::
  "('a) openssl_x509_scheme \<Rightarrow> nat \<Rightarrow> string \<Rightarrow> string option \<Rightarrow> evp_pkey vres" where
  "load_X509_private_key E t data password =
     bind_vres
       (case get_conf_item_type data of
          (AUTH_CONF_ITEM_PREFIX_FILE, Some contents) \<Rightarrow>
            load_private_key_from_file E t contents password
        | (AUTH_CONF_ITEM_PREFIX_DATA, Some contents) \<Rightarrow>
            load_private_key_from_data E t contents password
        | (AUTH_CONF_ITEM_PREFIX_PKCS11, _) \<Rightarrow>
            failed ''PrivateKey pkcs11 format currently not supported:''
        | _ \<Rightarrow> failed ''Specified PrivateKey has wrong format:'')
       (\<lambda>key. bind_vres (check_key_type_and_size E t key True) (\<lambda>_. Inr key))"

definition load_CRL_from_file ::
  "('a) openssl_x509_scheme \<Rightarrow> nat \<Rightarrow> string \<Rightarrow> x509_crl vres" where
  "load_CRL_from_file E t filepath =
     bind_vres (load_file_into_BIO E t filepath)
       (\<lambda>bio. case PEM_read_bio_X509_CRL E bio of
          None \<Rightarrow> failed ''Failed to read CRL: '' | Some crl \<Rightarrow> Inr crl)"

definition load_CRL_from_data ::
  "('a) openssl_x509_scheme \<Rightarrow> nat \<Rightarrow> string \<Rightarrow> x509_crl vres" where
  "load_CRL_from_data E t data =
     (if \<not> BIO_new E t then failed ''BIO_new_mem_buf failed''
      else
        (case PEM_read_bio_X509_CRL E (octets_of data) of
           None \<Rightarrow> failed ''Failed to read CRL: '' | Some crl \<Rightarrow> Inr crl))"

definition load_X509_CRL :: "('a) openssl_x509_scheme \<Rightarrow> nat \<Rightarrow> string \<Rightarrow> x509_crl vres" where
  "load_X509_CRL E t data =
     (case get_conf_item_type data of
        (AUTH_CONF_ITEM_PREFIX_FILE, Some contents) \<Rightarrow> load_CRL_from_file E t contents
      | (AUTH_CONF_ITEM_PREFIX_DATA, Some contents) \<Rightarrow> load_CRL_from_data E t contents
      | _ \<Rightarrow> failed ''Specified CRL has wrong format:'')"

section \<open>Verification, challenges, certificate contents\<close>

definition verify_certificate ::
  "('a) openssl_x509_scheme \<Rightarrow> nat \<Rightarrow> x509 \<Rightarrow> x509 \<Rightarrow> x509_crl option \<Rightarrow> unit vres" where
  "verify_certificate E t identityCert identityCa crl =
     (if \<not> X509_STORE_new E t then failed ''X509_STORE_new failed : ''
      else if X509_STORE_add_cert E t identityCa \<noteq> 1 then failed ''X509_STORE_add_cert failed : ''
      else if (case crl of None \<Rightarrow> False | Some c \<Rightarrow> X509_STORE_add_crl E t c = 0)
      then failed_silent
      else if \<not> X509_STORE_CTX_new E t then failed ''X509_STORE_CTX_new failed : ''
      else if X509_STORE_CTX_init E t identityCert \<noteq> 1 then failed ''X509_STORE_CTX_init failed : ''
      else check_vres (X509_verify_cert E t identityCa crl identityCert = 1)
             ''Certificate not valid: error: %s; subject: %s'')"

text \<open>
  \<open>RAND_bytes\<close> gives its return code and what the 32-octet buffer (obtained from \<open>malloc\<close>)
  holds after the call.
\<close>

definition generate_challenge :: "('a) openssl_x509_scheme \<Rightarrow> nat \<Rightarrow> bytes vres" where
  "generate_challenge E t =
     (case RAND_bytes E t of
        (rc, value) \<Rightarrow>
          if rc < 0 then failed ''Failed to generate a 256 bit random number '' else Inr value)"

definition get_certificate_contents ::
  "('a) openssl_x509_scheme \<Rightarrow> nat \<Rightarrow> x509 \<Rightarrow> bytes vres" where
  "get_certificate_contents E t cert =
     (if \<not> BIO_new E t then failed ''BIO_new_mem_buf failed''
      else
        (case PEM_write_bio_X509 E cert of
           None \<Rightarrow> failed ''PEM_write_bio_X509 failed: ''
         | Some data \<Rightarrow> Inr data))"

text \<open>The C string in the block \<open>string_from_data\<close> returns, or NULL.\<close>

definition string_of_octets :: "bytes \<Rightarrow> string" where
  "string_of_octets b = map (\<lambda>x. char_of (unat x)) (takeWhile (\<lambda>x. x \<noteq> 0) b)"

definition string_from_data :: "octseq \<Rightarrow> string option" where
  "string_from_data q =
     (if oct_length q > 0 \<and> oct_buffer q \<noteq> None
      then Some (string_of_octets (oct_data q)) else None)"

section \<open>The list of trusted CAs\<close>

record X509Seq =
  xs_length :: nat
  xs_buffer :: "x509 list option"

definition MAX_TRUSTED_CA :: nat where "MAX_TRUSTED_CA = 100"

text \<open>What \<open>ca_list\<close> holds after it is freed, and the certificates \<open>X509_free\<close> is called on.\<close>

definition free_ca_list_contents :: "X509Seq \<Rightarrow> X509Seq \<times> x509 list" where
  "free_ca_list_contents ca_list =
     (\<lparr>xs_length = 0, xs_buffer = None\<rparr>,
      case xs_buffer ca_list of
        None \<Rightarrow> []
      | Some b \<Rightarrow> if xs_length ca_list > 0 then take (xs_length ca_list) b else [])"

text \<open>
  The loop over the directory: \<open>entries\<close> are the names \<open>ddsrt_readdir\<close> still gives, \<open>ca_buf\<close> the
  certificates loaded so far.  Entries that do not load are skipped, the exception reset.
\<close>

fun ca_dir_loop ::
  "('a) openssl_x509_scheme \<Rightarrow> nat \<Rightarrow> string \<Rightarrow> string list \<Rightarrow> x509 list \<Rightarrow> x509 list vres" where
  "ca_dir_loop E t dir [] ca_buf = Inr ca_buf"
| "ca_dir_loop E t dir (d_name # entries) ca_buf =
     (let fpath = dir @ ddsrt_file_sep E @ d_name in
      if ddsrt_stat E t fpath \<and> d_name \<noteq> ''.'' \<and> d_name \<noteq> ''..'' then
        (case ddsrt_file_normalize E fpath of
           None \<Rightarrow> ca_dir_loop E (Suc t) dir entries ca_buf
         | Some fname \<Rightarrow>
             if length ca_buf \<ge> MAX_TRUSTED_CA
             then failed_code ERR_TRUSTED_CA_DIR_MAX_EXCEEDED_CODE ''TRUSTED_CA_DIR_MAX_EXCEEDED''
             else
               (case load_X509_certificate_from_file E t fname of
                  Inr ca \<Rightarrow> ca_dir_loop E (Suc t) dir entries (ca_buf @ [ca])
                | Inl _ \<Rightarrow> ca_dir_loop E (Suc t) dir entries ca_buf))
      else ca_dir_loop E (Suc t) dir entries ca_buf)"

definition get_trusted_ca_list ::
  "('a) openssl_x509_scheme \<Rightarrow> nat \<Rightarrow> string \<Rightarrow> X509Seq \<Rightarrow> X509Seq vres" where
  "get_trusted_ca_list E t trusted_ca_dir ca_list =
     (case ddsrt_opendir E t (ddsrt_file_normalize E trusted_ca_dir) of
        None \<Rightarrow> failed_code ERR_INVALID_TRUSTED_CA_DIR_CODE ''INVALID_TRUSTED_CA_DIR''
      | Some entries \<Rightarrow>
          bind_vres (ca_dir_loop E t trusted_ca_dir entries [])
            (\<lambda>ca_buf.
               let freed = fst (free_ca_list_contents ca_list) in
               Inr (freed\<lparr>xs_buffer := (if length ca_buf > 0 then Some ca_buf else xs_buffer freed),
                          xs_length := length ca_buf\<rparr>)))"

section \<open>Facts\<close>

lemma load_from_bio_ok:
  "load_X509_certificate_from_bio E bio = Inr cert \<Longrightarrow>
   PEM_read_bio_X509 E bio = Some cert \<and>
   get_authentication_algo_kind E (Some cert) \<noteq> AUTH_ALGO_KIND_UNKNOWN"
  by (auto simp: load_X509_certificate_from_bio_def split: option.splits if_splits)

lemma load_from_data_ok:
  "load_X509_certificate_from_data E t data = Inr cert \<Longrightarrow>
   PEM_read_bio_X509 E data = Some cert \<and>
   get_authentication_algo_kind E (Some cert) \<noteq> AUTH_ALGO_KIND_UNKNOWN"
  by (auto simp: load_X509_certificate_from_data_def split: if_splits dest: load_from_bio_ok)

lemma load_from_file_ok:
  "load_X509_certificate_from_file E t f = Inr cert \<Longrightarrow>
   get_authentication_algo_kind E (Some cert) \<noteq> AUTH_ALGO_KIND_UNKNOWN"
  by (auto simp: load_X509_certificate_from_file_def dest: load_from_bio_ok)

lemma load_X509_certificate_ok:
  assumes "load_X509_certificate E t data = Inr cert"
  shows "get_authentication_algo_kind E (Some cert) \<noteq> AUTH_ALGO_KIND_UNKNOWN"
    and "check_certificate_type_and_size E t cert = Inr ()"
    and "check_certificate_expiry E t cert = Inr ()"
proof -
  let ?load = "case get_conf_item_type data of
          (AUTH_CONF_ITEM_PREFIX_FILE, Some contents) \<Rightarrow>
            load_X509_certificate_from_file E t contents
        | (AUTH_CONF_ITEM_PREFIX_DATA, Some contents) \<Rightarrow>
            load_X509_certificate_from_data E t (octets_of contents)
        | (AUTH_CONF_ITEM_PREFIX_PKCS11, _) \<Rightarrow>
            failed ''Certificate pkcs11 format currently not supported:''
        | _ \<Rightarrow> failed ''Specified certificate has wrong format:''"
  have *: "?load = Inr cert" "check_certificate_type_and_size E t cert = Inr ()"
    "check_certificate_expiry E t cert = Inr ()"
    using assms unfolding load_X509_certificate_def by auto
  show "check_certificate_type_and_size E t cert = Inr ()"
    "check_certificate_expiry E t cert = Inr ()" by (rule *)+
  show "get_authentication_algo_kind E (Some cert) \<noteq> AUTH_ALGO_KIND_UNKNOWN"
    using *(1) by (auto split: prod.splits AuthConfItemPrefix_t.splits option.splits
        dest: load_from_data_ok load_from_file_ok)
qed

lemma check_certificate_expiry_ok_iff:
  "check_certificate_expiry E t cert = Inr () \<longleftrightarrow>
     X509_cmp_current_time E t (Some (X509_get_notBefore E cert)) < 0 \<and>
     0 < X509_cmp_current_time E t (X509_get_notAfter E cert)"
  by (auto simp: check_certificate_expiry_def Let_def)

lemma verify_certificate_ok:
  "verify_certificate E t cert ca crl = Inr () \<Longrightarrow> X509_verify_cert E t ca crl cert = 1"
  by (auto simp: verify_certificate_def split: if_splits option.splits)

lemma read_loop_stop [simp]:
  "st_eof fp \<or> st_err fp \<Longrightarrow> read_loop E t fp bio remain = Inr (bio, fp)"
  by (subst read_loop.simps) simp

lemma read_loop_content:
  assumes "read_loop E t fp bio remain = Inr (b, st)"
    and "\<not> st_eof fp" "\<not> st_err fp" "st_eof st" "\<not> st_err st"
  shows "\<exists>k. b = bio @ take k (st_rest fp) \<and>
    (k = length (st_rest fp) \<or>
     remain \<le> k \<and> k < length (st_rest fp) \<and> length (st_rest fp) < k + 512)"
  using assms
proof (induction "length (st_rest fp)" arbitrary: fp bio remain rule: less_induct)
  case less
  let ?rest = "st_rest fp"
  show ?case
  proof (cases "512 \<le> length ?rest")
    case True
    let ?fp = "fp\<lparr>st_rest := drop 512 ?rest\<rparr>"
    have pos: "remain \<noteq> 0"
      using less.prems True
      by (subst (asm) read_loop.simps) (auto simp: fread512_def Let_def split: if_splits)
    have rec: "read_loop E t ?fp (bio @ take 512 ?rest) (remain - min 512 remain) = Inr (b, st)"
      using less.prems True pos
      by (subst (asm) read_loop.simps)
         (auto simp: fread512_def Let_def min_def split: if_splits)
    have "\<exists>k. b = (bio @ take 512 ?rest) @ take k (st_rest ?fp) \<and>
      (k = length (st_rest ?fp) \<or> remain - min 512 remain \<le> k \<and>
       k < length (st_rest ?fp) \<and> length (st_rest ?fp) < k + 512)"
      using less.prems True by (intro less.hyps [OF _ rec]) auto
    then obtain k where k: "b = bio @ take 512 ?rest @ take k (drop 512 ?rest)"
      "k = length ?rest - 512 \<or>
       remain - min 512 remain \<le> k \<and> k < length ?rest - 512 \<and> length ?rest - 512 < k + 512"
      by auto
    have "b = bio @ take (512 + k) ?rest" using k(1) by (simp add: take_add)
    moreover have "512 + k = length ?rest \<or>
       remain \<le> 512 + k \<and> 512 + k < length ?rest \<and> length ?rest < 512 + k + 512"
      using k(2) True by linarith
    ultimately show ?thesis by blast
  next
    case False
    then show ?thesis
      using less.prems
      by (subst (asm) read_loop.simps)
         (auto simp: fread512_def Let_def split: if_splits
               intro: exI [of _ 0] exI [of _ "length ?rest"])
  qed
qed

text \<open>
  The same loop on a file that need not end (a device, a pipe): \<open>reads i\<close> is what the \<open>i\<close>-th call of
  \<open>fread\<close> delivers and the end-of-file and error indicators after it.  Fuel counts the calls.
\<close>

fun read_reads ::
  "('a) openssl_x509_scheme \<Rightarrow> nat \<Rightarrow> (nat \<Rightarrow> bytes \<times> bool \<times> bool) \<Rightarrow> nat \<Rightarrow> nat \<Rightarrow> bool \<Rightarrow> bool \<Rightarrow>
   bytes \<Rightarrow> nat \<Rightarrow> (bytes \<times> bool \<times> bool) vres option" where
  "read_reads E t reads 0 i feof ferror bio remain = None"
| "read_reads E t reads (Suc fuel) i feof ferror bio remain =
     (if feof \<or> ferror then Some (Inr (bio, feof, ferror))
      else
        (let (tmp, feof', ferror') = reads i; n = length tmp in
         if n = 0 \<or> remain = 0 then Some (Inr (bio, feof', ferror'))
         else if BIO_write E t tmp = 0
         then Some (failed ''load_file_into_BIO: failed to append data to BIO'')
         else read_reads E t reads fuel (i + 1) feof' ferror' (bio @ tmp)
           (remain - (if n \<le> remain then n else remain))))"

text \<open>What \<open>fread\<close> promises: at most the 512 octets asked for, fewer only at the end or on an error.\<close>

definition fread_contract :: "(nat \<Rightarrow> bytes \<times> bool \<times> bool) \<Rightarrow> bool" where
  "fread_contract reads \<longleftrightarrow>
     (\<forall>i tmp feof ferror. reads i = (tmp, feof, ferror) \<longrightarrow>
        length tmp \<le> 512 \<and> (length tmp < 512 \<longrightarrow> feof \<or> ferror))"

text \<open>The reads of a file of known content, and the two loops agree on it.\<close>

definition stream_reads :: "stream \<Rightarrow> nat \<Rightarrow> bytes \<times> bool \<times> bool" where
  "stream_reads fp i =
     (case fread512 (fp\<lparr>st_rest := drop (512 * i) (st_rest fp)\<rparr>) of
        (tmp, fp') \<Rightarrow> (tmp, st_eof fp', st_err fp'))"

lemma read_reads_stream:
  assumes "\<not> st_eof fp" and "\<not> st_err fp" and "length (st_rest fp) div 512 + 2 \<le> fuel + i"
    and "512 * i \<le> length (st_rest fp)"
  shows "read_reads E t (stream_reads fp) fuel i False False bio remain =
    Some (map_sum id (\<lambda>(b, st). (b, st_eof st, st_err st))
      (read_loop E t (fp\<lparr>st_rest := drop (512 * i) (st_rest fp)\<rparr>) bio remain))"
  using assms(3,4)
proof (induction fuel arbitrary: i bio remain)
  case 0
  then show ?case by linarith
next
  case (Suc fuel)
  let ?rest = "drop (512 * i) (st_rest fp)"
  show ?case
  proof (cases "512 \<le> length ?rest")
    case True
    then have "drop 512 ?rest = drop (512 * (i + 1)) (st_rest fp)" "512 * (i + 1) \<le> length (st_rest fp)"
      by (simp_all add: algebra_simps)
    moreover from this have "read_reads E t (stream_reads fp) fuel (i + 1) False False b n =
        Some (map_sum id (\<lambda>(b, st). (b, st_eof st, st_err st))
          (read_loop E t (fp\<lparr>st_rest := drop (512 * (i + 1)) (st_rest fp)\<rparr>) b n))" for b n
      using Suc.prems by (intro Suc.IH) simp_all
    moreover have "?rest \<noteq> []" using True by auto
    moreover have "stream_reads fp i = (take 512 ?rest, False, False)"
      "fread512 (fp\<lparr>st_rest := ?rest\<rparr>) = (take 512 ?rest, fp\<lparr>st_rest := drop 512 ?rest\<rparr>)"
      using True assms(1,2) by (simp_all add: stream_reads_def fread512_def)
    ultimately show ?thesis
      using assms(1,2) by (subst read_loop.simps) (simp add: Let_def failed_def)
  next
    case False
    have "\<exists>k. fuel = Suc k"
      using Suc.prems False by (cases fuel) auto
    then show ?thesis
      using False assms(1,2)
      by (subst read_loop.simps) (auto simp: stream_reads_def fread512_def Let_def failed_def)
  qed
qed

lemma read_reads_stop [simp]:
  "f \<or> e \<Longrightarrow> read_reads E t reads (Suc fuel) i f e bio remain = Some (Inr (bio, f, e))"
  by simp

lemma read_reads_ends:
  assumes "fread_contract reads" and "remain div 512 + 3 \<le> fuel"
  shows "\<exists>r. read_reads E t reads fuel i f e bio remain = Some r \<and>
    (\<forall>b f' e'. r = Inr (b, f', e') \<longrightarrow> length b < length bio + remain + 512)"
  using assms(2)
proof (induction fuel arbitrary: i f e bio remain)
  case (Suc fuel)
  obtain tmp f' e' where r: "reads i = (tmp, f', e')" by (cases "reads i") auto
  have len: "length tmp \<le> 512" "length tmp < 512 \<Longrightarrow> f' \<or> e'"
    using assms(1) r unfolding fread_contract_def by blast+
  let ?remain = "remain - (if length tmp \<le> remain then length tmp else remain)"
  consider (stop) "f \<or> e \<or> length tmp = 0 \<or> remain = 0 \<or> BIO_write E t tmp = 0"
    | (short) "\<not> (f \<or> e)" "remain \<noteq> 0" "f' \<or> e'" "length tmp \<noteq> 0" "BIO_write E t tmp \<noteq> 0"
    | (block) "\<not> (f \<or> e)" "remain \<noteq> 0" "length tmp = 512" "BIO_write E t tmp \<noteq> 0"
    using len by linarith
  then show ?case
  proof cases
    case stop
    then show ?thesis using r by (auto simp: Let_def failed_def)
  next
    case short
    obtain k where "fuel = Suc k" using Suc.prems by (cases fuel) auto
    then show ?thesis using short r len(1) by (auto simp: Let_def)
  next
    case block
    moreover have "tmp \<noteq> []" using block(3) by auto
    ultimately have eq: "read_reads E t reads (Suc fuel) i f e bio remain =
        read_reads E t reads fuel (i + 1) f' e' (bio @ tmp) ?remain"
      using r by (simp add: Let_def)
    show ?thesis
    proof (cases "512 \<le> remain")
      case True
      then have "?remain div 512 + 3 \<le> fuel" "?remain = remain - 512"
        using Suc.prems block(3) by (simp_all add: le_div_geq)
      then show ?thesis using Suc.IH [of ?remain "i + 1" f' e' "bio @ tmp"] eq block(3) True by fastforce
    next
      case False
      then obtain k where k: "fuel = Suc k" using Suc.prems by (cases fuel) auto
      obtain tmp2 f2 e2 where "reads (i + 1) = (tmp2, f2, e2)" by (cases "reads (i + 1)") auto
      then show ?thesis using eq k block(2,3) False by (cases "f' \<or> e'") (auto simp: Let_def)
    qed
  qed
qed simp

text \<open>
  C35: reading a credential file ends whatever the file is: on one that grows for ever the loop
  makes at most \<open>remain div 512 + 3\<close> tests and keeps less than one block more than the size
  measured before reading.
\<close>
theorem read_reads_terminates:
  assumes "fread_contract reads"
  shows "\<exists>r. read_reads E t reads (remain div 512 + 3) 0 False False [] remain = Some r \<and>
    (case r of Inl e \<Rightarrow> e \<noteq> None | Inr (b, feof, ferror) \<Rightarrow> length b < remain + 512)"
proof -
  have error: "read_reads E t reads fuel i f e bio n = Some (Inl x) \<Longrightarrow> x \<noteq> None" for fuel i f e bio n x
    by (induction E t reads fuel i f e bio n rule: read_reads.induct)
      (auto simp: Let_def failed_def split: if_splits prod.splits)
  obtain r where r: "read_reads E t reads (remain div 512 + 3) 0 False False [] remain = Some r"
    "\<forall>b f' e'. r = Inr (b, f', e') \<longrightarrow> length b < remain + 512"
    using read_reads_ends [where remain = remain and E = E and t = t and i = 0 and f = False and e = False and bio = "[]",
      OF assms order_refl] by auto
  then show ?thesis by (cases r) (auto dest: error)
qed

text \<open>How far the expiry is from now when the date is within range.\<close>

lemma c_sdiv_nonneg:
  assumes a: "0 \<le> sint a" and b: "0 < sint b"
  shows "sint (c_sdiv a b) = sint a div sint b"
proof -
  have "sint a div sint b \<le> sint a"
    using a b zdiv_mono2 [of "sint a" 1 "sint b"] by simp
  moreover have "sint a < 2 ^ 63" using sint_lt [of a] by simp
  moreover have "0 \<le> sint a div sint b" using a b by (simp add: pos_imp_zdiv_nonneg_iff)
  ultimately show ?thesis
    using a b
    by (simp add: c_sdiv_def signed_divide_int_def sgn_if abs_of_nonneg
        sint_sbintrunc' signed_take_bit_int_eq_self)
qed

section \<open>Properties\<close>

text \<open>The octets a configuration item stands for: a file's content, or its inline data.\<close>

definition conf_item_bytes :: "('a) openssl_x509_scheme \<Rightarrow> nat \<Rightarrow> string \<Rightarrow> bytes option" where
  "conf_item_bytes E t data =
     (case get_conf_item_type data of
        (AUTH_CONF_ITEM_PREFIX_FILE, Some f) \<Rightarrow>
          (case load_file_into_BIO E t f of Inr b \<Rightarrow> Some b | Inl _ \<Rightarrow> None)
      | (AUTH_CONF_ITEM_PREFIX_DATA, Some c) \<Rightarrow> if BIO_new E t then Some (octets_of c) else None
      | _ \<Rightarrow> None)"

lemma load_from_bio_iff:
  "load_X509_certificate_from_bio E bio = Inr cert \<longleftrightarrow>
   PEM_read_bio_X509 E bio = Some cert \<and>
   get_authentication_algo_kind E (Some cert) \<noteq> AUTH_ALGO_KIND_UNKNOWN"
  by (auto simp: load_X509_certificate_from_bio_def split: option.splits)

lemma load_from_file_iff:
  "load_X509_certificate_from_file E t f = Inr cert \<longleftrightarrow>
   (\<exists>b. load_file_into_BIO E t f = Inr b \<and> PEM_read_bio_X509 E b = Some cert \<and>
      get_authentication_algo_kind E (Some cert) \<noteq> AUTH_ALGO_KIND_UNKNOWN)"
  by (simp add: load_X509_certificate_from_file_def load_from_bio_iff)

lemma load_from_data_iff:
  "load_X509_certificate_from_data E t d = Inr cert \<longleftrightarrow>
   BIO_new E t \<and> PEM_read_bio_X509 E d = Some cert \<and>
      get_authentication_algo_kind E (Some cert) \<noteq> AUTH_ALGO_KIND_UNKNOWN"
  by (simp add: load_X509_certificate_from_data_def load_from_bio_iff)

text \<open>
  C29: a configured identity or CA certificate is accepted exactly when its configuration item
  can be read, the octets parse as a certificate of a known key algorithm, the key passes the
  type and size check, and now lies strictly between the certificate's two dates.
\<close>
theorem load_X509_certificate_iff:
  "load_X509_certificate E t data = Inr cert \<longleftrightarrow>
     (\<exists>pem. conf_item_bytes E t data = Some pem \<and> PEM_read_bio_X509 E pem = Some cert) \<and>
     get_authentication_algo_kind E (Some cert) \<noteq> AUTH_ALGO_KIND_UNKNOWN \<and>
     check_certificate_type_and_size E t cert = Inr () \<and>
     X509_cmp_current_time E t (Some (X509_get_notBefore E cert)) < 0 \<and>
     0 < X509_cmp_current_time E t (X509_get_notAfter E cert)"
proof -
  obtain p c where item: "get_conf_item_type data = (p, c)" by fastforce
  show ?thesis
    unfolding load_X509_certificate_def conf_item_bytes_def item
    by (cases p; cases c)
      (auto simp: load_from_file_iff load_from_data_iff check_certificate_expiry_ok_iff
          split: sum.splits)
qed


lemma sint_word_of_int_64:
  "- (2 ^ 63) \<le> x \<Longrightarrow> x < 2 ^ 63 \<Longrightarrow> sint (word_of_int x :: 64 word) = x"
  by (simp add: sint_sbintrunc' signed_take_bit_int_eq_self)

lemma expiry_in_range:
  fixes d s n m :: int
  assumes "d < (m - n) div 1000000000 div 86400" and "s < 86400"
  shows "n + (s + d * 86400) * 1000000000 \<le> m"
proof -
  define q where "q = (m - n) div 1000000000"
  have "q div 86400 * 86400 \<le> q" using pos_mod_sign [of 86400 q] div_mult_mod_eq [of q 86400]
    by linarith
  then have "s + d * 86400 \<le> q" using assms by (simp add: q_def)
  moreover have "q * 1000000000 \<le> m - n"
    using pos_mod_sign [of 1000000000 "m - n"] div_mult_mod_eq [of "m - n" 1000000000]
    by (simp add: q_def)
  moreover have "(s + d * 86400) * 1000000000 \<le> q * 1000000000"
    using \<open>s + d * 86400 \<le> q\<close> by (rule mult_right_mono) simp
  ultimately show ?thesis by linarith
qed

lemma int64_max_minus:
  "0 \<le> sint now \<Longrightarrow> sint (INT64_MAX - now) = 2 ^ 63 - 1 - sint now"
proof -
  assume now: "0 \<le> sint now"
  have "INT64_MAX - now = word_of_int (2 ^ 63 - 1 - sint now)"
    by (simp add: INT64_MAX_def of_int_sint)
  then show ?thesis
    using now sint_lt [of now] by (simp only:) (rule sint_word_of_int_64, simp_all)
qed

lemma time_constants:
  "sint DDS_NSECS_IN_SEC = 1000000000" "sint secs_in_day = 86400" "sint DDS_NEVER = 2 ^ 63 - 1"
  by (simp_all add: DDS_NSECS_IN_SEC_def secs_in_day_def DDS_NEVER_def INT64_MAX_def)

lemma max_valid_days:
  assumes "0 \<le> sint now"
  shows "sint (c_sdiv (c_sdiv (INT64_MAX - now) DDS_NSECS_IN_SEC) secs_in_day) =
    (2 ^ 63 - 1 - sint now) div 1000000000 div 86400"
proof -
  have lt: "sint now < 2 ^ 63" using sint_lt [of now] by simp
  have "sint (c_sdiv (INT64_MAX - now) DDS_NSECS_IN_SEC) = (2 ^ 63 - 1 - sint now) div 1000000000"
    using assms lt by (subst c_sdiv_nonneg) (simp_all add: int64_max_minus time_constants)
  then show ?thesis
    using lt by (subst c_sdiv_nonneg) (simp_all add: time_constants pos_imp_zdiv_nonneg_iff)
qed

lemma expiry_delta:
  fixes days seconds :: "32 word"
  shows "now + (scast seconds + scast days * secs_in_day) * DDS_NSECS_IN_SEC =
    word_of_int (sint now + (sint seconds + sint days * 86400) * 1000000000)"
  by (simp only: secs_in_day_def DDS_NSECS_IN_SEC_def of_int_add of_int_mult of_int_sint
      of_int_numeral scast_id)

text \<open>
  C31: the expiry time of a certificate that is still valid is computed without wrap-around:
  it is now plus the remaining days and seconds in nanoseconds whenever the days fit before
  the end of the 64-bit range, and DDS_NEVER (the largest value) otherwise.
\<close>
theorem get_certificate_expiry_exact:
  assumes "X509_get_notAfter E cert = Some asn1"
    and "ASN1_TIME_diff E t asn1 = (1, days, seconds)"
    and "0 \<le> sint days" and "0 \<le> sint seconds" and "sint seconds < 86400"
    and "0 \<le> sint (dds_time E t)"
  shows "sint (get_certificate_expiry E t cert) =
    (let now = sint (dds_time E t); most = 2 ^ 63 - 1 in
     if sint days < (most - now) div 1000000000 div 86400
     then now + (sint seconds + sint days * 86400) * 1000000000 else most)"
proof -
  let ?now = "sint (dds_time E t)" and ?d = "sint days" and ?s = "sint seconds"
  note limit = max_valid_days [OF assms(6)]
  show ?thesis
  proof (cases "?d < (2 ^ 63 - 1 - ?now) div 1000000000 div 86400")
    case True
    have "?now + (?s + ?d * 86400) * 1000000000 \<le> 2 ^ 63 - 1"
      using True assms(5) by (rule expiry_in_range)
    moreover have "0 \<le> ?now + (?s + ?d * 86400) * 1000000000" using assms(3,4,6) by simp
    ultimately have "sint (word_of_int (?now + (?s + ?d * 86400) * 1000000000) :: 64 word) =
        ?now + (?s + ?d * 86400) * 1000000000"
      by (intro sint_word_of_int_64) linarith+
    then show ?thesis
      using True unfolding get_certificate_expiry_def assms(1,2) option.case prod.case Let_def limit
        expiry_delta
      by (simp only: if_True not_True_eq_False if_False simp_thms)
  next
    case False
    then show ?thesis
      unfolding get_certificate_expiry_def assms(1,2) option.case prod.case Let_def limit
      by (simp only: if_False simp_thms time_constants)
  qed
qed

section \<open>The directory of trusted CAs\<close>

text \<open>
  What the directory contributes, entry by entry: the file an entry names, if it is one that is
  tried, and the certificate it holds, if that loads.
\<close>

definition ca_file :: "('a) openssl_x509_scheme \<Rightarrow> string \<Rightarrow> nat \<times> string \<Rightarrow> string option" where
  "ca_file E dir = (\<lambda>(t, d).
     if ddsrt_stat E t (dir @ ddsrt_file_sep E @ d) \<and> d \<noteq> ''.'' \<and> d \<noteq> ''..''
     then ddsrt_file_normalize E (dir @ ddsrt_file_sep E @ d) else None)"

definition ca_entry :: "('a) openssl_x509_scheme \<Rightarrow> string \<Rightarrow> nat \<times> string \<Rightarrow> x509 option" where
  "ca_entry E dir e =
     (case ca_file E dir e of
        None \<Rightarrow> None
      | Some f \<Rightarrow> (case load_X509_certificate_from_file E (fst e) f of Inr ca \<Rightarrow> Some ca | Inl _ \<Rightarrow> None))"

definition loaded_cas :: "('a) openssl_x509_scheme \<Rightarrow> nat \<Rightarrow> string \<Rightarrow> string list \<Rightarrow> x509 list" where
  "loaded_cas E t dir entries = List.map_filter (ca_entry E dir) (enumerate t entries)"

text \<open>A file is still to be tried when \<open>n\<close> certificates before the listing and those of it make 100.\<close>

definition too_many_cas :: "('a) openssl_x509_scheme \<Rightarrow> nat \<Rightarrow> string \<Rightarrow> nat \<Rightarrow> string list \<Rightarrow> bool" where
  "too_many_cas E t dir n entries \<longleftrightarrow>
     (\<exists>i < length entries. ca_file E dir (t + i, entries ! i) \<noteq> None \<and>
        MAX_TRUSTED_CA \<le> n + length (loaded_cas E t dir (take i entries)))"

lemma loaded_cas_simps [simp]:
  "loaded_cas E t dir [] = []"
  "loaded_cas E t dir (d # entries) =
     (case ca_entry E dir (t, d) of None \<Rightarrow> [] | Some c \<Rightarrow> [c]) @ loaded_cas E (Suc t) dir entries"
  by (simp_all add: loaded_cas_def map_filter_simps split: option.split)

lemma too_many_cas_simps [simp]:
  "\<not> too_many_cas E t dir n []"
  "too_many_cas E t dir n (d # entries) \<longleftrightarrow>
     ca_file E dir (t, d) \<noteq> None \<and> MAX_TRUSTED_CA \<le> n \<or>
     too_many_cas E (Suc t) dir (case ca_entry E dir (t, d) of None \<Rightarrow> n | Some c \<Rightarrow> Suc n) entries"
  by (simp_all add: too_many_cas_def Ex_less_Suc2 split: option.split)

lemma ca_dir_loop_step:
  "ca_dir_loop E t dir (d # entries) buf =
     (case ca_file E dir (t, d) of
        None \<Rightarrow> ca_dir_loop E (Suc t) dir entries buf
      | Some f \<Rightarrow>
          if MAX_TRUSTED_CA \<le> length buf
          then failed_code ERR_TRUSTED_CA_DIR_MAX_EXCEEDED_CODE ''TRUSTED_CA_DIR_MAX_EXCEEDED''
          else (case load_X509_certificate_from_file E t f of
                  Inr ca \<Rightarrow> ca_dir_loop E (Suc t) dir entries (buf @ [ca])
                | Inl _ \<Rightarrow> ca_dir_loop E (Suc t) dir entries buf))"
  by (simp add: ca_file_def Let_def)

lemma ca_dir_loop_exact:
  "ca_dir_loop E t dir entries buf =
     (if too_many_cas E t dir (length buf) entries
      then failed_code ERR_TRUSTED_CA_DIR_MAX_EXCEEDED_CODE ''TRUSTED_CA_DIR_MAX_EXCEEDED''
      else Inr (buf @ loaded_cas E t dir entries))"
  by (induction entries arbitrary: t buf)
    (simp_all add: ca_dir_loop_step ca_entry_def del: ca_dir_loop.simps(2) split: option.split sum.split)

lemma loaded_cas_known:
  "list_all (\<lambda>c. get_authentication_algo_kind E (Some c) \<noteq> AUTH_ALGO_KIND_UNKNOWN) (loaded_cas E t dir entries)"
  by (induction entries arbitrary: t)
    (auto simp: ca_entry_def dest: load_from_file_ok split: option.split sum.splits)

lemma loaded_cas_bound:
  "\<not> too_many_cas E t dir n entries \<Longrightarrow> n \<le> MAX_TRUSTED_CA \<Longrightarrow> n + length (loaded_cas E t dir entries) \<le> MAX_TRUSTED_CA"
proof (induction entries arbitrary: t n)
  case (Cons d entries)
  show ?case
  proof (cases "ca_entry E dir (t, d)")
    case (Some c)
    then have "ca_file E dir (t, d) \<noteq> None" by (auto simp: ca_entry_def split: option.splits)
    then show ?thesis using Cons.IH [of "Suc t" "Suc n"] Cons.prems Some by simp
  qed (use Cons in simp)
qed simp

text \<open>
  C32: loading the directory of trusted CAs, exactly.  A directory that cannot be opened and a
  directory with a file left to try when 100 certificates have been loaded are the only
  failures, each with its error.  Otherwise the old list is replaced by the certificates of the
  entries that load, all of them, in the order of the directory, an entry that does not load
  being skipped; the length field agrees with the buffer, which is NULL when there is none.  The
  new list never holds more than 100, and each of its certificates has a key of a known algorithm.
\<close>
theorem get_trusted_ca_list_exact:
  "get_trusted_ca_list E t dir ca_list =
     (case ddsrt_opendir E t (ddsrt_file_normalize E dir) of
        None \<Rightarrow> failed_code ERR_INVALID_TRUSTED_CA_DIR_CODE ''INVALID_TRUSTED_CA_DIR''
      | Some entries \<Rightarrow>
          if too_many_cas E t dir 0 entries
          then failed_code ERR_TRUSTED_CA_DIR_MAX_EXCEEDED_CODE ''TRUSTED_CA_DIR_MAX_EXCEEDED''
          else Inr \<lparr>xs_length = length (loaded_cas E t dir entries),
                    xs_buffer = (case loaded_cas E t dir entries of [] \<Rightarrow> None | c # cas \<Rightarrow> Some (c # cas))\<rparr>) \<and>
   (case get_trusted_ca_list E t dir ca_list of
      Inl e \<Rightarrow> e \<noteq> None
    | Inr new \<Rightarrow>
        xs_length new \<le> 100 \<and>
        list_all (\<lambda>c. get_authentication_algo_kind E (Some c) \<noteq> AUTH_ALGO_KIND_UNKNOWN)
          (case xs_buffer new of None \<Rightarrow> [] | Some b \<Rightarrow> b))"
  using loaded_cas_known [of E t dir] loaded_cas_bound [of E t dir 0]
  by (auto simp: get_trusted_ca_list_def ca_dir_loop_exact free_ca_list_contents_def failed_code_def Let_def
      MAX_TRUSTED_CA_def split: option.split list.split)

end
