(* ===== verification/Tokens.thy ===== *)
theory Tokens
  imports CertUtils
begin

text \<open>
  The message tokens of the plugin: the names of \<open>include/auth_tokens.h\<close> and
  \<open>include/ac_tokens.h\<close>, the data holder of the DDS Security interface, the helpers of
  \<open>authentication.c\<close> that find a property of a token and check its size, the loader of the
  peer's certificate from a token, and the hashes over token properties.

  Data holders, properties and their serialisation are functions of Cyclone DDS: they are the
  fields of \<open>dds_data\<close>, with what the plugin relies on stated as \<open>dds_data_laws\<close>.
\<close>

section \<open>Names\<close>

definition DDS_AUTHTOKEN_CLASS_ID :: string where
  "DDS_AUTHTOKEN_CLASS_ID = ''pqsec-dds.auth:1.0''"
definition DDS_AUTHTOKEN_AUTHREQ_CLASS_ID :: string where
  "DDS_AUTHTOKEN_AUTHREQ_CLASS_ID = DDS_AUTHTOKEN_CLASS_ID @ ''+AuthReq''"
definition DDS_AUTHTOKEN_REQ_CLASS_ID :: string where
  "DDS_AUTHTOKEN_REQ_CLASS_ID = DDS_AUTHTOKEN_CLASS_ID @ ''+Req''"
definition DDS_AUTHTOKEN_REPLY_CLASS_ID :: string where
  "DDS_AUTHTOKEN_REPLY_CLASS_ID = DDS_AUTHTOKEN_CLASS_ID @ ''+Reply''"
definition DDS_AUTHTOKEN_FINAL_CLASS_ID :: string where
  "DDS_AUTHTOKEN_FINAL_CLASS_ID = DDS_AUTHTOKEN_CLASS_ID @ ''+Final''"

definition DDS_AUTHTOKEN_PROP_CERT_SN :: string where
  "DDS_AUTHTOKEN_PROP_CERT_SN = ''dds.cert.sn''"
definition DDS_AUTHTOKEN_PROP_CERT_ALGO :: string where
  "DDS_AUTHTOKEN_PROP_CERT_ALGO = ''dds.cert.algo''"
definition DDS_AUTHTOKEN_PROP_CA_SN :: string where
  "DDS_AUTHTOKEN_PROP_CA_SN = ''dds.ca.sn''"
definition DDS_AUTHTOKEN_PROP_CA_ALGO :: string where
  "DDS_AUTHTOKEN_PROP_CA_ALGO = ''dds.ca.algo''"
definition DDS_AUTHTOKEN_PROP_C_ID :: string where
  "DDS_AUTHTOKEN_PROP_C_ID = ''c.id''"
definition DDS_AUTHTOKEN_PROP_C_PERM :: string where
  "DDS_AUTHTOKEN_PROP_C_PERM = ''c.perm''"
definition DDS_AUTHTOKEN_PROP_FUTURE_CHALLENGE :: string where
  "DDS_AUTHTOKEN_PROP_FUTURE_CHALLENGE = ''future_challenge''"
definition DDS_AUTHTOKEN_PROP_C_PDATA :: string where
  "DDS_AUTHTOKEN_PROP_C_PDATA = ''c.pdata''"
definition DDS_AUTHTOKEN_PROP_C_DSIGN_ALGO :: string where
  "DDS_AUTHTOKEN_PROP_C_DSIGN_ALGO = ''c.dsign_algo''"
definition DDS_AUTHTOKEN_PROP_C_KAGREE_ALGO :: string where
  "DDS_AUTHTOKEN_PROP_C_KAGREE_ALGO = ''c.kagree_algo''"
definition DDS_AUTHTOKEN_PROP_KEM_PUBLIC :: string where
  "DDS_AUTHTOKEN_PROP_KEM_PUBLIC = ''pqsec-dds.kem_public''"
definition DDS_AUTHTOKEN_PROP_HASH_C1 :: string where
  "DDS_AUTHTOKEN_PROP_HASH_C1 = ''hash_c1''"
definition DDS_AUTHTOKEN_PROP_CHALLENGE1 :: string where
  "DDS_AUTHTOKEN_PROP_CHALLENGE1 = ''challenge1''"
definition DDS_AUTHTOKEN_PROP_HASH_C2 :: string where
  "DDS_AUTHTOKEN_PROP_HASH_C2 = ''hash_c2''"
definition DDS_AUTHTOKEN_PROP_KEM_CIPHERTEXT :: string where
  "DDS_AUTHTOKEN_PROP_KEM_CIPHERTEXT = ''pqsec-dds.kem_ciphertext''"
definition DDS_AUTHTOKEN_PROP_CHALLENGE2 :: string where
  "DDS_AUTHTOKEN_PROP_CHALLENGE2 = ''challenge2''"
definition DDS_AUTHTOKEN_PROP_SIGNATURE :: string where
  "DDS_AUTHTOKEN_PROP_SIGNATURE = ''signature''"
definition DDS_ACTOKEN_PERMISSIONS_CREDENTIAL_CLASS_ID :: string where
  "DDS_ACTOKEN_PERMISSIONS_CREDENTIAL_CLASS_ID = ''DDS:Access:PermissionsCredential''"
definition DDS_ACTOKEN_PROP_PERM_CERT :: string where
  "DDS_ACTOKEN_PROP_PERM_CERT = ''dds.perm.cert''"

lemmas class_id_defs = DDS_AUTHTOKEN_CLASS_ID_def DDS_AUTHTOKEN_AUTHREQ_CLASS_ID_def
  DDS_AUTHTOKEN_REQ_CLASS_ID_def DDS_AUTHTOKEN_REPLY_CLASS_ID_def DDS_AUTHTOKEN_FINAL_CLASS_ID_def

lemmas prop_name_defs = DDS_AUTHTOKEN_PROP_C_ID_def DDS_AUTHTOKEN_PROP_C_PERM_def
  DDS_AUTHTOKEN_PROP_FUTURE_CHALLENGE_def DDS_AUTHTOKEN_PROP_C_PDATA_def
  DDS_AUTHTOKEN_PROP_C_DSIGN_ALGO_def DDS_AUTHTOKEN_PROP_C_KAGREE_ALGO_def
  DDS_AUTHTOKEN_PROP_KEM_PUBLIC_def DDS_AUTHTOKEN_PROP_HASH_C1_def
  DDS_AUTHTOKEN_PROP_CHALLENGE1_def DDS_AUTHTOKEN_PROP_HASH_C2_def
  DDS_AUTHTOKEN_PROP_KEM_CIPHERTEXT_def DDS_AUTHTOKEN_PROP_CHALLENGE2_def
  DDS_AUTHTOKEN_PROP_SIGNATURE_def

section \<open>Data holders\<close>

record token_property =
  tp_name :: "string option"
  tp_value :: "string option"
  tp_propagate :: bool

record bin_property =
  bp_name :: "string option"
  bp_value :: octseq
  bp_propagate :: bool

record data_holder =
  class_id :: "string option"
  dh_properties :: "token_property list"
  dh_binary_properties :: "bin_property list"

definition token_nil :: data_holder where
  "token_nil = \<lparr>class_id = None, dh_properties = [], dh_binary_properties = []\<rparr>"

text \<open>
  The Cyclone DDS functions on data holders, SHA-256 of OpenSSL, and the decoder of
  participant data (which gives the key of the participant in big-endian order).
\<close>

record dds_data = openssl_x509 +
  find_binary_property :: "data_holder \<Rightarrow> string \<Rightarrow> bin_property option"
  DataHolder_equal :: "data_holder \<Rightarrow> data_holder \<Rightarrow> bool"
  BinaryProperty_set_by_value :: "string \<Rightarrow> bytes \<Rightarrow> bin_property"
  BinaryProperty_set_by_string :: "string \<Rightarrow> string \<Rightarrow> bin_property"
  Serialize_BinaryPropertySeq :: "bin_property list \<Rightarrow> bytes"
  Serialize_BinaryPropertyArray :: "bin_property list \<Rightarrow> bytes"
  Serializer_new :: "nat \<Rightarrow> bool"
  SHA256 :: "bytes \<Rightarrow> bytes"
  Deserializer_new :: "nat \<Rightarrow> bool"
  ParticipantBuiltinTopicData_alloc :: "nat \<Rightarrow> bool"
  Deserialize_participant_key :: "bytes \<Rightarrow> bytes vres"

definition dds_data_laws :: "('a) dds_data_scheme \<Rightarrow> bool" where
  "dds_data_laws E \<longleftrightarrow>
     (\<forall>h n. find_binary_property E h n =
        find (\<lambda>p. bp_name p = Some n) (dh_binary_properties h)) \<and>
     (\<forall>n d. bp_name (BinaryProperty_set_by_value E n d) = Some n \<and>
        oct_wf (bp_value (BinaryProperty_set_by_value E n d)) \<and>
        oct_data (bp_value (BinaryProperty_set_by_value E n d)) = d \<and>
        (d \<noteq> [] \<longrightarrow> oct_buffer (bp_value (BinaryProperty_set_by_value E n d)) \<noteq> None)) \<and>
     (\<forall>n s. BinaryProperty_set_by_string E n s =
        BinaryProperty_set_by_value E n (cstring_octets s)) \<and>
     (\<forall>b. length (SHA256 E b) = SHA256_DIGEST_LENGTH) \<and>
     (\<forall>ps qs. map (\<lambda>p. (bp_name p, oct_data (bp_value p))) ps =
              map (\<lambda>p. (bp_name p, oct_data (bp_value p))) qs \<longrightarrow>
        Serialize_BinaryPropertyArray E ps = Serialize_BinaryPropertyArray E qs) \<and>
     (\<forall>ps. Serialize_BinaryPropertySeq E ps = Serialize_BinaryPropertyArray E ps) \<and>
     (\<forall>b key. Deserialize_participant_key E b = Inr key \<longrightarrow> length key = 12)"

lemma dds_data_lawsD:
  assumes "dds_data_laws E"
  shows "find_binary_property E h n = find (\<lambda>p. bp_name p = Some n) (dh_binary_properties h)"
    and "bp_name (BinaryProperty_set_by_value E n d) = Some n"
    and "oct_wf (bp_value (BinaryProperty_set_by_value E n d))"
    and "oct_data (bp_value (BinaryProperty_set_by_value E n d)) = d"
    and "d \<noteq> [] \<Longrightarrow> oct_buffer (bp_value (BinaryProperty_set_by_value E n d)) \<noteq> None"
    and "BinaryProperty_set_by_string E n s =
         BinaryProperty_set_by_value E n (cstring_octets s)"
    and "length (SHA256 E b) = SHA256_DIGEST_LENGTH"
    and "Serialize_BinaryPropertySeq E ps = Serialize_BinaryPropertyArray E ps"
    and "Deserialize_participant_key E b = Inr key \<Longrightarrow> length key = 12"
  using assms unfolding dds_data_laws_def by blast+

lemma Serialize_array_cong:
  assumes "dds_data_laws E"
    and "map (\<lambda>p. (bp_name p, oct_data (bp_value p))) ps =
         map (\<lambda>p. (bp_name p, oct_data (bp_value p))) qs"
  shows "Serialize_BinaryPropertyArray E ps = Serialize_BinaryPropertyArray E qs"
  using assms unfolding dds_data_laws_def by blast

section \<open>Finding a property of a token\<close>

definition INT_MAX :: nat where "INT_MAX = 2147483647"

definition find_required_binprop ::
  "('a) dds_data_scheme \<Rightarrow> data_holder \<Rightarrow> string \<Rightarrow> bin_property vres" where
  "find_required_binprop E token name =
     (case find_binary_property E token name of
        None \<Rightarrow> failed ''process_handshake: HandshakeMessageToken property %s missing''
      | Some prop \<Rightarrow>
          if oct_length (bp_value prop) > INT_MAX
          then failed ''process_handshake: HandshakeMessageToken property %s has unsupported size''
          else Inr prop)"

definition find_required_nonempty_binprop ::
  "('a) dds_data_scheme \<Rightarrow> data_holder \<Rightarrow> string \<Rightarrow> bin_property vres" where
  "find_required_nonempty_binprop E token name =
     bind_vres (find_required_binprop E token name)
       (\<lambda>prop. if oct_length (bp_value prop) = 0 \<or> oct_buffer (bp_value prop) = None
               then failed ''process_handshake: HandshakeMessageToken property %s is empty''
               else Inr prop)"

definition find_required_binprop_exactsize ::
  "('a) dds_data_scheme \<Rightarrow> data_holder \<Rightarrow> string \<Rightarrow> nat \<Rightarrow> bin_property vres" where
  "find_required_binprop_exactsize E token name sz =
     bind_vres (find_required_binprop E token name)
       (\<lambda>prop. if oct_length (bp_value prop) \<noteq> sz
               then failed ''process_handshake: HandshakeMessageToken property %s has wrong size''
               else Inr prop)"

lemma find_required_ok:
  "find_required_binprop E token name = Inr p \<longleftrightarrow>
     find_binary_property E token name = Some p \<and> oct_length (bp_value p) \<le> INT_MAX"
  by (auto simp: find_required_binprop_def split: option.splits)

lemma find_nonempty_ok:
  "find_required_nonempty_binprop E token name = Inr p \<longleftrightarrow>
     find_binary_property E token name = Some p \<and> oct_length (bp_value p) \<le> INT_MAX \<and>
     oct_length (bp_value p) \<noteq> 0 \<and> oct_buffer (bp_value p) \<noteq> None"
  by (auto simp: find_required_nonempty_binprop_def find_required_ok)

lemma find_exactsize_ok:
  "find_required_binprop_exactsize E token name n = Inr p \<longleftrightarrow>
     find_binary_property E token name = Some p \<and> oct_length (bp_value p) \<le> INT_MAX \<and>
     oct_length (bp_value p) = n"
  by (auto simp: find_required_binprop_exactsize_def find_required_ok)

section \<open>The certificate in a token\<close>

text \<open>The loop over the trusted CAs: the first success, or the last failure.\<close>

fun verify_with_any ::
  "('a) openssl_x509_scheme \<Rightarrow> nat \<Rightarrow> x509 \<Rightarrow> x509 list \<Rightarrow> unit vres \<Rightarrow> unit vres" where
  "verify_with_any E t cert [] result = result"
| "verify_with_any E t cert (ca # cas) result =
     (case verify_certificate E t cert ca None of
        Inr u \<Rightarrow> Inr u
      | Inl e \<Rightarrow> verify_with_any E (Suc t) cert cas (Inl e))"

definition load_X509_certificate_from_binprop ::
  "('a) dds_data_scheme \<Rightarrow> nat \<Rightarrow> bin_property \<Rightarrow> x509 \<Rightarrow> x509_crl option \<Rightarrow> X509Seq \<Rightarrow>
   x509 vres" where
  "load_X509_certificate_from_binprop E t prop own_ca own_crl trusted_ca_list =
     (if own_crl \<noteq> None \<and> xs_length trusted_ca_list > 0
      then failed ''load_X509_certificate_from_binprop: Cannot specify both CRL and trusted_ca_list''
      else
        bind_vres (load_X509_certificate_from_data E t (oct_data (bp_value prop)))
          (\<lambda>cert.
             bind_vres
               (if xs_length trusted_ca_list = 0
                then verify_certificate E t cert own_ca own_crl
                else
                  verify_with_any E t cert
                    (take (xs_length trusted_ca_list)
                      (case xs_buffer trusted_ca_list of None \<Rightarrow> [] | Some b \<Rightarrow> b))
                    failed_silent)
               (\<lambda>_. bind_vres (check_certificate_expiry E t cert) (\<lambda>_. Inr cert))))"

lemma verify_with_any_ok:
  assumes "verify_with_any E t cert cas (Inl e) = Inr u"
  shows "\<exists>ca \<in> set cas. \<exists>t'. X509_verify_cert E t' ca None cert = 1"
  using assms
proof (induction cas arbitrary: t e)
  case (Cons ca cas)
  show ?case
  proof (cases "verify_certificate E t cert ca None")
    case (Inl e')
    then show ?thesis using Cons by auto
  next
    case (Inr u')
    then show ?thesis using verify_certificate_ok [of E t cert ca None] by auto
  qed
qed simp

text \<open>
  The authority a peer certificate was accepted under: the own CA (with the own revocation
  list) when no trusted list is configured, a member of the trusted list otherwise.
\<close>

definition trusted_by ::
  "('a) openssl_x509_scheme \<Rightarrow> x509 \<Rightarrow> x509_crl option \<Rightarrow> X509Seq \<Rightarrow> x509 \<Rightarrow> bool" where
  "trusted_by E own_ca own_crl trusted cert \<longleftrightarrow>
     (\<exists>t'. if xs_length trusted = 0 then X509_verify_cert E t' own_ca own_crl cert = 1
           else own_crl = None \<and>
             (\<exists>ca \<in> set (case xs_buffer trusted of None \<Rightarrow> [] | Some b \<Rightarrow> b).
                X509_verify_cert E t' ca None cert = 1))"

lemma load_from_binprop_ok:
  assumes "load_X509_certificate_from_binprop E t prop ca crl trusted = Inr cert"
  shows "PEM_read_bio_X509 E (oct_data (bp_value prop)) = Some cert"
    and "get_authentication_algo_kind E (Some cert) \<noteq> AUTH_ALGO_KIND_UNKNOWN"
    and "trusted_by E ca crl trusted cert"
    and "check_certificate_expiry E t cert = Inr ()"
proof -
  let ?cas = "case xs_buffer trusted of None \<Rightarrow> [] | Some b \<Rightarrow> b"
  let ?ver = "if xs_length trusted = 0 then verify_certificate E t cert ca crl
    else verify_with_any E t cert (take (xs_length trusted) ?cas) failed_silent"
  have *: "load_X509_certificate_from_data E t (oct_data (bp_value prop)) = Inr cert"
    "?ver = Inr ()" "check_certificate_expiry E t cert = Inr ()"
    "\<not> (crl \<noteq> None \<and> xs_length trusted > 0)"
    using assms unfolding load_X509_certificate_from_binprop_def by (auto split: if_split_asm)
  show "PEM_read_bio_X509 E (oct_data (bp_value prop)) = Some cert"
    "get_authentication_algo_kind E (Some cert) \<noteq> AUTH_ALGO_KIND_UNKNOWN"
    using load_from_data_ok [OF *(1)] by auto
  show "check_certificate_expiry E t cert = Inr ()" by (rule *)
  show "trusted_by E ca crl trusted cert"
  proof (cases "xs_length trusted = 0")
    case True
    then show ?thesis
      using *(2) verify_certificate_ok [of E t cert ca crl] unfolding trusted_by_def by auto
  next
    case False
    then have "verify_with_any E t cert (take (xs_length trusted) ?cas) (Inl None) = Inr ()"
      using *(2) by (simp add: failed_silent_def)
    from verify_with_any_ok [OF this] obtain c t' where
      "c \<in> set ?cas" "X509_verify_cert E t' c None cert = 1"
      by (meson in_set_takeD)
    then show ?thesis using False *(4) unfolding trusted_by_def by auto
  qed
qed

section \<open>Hashes over properties\<close>

definition get_hash_binary_property_seq ::
  "('a) dds_data_scheme \<Rightarrow> bin_property list \<Rightarrow> bytes" where
  "get_hash_binary_property_seq E seq = SHA256 E (Serialize_BinaryPropertySeq E seq)"

definition compute_hash_value :: "('a) dds_data_scheme \<Rightarrow> bin_property list \<Rightarrow> bytes" where
  "compute_hash_value E properties = SHA256 E (Serialize_BinaryPropertyArray E properties)"

definition hash_value_to_binary_property ::
  "('a) dds_data_scheme \<Rightarrow> string \<Rightarrow> bytes \<Rightarrow> bin_property" where
  "hash_value_to_binary_property E name hash = BinaryProperty_set_by_value E name hash"

end
