(* ===== verification/PqSignature.thy ===== *)
theory PqSignature
  imports Tokens
begin

text \<open>
  The signature half of \<open>auth_utils.c\<close>: signing and verifying a byte string with a certificate's
  key (the ML-DSA functions of the modelled build, and the RSA/EC function beside them), signing
  and verifying a list of token properties, and the size checks of key exchange material.

  The locale \<open>transcript_signing\<close> states what the handshake relies on: a signature made over a
  list of properties is accepted over every list with the same names and octets.  Its
  interpretation takes the sign and verify functions of this file and, for the fact that
  verification accepts what signing made, the documented contract \<open>signature_correct\<close> of OpenSSL.
\<close>

record openssl_sig = dds_data +
  EVP_MD_CTX_new :: "nat \<Rightarrow> bool"
  EVP_DigestSignInit_ex :: "nat \<Rightarrow> evp_pkey \<Rightarrow> int"
  EVP_DigestSign_size :: "nat \<Rightarrow> evp_pkey \<Rightarrow> bytes \<Rightarrow> int \<times> nat"
  EVP_DigestSign :: "nat \<Rightarrow> evp_pkey \<Rightarrow> bytes \<Rightarrow> int \<times> bytes"
  EVP_DigestVerifyInit_ex :: "nat \<Rightarrow> evp_pkey \<Rightarrow> int"
  EVP_DigestVerify :: "nat \<Rightarrow> evp_pkey \<Rightarrow> bytes \<Rightarrow> bytes \<Rightarrow> int"
  EVP_DigestSignVerifyInit :: "nat \<Rightarrow> bool \<Rightarrow> evp_pkey \<Rightarrow> int"
  EVP_PKEY_CTX_set_rsa_pss :: "nat \<Rightarrow> evp_pkey \<Rightarrow> int"
  EVP_DigestSignVerifyUpdate :: "nat \<Rightarrow> bool \<Rightarrow> evp_pkey \<Rightarrow> bytes \<Rightarrow> int"
  EVP_DigestSignFinal_size :: "nat \<Rightarrow> evp_pkey \<Rightarrow> bytes \<Rightarrow> int \<times> nat"
  EVP_DigestSignFinal :: "nat \<Rightarrow> evp_pkey \<Rightarrow> bytes \<Rightarrow> int \<times> bytes"
  EVP_DigestVerifyFinal :: "nat \<Rightarrow> evp_pkey \<Rightarrow> bytes \<Rightarrow> bytes \<Rightarrow> int"
  malloc_ok :: "nat \<Rightarrow> nat \<Rightarrow> bool"

section \<open>Signing and verifying octets\<close>

text \<open>
  The function takes the signature as an in/out parameter: when creating it is the result,
  when verifying the input, returned unchanged.  The classical one is in \<open>ClassicalExchange\<close>.
\<close>

definition create_validate_pq_signature ::
  "('a) openssl_sig_scheme \<Rightarrow> nat \<Rightarrow> bool \<Rightarrow> evp_pkey option \<Rightarrow> bytes option \<Rightarrow> bytes option \<Rightarrow>
   bytes vres" where
  "create_validate_pq_signature E t create key data signature =
     (case (key, data) of
        (Some k, Some d) \<Rightarrow>
          if \<not> create \<and> (case signature of None \<Rightarrow> True | Some s \<Rightarrow> s = [])
          then failed ''Invalid ML-DSA operation parameters''
          else if \<not> EVP_MD_CTX_new E t then failed ''ML-DSA operation failed: ''
          else if create then
            (if EVP_DigestSignInit_ex E t k \<noteq> 1 \<or> fst (EVP_DigestSign_size E t k d) \<noteq> 1
             then failed ''ML-DSA operation failed: ''
             else if \<not> malloc_ok E t (snd (EVP_DigestSign_size E t k d))
             then failed ''Failed to allocate ML-DSA signature''
             else
               (case EVP_DigestSign E t k d of
                  (rc, sig) \<Rightarrow>
                    if rc \<noteq> 1 then failed ''ML-DSA operation failed: '' else Inr sig))
          else if EVP_DigestVerifyInit_ex E t k \<noteq> 1 \<or>
                  EVP_DigestVerify E t k (case signature of None \<Rightarrow> [] | Some s \<Rightarrow> s) d \<noteq> 1
          then failed ''ML-DSA signature verification failed''
          else Inr (case signature of None \<Rightarrow> [] | Some s \<Rightarrow> s)
      | _ \<Rightarrow> failed ''Invalid ML-DSA operation parameters'')"

section \<open>Signing and verifying token properties\<close>

definition create_validate_pq_signature_properties ::
  "('a) openssl_sig_scheme \<Rightarrow> nat \<Rightarrow> bool \<Rightarrow> evp_pkey option \<Rightarrow> bin_property list \<Rightarrow>
   bytes option \<Rightarrow> bytes vres" where
  "create_validate_pq_signature_properties E t create key properties signature =
     (if properties = [] then failed ''ML-DSA transcript is empty''
      else if \<not> Serializer_new E t then failed ''Failed to allocate transcript serializer''
      else create_validate_pq_signature E t create key
             (Some (Serialize_BinaryPropertyArray E properties)) signature)"

definition create_pq_signature ::
  "('a) openssl_sig_scheme \<Rightarrow> nat \<Rightarrow> evp_pkey option \<Rightarrow> bin_property list \<Rightarrow> bytes vres" where
  "create_pq_signature E t key properties =
     create_validate_pq_signature_properties E t True key properties None"

definition validate_pq_signature ::
  "('a) openssl_sig_scheme \<Rightarrow> nat \<Rightarrow> evp_pkey option \<Rightarrow> bin_property list \<Rightarrow> bytes option \<Rightarrow>
   unit vres" where
  "validate_pq_signature E t key properties signature =
     bind_vres (create_validate_pq_signature_properties E t False key properties signature)
       (\<lambda>_. Inr ())"

lemma validate_pq_signature_ok_iff:
  "validate_pq_signature E t key ps sig = Inr () \<longleftrightarrow>
     (\<exists>k s. key = Some k \<and> sig = Some s \<and> s \<noteq> [] \<and> ps \<noteq> [] \<and> Serializer_new E t \<and>
        EVP_MD_CTX_new E t \<and> EVP_DigestVerifyInit_ex E t k = 1 \<and>
        EVP_DigestVerify E t k s (Serialize_BinaryPropertyArray E ps) = 1)"
  by (cases key; cases sig)
    (auto simp: validate_pq_signature_def create_validate_pq_signature_properties_def
      create_validate_pq_signature_def)

lemma create_pq_signature_ok_iff:
  "create_pq_signature E t key ps = Inr sig \<longleftrightarrow>
     (\<exists>k n. key = Some k \<and> ps \<noteq> [] \<and> Serializer_new E t \<and> EVP_MD_CTX_new E t \<and>
        EVP_DigestSignInit_ex E t k = 1 \<and>
        EVP_DigestSign_size E t k (Serialize_BinaryPropertyArray E ps) = (1, n) \<and>
        malloc_ok E t n \<and>
        EVP_DigestSign E t k (Serialize_BinaryPropertyArray E ps) = (1, sig))"
  by (cases key; cases "EVP_DigestSign_size E t (the key) (Serialize_BinaryPropertyArray E ps)")
    (auto simp: create_pq_signature_def create_validate_pq_signature_properties_def
      create_validate_pq_signature_def split: prod.splits)

section \<open>The size checks of key exchange material\<close>

definition validate_kem_property ::
  "bin_property option \<Rightarrow> AuthenticationAlgoKind_t \<Rightarrow> bool \<Rightarrow> unit vres" where
  "validate_kem_property prop expected_kind public_key =
     (let expected_size = (if public_key then get_kem_public_key_size expected_kind
                           else get_kem_ciphertext_size expected_kind)
      in case prop of
           None \<Rightarrow> failed ''ML-KEM %s is missing''
         | Some p \<Rightarrow>
             if oct_buffer (bp_value p) = None \<or> oct_length (bp_value p) = 0
             then failed ''ML-KEM %s is missing''
             else if expected_size = 0 \<or> oct_length (bp_value p) \<noteq> expected_size
             then failed ''Invalid %s %s size: %u (expected %zu)''
             else Inr ())"

definition validate_kem_public_key_in_token ::
  "bin_property option \<Rightarrow> AuthenticationAlgoKind_t \<Rightarrow> unit vres" where
  "validate_kem_public_key_in_token prop expected_kind =
     validate_kem_property prop expected_kind True"

definition validate_kem_ciphertext_in_token ::
  "bin_property option \<Rightarrow> AuthenticationAlgoKind_t \<Rightarrow> unit vres" where
  "validate_kem_ciphertext_in_token prop expected_kind =
     validate_kem_property prop expected_kind False"

section \<open>The contract of signing a transcript\<close>

text \<open>
  What OpenSSL documents of a signature scheme: when a private key matches a public one, the
  signature of a message made with the first verifies with the second.  \<open>matches\<close> is the
  relation between the two halves (for a certificate, what X509_check_private_key tests).
\<close>

definition signature_correct ::
  "('a) openssl_sig_scheme \<Rightarrow> (evp_pkey \<Rightarrow> evp_pkey \<Rightarrow> bool) \<Rightarrow> bool" where
  "signature_correct E matches \<longleftrightarrow>
     (\<forall>t t' priv pub msg sig. matches priv pub \<longrightarrow> EVP_DigestSign E t priv msg = (1, sig) \<longrightarrow>
        sig \<noteq> [] \<and> EVP_DigestVerify E t' pub sig msg = 1)"

definition same_transcript :: "bin_property list \<Rightarrow> bin_property list \<Rightarrow> bool" where
  "same_transcript ps qs \<longleftrightarrow>
     map (\<lambda>p. (bp_name p, oct_data (bp_value p))) ps =
     map (\<lambda>p. (bp_name p, oct_data (bp_value p))) qs"

locale transcript_signing =
  fixes sign :: "evp_pkey \<Rightarrow> 'p list \<Rightarrow> bytes option"
    and accepts :: "evp_pkey \<Rightarrow> 'p list \<Rightarrow> bytes \<Rightarrow> bool"
    and matches :: "evp_pkey \<Rightarrow> evp_pkey \<Rightarrow> bool"
    and same :: "'p list \<Rightarrow> 'p list \<Rightarrow> bool"
  assumes accepts_signed: "matches priv pub \<Longrightarrow> sign priv ps = Some sig \<Longrightarrow> accepts pub ps sig"
    and accepts_same: "same ps qs \<Longrightarrow> accepts pub ps sig \<Longrightarrow> accepts pub qs sig"
begin

lemma accepts_peer_signature:
  "matches priv pub \<Longrightarrow> sign priv ps = Some sig \<Longrightarrow> same ps qs \<Longrightarrow> accepts pub qs sig"
  by (blast intro: accepts_signed accepts_same)

end

definition pq_sign ::
  "('a) openssl_sig_scheme \<Rightarrow> nat \<Rightarrow> evp_pkey \<Rightarrow> bin_property list \<Rightarrow> bytes option" where
  "pq_sign E t priv ps =
     (case create_pq_signature E t (Some priv) ps of Inr sig \<Rightarrow> Some sig | Inl _ \<Rightarrow> None)"

definition pq_accepts ::
  "('a) openssl_sig_scheme \<Rightarrow> nat \<Rightarrow> evp_pkey \<Rightarrow> bin_property list \<Rightarrow> bytes \<Rightarrow> bool" where
  "pq_accepts E t pub ps sig \<longleftrightarrow> validate_pq_signature E t (Some pub) ps (Some sig) = Inr ()"

text \<open>A key pair of a correct scheme, and a verifier whose OpenSSL can set the check up.\<close>

definition pq_matches ::
  "('a) openssl_sig_scheme \<Rightarrow> nat \<Rightarrow> (evp_pkey \<Rightarrow> evp_pkey \<Rightarrow> bool) \<Rightarrow> evp_pkey \<Rightarrow> evp_pkey \<Rightarrow> bool"
  where
  "pq_matches E t matches priv pub \<longleftrightarrow>
     signature_correct E matches \<and> matches priv pub \<and> Serializer_new E t \<and> EVP_MD_CTX_new E t \<and>
     EVP_DigestVerifyInit_ex E t pub = 1"

definition pq_same :: "('a) openssl_sig_scheme \<Rightarrow> bin_property list \<Rightarrow> bin_property list \<Rightarrow> bool" where
  "pq_same E ps qs \<longleftrightarrow> dds_data_laws E \<and> same_transcript ps qs"

interpretation pq_transcript:
  transcript_signing "pq_sign E t" "pq_accepts E t'" "pq_matches E t' m" "pq_same E"
  for E t t' m
proof
  fix priv pub ps sig
  assume match: "pq_matches E t' m priv pub" and "pq_sign E t priv ps = Some sig"
  then have made: "create_pq_signature E t (Some priv) ps = Inr sig"
    by (auto simp: pq_sign_def split: sum.splits)
  then have "EVP_DigestSign E t priv (Serialize_BinaryPropertyArray E ps) = (1, sig)"
    and ps: "ps \<noteq> []"
    by (auto simp: create_pq_signature_ok_iff)
  with match have "sig \<noteq> [] \<and>
      EVP_DigestVerify E t' pub sig (Serialize_BinaryPropertyArray E ps) = 1"
    unfolding pq_matches_def signature_correct_def by blast
  then show "pq_accepts E t' pub ps sig"
    using match ps by (simp add: pq_accepts_def validate_pq_signature_ok_iff pq_matches_def)
next
  fix ps qs pub sig
  assume same: "pq_same E ps qs" and acc: "pq_accepts E t' pub ps sig"
  have "Serialize_BinaryPropertyArray E ps = Serialize_BinaryPropertyArray E qs"
    using same Serialize_array_cong unfolding pq_same_def same_transcript_def by blast
  moreover have "ps = [] \<longleftrightarrow> qs = []"
    using same by (auto simp: pq_same_def same_transcript_def)
  ultimately show "pq_accepts E t' pub qs sig"
    using acc by (simp add: pq_accepts_def validate_pq_signature_ok_iff)
qed

section \<open>Properties\<close>

text \<open>
  C23: a signature the plugin makes over a transcript is accepted by the peer that rebuilds the
  transcript from its own values, provided the signature scheme is correct, the peer's public
  key matches, and the two transcripts agree in property names and octets.
\<close>
theorem signed_transcript_accepted:
  assumes "dds_data_laws E" and "signature_correct E matches" and "matches priv pub"
    and "create_pq_signature E t (Some priv) ps = Inr sig"
    and "same_transcript ps qs"
    and "Serializer_new E t'" and "EVP_MD_CTX_new E t'" and "EVP_DigestVerifyInit_ex E t' pub = 1"
  shows "validate_pq_signature E t' (Some pub) qs (Some sig) = Inr ()"
proof -
  have "pq_matches E t' matches priv pub" using assms by (simp add: pq_matches_def)
  moreover have "pq_sign E t priv ps = Some sig" using assms(4) by (simp add: pq_sign_def)
  moreover have "pq_same E ps qs" using assms by (simp add: pq_same_def)
  ultimately have "pq_accepts E t' pub qs sig"
    by (rule pq_transcript.accepts_peer_signature)
  then show ?thesis by (simp add: pq_accepts_def)
qed

text \<open>
  C28: the size checks accept exactly the properties whose value is present and has the size
  of the size table for a key exchange kind; the octets themselves are not examined.
\<close>
theorem kem_size_checks_exact:
  "(validate_kem_public_key_in_token tok kind = Inr () \<longleftrightarrow>
      (\<exists>p. tok = Some p \<and> oct_buffer (bp_value p) \<noteq> None \<and>
         find_by_kind kem_algorithms kind \<noteq> None \<and>
         oct_length (bp_value p) = get_kem_public_key_size kind)) \<and>
   (validate_kem_ciphertext_in_token tok kind = Inr () \<longleftrightarrow>
      (\<exists>p. tok = Some p \<and> oct_buffer (bp_value p) \<noteq> None \<and>
         find_by_kind kem_algorithms kind \<noteq> None \<and>
         oct_length (bp_value p) = get_kem_ciphertext_size kind))"
  using kem_kind_has_sizes [of kind]
  by (cases tok)
    (auto simp: validate_kem_public_key_in_token_def validate_kem_ciphertext_in_token_def
      validate_kem_property_def Let_def)

end
