(* ===== verification/Guid.thy ===== *)
theory Guid
  imports PqSignature
begin

text \<open>
  Participant GUIDs in \<open>authentication.c\<close>: the adjusted GUID that binds a participant to the
  subject name of its certificate, the check of a peer's participant data against it, and the
  comparison of two GUIDs that decides which side starts the handshake.
\<close>

unbundle bit_operations_syntax

section \<open>GUIDs\<close>

record guid =
  guid_prefix :: bytes
  entity_key :: bytes
  entity_kind :: octet

definition guid_wf :: "guid \<Rightarrow> bool" where
  "guid_wf g \<longleftrightarrow> length (guid_prefix g) = 12 \<and> length (entity_key g) = 3"

definition guid_octets :: "guid \<Rightarrow> bytes" where
  "guid_octets g = guid_prefix g @ entity_key g @ [entity_kind g]"

lemma guid_octets_length [simp]: "guid_wf g \<Longrightarrow> length (guid_octets g) = 16"
  by (simp add: guid_wf_def guid_octets_def)

lemma guid_octets_inj:
  assumes "guid_wf g" "guid_wf h" "guid_octets g = guid_octets h"
  shows "g = (h :: guid)"
  using assms by (cases g; cases h) (auto simp: guid_wf_def guid_octets_def append_eq_append_conv)

definition guid_zero :: guid where
  "guid_zero = \<lparr>guid_prefix = replicate 12 0, entity_key = replicate 3 0, entity_kind = 0\<rparr>"

section \<open>The adjusted GUID\<close>

definition ADJUSTED_GUID_PREFIX_FLAG :: octet where "ADJUSTED_GUID_PREFIX_FLAG = 0x80"

text \<open>The loop over the six hash octets; \<open>hb\<close> is the bit carried into the next octet.\<close>

fun shift_hash :: "octet \<Rightarrow> bytes \<Rightarrow> bytes" where
  "shift_hash hb [] = []"
| "shift_hash hb (h # high) = (hb OR drop_bit 1 h) # shift_hash (push_bit 7 h) high"

definition get_adjusted_participant_guid ::
  "('a) dds_data_scheme \<Rightarrow> x509 \<Rightarrow> guid \<Rightarrow> guid vres" where
  "get_adjusted_participant_guid E cert candidate =
     bind_vres (get_subject_name_DER_encoded E cert)
       (\<lambda>subject.
          let high = SHA256 E subject; low = SHA256 E (guid_prefix candidate) in
          Inr (candidate\<lparr>guid_prefix :=
                 shift_hash ADJUSTED_GUID_PREFIX_FLAG (take 6 high) @ take 6 low\<rparr>))"

section \<open>The participant data of a peer\<close>

definition validate_pdata ::
  "('a) dds_data_scheme \<Rightarrow> nat \<Rightarrow> octseq \<Rightarrow> x509 \<Rightarrow> unit vres" where
  "validate_pdata E t seq cert =
     (if \<not> Deserializer_new E t then failed ''begin_handshake_reply: c.pdata invalid encoding''
      else if \<not> ParticipantBuiltinTopicData_alloc E t then failed_silent
      else
        bind_vres (Deserialize_participant_key E (oct_data seq))
          (\<lambda>key. bind_vres (get_adjusted_participant_guid E cert guid_zero)
             (\<lambda>aguid.
                if memcmp key (guid_prefix aguid) 6 \<noteq> 0
                then failed ''begin_handshake_reply: c.pdata contains incorrect participant guid''
                else Inr ())))"

section \<open>Which side starts the handshake\<close>

datatype handshake_role = PENDING_HANDSHAKE_REQUEST | PENDING_HANDSHAKE_MESSAGE

definition handshake_role_of :: "guid \<Rightarrow> guid \<Rightarrow> handshake_role" where
  "handshake_role_of adjusted remote =
     (if memcmp (guid_octets adjusted) (guid_octets remote) 16 < 0
      then PENDING_HANDSHAKE_REQUEST else PENDING_HANDSHAKE_MESSAGE)"

section \<open>Facts\<close>

text \<open>The number a big-endian octet string stands for.\<close>

fun be_nat :: "bytes \<Rightarrow> nat" where
  "be_nat [] = 0"
| "be_nat (b # bs) = unat b * 256 ^ length bs + be_nat bs"

lemma shift_hash_length [simp]: "length (shift_hash hb hs) = length hs"
  by (induction hs arbitrary: hb) simp_all

lemma unat_shifted_octet:
  fixes a b :: octet
  shows "unat (push_bit 7 a OR drop_bit 1 b) = 128 * (unat a mod 2) + unat b div 2"
proof -
  have "push_bit 7 a AND drop_bit 1 b = 0"
  proof (rule bit_word_eqI)
    fix n assume "n < LENGTH(8)"
    then show "bit (push_bit 7 a AND drop_bit 1 b) n \<longleftrightarrow> bit (0 :: octet) n"
      by (auto simp: bit_simps dest: bit_imp_le_length)
  qed
  then have "push_bit 7 a OR drop_bit 1 b = push_bit 7 a + drop_bit 1 b"
    using word_plus_and_or [of "push_bit 7 a" "drop_bit 1 b"] by simp
  moreover have hi: "unat (push_bit 7 a) = 128 * (unat a mod 2)"
    using mod_mult_mult2 [of "unat a" 128 2]
    by (simp add: push_bit_eq_mult unat_word_ariths mult.commute)
  moreover have lo: "unat (drop_bit 1 b) = unat b div 2"
    by (simp add: drop_bit_eq_div unat_div)
  moreover have "unat b div 2 < 128" using unsigned_less [of b, where ?'a = nat] by simp
  ultimately show ?thesis
    by (simp add: unat_word_ariths)
qed

lemma be_nat_shift_hash:
  "hs \<noteq> [] \<Longrightarrow>
   be_nat (shift_hash (push_bit 7 a) hs) =
     (unat a mod 2) * 2 ^ (8 * length hs - 1) + be_nat hs div 2"
proof (induction hs arbitrary: a)
  case (Cons h hs)
  show ?case
  proof (cases "hs = []")
    case True
    then show ?thesis using unat_shifted_octet [of a h] by simp
  next
    case False
    define n where "n = length hs"
    have pow: "(256 :: nat) ^ n = 2 * 2 ^ (8 * n - 1)"
    proof -
      have "(256 :: nat) ^ n = 2 ^ (8 * n)" by (simp add: power_mult)
      moreover have "8 * n = Suc (8 * n - 1)" using False by (simp add: n_def)
      ultimately show ?thesis by (metis power_Suc)
    qed
    define w where "w = (2 :: nat) ^ (8 * n - 1)"
    have top: "(2 :: nat) ^ (8 * Suc n - 1) = 256 * w"
    proof -
      have "8 * Suc n - 1 = (8 * n - 1) + 8" using False by (simp add: n_def)
      then show ?thesis by (simp only: w_def power_add) simp
    qed
    have pow_w: "(256 :: nat) ^ n = 2 * w" using pow by (simp only: w_def)
    have "be_nat (shift_hash (push_bit 7 a) (h # hs)) =
        (128 * (unat a mod 2) + unat h div 2) * 256 ^ n +
        ((unat h mod 2) * w + be_nat hs div 2)"
      using Cons.IH [OF False, of h] unat_shifted_octet [of a h] by (simp add: n_def w_def)
    also have "\<dots> = (unat a mod 2) * (256 * w) +
        (2 * (unat h div 2) + unat h mod 2) * w + be_nat hs div 2"
      unfolding pow_w by (simp only: algebra_simps)
    also have "\<dots> = (unat a mod 2) * 2 ^ (8 * Suc n - 1) + (unat h * 256 ^ n + be_nat hs) div 2"
      unfolding pow_w top by simp
    finally show ?thesis by (simp add: n_def)
  qed
qed simp

lemma be_nat_bound: "be_nat bs < 256 ^ length bs"
proof (induction bs)
  case (Cons b bs)
  have "unat b \<le> 255" using unsigned_less [of b, where ?'a = nat] by simp
  then have "unat b * 256 ^ length bs \<le> 255 * 256 ^ length bs" by (rule mult_right_mono) simp
  moreover have "(255 :: nat) * 256 ^ length bs + 256 ^ length bs = 256 ^ length (b # bs)" by simp
  ultimately show ?case using Cons unfolding be_nat.simps by linarith
qed simp

lemma memcmp_less_iff_prefix:
  "memcmp xs ys n = 0 \<longleftrightarrow> take n xs = take n ys" if "n \<le> length xs" "n \<le> length ys"
  using that by (subst memcmp_take) (simp add: memcmp_eq_0_iff)

section \<open>The contract of the role decision\<close>

text \<open>
  What the handshake needs of the order on participants: it is total and antisymmetric on
  identities, so of two different participants exactly one starts.
\<close>

locale role_order =
  fixes wf :: "'g \<Rightarrow> bool"
    and starts :: "'g \<Rightarrow> 'g \<Rightarrow> bool"
  assumes starts_asym: "starts g h \<Longrightarrow> \<not> starts h g"
    and starts_total: "wf g \<Longrightarrow> wf h \<Longrightarrow> g \<noteq> h \<Longrightarrow> starts g h \<or> starts h g"
begin

lemma starts_irrefl: "\<not> starts g g"
  using starts_asym by blast

lemma exactly_one_starts:
  "wf g \<Longrightarrow> wf h \<Longrightarrow> g \<noteq> h \<Longrightarrow> starts g h \<longleftrightarrow> \<not> starts h g"
  using starts_asym starts_total by blast

end

definition sends_request :: "guid \<Rightarrow> guid \<Rightarrow> bool" where
  "sends_request g h \<longleftrightarrow> handshake_role_of g h = PENDING_HANDSHAKE_REQUEST"

lemma sends_request_iff: "sends_request g h \<longleftrightarrow> memcmp (guid_octets g) (guid_octets h) 16 < 0"
  by (simp add: sends_request_def handshake_role_of_def)

interpretation guid_roles: role_order guid_wf sends_request
proof
  fix g h
  assume "sends_request g h"
  then show "\<not> sends_request h g"
    by (simp add: sends_request_iff memcmp_antisym [of "guid_octets h"])
next
  fix g h
  assume wf: "guid_wf g" "guid_wf h" and "g \<noteq> h"
  then have "guid_octets g \<noteq> guid_octets h" using guid_octets_inj by blast
  then have "memcmp (guid_octets g) (guid_octets h) 16 \<noteq> 0"
    using wf memcmp_eq_0_iff [of "guid_octets g" 16 "guid_octets h"] by simp
  then show "sends_request g h \<or> sends_request h g"
    by (auto simp: sends_request_iff memcmp_antisym [of "guid_octets h"])
qed

section \<open>Properties\<close>

text \<open>
  C24: the adjusted GUID is the one the DDS Security specification asks for: the first bit of
  the prefix is 1, the next 47 bits are the first 47 bits of the hash of the certificate's
  subject name, the next 48 bits are the first 48 bits of the hash of the candidate's prefix,
  and the entity id is the candidate's.  Computing it fails only if the subject name cannot
  be encoded.
\<close>
theorem adjusted_guid_spec:
  assumes "dds_data_laws E"
  shows "case get_subject_name_DER_encoded E cert of
      Inl e \<Rightarrow> get_adjusted_participant_guid E cert candidate = Inl e
    | Inr subject \<Rightarrow>
        (\<exists>g. get_adjusted_participant_guid E cert candidate = Inr g \<and>
           length (guid_prefix g) = 12 \<and>
           be_nat (take 6 (guid_prefix g)) = 2 ^ 47 + be_nat (take 6 (SHA256 E subject)) div 2 \<and>
           drop 6 (guid_prefix g) = take 6 (SHA256 E (guid_prefix candidate)) \<and>
           entity_key g = entity_key candidate \<and> entity_kind g = entity_kind candidate)"
proof (cases "get_subject_name_DER_encoded E cert")
  case (Inr subject)
  define high where "high = take 6 (SHA256 E subject)"
  define low where "low = take 6 (SHA256 E (guid_prefix candidate))"
  have len: "length high = 6" "length low = 6"
    by (simp_all add: high_def low_def dds_data_lawsD(7) [OF assms] SHA256_DIGEST_LENGTH_def)
  have flag: "ADJUSTED_GUID_PREFIX_FLAG = push_bit 7 1"
    by (simp add: ADJUSTED_GUID_PREFIX_FLAG_def)
  have "be_nat (shift_hash ADJUSTED_GUID_PREFIX_FLAG high) = 2 ^ 47 + be_nat high div 2"
  proof -
    have "high \<noteq> []" using len by auto
    from be_nat_shift_hash [OF this, of 1] len show ?thesis by (simp add: flag)
  qed
  then show ?thesis
    using len by (simp add: Inr get_adjusted_participant_guid_def Let_def flip: high_def low_def)
qed (simp add: get_adjusted_participant_guid_def)

text \<open>
  C26: of two different participants exactly one is told to send the handshake request and the
  other to wait for it, and a participant never starts a handshake with its own GUID.
\<close>
theorem roles_complementary:
  assumes "guid_wf g" and "guid_wf h" and "g \<noteq> h"
  shows "(handshake_role_of g h = PENDING_HANDSHAKE_REQUEST) \<noteq>
         (handshake_role_of h g = PENDING_HANDSHAKE_REQUEST)
       \<and> handshake_role_of g g = PENDING_HANDSHAKE_MESSAGE"
proof -
  have "sends_request g h \<longleftrightarrow> \<not> sends_request h g"
    using assms by (rule guid_roles.exactly_one_starts)
  moreover have "handshake_role_of g g = PENDING_HANDSHAKE_MESSAGE"
    using guid_roles.starts_irrefl [of g] by (cases "handshake_role_of g g") (auto simp: sends_request_def)
  ultimately show ?thesis by (simp add: sends_request_def)
qed

text \<open>
  C25: participant data is accepted exactly when its key begins with the six octets that the
  peer's certificate determines, that is the flag bit and the hash of the subject name; the
  candidate GUID the peer chose does not matter.
\<close>
theorem validate_pdata_binds_subject:
  assumes "dds_data_laws E"
  shows "validate_pdata E t seq cert = Inr () \<longleftrightarrow>
    Deserializer_new E t \<and> ParticipantBuiltinTopicData_alloc E t \<and>
    (\<exists>key g. Deserialize_participant_key E (oct_data seq) = Inr key \<and>
       get_adjusted_participant_guid E cert candidate = Inr g \<and>
       take 6 key = take 6 (guid_prefix g))"
proof (cases "get_subject_name_DER_encoded E cert")
  case (Inl e)
  then show ?thesis by (auto simp: validate_pdata_def get_adjusted_participant_guid_def)
next
  case (Inr subject)
  define pre where "pre = shift_hash ADJUSTED_GUID_PREFIX_FLAG (take 6 (SHA256 E subject))"
  have len: "length pre = 6"
    by (simp add: pre_def dds_data_lawsD(7) [OF assms] SHA256_DIGEST_LENGTH_def)
  have adjusted: "\<exists>g. get_adjusted_participant_guid E cert c = Inr g \<and>
      take 6 (guid_prefix g) = pre \<and> 6 \<le> length (guid_prefix g)" for c
    using Inr len by (simp add: get_adjusted_participant_guid_def Let_def flip: pre_def)
  obtain z where z: "get_adjusted_participant_guid E cert guid_zero = Inr z"
    "take 6 (guid_prefix z) = pre" "6 \<le> length (guid_prefix z)"
    using adjusted by blast
  obtain g where g: "get_adjusted_participant_guid E cert candidate = Inr g"
    "take 6 (guid_prefix g) = pre"
    using adjusted by blast
  have same: "memcmp key (guid_prefix z) 6 = 0 \<longleftrightarrow> take 6 key = pre"
    if "Deserialize_participant_key E (oct_data seq) = Inr key" for key
    using dds_data_lawsD(9) [OF assms that] memcmp_less_iff_prefix [of 6 key "guid_prefix z"] z
    by simp
  show ?thesis
    by (cases "Deserialize_participant_key E (oct_data seq)")
      (auto simp: validate_pdata_def z(1) g same split: if_split_asm)
qed

end
