(* ===== verification/Objects.thy ===== *)
theory Objects
  imports Guid
begin

text \<open>
  The objects of the authentication plugin (\<open>authentication.c\<close>, first part): local and remote
  identities, the relation between the two, handshakes, their constructors and destructors, the
  hash tables that hold them, and the state of the plugin instance.

  Objects live on a heap, a map from addresses; pointers are addresses and a pointer to freed
  memory is one the heap does not map.  The hash tables (Cyclone's hopscotch hash) hold
  pointers; their operations are parameters with the contract \<open>hash_table_laws\<close>, and a table
  that holds a dangling pointer makes the next access to it a fault.
\<close>

section \<open>Object headers, hash and equality\<close>

datatype SecurityObjectKind_t =
    SECURITY_OBJECT_KIND_UNKNOWN
  | SECURITY_OBJECT_KIND_LOCAL_IDENTITY
  | SECURITY_OBJECT_KIND_REMOTE_IDENTITY
  | SECURITY_OBJECT_KIND_IDENTITY_RELATION
  | SECURITY_OBJECT_KIND_HANDSHAKE

datatype CreatedHandshakeStep_t = CREATEDREQUEST | CREATEDREPLY

record SecurityObject =
  so_handle :: addr
  so_kind :: SecurityObjectKind_t

definition DDS_SECURITY_HANDLE_NIL :: addr where "DDS_SECURITY_HANDLE_NIL = 0"

definition security_object_hash :: "('a) SecurityObject_scheme \<Rightarrow> 32 word" where
  "security_object_hash obj =
     (let c = 16292676669999574021 :: 64 word; x = ucast (so_handle obj) :: 32 word
      in ucast (drop_bit 32 (ucast x * c)))"

definition security_object_equal ::
  "('a) SecurityObject_scheme \<Rightarrow> ('b) SecurityObject_scheme \<Rightarrow> bool" where
  "security_object_equal la lb \<longleftrightarrow> so_handle la = so_handle lb"

record LocalIdentityInfo = SecurityObject +
  li_domainId :: int
  li_candidateGUID :: guid
  li_adjustedGUID :: guid
  li_identityCert :: x509
  li_identityCA :: x509
  li_privateKey :: evp_pkey
  li_crl :: "x509_crl option"
  li_pdata :: octseq
  li_dsignAlgoKind :: AuthenticationAlgoKind_t
  li_kagreeAlgoKind :: AuthenticationAlgoKind_t
  li_permissionsDocument :: "string option"
  li_timer :: nat

record RemoteIdentityInfo = SecurityObject +
  ri_guid :: guid
  ri_identityCert :: "x509 option"
  ri_dsignAlgoKind :: AuthenticationAlgoKind_t
  ri_kagreeAlgoKind :: AuthenticationAlgoKind_t
  ri_remoteIdentityToken :: data_holder
  ri_pdata :: octseq
  ri_permissionsDocument :: "string option"
  ri_linkHash :: "addr list"
  ri_timer :: nat

record IdentityRelation = SecurityObject +
  ir_localIdentity :: addr
  ir_remoteIdentity :: addr
  ir_lchallenge :: "bytes option"
  ir_rchallenge :: "bytes option"

record SharedSecretHandleImpl =
  ss_shared_secret :: bytes
  ss_shared_secret_size :: nat
  ss_challenge1 :: bytes
  ss_challenge2 :: bytes

text \<open>\<open>hs_secret\<close> is \<open>shared_secret_handle_impl\<close>: its address and what it points to.\<close>

record HandshakeInfo = SecurityObject +
  hs_relation :: addr
  hs_hash_c1 :: bytes
  hs_hash_c2 :: bytes
  hs_kem_keypair :: "pqsec_kem_keypair option"
  hs_kem :: kem_buffers
  hs_secret :: "(addr \<times> SharedSecretHandleImpl) option"
  hs_created_in :: CreatedHandshakeStep_t

text \<open>
  \<open>remote_guid_hash\<close> copies the GUID into four 32-bit words in the byte order of the machine,
  which is the parameter \<open>load32\<close>.
\<close>

definition remote_guid_hash ::
  "(bytes \<Rightarrow> 32 word) \<Rightarrow> ('a) RemoteIdentityInfo_scheme \<Rightarrow> 32 word" where
  "remote_guid_hash load32 identity =
     (let g = guid_octets (ri_guid identity) in
      load32 (take 4 g) XOR load32 (take 4 (drop 4 g)) XOR
      load32 (take 4 (drop 8 g)) XOR load32 (take 4 (drop 12 g)))"

definition remote_guid_equal ::
  "('a) RemoteIdentityInfo_scheme \<Rightarrow> ('b) RemoteIdentityInfo_scheme \<Rightarrow> bool" where
  "remote_guid_equal la lb \<longleftrightarrow>
     memcmp (guid_octets (ri_guid la)) (guid_octets (ri_guid lb)) 16 = 0"

section \<open>The contract of a table key\<close>

text \<open>
  What a hash table asks of its two functions: equality is an equivalence, and equal objects
  have equal hashes.  Then a lookup that only looks into the bucket of the template finds what
  a search of the whole table finds.
\<close>

locale hash_key =
  fixes hash :: "'o \<Rightarrow> 32 word"
    and equal :: "'o \<Rightarrow> 'o \<Rightarrow> bool"
    and wf :: "'o \<Rightarrow> bool"
  assumes equal_refl: "equal x x"
    and equal_sym: "equal x y \<Longrightarrow> equal y x"
    and equal_trans:
      "wf x \<Longrightarrow> wf y \<Longrightarrow> wf z \<Longrightarrow> equal x y \<Longrightarrow> equal y z \<Longrightarrow> equal x z"
    and equal_hash: "wf x \<Longrightarrow> wf y \<Longrightarrow> equal x y \<Longrightarrow> hash x = hash y"
begin

lemma bucket_lookup:
  "wf k \<Longrightarrow> \<forall>x \<in> set xs. wf x \<Longrightarrow>
   find (equal k) (filter (\<lambda>x. hash x = hash k) xs) = find (equal k) xs"
  by (induction xs) (auto dest: equal_hash)

lemma template_irrelevant:
  "wf k \<Longrightarrow> wf k' \<Longrightarrow> \<forall>x \<in> set xs. wf x \<Longrightarrow> equal k k' \<Longrightarrow>
   find (equal k) xs = find (equal k') xs"
proof (induction xs)
  case (Cons x xs)
  then have "equal k x \<longleftrightarrow> equal k' x"
    using equal_sym equal_trans by (metis list.set_intros(1))
  then show ?case using Cons by simp
qed simp

end

interpretation handle_key:
  hash_key "security_object_hash :: SecurityObject \<Rightarrow> 32 word" security_object_equal "\<lambda>_. True"
  by standard (auto simp: security_object_equal_def security_object_hash_def)

lemma remote_guid_equal_iff:
  "guid_wf (ri_guid x) \<Longrightarrow> guid_wf (ri_guid y) \<Longrightarrow>
   remote_guid_equal x y \<longleftrightarrow> ri_guid x = ri_guid y"
  using guid_octets_inj memcmp_eq_0_iff [of "guid_octets (ri_guid x)" 16 "guid_octets (ri_guid y)"]
  by (auto simp: remote_guid_equal_def)


interpretation guid_key:
  hash_key "remote_guid_hash load32 :: RemoteIdentityInfo \<Rightarrow> 32 word" remote_guid_equal
    "\<lambda>r. guid_wf (ri_guid r)" for load32
proof
  fix x y z :: RemoteIdentityInfo
  show "remote_guid_equal x x" by (simp add: remote_guid_equal_def)
  show "remote_guid_equal x y \<Longrightarrow> remote_guid_equal y x"
    by (simp add: remote_guid_equal_def memcmp_antisym [of "guid_octets (ri_guid y)"])
  show "guid_wf (ri_guid x) \<Longrightarrow> guid_wf (ri_guid y) \<Longrightarrow> guid_wf (ri_guid z) \<Longrightarrow>
    remote_guid_equal x y \<Longrightarrow> remote_guid_equal y z \<Longrightarrow> remote_guid_equal x z"
    by (simp add: remote_guid_equal_iff)
  show "guid_wf (ri_guid x) \<Longrightarrow> guid_wf (ri_guid y) \<Longrightarrow> remote_guid_equal x y \<Longrightarrow>
    remote_guid_hash load32 x = remote_guid_hash load32 y"
    by (simp add: remote_guid_equal_iff remote_guid_hash_def)
qed

section \<open>The plugin instance and its environment\<close>

datatype sec_obj =
    LocalIdentity LocalIdentityInfo
  | RemoteIdentity RemoteIdentityInfo
  | Relation IdentityRelation
  | Handshake HandshakeInfo

definition header :: "('a) SecurityObject_scheme \<Rightarrow> SecurityObject" where
  "header x = \<lparr>so_handle = so_handle x, so_kind = so_kind x\<rparr>"

fun obj_header :: "sec_obj \<Rightarrow> SecurityObject" where
  "obj_header (LocalIdentity x) = header x"
| "obj_header (RemoteIdentity x) = header x"
| "obj_header (Relation x) = header x"
| "obj_header (Handshake x) = header x"

definition obj_handle :: "sec_obj \<Rightarrow> addr" where "obj_handle obj = so_handle (obj_header obj)"
definition obj_kind :: "sec_obj \<Rightarrow> SecurityObjectKind_t" where
  "obj_kind obj = so_kind (obj_header obj)"

lemma obj_handle_simps [simp]:
  "obj_handle (LocalIdentity l) = so_handle l" "obj_handle (RemoteIdentity r) = so_handle r"
  "obj_handle (Relation i) = so_handle i" "obj_handle (Handshake h) = so_handle h"
  "obj_kind (LocalIdentity l) = so_kind l" "obj_kind (RemoteIdentity r) = so_kind r"
  "obj_kind (Relation i) = so_kind i" "obj_kind (Handshake h) = so_kind h"
  by (simp_all add: obj_handle_def obj_kind_def header_def)

type_synonym obj_heap = "addr \<Rightarrow> sec_obj option"

text \<open>
  The instance: \<open>dispatcher\<close> holds the pending validity timers (handle, identity, end time).
  \<open>clock\<close> counts the calls made to the environment.
\<close>

record auth =
  heap :: obj_heap
  objectHash :: "addr list"
  remoteGuidHash :: "addr list"
  dispatcher :: "(nat \<times> addr \<times> 64 word) list"
  dispatcher_enabled :: bool
  listener :: "nat option"
  trustedCAList :: X509Seq
  include_optional :: bool
  fallback_provider :: "string option"
  clock :: nat

datatype security_property =
    DDS_SEC_PROP_AUTH_IDENTITY_CERT
  | DDS_SEC_PROP_AUTH_IDENTITY_CA
  | DDS_SEC_PROP_AUTH_PRIV_KEY
  | DDS_SEC_PROP_AUTH_PASSWORD
  | DDS_SEC_PROP_ACCESS_TRUSTED_CA_DIR
  | ORG_ECLIPSE_CYCLONEDDS_SEC_AUTH_CRL

text \<open>
  The rest of the environment: memory, the hash tables, the timed dispatcher, the properties
  of the participant, OpenSSL's providers, and the build's choice of KEM.
\<close>

record 'q cyclone = openssl_sig +
  ddsrt_malloc :: "nat \<Rightarrow> (addr \<Rightarrow> bool) \<Rightarrow> addr option"
  hh_lookup :: "(addr \<Rightarrow> bool) \<Rightarrow> addr list \<Rightarrow> addr option"
  hh_add :: "(addr \<Rightarrow> bool) \<Rightarrow> addr \<Rightarrow> addr list \<Rightarrow> bool \<times> addr list"
  hh_remove :: "(addr \<Rightarrow> bool) \<Rightarrow> addr list \<Rightarrow> addr list"
  hh_iter :: "addr list \<Rightarrow> addr list"
  timed_dispatcher_add :: "nat \<Rightarrow> nat"
  Property_get_value :: "'q \<Rightarrow> security_property \<Rightarrow> string option"
  X509_digest_sha1 :: "x509 \<Rightarrow> bool \<times> bytes"
  X509_check_private_key :: "x509 \<Rightarrow> evp_pkey \<Rightarrow> int"
  getenv_provider :: "string option"
  PQSEC_FALLBACK_PROVIDER :: "string option"
  OSSL_PROVIDER_try_load :: "nat \<Rightarrow> string \<Rightarrow> bool"
  SELECTED_KEM_ALGORITHM :: string

text \<open>
  The documented behaviour of Cyclone's tables: a lookup finds an entry equal to the template
  if there is one, adding leaves the table alone when an equal entry is present, removing takes
  out the entries equal to the template, iterating visits every entry once.  A fresh address is
  not NULL and not in use, and a timer handle is not zero.
\<close>

definition hash_table_laws :: "('q, 'a) cyclone_scheme \<Rightarrow> bool" where
  "hash_table_laws E \<longleftrightarrow>
     (\<forall>eq xs. case hh_lookup E eq xs of
        None \<Rightarrow> (\<forall>x \<in> set xs. \<not> eq x) | Some x \<Rightarrow> x \<in> set xs \<and> eq x) \<and>
     (\<forall>eq x xs. case hh_add E eq x xs of
        (added, ys) \<Rightarrow>
          if \<exists>y \<in> set xs. eq y then \<not> added \<and> ys = xs
          else added \<and> set ys = insert x (set xs)) \<and>
     (\<forall>eq xs. set (hh_remove E eq xs) = {x \<in> set xs. \<not> eq x}) \<and>
     (\<forall>xs. set (hh_iter E xs) = set xs \<and> distinct (hh_iter E xs)) \<and>
     (\<forall>t used a. ddsrt_malloc E t used = Some a \<longrightarrow> a \<noteq> 0 \<and> \<not> used a) \<and>
     (\<forall>t. timed_dispatcher_add E t \<noteq> 0)"

section \<open>Basic operations\<close>

definition tick_op :: "(auth, nat) op" where
  "tick_op s = Ret (Inr (clock s), s\<lparr>clock := Suc (clock s)\<rparr>)"

definition load_op :: "addr \<Rightarrow> (auth, sec_obj) op" where
  "load_op p s = (case heap s p of None \<Rightarrow> Fault Dangling_pointer | Some x \<Rightarrow> Ret (Inr x, s))"

definition store_op :: "addr \<Rightarrow> sec_obj \<Rightarrow> (auth, unit) op" where
  "store_op p x s =
     (if heap s p = None then Fault Dangling_pointer
      else Ret (Inr (), s\<lparr>heap := (heap s)(p \<mapsto> x)\<rparr>))"

definition malloc_op :: "('q, 'a) cyclone_scheme \<Rightarrow> (addr \<Rightarrow> sec_obj) \<Rightarrow> (auth, addr) op" where
  \<comment> \<open>allocate an object and initialise it\<close>
  "malloc_op E mk s =
     (case ddsrt_malloc E (clock s) (\<lambda>a. heap s a \<noteq> None) of
        None \<Rightarrow> Fault Out_of_memory
      | Some p \<Rightarrow>
          Ret (Inr p, s\<lparr>heap := (heap s)(p \<mapsto> mk p), clock := Suc (clock s)\<rparr>))"

definition table_safe :: "obj_heap \<Rightarrow> addr list \<Rightarrow> bool" where
  "table_safe h tab \<longleftrightarrow> list_all (\<lambda>p. h p \<noteq> None) tab"

definition security_object_valid :: "obj_heap \<Rightarrow> addr \<Rightarrow> SecurityObjectKind_t \<Rightarrow> bool" where
  "security_object_valid h p kind \<longleftrightarrow>
     (case h p of
        None \<Rightarrow> False
      | Some obj \<Rightarrow>
          if obj_kind obj \<noteq> kind then False
          else
            (case obj of
               Relation r \<Rightarrow>
                 ir_localIdentity r \<noteq> 0 \<and> ir_remoteIdentity r \<noteq> 0 \<and>
                 so_handle r = ir_localIdentity r
             | _ \<Rightarrow> obj_handle obj = p))"

text \<open>\<open>security_object_find(hh, handle)\<close> builds a template with the handle and looks it up.\<close>

definition handle_template :: "addr \<Rightarrow> SecurityObject" where
  "handle_template hdl = \<lparr>so_handle = hdl, so_kind = SECURITY_OBJECT_KIND_UNKNOWN\<rparr>"

definition has_handle :: "obj_heap \<Rightarrow> addr \<Rightarrow> addr \<Rightarrow> bool" where
  "has_handle h hdl p \<longleftrightarrow>
     (case h p of None \<Rightarrow> False
      | Some obj \<Rightarrow> security_object_equal (handle_template hdl) (obj_header obj))"

lemma has_handle_iff: "has_handle h hdl p \<longleftrightarrow> (\<exists>obj. h p = Some obj \<and> obj_handle obj = hdl)"
  by (auto simp: has_handle_def security_object_equal_def handle_template_def obj_handle_def
      split: option.splits)

definition security_object_find ::
  "('q, 'a) cyclone_scheme \<Rightarrow> addr list \<Rightarrow> addr \<Rightarrow> (auth, addr option) op" where
  "security_object_find E hh hdl s =
     (if \<not> table_safe (heap s) hh then Fault Dangling_pointer
      else Ret (Inr (hh_lookup E (has_handle (heap s) hdl) hh), s))"

definition has_guid :: "obj_heap \<Rightarrow> RemoteIdentityInfo \<Rightarrow> addr \<Rightarrow> bool" where
  "has_guid h template p \<longleftrightarrow>
     (case h p of Some (RemoteIdentity r) \<Rightarrow> remote_guid_equal template r | _ \<Rightarrow> False)"

definition find_remote_identity_by_guid ::
  "('q, 'a) cyclone_scheme \<Rightarrow> RemoteIdentityInfo \<Rightarrow> (auth, addr option) op" where
  "find_remote_identity_by_guid E template s =
     (if \<not> table_safe (heap s) (remoteGuidHash s) then Fault Dangling_pointer
      else Ret (Inr (hh_lookup E (has_guid (heap s) template) (remoteGuidHash s)), s))"

definition add_to_objectHash :: "('q, 'a) cyclone_scheme \<Rightarrow> addr \<Rightarrow> (auth, bool) op" where
  "add_to_objectHash E p s =
     (case heap s p of
        None \<Rightarrow> Fault Dangling_pointer
      | Some obj \<Rightarrow>
          if \<not> table_safe (heap s) (objectHash s) then Fault Dangling_pointer
          else
            (case hh_add E (has_handle (heap s) (obj_handle obj)) p (objectHash s) of
               (added, tab) \<Rightarrow> Ret (Inr added, s\<lparr>objectHash := tab\<rparr>)))"

definition remove_from_objectHash :: "('q, 'a) cyclone_scheme \<Rightarrow> addr \<Rightarrow> (auth, unit) op" where
  "remove_from_objectHash E p s =
     (case heap s p of
        None \<Rightarrow> Fault Dangling_pointer
      | Some obj \<Rightarrow>
          if \<not> table_safe (heap s) (objectHash s) then Fault Dangling_pointer
          else Ret (Inr (), s\<lparr>objectHash :=
                 hh_remove E (has_handle (heap s) (obj_handle obj)) (objectHash s)\<rparr>))"

definition add_to_remoteGuidHash :: "('q, 'a) cyclone_scheme \<Rightarrow> addr \<Rightarrow> (auth, bool) op" where
  "add_to_remoteGuidHash E p s =
     (case heap s p of
        Some (RemoteIdentity r) \<Rightarrow>
          if \<not> table_safe (heap s) (remoteGuidHash s) then Fault Dangling_pointer
          else
            (case hh_add E (has_guid (heap s) r) p (remoteGuidHash s) of
               (added, tab) \<Rightarrow> Ret (Inr added, s\<lparr>remoteGuidHash := tab\<rparr>))
      | _ \<Rightarrow> Fault Dangling_pointer)"

definition remove_from_remoteGuidHash :: "('q, 'a) cyclone_scheme \<Rightarrow> addr \<Rightarrow> (auth, unit) op" where
  "remove_from_remoteGuidHash E p s =
     (case heap s p of
        Some (RemoteIdentity r) \<Rightarrow>
          if \<not> table_safe (heap s) (remoteGuidHash s) then Fault Dangling_pointer
          else Ret (Inr (), s\<lparr>remoteGuidHash := hh_remove E (has_guid (heap s) r) (remoteGuidHash s)\<rparr>)
      | _ \<Rightarrow> Fault Dangling_pointer)"

text \<open>The link table of a remote identity.\<close>

definition add_to_linkHash :: "('q, 'a) cyclone_scheme \<Rightarrow> addr \<Rightarrow> addr \<Rightarrow> (auth, bool) op" where
  "add_to_linkHash E remote p s =
     (case (heap s remote, heap s p) of
        (Some (RemoteIdentity r), Some obj) \<Rightarrow>
          if \<not> table_safe (heap s) (ri_linkHash r) then Fault Dangling_pointer
          else
            (case hh_add E (has_handle (heap s) (obj_handle obj)) p (ri_linkHash r) of
               (added, tab) \<Rightarrow>
                 Ret (Inr added,
                   s\<lparr>heap := (heap s)(remote \<mapsto> RemoteIdentity (r\<lparr>ri_linkHash := tab\<rparr>))\<rparr>))
      | _ \<Rightarrow> Fault Dangling_pointer)"

definition remove_from_linkHash :: "('q, 'a) cyclone_scheme \<Rightarrow> addr \<Rightarrow> addr \<Rightarrow> (auth, unit) op" where
  "remove_from_linkHash E remote p s =
     (case (heap s remote, heap s p) of
        (Some (RemoteIdentity r), Some obj) \<Rightarrow>
          if \<not> table_safe (heap s) (ri_linkHash r) then Fault Dangling_pointer
          else
            Ret (Inr (), s\<lparr>heap := (heap s)(remote \<mapsto> RemoteIdentity
              (r\<lparr>ri_linkHash := hh_remove E (has_handle (heap s) (obj_handle obj)) (ri_linkHash r)\<rparr>))\<rparr>)
      | _ \<Rightarrow> Fault Dangling_pointer)"

section \<open>Constructors and destructors\<close>

definition free_checked :: "SecurityObjectKind_t \<Rightarrow> addr \<Rightarrow> (auth, unit) op" where
  \<comment> \<open>\<open>CHECK_OBJECT_KIND\<close>, then \<open>security_object_deinit\<close> and \<open>ddsrt_free\<close>\<close>
  "free_checked kind p s =
     (if heap s p = None then Fault Dangling_pointer
      else if \<not> security_object_valid (heap s) p kind then Fault Assertion_failed
      else Ret (Inr (), s\<lparr>heap := (heap s)(p := None)\<rparr>))"

definition local_identity_info_free :: "addr \<Rightarrow> (auth, unit) op" where
  "local_identity_info_free = free_checked SECURITY_OBJECT_KIND_LOCAL_IDENTITY"

definition remote_identity_info_free :: "addr \<Rightarrow> (auth, unit) op" where
  "remote_identity_info_free = free_checked SECURITY_OBJECT_KIND_REMOTE_IDENTITY"

definition identity_relation_free :: "addr \<Rightarrow> (auth, unit) op" where
  "identity_relation_free = free_checked SECURITY_OBJECT_KIND_IDENTITY_RELATION"

definition handshake_info_free :: "addr \<Rightarrow> (auth, unit) op" where
  "handshake_info_free = free_checked SECURITY_OBJECT_KIND_HANDSHAKE"

text \<open>\<open>security_object_free\<close> calls the destructor the constructor stored.\<close>

definition security_object_free :: "addr \<Rightarrow> (auth, unit) op" where
  "security_object_free p =
     bind_op (load_op p)
       (\<lambda>obj. case obj of
          LocalIdentity _ \<Rightarrow> local_identity_info_free p
        | RemoteIdentity _ \<Rightarrow> remote_identity_info_free p
        | Relation _ \<Rightarrow> identity_relation_free p
        | Handshake _ \<Rightarrow> handshake_info_free p)"

definition local_identity_info_new ::
  "('q, 'a) cyclone_scheme \<Rightarrow> int \<Rightarrow> x509 \<Rightarrow> x509 \<Rightarrow> evp_pkey \<Rightarrow> x509_crl option \<Rightarrow> guid \<Rightarrow> guid \<Rightarrow>
   (auth, addr) op" where
  "local_identity_info_new E domainId identityCert identityCa privateKey crl candidate adjusted =
     malloc_op E
       (\<lambda>p. LocalIdentity
          \<lparr>so_handle = p, so_kind = SECURITY_OBJECT_KIND_LOCAL_IDENTITY,
           li_domainId = domainId, li_candidateGUID = candidate, li_adjustedGUID = adjusted,
           li_identityCert = identityCert, li_identityCA = identityCa,
           li_privateKey = privateKey, li_crl = crl,
           li_pdata = \<lparr>oct_length = 0, oct_buffer = None\<rparr>,
           li_dsignAlgoKind = get_authentication_algo_kind E (Some identityCert),
           li_kagreeAlgoKind = get_default_kem_algorithm_kind (SELECTED_KEM_ALGORITHM E),
           li_permissionsDocument = None, li_timer = 0\<rparr>)"

definition remote_identity_info_new ::
  "('q, 'a) cyclone_scheme \<Rightarrow> guid \<Rightarrow> data_holder \<Rightarrow> (auth, addr) op" where
  "remote_identity_info_new E g token =
     malloc_op E
       (\<lambda>p. RemoteIdentity
          \<lparr>so_handle = p, so_kind = SECURITY_OBJECT_KIND_REMOTE_IDENTITY,
           ri_guid = g, ri_identityCert = None, ri_dsignAlgoKind = AUTH_ALGO_KIND_UNKNOWN,
           ri_kagreeAlgoKind = AUTH_ALGO_KIND_UNKNOWN, ri_remoteIdentityToken = token,
           ri_pdata = \<lparr>oct_length = 0, oct_buffer = None\<rparr>,
           ri_permissionsDocument = Some '''', ri_linkHash = [], ri_timer = 0\<rparr>)"

definition identity_relation_new ::
  "('q, 'a) cyclone_scheme \<Rightarrow> addr \<Rightarrow> addr \<Rightarrow> bytes option \<Rightarrow> bytes option \<Rightarrow> (auth, addr) op" where
  "identity_relation_new E localIdentity remoteIdentity lchallenge rchallenge =
     bind_op (load_op localIdentity)
       (\<lambda>l. malloc_op E
          (\<lambda>p. Relation
             \<lparr>so_handle = obj_handle l, so_kind = SECURITY_OBJECT_KIND_IDENTITY_RELATION,
              ir_localIdentity = localIdentity, ir_remoteIdentity = remoteIdentity,
              ir_lchallenge = lchallenge, ir_rchallenge = rchallenge\<rparr>))"

definition handshake_info_new ::
  "('q, 'a) cyclone_scheme \<Rightarrow> addr \<Rightarrow> CreatedHandshakeStep_t \<Rightarrow> (auth, addr) op" where
  "handshake_info_new E relation created_in =
     malloc_op E
       (\<lambda>p. Handshake
          \<lparr>so_handle = p, so_kind = SECURITY_OBJECT_KIND_HANDSHAKE,
           hs_relation = relation, hs_hash_c1 = replicate SHA256_DIGEST_LENGTH 0,
           hs_hash_c2 = replicate SHA256_DIGEST_LENGTH 0, hs_kem_keypair = None,
           hs_kem = kem_buffers_empty, hs_secret = None, hs_created_in = created_in\<rparr>)"

section \<open>Relations, handshakes, timers\<close>

definition find_identity_relation ::
  "('q, 'a) cyclone_scheme \<Rightarrow> addr \<Rightarrow> addr \<Rightarrow> (auth, addr option) op" where
  "find_identity_relation E remote lid =
     bind_op (load_op remote)
       (\<lambda>obj. case obj of
          RemoteIdentity r \<Rightarrow> security_object_find E (ri_linkHash r) lid
        | _ \<Rightarrow> fault_op Dangling_pointer)"

definition remove_identity_relation ::
  "('q, 'a) cyclone_scheme \<Rightarrow> addr \<Rightarrow> addr \<Rightarrow> (auth, unit) op" where
  "remove_identity_relation E remote relation =
     bind_op (remove_from_linkHash E remote relation) (\<lambda>_. security_object_free relation)"

text \<open>The handshake between two identities: the loop over the object table.\<close>

fun find_handshake_in :: "obj_heap \<Rightarrow> addr \<Rightarrow> addr \<Rightarrow> addr list \<Rightarrow> addr option outcome" where
  "find_handshake_in h localId remoteId [] = Ret None"
| "find_handshake_in h localId remoteId (p # ps) =
     (case h p of
        None \<Rightarrow> Fault Dangling_pointer
      | Some (Handshake hs) \<Rightarrow>
          if hs_relation hs = 0 then Fault Assertion_failed
          else
            (case h (hs_relation hs) of
               Some (Relation r) \<Rightarrow>
                 (case (h (ir_localIdentity r), h (ir_remoteIdentity r)) of
                    (Some l, Some m) \<Rightarrow>
                      if obj_handle l = localId \<and> obj_handle m = remoteId then Ret (Some p)
                      else find_handshake_in h localId remoteId ps
                  | _ \<Rightarrow> Fault Dangling_pointer)
             | _ \<Rightarrow> Fault Dangling_pointer)
      | Some _ \<Rightarrow> find_handshake_in h localId remoteId ps)"

definition find_handshake ::
  "('q, 'a) cyclone_scheme \<Rightarrow> addr \<Rightarrow> addr \<Rightarrow> (auth, addr option) op" where
  "find_handshake E localId remoteId s =
     (case find_handshake_in (heap s) localId remoteId (hh_iter E (objectHash s)) of
        Fault f \<Rightarrow> Fault f | Ret r \<Rightarrow> Ret (Inr r, s))"

definition add_validity_end_trigger ::
  "('q, 'a) cyclone_scheme \<Rightarrow> addr \<Rightarrow> 64 word \<Rightarrow> (auth, nat) op" where
  "add_validity_end_trigger E identity_handle end_time s =
     (let timer = timed_dispatcher_add E (clock s) in
      Ret (Inr timer, s\<lparr>dispatcher := (timer, identity_handle, end_time) # dispatcher s,
                        clock := Suc (clock s)\<rparr>))"

definition timed_dispatcher_remove :: "nat \<Rightarrow> (auth, unit) op" where
  "timed_dispatcher_remove timer =
     modify_op (\<lambda>s. s\<lparr>dispatcher := filter (\<lambda>(t, _). t \<noteq> timer) (dispatcher s)\<rparr>)"

definition get_identity_info ::
  "('q, 'a) cyclone_scheme \<Rightarrow> addr \<Rightarrow> (auth, addr option) op" where
  "get_identity_info E hdl =
     bind_op get_op (\<lambda>s. bind_op (security_object_find E (objectHash s) hdl)
       (\<lambda>p. case p of
          None \<Rightarrow> ret_op None
        | Some p \<Rightarrow> bind_op (load_op p)
            (\<lambda>obj. if obj_kind obj \<noteq> SECURITY_OBJECT_KIND_LOCAL_IDENTITY \<and>
                      obj_kind obj \<noteq> SECURITY_OBJECT_KIND_REMOTE_IDENTITY
                   then ret_op None else ret_op (Some p))))"

datatype timed_cb_kind = TIMED_CB_KIND_TIMEOUT | TIMED_CB_KIND_DELETE

definition clear_timer :: "sec_obj \<Rightarrow> sec_obj" where
  "clear_timer obj =
     (case obj of
        LocalIdentity l \<Rightarrow> LocalIdentity (l\<lparr>li_timer := 0\<rparr>)
      | RemoteIdentity r \<Rightarrow> RemoteIdentity (r\<lparr>ri_timer := 0\<rparr>)
      | _ \<Rightarrow> obj)"

text \<open>
  \<open>validity_callback\<close>: the value is the identity handle reported to the listener's
  \<open>on_revoke_identity\<close>, if any; \<open>has_cb\<close> says that the listener has that callback.
\<close>

definition validity_callback ::
  "('q, 'a) cyclone_scheme \<Rightarrow> bool \<Rightarrow> timed_cb_kind \<Rightarrow> addr \<Rightarrow> (auth, addr option) op" where
  "validity_callback E has_cb kind hdl =
     (if kind \<noteq> TIMED_CB_KIND_TIMEOUT then ret_op None
      else
        bind_op get_op (\<lambda>s.
        bind_op (assert_op (listener s \<noteq> None)) (\<lambda>_.
        bind_op (get_identity_info E hdl) (\<lambda>p.
          case p of
            None \<Rightarrow> ret_op None
          | Some p \<Rightarrow>
              bind_op (load_op p) (\<lambda>obj.
              bind_op (store_op p (clear_timer obj)) (\<lambda>_.
                ret_op (if has_cb then Some hdl else None)))))))"

end
