(* ===== verification/Identities.thy ===== *)
theory Identities
  imports Objects
begin

text \<open>
  The identity operations of the plugin interface (\<open>authentication.c\<close>): validating the local
  participant's identity, its identity token and permissions, and registering a remote
  identity.  Each operation is one atomic step (the code holds \<open>lock\<close> around it) from the
  state of the instance; \<open>nonnull\<close> says that the pointers the function requires are not NULL.
\<close>

section \<open>The local identity\<close>

definition require_property ::
  "('q, 'a) cyclone_scheme \<Rightarrow> 'q \<Rightarrow> security_property \<Rightarrow> string vres" where
  "require_property E qos name =
     (case Property_get_value E qos name of
        None \<Rightarrow> failed ''validate_local_identity: missing property %s''
      | Some v \<Rightarrow> Inr v)"

text \<open>\<open>s && strlen(s) > 0\<close>\<close>

definition nonempty :: "string option \<Rightarrow> bool" where
  "nonempty s \<longleftrightarrow> (case s of None \<Rightarrow> False | Some v \<Rightarrow> v \<noteq> [])"

text \<open>The check that the identity CA is in the trusted list, by SHA-1 digest.\<close>

definition check_identity_ca_trusted ::
  "('q, 'a) cyclone_scheme \<Rightarrow> X509Seq \<Rightarrow> string option \<Rightarrow> x509 \<Rightarrow> unit vres" where
  "check_identity_ca_trusted E trusted crlPEM identityCA =
     (if xs_length trusted > 0 then
        (if nonempty crlPEM then failed ''Cannot specify both CRL and trusted_ca_list''
         else
           (case X509_digest_sha1 E identityCA of
              (ok, hash_buffer) \<Rightarrow>
                if ok \<and>
                   list_ex (\<lambda>ca. fst (X509_digest_sha1 E ca) \<and>
                                 memcmp (snd (X509_digest_sha1 E ca)) hash_buffer 20 = 0)
                     (take (xs_length trusted)
                       (case xs_buffer trusted of None \<Rightarrow> [] | Some b \<Rightarrow> b))
                then Inr ()
                else failed_code ERR_CA_NOT_TRUSTED_CODE ''CA_NOT_TRUSTED''))
      else Inr ())"

record credentials =
  cr_cert :: x509
  cr_ca :: x509
  cr_key :: evp_pkey
  cr_crl :: "x509_crl option"
  cr_expiry :: "64 word"
  cr_guid :: guid

text \<open>Loading and checking the certificates, the private key and the revocation list.\<close>

definition load_local_credentials ::
  "('q, 'a) cyclone_scheme \<Rightarrow> nat \<Rightarrow> X509Seq \<Rightarrow> string \<Rightarrow> string \<Rightarrow> string \<Rightarrow> string option \<Rightarrow>
   string option \<Rightarrow> guid \<Rightarrow> credentials vres" where
  "load_local_credentials E t trusted certPEM caPEM keyPEM password crlPEM candidate =
     bind_vres (load_X509_certificate E t caPEM) (\<lambda>identityCA.
     bind_vres (check_identity_ca_trusted E trusted crlPEM identityCA) (\<lambda>_.
     bind_vres (load_X509_certificate E (t + 1) certPEM) (\<lambda>identityCert.
     bind_vres (load_X509_private_key E (t + 2) keyPEM password) (\<lambda>privateKey.
     bind_vres (check_vres (X509_check_private_key E identityCert privateKey = 1)
       ''Private key does not match identity certificate: '') (\<lambda>_.
     bind_vres
       (if nonempty crlPEM
        then bind_vres (load_X509_CRL E (t + 3) (the crlPEM)) (\<lambda>crl. Inr (Some crl))
        else Inr None) (\<lambda>crl.
     bind_vres (verify_certificate E (t + 4) identityCert identityCA crl) (\<lambda>_.
     let certExpiry = get_certificate_expiry E (t + 4) identityCert in
     bind_vres (check_vres (certExpiry \<noteq> DDS_TIME_INVALID)
       ''Expiry date of the certificate is invalid'') (\<lambda>_.
     bind_vres (get_adjusted_participant_guid E identityCert candidate) (\<lambda>adjusted.
       Inr \<lparr>cr_cert = identityCert, cr_ca = identityCA, cr_key = privateKey, cr_crl = crl,
            cr_expiry = certExpiry, cr_guid = adjusted\<rparr>)))))))))"

definition set_timer :: "nat \<Rightarrow> sec_obj \<Rightarrow> sec_obj" where
  "set_timer timer obj =
     (case obj of
        LocalIdentity l \<Rightarrow> LocalIdentity (l\<lparr>li_timer := timer\<rparr>)
      | RemoteIdentity r \<Rightarrow> RemoteIdentity (r\<lparr>ri_timer := timer\<rparr>)
      | _ \<Rightarrow> obj)"

text \<open>Creating the identity object, its validity timer, and entering it into the table.\<close>

definition register_local_identity ::
  "('q, 'a) cyclone_scheme \<Rightarrow> int \<Rightarrow> guid \<Rightarrow> credentials \<Rightarrow> (auth, addr) op" where
  "register_local_identity E domain_id candidate cr =
     bind_op (local_identity_info_new E domain_id (cr_cert cr) (cr_ca cr) (cr_key cr) (cr_crl cr)
       candidate (cr_guid cr)) (\<lambda>p.
     bind_op
       (if cr_expiry cr \<noteq> DDS_NEVER
        then bind_op (add_validity_end_trigger E p (cr_expiry cr)) (\<lambda>timer.
             bind_op (load_op p) (\<lambda>obj. store_op p (set_timer timer obj)))
        else ret_op ()) (\<lambda>_.
     bind_op (add_to_objectHash E p) (\<lambda>_. ret_op p)))"

definition validate_local_identity ::
  "('q, 'a) cyclone_scheme \<Rightarrow> bool \<Rightarrow> int \<Rightarrow> 'q \<Rightarrow> guid \<Rightarrow> (auth, addr \<times> guid) op" where
  "validate_local_identity E nonnull domain_id qos candidate =
     bind_op (check_op nonnull ''validate_local_identity: Invalid parameter provided'') (\<lambda>_.
     bind_op (lift_op (require_property E qos DDS_SEC_PROP_AUTH_IDENTITY_CERT)) (\<lambda>certPEM.
     bind_op (lift_op (require_property E qos DDS_SEC_PROP_AUTH_IDENTITY_CA)) (\<lambda>caPEM.
     bind_op (lift_op (require_property E qos DDS_SEC_PROP_AUTH_PRIV_KEY)) (\<lambda>keyPEM.
     let password = Property_get_value E qos DDS_SEC_PROP_AUTH_PASSWORD;
         trusted_ca_dir = Property_get_value E qos DDS_SEC_PROP_ACCESS_TRUSTED_CA_DIR;
         crlPEM = Property_get_value E qos ORG_ECLIPSE_CYCLONEDDS_SEC_AUTH_CRL in
     bind_op tick_op (\<lambda>t.
     bind_op
       (if nonempty trusted_ca_dir
        then bind_op get_op (\<lambda>s.
             bind_op (lift_op (get_trusted_ca_list E t (the trusted_ca_dir) (trustedCAList s)))
               (\<lambda>cas. modify_op (\<lambda>s. s\<lparr>trustedCAList := cas\<rparr>)))
        else ret_op ()) (\<lambda>_.
     bind_op get_op (\<lambda>s.
     bind_op (lift_op (load_local_credentials E t (trustedCAList s) certPEM caPEM keyPEM password
       crlPEM candidate)) (\<lambda>cr.
     bind_op (register_local_identity E domain_id candidate cr) (\<lambda>p.
       ret_op (p, cr_guid cr))))))))))"

text \<open>\<open>security_object_find\<close> and \<open>security_object_valid\<close> for a handle of a given kind.\<close>

definition find_valid ::
  "('q, 'a) cyclone_scheme \<Rightarrow> SecurityObjectKind_t \<Rightarrow> addr \<Rightarrow> sec_exception \<Rightarrow> (auth, addr) op" where
  "find_valid E kind hdl e =
     bind_op get_op (\<lambda>s.
     bind_op (security_object_find E (objectHash s) hdl) (\<lambda>p.
       case p of
         None \<Rightarrow> lift_op (Inl (Some e))
       | Some p \<Rightarrow>
           if security_object_valid (heap s) p kind then ret_op p else lift_op (Inl (Some e))))"

definition load_local :: "addr \<Rightarrow> (auth, LocalIdentityInfo) op" where
  "load_local p = bind_op (load_op p)
     (\<lambda>obj. case obj of LocalIdentity l \<Rightarrow> ret_op l | _ \<Rightarrow> fault_op Dangling_pointer)"

definition load_remote :: "addr \<Rightarrow> (auth, RemoteIdentityInfo) op" where
  "load_remote p = bind_op (load_op p)
     (\<lambda>obj. case obj of RemoteIdentity r \<Rightarrow> ret_op r | _ \<Rightarrow> fault_op Dangling_pointer)"

definition load_relation :: "addr \<Rightarrow> (auth, IdentityRelation) op" where
  "load_relation p = bind_op (load_op p)
     (\<lambda>obj. case obj of Relation r \<Rightarrow> ret_op r | _ \<Rightarrow> fault_op Dangling_pointer)"

definition load_handshake :: "addr \<Rightarrow> (auth, HandshakeInfo) op" where
  "load_handshake p = bind_op (load_op p)
     (\<lambda>obj. case obj of Handshake hs \<Rightarrow> ret_op hs | _ \<Rightarrow> fault_op Dangling_pointer)"

definition token_prop :: "string \<Rightarrow> string \<Rightarrow> token_property" where
  "token_prop n v = \<lparr>tp_name = Some n, tp_value = Some v, tp_propagate = False\<rparr>"

definition get_identity_token ::
  "('q, 'a) cyclone_scheme \<Rightarrow> bool \<Rightarrow> addr \<Rightarrow> (auth, data_holder) op" where
  "get_identity_token E nonnull hdl =
     bind_op (check_op nonnull ''get_identity_token: Invalid parameter provided'') (\<lambda>_.
     bind_op (find_valid E SECURITY_OBJECT_KIND_LOCAL_IDENTITY hdl
       (Exn ERR_UNDEFINED_CODE ''get_identity_token: Invalid handle provided'')) (\<lambda>p.
     bind_op (load_local p) (\<lambda>identity.
     bind_op (lift_op (get_certificate_subject_name E (li_identityCert identity))) (\<lambda>snCert.
     bind_op (lift_op (get_certificate_subject_name E (li_identityCA identity))) (\<lambda>snCA.
       ret_op \<lparr>class_id = Some DDS_AUTHTOKEN_CLASS_ID,
         dh_properties =
           [token_prop DDS_AUTHTOKEN_PROP_CERT_SN snCert,
            token_prop DDS_AUTHTOKEN_PROP_CERT_ALGO (get_authentication_algo
              (get_authentication_algo_kind E (Some (li_identityCert identity)))),
            token_prop DDS_AUTHTOKEN_PROP_CA_SN snCA,
            token_prop DDS_AUTHTOKEN_PROP_CA_ALGO (get_authentication_algo
              (get_authentication_algo_kind E (Some (li_identityCA identity))))],
         dh_binary_properties = []\<rparr>)))))"

definition get_identity_status_token :: "(auth, bool) op" where
  "get_identity_status_token = ret_op True"

definition set_permissions_credential_and_token ::
  "('q, 'a) cyclone_scheme \<Rightarrow> bool \<Rightarrow> addr \<Rightarrow> data_holder \<Rightarrow> (auth, unit) op" where
  "set_permissions_credential_and_token E nonnull hdl permissions_credential =
     bind_op (check_op (nonnull \<and> hdl \<noteq> DDS_SECURITY_HANDLE_NIL)
       ''set_permissions_credential_and_token: Invalid parameter provided'') (\<lambda>_.
     bind_op (check_op
       (class_id permissions_credential = Some DDS_ACTOKEN_PERMISSIONS_CREDENTIAL_CLASS_ID)
       ''set_permissions_credential_and_token: Invalid credential class_id'') (\<lambda>_.
     bind_op (check_op
       (case dh_properties permissions_credential of
          [] \<Rightarrow> False | p # _ \<Rightarrow> tp_name p = Some DDS_ACTOKEN_PROP_PERM_CERT)
       ''set_permissions_credential_and_token: Invalid credential properties'') (\<lambda>_.
     bind_op (find_valid E SECURITY_OBJECT_KIND_LOCAL_IDENTITY hdl
       (Exn ERR_UNDEFINED_CODE
         ''set_permissions_credential_and_token: Invalid handle provided'')) (\<lambda>p.
     bind_op (load_local p) (\<lambda>identity.
       store_op p (LocalIdentity (identity\<lparr>li_permissionsDocument :=
         (case tp_value (hd (dh_properties permissions_credential)) of
            None \<Rightarrow> Some '''' | Some v \<Rightarrow> Some v)\<rparr>)))))))"

section \<open>Remote identities\<close>

definition validate_remote_identity_token :: "data_holder \<Rightarrow> unit vres" where
  "validate_remote_identity_token token =
     (case class_id token of
        None \<Rightarrow> failed ''remote identity token: class_id is empty''
      | Some c \<Rightarrow>
          if c \<noteq> DDS_AUTHTOKEN_CLASS_ID
          then failed ''remote identity token: class_id=%s not supported''
          else Inr ())"

text \<open>
  \<open>validate_auth_request_token\<close>: the value is the challenge copied out of the token.  The
  property is found by \<open>strncmp\<close> over the length of its name, so a longer name also matches.
\<close>

definition validate_auth_request_token :: "data_holder \<Rightarrow> bytes vres" where
  "validate_auth_request_token token =
     (case class_id token of
        None \<Rightarrow> failed ''AuthRequestMessageToken invalid: missing class_id''
      | Some c \<Rightarrow>
          if c \<noteq> DDS_AUTHTOKEN_AUTHREQ_CLASS_ID
          then failed ''AuthRequestMessageToken invalid: class_id %s is invalid''
          else if dh_binary_properties token = []
          then failed ''AuthRequestMessageToken invalid: properties are missing''
          else
            (case find (\<lambda>p. case bp_name p of None \<Rightarrow> False
                     | Some n \<Rightarrow> strncmp_prefix n DDS_AUTHTOKEN_PROP_FUTURE_CHALLENGE)
                   (dh_binary_properties token) of
               None \<Rightarrow> failed ''AuthRequestMessageToken invalid: future_challenge not found''
             | Some p \<Rightarrow>
                 if oct_length (bp_value p) \<noteq> 32 \<or> oct_buffer (bp_value p) = None
                 then failed ''AuthRequestMessageToken invalid: future_challenge invalid size''
                 else Inr (take 32 (oct_data (bp_value p)))))"

definition fill_auth_request_token :: "bytes \<Rightarrow> data_holder" where
  "fill_auth_request_token challenge =
     \<lparr>class_id = Some DDS_AUTHTOKEN_AUTHREQ_CLASS_ID, dh_properties = [],
      dh_binary_properties =
        [\<lparr>bp_name = Some DDS_AUTHTOKEN_PROP_FUTURE_CHALLENGE,
          bp_value = octets_to_seq challenge, bp_propagate = True\<rparr>]\<rparr>"

text \<open>The template of a search by GUID: only its GUID is looked at.\<close>

definition guid_template :: "guid \<Rightarrow> RemoteIdentityInfo" where
  "guid_template g =
     \<lparr>so_handle = 0, so_kind = SECURITY_OBJECT_KIND_UNKNOWN, ri_guid = g, ri_identityCert = None,
      ri_dsignAlgoKind = AUTH_ALGO_KIND_UNKNOWN, ri_kagreeAlgoKind = AUTH_ALGO_KIND_UNKNOWN,
      ri_remoteIdentityToken = token_nil, ri_pdata = \<lparr>oct_length = 0, oct_buffer = None\<rparr>,
      ri_permissionsDocument = None, ri_linkHash = [], ri_timer = 0\<rparr>"

text \<open>A remote identity seen for the first time: the object and its relation to the local one.\<close>

definition new_remote_identity ::
  "('q, 'a) cyclone_scheme \<Rightarrow> addr \<Rightarrow> guid \<Rightarrow> data_holder \<Rightarrow> bytes \<Rightarrow> bytes option \<Rightarrow>
   (auth, addr \<times> addr) op" where
  "new_remote_identity E localIdent g token lchallenge rchallenge =
     bind_op (remote_identity_info_new E g token) (\<lambda>remoteIdent.
     bind_op (add_to_objectHash E remoteIdent) (\<lambda>_.
     bind_op (add_to_remoteGuidHash E remoteIdent) (\<lambda>_.
     bind_op (identity_relation_new E localIdent remoteIdent (Some lchallenge) rchallenge)
       (\<lambda>relation.
     bind_op (add_to_linkHash E remoteIdent relation) (\<lambda>_.
       ret_op (remoteIdent, relation))))))"

text \<open>A remote identity known already: its token must be the same; the relation is reused.\<close>

definition known_remote_identity ::
  "('q, 'a) cyclone_scheme \<Rightarrow> addr \<Rightarrow> addr \<Rightarrow> data_holder \<Rightarrow> bytes \<Rightarrow> bytes option \<Rightarrow> bool \<Rightarrow>
   (auth, addr \<times> addr) op" where
  "known_remote_identity E localIdent remoteIdent token lchallenge rchallenge have_request =
     bind_op (load_remote remoteIdent) (\<lambda>r.
     bind_op (check_op (DataHolder_equal E (ri_remoteIdentityToken r) token)
       ''validate_remote_identity: remote_identity_token does not match with previously received one'')
       (\<lambda>_.
     bind_op (load_op localIdent) (\<lambda>l.
     bind_op (find_identity_relation E remoteIdent (obj_handle l)) (\<lambda>found.
       case found of
         None \<Rightarrow>
           bind_op (identity_relation_new E localIdent remoteIdent (Some lchallenge) rchallenge)
             (\<lambda>relation.
           bind_op (add_to_linkHash E remoteIdent relation) (\<lambda>added.
           bind_op (assert_op added) (\<lambda>_. ret_op (remoteIdent, relation))))
       | Some relation \<Rightarrow>
           bind_op (load_relation relation) (\<lambda>rel.
           bind_op
             (if have_request
              then bind_op (assert_op (rchallenge \<noteq> None)) (\<lambda>_.
                   store_op relation (Relation (rel\<lparr>ir_rchallenge := rchallenge\<rparr>)))
              else ret_op ()) (\<lambda>_.
             ret_op (remoteIdent, relation)))))))"

definition validate_remote_identity ::
  "('q, 'a) cyclone_scheme \<Rightarrow> bool \<Rightarrow> data_holder option \<Rightarrow> addr \<Rightarrow> data_holder \<Rightarrow> guid \<Rightarrow>
   (auth, handshake_role \<times> addr \<times> data_holder) op" where
  "validate_remote_identity E nonnull remote_auth_request_token local_identity_handle
     remote_identity_token remote_participant_guid =
     bind_op (check_op nonnull ''validate_remote_identity: Invalid parameter provided'') (\<lambda>_.
     bind_op (find_valid E SECURITY_OBJECT_KIND_LOCAL_IDENTITY local_identity_handle
       (Exn ERR_UNDEFINED_CODE ''validate_remote_identity: Invalid handle provided''))
       (\<lambda>localIdent.
     bind_op (lift_op (validate_remote_identity_token remote_identity_token)) (\<lambda>_.
     bind_op
       (case remote_auth_request_token of
          None \<Rightarrow> ret_op None
        | Some token \<Rightarrow>
            bind_op (lift_op (validate_auth_request_token token)) (\<lambda>c. ret_op (Some c)))
       (\<lambda>rchallenge.
     bind_op tick_op (\<lambda>t.
     bind_op (lift_op (generate_challenge E t)) (\<lambda>lchallenge.
     bind_op (find_remote_identity_by_guid E (guid_template remote_participant_guid)) (\<lambda>found.
     bind_op
       (case found of
          None \<Rightarrow> new_remote_identity E localIdent remote_participant_guid remote_identity_token
                    lchallenge rchallenge
        | Some remoteIdent \<Rightarrow>
            known_remote_identity E localIdent remoteIdent remote_identity_token lchallenge
              rchallenge (remote_auth_request_token \<noteq> None))
       (\<lambda>(remoteIdent, relation).
     bind_op (load_relation relation) (\<lambda>rel.
     bind_op
       (case remote_auth_request_token of
          Some _ \<Rightarrow> ret_op token_nil
        | None \<Rightarrow>
            (case ir_lchallenge rel of
               None \<Rightarrow> fault_op Null_dereference
             | Some c \<Rightarrow> ret_op (fill_auth_request_token c)))
       (\<lambda>local_auth_request_token.
     bind_op (load_local localIdent) (\<lambda>l.
     bind_op (load_remote remoteIdent) (\<lambda>r.
       ret_op (handshake_role_of (li_adjustedGUID l) (ri_guid r), so_handle r,
               local_auth_request_token)))))))))))))"

end
