(* ===== verification/HandshakeToken.thy ===== *)
theory HandshakeToken
  imports Identities
begin

text \<open>
  Validation of a handshake message (\<open>validate_handshake_token_impl\<close> in \<open>authentication.c\<close>), in
  the stages the function goes through: class id, the peer's credentials, the key exchange
  material, the challenges, the hashes, and the signature over the transcript.

  The function works on four objects that are reached from the handshake through pointers: the
  handshake, its relation, and the two identities.  Here they are the fields of \<open>hs_ctx\<close>; the
  operations of the plugin load them from the heap and store them back.
\<close>

record hs_ctx =
  cx_handshake :: HandshakeInfo
  cx_relation :: IdentityRelation
  cx_local :: LocalIdentityInfo
  cx_remote :: RemoteIdentityInfo

datatype handshake_token_type = HS_TOKEN_REQ | HS_TOKEN_REPLY | HS_TOKEN_FINAL

fun token_class_id :: "handshake_token_type \<Rightarrow> string" where
  "token_class_id HS_TOKEN_REQ = DDS_AUTHTOKEN_REQ_CLASS_ID"
| "token_class_id HS_TOKEN_REPLY = DDS_AUTHTOKEN_REPLY_CLASS_ID"
| "token_class_id HS_TOKEN_FINAL = DDS_AUTHTOKEN_FINAL_CLASS_ID"

definition AUTHENTICATION_CHALLENGE_SIZE :: nat where "AUTHENTICATION_CHALLENGE_SIZE = 32"

section \<open>The peer's credentials\<close>

record peer_credentials =
  pc_pdata :: octseq
  pc_dsign :: AuthenticationAlgoKind_t
  pc_kagree :: AuthenticationAlgoKind_t

definition set_remote :: "(RemoteIdentityInfo \<Rightarrow> RemoteIdentityInfo) \<Rightarrow> (hs_ctx, unit) op" where
  "set_remote f = modify_op (\<lambda>c. c\<lparr>cx_remote := f (cx_remote c)\<rparr>)"

definition set_handshake :: "(HandshakeInfo \<Rightarrow> HandshakeInfo) \<Rightarrow> (hs_ctx, unit) op" where
  "set_handshake f = modify_op (\<lambda>c. c\<lparr>cx_handshake := f (cx_handshake c)\<rparr>)"

definition set_relation :: "(IdentityRelation \<Rightarrow> IdentityRelation) \<Rightarrow> (hs_ctx, unit) op" where
  "set_relation f = modify_op (\<lambda>c. c\<lparr>cx_relation := f (cx_relation c)\<rparr>)"

text \<open>The certificate, permissions and participant data of a REQUEST or REPLY.\<close>

definition validate_peer_identity ::
  "('q, 'a) cyclone_scheme \<Rightarrow> nat \<Rightarrow> X509Seq \<Rightarrow> data_holder \<Rightarrow>
   (hs_ctx, bin_property \<times> bin_property \<times> bin_property \<times> x509) op" where
  "validate_peer_identity E t trusted token =
     bind_op (lift_op (find_required_nonempty_binprop E token DDS_AUTHTOKEN_PROP_C_ID)) (\<lambda>c_id.
     bind_op get_op (\<lambda>c.
     bind_op (lift_op (load_X509_certificate_from_binprop E t c_id
       (li_identityCA (cx_local c)) (li_crl (cx_local c)) trusted)) (\<lambda>identityCert.
     bind_op (set_remote (\<lambda>r. r\<lparr>ri_identityCert := Some identityCert\<rparr>)) (\<lambda>_.
     bind_op (lift_op (find_required_binprop E token DDS_AUTHTOKEN_PROP_C_PERM)) (\<lambda>c_perm.
     bind_op
       (if oct_length (bp_value c_perm) > 0
        then set_remote (\<lambda>r. r\<lparr>ri_permissionsDocument := string_from_data (bp_value c_perm)\<rparr>)
        else ret_op ()) (\<lambda>_.
     bind_op (lift_op (find_required_binprop E token DDS_AUTHTOKEN_PROP_C_PDATA)) (\<lambda>c_pdata.
     bind_op (lift_op (validate_pdata E t (bp_value c_pdata) identityCert)) (\<lambda>_.
       ret_op (c_id, c_perm, c_pdata, identityCert)))))))))"

text \<open>The two algorithm names, against the certificate and the local configuration.\<close>

definition validate_peer_algorithms ::
  "('q, 'a) cyclone_scheme \<Rightarrow> data_holder \<Rightarrow> x509 \<Rightarrow>
   (hs_ctx, bin_property \<times> AuthenticationAlgoKind_t \<times> bin_property \<times> AuthenticationAlgoKind_t) op"
  where
  "validate_peer_algorithms E token identityCert =
     bind_op (lift_op (find_required_nonempty_binprop E token DDS_AUTHTOKEN_PROP_C_DSIGN_ALGO))
       (\<lambda>c_dsign_algo.
     let dsign = get_dsign_algo_from_octseq (Some (bp_value c_dsign_algo)) in
     bind_op (check_op (dsign \<noteq> AUTH_ALGO_KIND_UNKNOWN)
       ''process_handshake: HandshakeMessageToken property %s not supported'') (\<lambda>_.
     bind_op (check_op (dsign = get_authentication_algo_kind E (Some identityCert))
       ''process_handshake: HandshakeMessageToken property %s does not match the certificate public key'')
       (\<lambda>_.
     bind_op (lift_op (find_required_nonempty_binprop E token DDS_AUTHTOKEN_PROP_C_KAGREE_ALGO))
       (\<lambda>c_kagree_algo.
     let kagree = get_kagree_algo_from_octseq (Some (bp_value c_kagree_algo)) in
     bind_op (check_op (kagree \<noteq> AUTH_ALGO_KIND_UNKNOWN)
       ''process_handshake: HandshakeMessageToken property %s not supported'') (\<lambda>_.
     bind_op get_op (\<lambda>c.
     bind_op (check_op (kagree = li_kagreeAlgoKind (cx_local c))
       ''process_handshake: HandshakeMessageToken property %s does not match the locally configured KEM'')
       (\<lambda>_. ret_op (c_dsign_algo, dsign, c_kagree_algo, kagree))))))))"

definition validate_peer_credentials ::
  "('q, 'a) cyclone_scheme \<Rightarrow> nat \<Rightarrow> X509Seq \<Rightarrow> data_holder \<Rightarrow> handshake_token_type \<Rightarrow>
   (hs_ctx, peer_credentials option) op" where
  "validate_peer_credentials E t trusted token ty =
     (if ty = HS_TOKEN_FINAL then ret_op None
      else
        bind_op (validate_peer_identity E t trusted token)
          (\<lambda>(c_id, c_perm, c_pdata, identityCert).
        bind_op (validate_peer_algorithms E token identityCert)
          (\<lambda>(c_dsign_algo, dsign, c_kagree_algo, kagree).
        let hash = compute_hash_value E [c_id, c_perm, c_pdata, c_dsign_algo, c_kagree_algo] in
        bind_op
          (set_handshake (\<lambda>hs. if ty = HS_TOKEN_REQ then hs\<lparr>hs_hash_c1 := hash\<rparr>
                               else hs\<lparr>hs_hash_c2 := hash\<rparr>)) (\<lambda>_.
          ret_op (Some \<lparr>pc_pdata = bp_value c_pdata, pc_dsign = dsign, pc_kagree = kagree\<rparr>)))))"

section \<open>Key exchange material and challenges\<close>

text \<open>
  The kind the sizes are checked for: the one just negotiated, or, for a FINAL message, the
  one stored with the remote identity.
\<close>

definition validation_algo :: "peer_credentials option \<Rightarrow> RemoteIdentityInfo \<Rightarrow> AuthenticationAlgoKind_t"
  where
  "validation_algo pc remote =
     (case pc of None \<Rightarrow> ri_kagreeAlgoKind remote | Some c \<Rightarrow> pc_kagree c)"

definition validate_kem_public ::
  "('q, 'a) cyclone_scheme \<Rightarrow> data_holder \<Rightarrow> peer_credentials option \<Rightarrow> (hs_ctx, bin_property) op"
  where
  "validate_kem_public E token pc =
     bind_op (lift_op (find_required_nonempty_binprop E token DDS_AUTHTOKEN_PROP_KEM_PUBLIC))
       (\<lambda>dh1.
     bind_op get_op (\<lambda>c.
     bind_op (lift_op (validate_kem_public_key_in_token (Some dh1)
       (validation_algo pc (cx_remote c)))) (\<lambda>_. ret_op dh1)))"

record reply_properties =
  rp_challenge2 :: bin_property
  rp_ciphertext :: bin_property
  rp_signature :: bin_property

definition find_challenges ::
  "('q, 'a) cyclone_scheme \<Rightarrow> data_holder \<Rightarrow> handshake_token_type \<Rightarrow> peer_credentials option \<Rightarrow>
   (hs_ctx, bin_property \<times> reply_properties option) op" where
  "find_challenges E token ty pc =
     bind_op (lift_op (find_required_binprop_exactsize E token DDS_AUTHTOKEN_PROP_CHALLENGE1
       AUTHENTICATION_CHALLENGE_SIZE)) (\<lambda>challenge1.
     if ty = HS_TOKEN_REQ then ret_op (challenge1, None)
     else
       bind_op (lift_op (find_required_binprop_exactsize E token DDS_AUTHTOKEN_PROP_CHALLENGE2
         AUTHENTICATION_CHALLENGE_SIZE)) (\<lambda>challenge2.
       bind_op (lift_op (find_required_nonempty_binprop E token DDS_AUTHTOKEN_PROP_KEM_CIPHERTEXT))
         (\<lambda>kem_ciphertext.
       bind_op get_op (\<lambda>c.
       bind_op (lift_op (validate_kem_ciphertext_in_token (Some kem_ciphertext)
         (validation_algo pc (cx_remote c)))) (\<lambda>_.
       bind_op (lift_op (find_required_nonempty_binprop E token DDS_AUTHTOKEN_PROP_SIGNATURE))
         (\<lambda>signature.
         ret_op (challenge1, Some \<lparr>rp_challenge2 = challenge2, rp_ciphertext = kem_ciphertext,
                                  rp_signature = signature\<rparr>)))))))"

text \<open>
  The peer's challenge: the one stored must be repeated, a first one is stored.  The length of
  the property has been checked by then, its buffer has not: reading it may fault.
\<close>

definition validate_rchallenge ::
  "handshake_token_type \<Rightarrow> bin_property \<Rightarrow> (hs_ctx, unit) op" where
  "validate_rchallenge ty rc =
     bind_op get_op (\<lambda>c.
       case ir_rchallenge (cx_relation c) of
         Some stored \<Rightarrow>
           bind_op (read_buffer (bp_value rc) AUTHENTICATION_CHALLENGE_SIZE) (\<lambda>buffer.
             check_op (memcmp stored buffer AUTHENTICATION_CHALLENGE_SIZE = 0)
               ''process_handshake: HandshakeMessageToken property challenge%d does not match future_challenge'')
       | None \<Rightarrow>
           if ty \<noteq> HS_TOKEN_FINAL
           then bind_op (read_buffer (bp_value rc) AUTHENTICATION_CHALLENGE_SIZE) (\<lambda>buffer.
                  set_relation (\<lambda>r. r\<lparr>ir_rchallenge := Some (take AUTHENTICATION_CHALLENGE_SIZE buffer)\<rparr>))
           else ret_op ())"

text \<open>An optional hash property, when present, must be the stored hash.\<close>

definition validate_hash ::
  "('q, 'a) cyclone_scheme \<Rightarrow> data_holder \<Rightarrow> string \<Rightarrow> bytes \<Rightarrow> (hs_ctx, unit) op" where
  "validate_hash E token name stored =
     (case find_binary_property E token name of
        None \<Rightarrow> ret_op ()
      | Some p \<Rightarrow>
          bind_op (check_op (oct_length (bp_value p) = SHA256_DIGEST_LENGTH)
            ''process_handshake: HandshakeMessageToken property %s invalid'') (\<lambda>_.
          bind_op (read_buffer (bp_value p) SHA256_DIGEST_LENGTH) (\<lambda>buffer.
          check_op (memcmp buffer stored SHA256_DIGEST_LENGTH = 0)
            ''process_handshake: HandshakeMessageToken property %s invalid'')))"

definition validate_hashes_and_lchallenge ::
  "('q, 'a) cyclone_scheme \<Rightarrow> data_holder \<Rightarrow> handshake_token_type \<Rightarrow> bin_property \<Rightarrow>
   reply_properties option \<Rightarrow> (hs_ctx, unit) op" where
  "validate_hashes_and_lchallenge E token ty challenge1 rp =
     bind_op get_op (\<lambda>c.
     bind_op (validate_hash E token DDS_AUTHTOKEN_PROP_HASH_C1 (hs_hash_c1 (cx_handshake c))) (\<lambda>_.
       case rp of
         None \<Rightarrow> ret_op ()
       | Some p \<Rightarrow>
           bind_op (validate_hash E token DDS_AUTHTOKEN_PROP_HASH_C2 (hs_hash_c2 (cx_handshake c)))
             (\<lambda>_.
             case ir_lchallenge (cx_relation c) of
               None \<Rightarrow> lift_op (failed ''process_handshake: No future challenge exists for this token'')
             | Some lchallenge \<Rightarrow>
                 bind_op (read_buffer
                     (bp_value (if ty = HS_TOKEN_REPLY then challenge1 else rp_challenge2 p))
                     AUTHENTICATION_CHALLENGE_SIZE) (\<lambda>buffer.
                 check_op (memcmp lchallenge buffer AUTHENTICATION_CHALLENGE_SIZE = 0)
                   ''process_handshake: HandshakeMessageToken property challenge1 does not match future_challenge''))))"

definition update_remote :: "peer_credentials option \<Rightarrow> (hs_ctx, unit) op" where
  "update_remote pc =
     (case pc of
        None \<Rightarrow> ret_op ()
      | Some p \<Rightarrow>
          bind_op (assert_op (pc_dsign p \<noteq> AUTH_ALGO_KIND_UNKNOWN)) (\<lambda>_.
          bind_op (assert_op (pc_kagree p \<noteq> AUTH_ALGO_KIND_UNKNOWN)) (\<lambda>_.
            set_remote (\<lambda>r. r\<lparr>ri_dsignAlgoKind := pc_dsign p, ri_kagreeAlgoKind := pc_kagree p,
                             ri_pdata := pc_pdata p\<rparr>))))"

section \<open>The signature over the transcript\<close>

definition hash_val :: "string \<Rightarrow> bytes \<Rightarrow> bin_property" where
  "hash_val name hash =
     \<lparr>bp_name = Some name, bp_value = octets_to_seq hash, bp_propagate = False\<rparr>"

text \<open>The property lists that are signed, with and without the optional hashes.\<close>

definition reply_transcript ::
  "bool \<Rightarrow> bin_property \<Rightarrow> bin_property \<Rightarrow> bin_property \<Rightarrow> bin_property \<Rightarrow> bin_property \<Rightarrow>
   bin_property \<Rightarrow> bin_property list" where
  "reply_transcript optional hash_c2_val challenge2 ciphertext challenge1 kem_public hash_c1_val =
     (if optional
      then [hash_c2_val, challenge2, ciphertext, challenge1, kem_public, hash_c1_val]
      else [challenge2, ciphertext, challenge1, kem_public])"

definition final_transcript ::
  "bool \<Rightarrow> bin_property \<Rightarrow> bin_property \<Rightarrow> bin_property \<Rightarrow> bin_property \<Rightarrow> bin_property \<Rightarrow>
   bin_property \<Rightarrow> bin_property list" where
  "final_transcript optional hash_c1_val challenge1 kem_public challenge2 ciphertext hash_c2_val =
     (if optional
      then [hash_c1_val, challenge1, kem_public, challenge2, ciphertext, hash_c2_val]
      else [challenge1, kem_public, challenge2, ciphertext])"

definition validate_signature ::
  "('q, 'a) cyclone_scheme \<Rightarrow> nat \<Rightarrow> bool \<Rightarrow> data_holder \<Rightarrow> handshake_token_type \<Rightarrow> bin_property \<Rightarrow>
   bin_property \<Rightarrow> reply_properties \<Rightarrow> (hs_ctx, unit) op" where
  "validate_signature E t optional token ty dh1 challenge1 rp =
     bind_op get_op (\<lambda>c.
       case (case ri_identityCert (cx_remote c) of None \<Rightarrow> None
             | Some cert \<Rightarrow> X509_get_pubkey E cert) of
         None \<Rightarrow> lift_op (failed ''X509_get_pubkey failed'')
       | Some public_key \<Rightarrow>
           bind_op (check_op (EVP_PKEY_can_sign E public_key)
             ''Certificate contains non-signing key - need ML-DSA certificate for signatures'') (\<lambda>_.
           let hash_c1_val = hash_val DDS_AUTHTOKEN_PROP_HASH_C1 (hs_hash_c1 (cx_handshake c));
               hash_c2_val = hash_val DDS_AUTHTOKEN_PROP_HASH_C2 (hs_hash_c2 (cx_handshake c)) in
           bind_op
             (if ty = HS_TOKEN_REPLY then
                (case find_binary_property E token DDS_AUTHTOKEN_PROP_KEM_PUBLIC of
                   None \<Rightarrow> lift_op (failed ''KEM public key not found in REPLY token'')
                 | Some kem_public \<Rightarrow>
                     ret_op (reply_transcript optional hash_c2_val (rp_challenge2 rp)
                       (rp_ciphertext rp) challenge1 kem_public hash_c1_val))
              else
                ret_op (final_transcript optional hash_c1_val challenge1 dh1 (rp_challenge2 rp)
                  (rp_ciphertext rp) hash_c2_val)) (\<lambda>transcript.
           check_op
             (validate_pq_signature E t (Some public_key) transcript
                (oct_buffer (bp_value (rp_signature rp))) = Inr ())
             ''PQ signature validation failed'')))"

section \<open>The whole validation\<close>

definition validate_handshake_token_impl ::
  "('q, 'a) cyclone_scheme \<Rightarrow> nat \<Rightarrow> bool \<Rightarrow> X509Seq \<Rightarrow> data_holder \<Rightarrow> handshake_token_type \<Rightarrow>
   (hs_ctx, unit) op" where
  "validate_handshake_token_impl E t optional trusted token ty =
     bind_op (check_op (class_id token = Some (token_class_id ty))
       ''process_handshake: HandshakeMessageToken incorrect class_id: %s (expected %s)'') (\<lambda>_.
     bind_op (validate_peer_credentials E t trusted token ty) (\<lambda>pc.
     bind_op (validate_kem_public E token pc) (\<lambda>dh1.
     bind_op (find_challenges E token ty pc) (\<lambda>(challenge1, rp).
     bind_op (validate_rchallenge ty
       (case (ty, rp) of (HS_TOKEN_REPLY, Some p) \<Rightarrow> rp_challenge2 p | _ \<Rightarrow> challenge1)) (\<lambda>_.
     bind_op (validate_hashes_and_lchallenge E token ty challenge1 rp) (\<lambda>_.
     bind_op (update_remote pc) (\<lambda>_.
       case rp of
         None \<Rightarrow> ret_op ()
       | Some p \<Rightarrow> validate_signature E t optional token ty dh1 challenge1 p)))))))"

definition validate_handshake_token ::
  "('q, 'a) cyclone_scheme \<Rightarrow> nat \<Rightarrow> bool \<Rightarrow> X509Seq \<Rightarrow> data_holder \<Rightarrow> handshake_token_type \<Rightarrow>
   (hs_ctx, unit) op" where
  "validate_handshake_token E t optional trusted token ty =
     on_fail (validate_handshake_token_impl E t optional trusted token ty)
       (if ty = HS_TOKEN_FINAL then ret_op ()
        else set_remote (\<lambda>r. r\<lparr>ri_identityCert := None\<rparr>))"

section \<open>What a successful stage did\<close>

lemma set_ok [op_ok]:
  "set_remote f c = Ret (Inr u, c') \<longleftrightarrow> c' = c\<lparr>cx_remote := f (cx_remote c)\<rparr>"
  "set_handshake g c = Ret (Inr u, c') \<longleftrightarrow> c' = c\<lparr>cx_handshake := g (cx_handshake c)\<rparr>"
  "set_relation h c = Ret (Inr u, c') \<longleftrightarrow> c' = c\<lparr>cx_relation := h (cx_relation c)\<rparr>"
  by (auto simp: set_remote_def set_handshake_def set_relation_def)

lemma check_op_ok [op_ok]: "check_op b m c = Ret (Inr u, c') \<longleftrightarrow> b \<and> c' = c"
  by (auto simp: check_vres_def)

definition with_identity :: "x509 \<Rightarrow> bin_property \<Rightarrow> RemoteIdentityInfo \<Rightarrow> RemoteIdentityInfo" where
  "with_identity cert c_perm r =
     r\<lparr>ri_identityCert := Some cert,
       ri_permissionsDocument := (if oct_length (bp_value c_perm) > 0
         then string_from_data (bp_value c_perm) else ri_permissionsDocument r)\<rparr>"

lemma validate_peer_identity_ok:
  assumes "validate_peer_identity E t trusted token c = Ret (Inr (c_id, c_perm, c_pdata, cert), c')"
  shows "find_binary_property E token DDS_AUTHTOKEN_PROP_C_ID = Some c_id"
    and "load_X509_certificate_from_binprop E t c_id (li_identityCA (cx_local c))
           (li_crl (cx_local c)) trusted = Inr cert"
    and "find_binary_property E token DDS_AUTHTOKEN_PROP_C_PERM = Some c_perm"
    and "find_binary_property E token DDS_AUTHTOKEN_PROP_C_PDATA = Some c_pdata"
    and "validate_pdata E t (bp_value c_pdata) cert = Inr ()"
    and "c' = c\<lparr>cx_remote := with_identity cert c_perm (cx_remote c)\<rparr>"
  using assms unfolding validate_peer_identity_def with_identity_def
  by (auto simp: op_ok find_required_ok find_nonempty_ok split: if_split_asm)

lemma validate_peer_algorithms_ok:
  assumes "validate_peer_algorithms E token cert c = Ret (Inr (d, dsign, k, kagree), c')"
  shows "c' = c"
    and "find_binary_property E token DDS_AUTHTOKEN_PROP_C_DSIGN_ALGO = Some d"
    and "find_binary_property E token DDS_AUTHTOKEN_PROP_C_KAGREE_ALGO = Some k"
    and "dsign = get_dsign_algo_from_octseq (Some (bp_value d))"
    and "dsign = get_authentication_algo_kind E (Some cert)"
    and "kagree = get_kagree_algo_from_octseq (Some (bp_value k))"
    and "kagree = li_kagreeAlgoKind (cx_local c)"
    and "dsign \<noteq> AUTH_ALGO_KIND_UNKNOWN" and "kagree \<noteq> AUTH_ALGO_KIND_UNKNOWN"
  using assms unfolding validate_peer_algorithms_def Let_def
  by (auto simp: op_ok find_nonempty_ok)

text \<open>What a REQUEST or REPLY says of its sender, once accepted.\<close>

record sender_claims =
  sc_id :: bin_property
  sc_perm :: bin_property
  sc_pdata :: bin_property
  sc_dsign_algo :: bin_property
  sc_kagree_algo :: bin_property
  sc_cert :: x509

definition claims_list :: "sender_claims \<Rightarrow> bin_property list" where
  "claims_list k = [sc_id k, sc_perm k, sc_pdata k, sc_dsign_algo k, sc_kagree_algo k]"

definition claims_in_token ::
  "('q, 'a) cyclone_scheme \<Rightarrow> data_holder \<Rightarrow> sender_claims \<Rightarrow> bool" where
  "claims_in_token E token k \<longleftrightarrow>
     find_binary_property E token DDS_AUTHTOKEN_PROP_C_ID = Some (sc_id k) \<and>
     find_binary_property E token DDS_AUTHTOKEN_PROP_C_PERM = Some (sc_perm k) \<and>
     find_binary_property E token DDS_AUTHTOKEN_PROP_C_PDATA = Some (sc_pdata k) \<and>
     find_binary_property E token DDS_AUTHTOKEN_PROP_C_DSIGN_ALGO = Some (sc_dsign_algo k) \<and>
     find_binary_property E token DDS_AUTHTOKEN_PROP_C_KAGREE_ALGO = Some (sc_kagree_algo k)"

definition claims_accepted ::
  "('q, 'a) cyclone_scheme \<Rightarrow> nat \<Rightarrow> X509Seq \<Rightarrow> LocalIdentityInfo \<Rightarrow> sender_claims \<Rightarrow> bool" where
  "claims_accepted E t trusted loc k \<longleftrightarrow>
     PEM_read_bio_X509 E (oct_data (bp_value (sc_id k))) = Some (sc_cert k) \<and>
     trusted_by E (li_identityCA loc) (li_crl loc) trusted (sc_cert k) \<and>
     check_certificate_expiry E t (sc_cert k) = Inr () \<and>
     validate_pdata E t (bp_value (sc_pdata k)) (sc_cert k) = Inr () \<and>
     get_dsign_algo_from_octseq (Some (bp_value (sc_dsign_algo k))) =
       get_authentication_algo_kind E (Some (sc_cert k)) \<and>
     get_authentication_algo_kind E (Some (sc_cert k)) \<noteq> AUTH_ALGO_KIND_UNKNOWN \<and>
     get_kagree_algo_from_octseq (Some (bp_value (sc_kagree_algo k))) = li_kagreeAlgoKind loc \<and>
     li_kagreeAlgoKind loc \<noteq> AUTH_ALGO_KIND_UNKNOWN"

definition credentials_of ::
  "('q, 'a) cyclone_scheme \<Rightarrow> LocalIdentityInfo \<Rightarrow> sender_claims \<Rightarrow> peer_credentials" where
  "credentials_of E loc k =
     \<lparr>pc_pdata = bp_value (sc_pdata k),
      pc_dsign = get_authentication_algo_kind E (Some (sc_cert k)),
      pc_kagree = li_kagreeAlgoKind loc\<rparr>"

definition with_hash :: "handshake_token_type \<Rightarrow> bytes \<Rightarrow> HandshakeInfo \<Rightarrow> HandshakeInfo" where
  "with_hash ty hash hs =
     (if ty = HS_TOKEN_REQ then hs\<lparr>hs_hash_c1 := hash\<rparr> else hs\<lparr>hs_hash_c2 := hash\<rparr>)"

lemma validate_peer_credentials_ok:
  assumes "validate_peer_credentials E t trusted token ty c = Ret (Inr pc, c')"
    and "ty \<noteq> HS_TOKEN_FINAL"
  obtains k where "claims_in_token E token k" "claims_accepted E t trusted (cx_local c) k"
    "pc = Some (credentials_of E (cx_local c) k)"
    "c' = c\<lparr>cx_remote := with_identity (sc_cert k) (sc_perm k) (cx_remote c),
            cx_handshake := with_hash ty (compute_hash_value E (claims_list k)) (cx_handshake c)\<rparr>"
proof -
  from assms obtain c_id c_perm c_pdata cert d dsign ka kagree c1 c2 where
    ident: "validate_peer_identity E t trusted token c = Ret (Inr (c_id, c_perm, c_pdata, cert), c1)"
    and algs: "validate_peer_algorithms E token cert c1 = Ret (Inr (d, dsign, ka, kagree), c2)"
    and pc: "pc = Some \<lparr>pc_pdata = bp_value c_pdata, pc_dsign = dsign, pc_kagree = kagree\<rparr>"
    and c': "c' = c2\<lparr>cx_handshake := with_hash ty
      (compute_hash_value E [c_id, c_perm, c_pdata, d, ka]) (cx_handshake c2)\<rparr>"
    unfolding validate_peer_credentials_def Let_def with_hash_def
    by (auto simp: op_ok split: prod.splits)
  note i = validate_peer_identity_ok [OF ident] and a = validate_peer_algorithms_ok [OF algs]
  note l = load_from_binprop_ok [OF i(2)]
  define k where "k = \<lparr>sc_id = c_id, sc_perm = c_perm, sc_pdata = c_pdata, sc_dsign_algo = d,
    sc_kagree_algo = ka, sc_cert = cert\<rparr>"
  have loc: "cx_local c1 = cx_local c" using i(6) by simp
  show thesis
  proof (rule that)
    show "claims_in_token E token k" using i a by (simp add: claims_in_token_def k_def)
    show "claims_accepted E t trusted (cx_local c) k"
      using i a l loc by (simp add: claims_accepted_def k_def)
    show "pc = Some (credentials_of E (cx_local c) k)"
      using pc a(5,7) loc by (simp add: credentials_of_def k_def)
    show "c' = c\<lparr>cx_remote := with_identity (sc_cert k) (sc_perm k) (cx_remote c),
            cx_handshake := with_hash ty (compute_hash_value E (claims_list k)) (cx_handshake c)\<rparr>"
      using c' a(1) i(6) by (simp add: k_def claims_list_def)
  qed
qed

lemma validate_kem_public_ok:
  "validate_kem_public E token pc c = Ret (Inr dh1, c') \<longleftrightarrow>
     c' = c \<and> find_required_nonempty_binprop E token DDS_AUTHTOKEN_PROP_KEM_PUBLIC = Inr dh1 \<and>
     validate_kem_public_key_in_token (Some dh1) (validation_algo pc (cx_remote c)) = Inr ()"
  unfolding validate_kem_public_def by (auto simp: op_ok)

lemma find_challenges_req_ok:
  "find_challenges E token HS_TOKEN_REQ pc c = Ret (Inr (ch1, rp), c') \<longleftrightarrow>
     c' = c \<and> rp = None \<and> find_required_binprop_exactsize E token DDS_AUTHTOKEN_PROP_CHALLENGE1
       AUTHENTICATION_CHALLENGE_SIZE = Inr ch1"
  unfolding find_challenges_def by (auto simp: op_ok)

lemma find_challenges_ok:
  assumes "ty \<noteq> HS_TOKEN_REQ"
  shows "find_challenges E token ty pc c = Ret (Inr (ch1, rp), c') \<longleftrightarrow>
     c' = c \<and>
     find_required_binprop_exactsize E token DDS_AUTHTOKEN_PROP_CHALLENGE1
       AUTHENTICATION_CHALLENGE_SIZE = Inr ch1 \<and>
     (\<exists>ch2 ct sig. rp = Some \<lparr>rp_challenge2 = ch2, rp_ciphertext = ct, rp_signature = sig\<rparr> \<and>
        find_required_binprop_exactsize E token DDS_AUTHTOKEN_PROP_CHALLENGE2
          AUTHENTICATION_CHALLENGE_SIZE = Inr ch2 \<and>
        find_required_nonempty_binprop E token DDS_AUTHTOKEN_PROP_KEM_CIPHERTEXT = Inr ct \<and>
        validate_kem_ciphertext_in_token (Some ct) (validation_algo pc (cx_remote c)) = Inr () \<and>
        find_required_nonempty_binprop E token DDS_AUTHTOKEN_PROP_SIGNATURE = Inr sig)"
  using assms unfolding find_challenges_def by (auto simp: op_ok)

text \<open>The property holds the 32 octets of the challenge, at a buffer that has them.\<close>

definition same_challenge :: "bytes \<Rightarrow> bin_property \<Rightarrow> bool" where
  "same_challenge challenge p \<longleftrightarrow>
     buffer_fault (bp_value p) AUTHENTICATION_CHALLENGE_SIZE = None \<and>
     memcmp challenge (oct_data (bp_value p)) AUTHENTICATION_CHALLENGE_SIZE = 0"

lemma validate_hash_ok [op_ok]:
  "validate_hash E token name stored c = Ret (Inr u, c') \<longleftrightarrow>
     c' = c \<and> (\<forall>p. find_binary_property E token name = Some p \<longrightarrow>
        oct_length (bp_value p) = SHA256_DIGEST_LENGTH \<and>
        buffer_fault (bp_value p) SHA256_DIGEST_LENGTH = None \<and>
        memcmp (oct_data (bp_value p)) stored SHA256_DIGEST_LENGTH = 0)"
  unfolding validate_hash_def by (auto simp: op_ok simp del: op_eval(7) split: option.splits)

lemma validate_rchallenge_ok:
  "validate_rchallenge ty rc c = Ret (Inr u, c') \<longleftrightarrow>
     (case ir_rchallenge (cx_relation c) of
        Some stored \<Rightarrow> same_challenge stored rc \<and> c' = c
      | None \<Rightarrow>
          if ty = HS_TOKEN_FINAL then c' = c
          else buffer_fault (bp_value rc) AUTHENTICATION_CHALLENGE_SIZE = None \<and>
            c' = c\<lparr>cx_relation := (cx_relation c)\<lparr>ir_rchallenge :=
              Some (take AUTHENTICATION_CHALLENGE_SIZE (oct_data (bp_value rc)))\<rparr>\<rparr>)"
  unfolding validate_rchallenge_def same_challenge_def
  by (auto simp: op_ok simp del: op_eval(7) split: option.splits)

definition hash_matches ::
  "('q, 'a) cyclone_scheme \<Rightarrow> data_holder \<Rightarrow> string \<Rightarrow> bytes \<Rightarrow> bool" where
  "hash_matches E token name stored \<longleftrightarrow>
     (\<forall>p. find_binary_property E token name = Some p \<longrightarrow>
        oct_length (bp_value p) = SHA256_DIGEST_LENGTH \<and>
        buffer_fault (bp_value p) SHA256_DIGEST_LENGTH = None \<and>
        memcmp (oct_data (bp_value p)) stored SHA256_DIGEST_LENGTH = 0)"

lemma validate_hashes_ok:
  "validate_hashes_and_lchallenge E token ty ch1 rp c = Ret (Inr u, c') \<longleftrightarrow>
     c' = c \<and>
     hash_matches E token DDS_AUTHTOKEN_PROP_HASH_C1 (hs_hash_c1 (cx_handshake c)) \<and>
     (\<forall>p. rp = Some p \<longrightarrow>
        hash_matches E token DDS_AUTHTOKEN_PROP_HASH_C2 (hs_hash_c2 (cx_handshake c)) \<and>
        (\<exists>l. ir_lchallenge (cx_relation c) = Some l \<and>
           same_challenge l (if ty = HS_TOKEN_REPLY then ch1 else rp_challenge2 p)))"
  unfolding validate_hashes_and_lchallenge_def hash_matches_def same_challenge_def
  by (cases rp; cases "ir_lchallenge (cx_relation c)")
    (auto simp: op_ok simp del: op_eval(7))

definition with_credentials :: "peer_credentials \<Rightarrow> RemoteIdentityInfo \<Rightarrow> RemoteIdentityInfo" where
  "with_credentials p r =
     r\<lparr>ri_dsignAlgoKind := pc_dsign p, ri_kagreeAlgoKind := pc_kagree p, ri_pdata := pc_pdata p\<rparr>"

lemma update_remote_ok:
  "update_remote (Some p) c = Ret (Inr u, c') \<longleftrightarrow>
     pc_dsign p \<noteq> AUTH_ALGO_KIND_UNKNOWN \<and> pc_kagree p \<noteq> AUTH_ALGO_KIND_UNKNOWN \<and>
     c' = c\<lparr>cx_remote := with_credentials p (cx_remote c)\<rparr>"
  "update_remote None c = Ret (Inr u, c') \<longleftrightarrow> c' = c"
  unfolding update_remote_def with_credentials_def
  by (auto simp: op_ok split: if_split_asm)

text \<open>The list of properties a REPLY's or FINAL's signature is checked over.\<close>

definition checked_transcript ::
  "('q, 'a) cyclone_scheme \<Rightarrow> bool \<Rightarrow> data_holder \<Rightarrow> handshake_token_type \<Rightarrow> bin_property \<Rightarrow>
   bin_property \<Rightarrow> reply_properties \<Rightarrow> HandshakeInfo \<Rightarrow> bin_property list" where
  "checked_transcript E optional token ty dh1 ch1 rp hs =
     (let h1 = hash_val DDS_AUTHTOKEN_PROP_HASH_C1 (hs_hash_c1 hs);
          h2 = hash_val DDS_AUTHTOKEN_PROP_HASH_C2 (hs_hash_c2 hs) in
      if ty = HS_TOKEN_REPLY
      then reply_transcript optional h2 (rp_challenge2 rp) (rp_ciphertext rp) ch1
             (the (find_binary_property E token DDS_AUTHTOKEN_PROP_KEM_PUBLIC)) h1
      else final_transcript optional h1 ch1 dh1 (rp_challenge2 rp) (rp_ciphertext rp) h2)"

lemma validate_signature_ok:
  "validate_signature E t optional token ty dh1 ch1 rp c = Ret (Inr u, c') \<longleftrightarrow>
     c' = c \<and>
     (\<exists>cert pub. ri_identityCert (cx_remote c) = Some cert \<and> X509_get_pubkey E cert = Some pub \<and>
        EVP_PKEY_can_sign E pub \<and>
        (ty = HS_TOKEN_REPLY \<longrightarrow>
           find_binary_property E token DDS_AUTHTOKEN_PROP_KEM_PUBLIC \<noteq> None) \<and>
        validate_pq_signature E t (Some pub)
          (checked_transcript E optional token ty dh1 ch1 rp (cx_handshake c))
          (oct_buffer (bp_value (rp_signature rp))) = Inr ())"
proof (cases "ri_identityCert (cx_remote c)")
  case None
  then show ?thesis by (simp add: validate_signature_def op_ok)
next
  case (Some cert)
  show ?thesis
  proof (cases "X509_get_pubkey E cert")
    case None
    then show ?thesis using Some by (simp add: validate_signature_def op_ok)
  next
    case pub: (Some pub)
    then show ?thesis
      using Some
      by (cases "find_binary_property E token DDS_AUTHTOKEN_PROP_KEM_PUBLIC")
        (auto simp: validate_signature_def checked_transcript_def Let_def op_ok
          simp del: op_eval(7))
  qed
qed

section \<open>Accepted messages\<close>

definition with_rchallenge :: "bin_property \<Rightarrow> IdentityRelation \<Rightarrow> IdentityRelation" where
  "with_rchallenge ch r =
     r\<lparr>ir_rchallenge :=
       (case ir_rchallenge r of Some stored \<Rightarrow> Some stored
        | None \<Rightarrow> Some (take AUTHENTICATION_CHALLENGE_SIZE (oct_data (bp_value ch))))\<rparr>"

definition rchallenge_agrees :: "bin_property \<Rightarrow> IdentityRelation \<Rightarrow> bool" where
  "rchallenge_agrees ch r \<longleftrightarrow>
     (case ir_rchallenge r of Some stored \<Rightarrow> same_challenge stored ch | None \<Rightarrow> True)"

lemma validate_token_impl_req_ok:
  assumes "validate_handshake_token_impl E t optional trusted token HS_TOKEN_REQ c = Ret (Inr u, c')"
  obtains k dh1 ch1 where
    "class_id token = Some DDS_AUTHTOKEN_REQ_CLASS_ID"
    "claims_in_token E token k" "claims_accepted E t trusted (cx_local c) k"
    "find_required_nonempty_binprop E token DDS_AUTHTOKEN_PROP_KEM_PUBLIC = Inr dh1"
    "validate_kem_public_key_in_token (Some dh1) (li_kagreeAlgoKind (cx_local c)) = Inr ()"
    "find_required_binprop_exactsize E token DDS_AUTHTOKEN_PROP_CHALLENGE1
       AUTHENTICATION_CHALLENGE_SIZE = Inr ch1"
    "rchallenge_agrees ch1 (cx_relation c)"
    "c' = c\<lparr>cx_remote := with_credentials (credentials_of E (cx_local c) k)
              (with_identity (sc_cert k) (sc_perm k) (cx_remote c)),
            cx_handshake := with_hash HS_TOKEN_REQ (compute_hash_value E (claims_list k))
              (cx_handshake c),
            cx_relation := with_rchallenge ch1 (cx_relation c)\<rparr>"
    "hash_matches E token DDS_AUTHTOKEN_PROP_HASH_C1 (compute_hash_value E (claims_list k))"
    "buffer_fault (bp_value ch1) AUTHENTICATION_CHALLENGE_SIZE = None"
proof -
  from assms obtain pc c1 dh1 c2 ch1 rp c3 c4 c5 c6 where
    cls: "class_id token = Some DDS_AUTHTOKEN_REQ_CLASS_ID"
    and cred: "validate_peer_credentials E t trusted token HS_TOKEN_REQ c = Ret (Inr pc, c1)"
    and pub: "validate_kem_public E token pc c1 = Ret (Inr dh1, c2)"
    and ch: "find_challenges E token HS_TOKEN_REQ pc c2 = Ret (Inr (ch1, rp), c3)"
    and rch: "validate_rchallenge HS_TOKEN_REQ ch1 c3 = Ret (Inr (), c4)"
    and hash: "validate_hashes_and_lchallenge E token HS_TOKEN_REQ ch1 rp c4 = Ret (Inr (), c5)"
    and upd: "update_remote pc c5 = Ret (Inr (), c6)"
    and fin: "(case rp of None \<Rightarrow> ret_op ()
       | Some p \<Rightarrow> validate_signature E t optional token HS_TOKEN_REQ dh1 ch1 p) c6 = Ret (Inr u, c')"
    unfolding validate_handshake_token_impl_def
    by (auto simp: op_ok simp del: op_eval(7) split: prod.splits)
  from cred obtain k where k: "claims_in_token E token k" "claims_accepted E t trusted (cx_local c) k"
    "pc = Some (credentials_of E (cx_local c) k)"
    and c1: "c1 = c\<lparr>cx_remote := with_identity (sc_cert k) (sc_perm k) (cx_remote c),
            cx_handshake := with_hash HS_TOKEN_REQ (compute_hash_value E (claims_list k)) (cx_handshake c)\<rparr>"
    by (rule validate_peer_credentials_ok) simp_all
  note p = pub [unfolded validate_kem_public_ok] and h = ch [unfolded find_challenges_req_ok]
  have rp: "rp = None" using h by simp
  have c6: "c6 = c'" using fin rp by simp
  show thesis
  proof (rule that)
    show "class_id token = Some DDS_AUTHTOKEN_REQ_CLASS_ID" by (rule cls)
    show "claims_in_token E token k" "claims_accepted E t trusted (cx_local c) k" by (rule k)+
    show "find_required_nonempty_binprop E token DDS_AUTHTOKEN_PROP_KEM_PUBLIC = Inr dh1"
      "find_required_binprop_exactsize E token DDS_AUTHTOKEN_PROP_CHALLENGE1
         AUTHENTICATION_CHALLENGE_SIZE = Inr ch1"
      using p h by simp_all
    show "validate_kem_public_key_in_token (Some dh1) (li_kagreeAlgoKind (cx_local c)) = Inr ()"
      using p k(3) by (simp add: validation_algo_def credentials_of_def)
    show "rchallenge_agrees ch1 (cx_relation c)"
      using rch p h c1
      by (auto simp: validate_rchallenge_ok rchallenge_agrees_def split: option.splits)
    show "buffer_fault (bp_value ch1) AUTHENTICATION_CHALLENGE_SIZE = None"
      using rch by (auto simp: validate_rchallenge_ok same_challenge_def split: option.splits)
    show "hash_matches E token DDS_AUTHTOKEN_PROP_HASH_C1 (compute_hash_value E (claims_list k))"
      using hash rch p h c1
      by (auto simp: validate_hashes_ok validate_rchallenge_ok with_hash_def split: option.splits)
    show "c' = c\<lparr>cx_remote := with_credentials (credentials_of E (cx_local c) k)
              (with_identity (sc_cert k) (sc_perm k) (cx_remote c)),
            cx_handshake := with_hash HS_TOKEN_REQ (compute_hash_value E (claims_list k))
              (cx_handshake c),
            cx_relation := with_rchallenge ch1 (cx_relation c)\<rparr>"
      using upd hash rch p h c1 c6 k(3)
      by (auto simp: update_remote_ok validate_hashes_ok validate_rchallenge_ok with_rchallenge_def
          split: option.splits)
  qed
qed

lemma validate_token_impl_reply_ok:
  assumes "validate_handshake_token_impl E t optional trusted token HS_TOKEN_REPLY c =
    Ret (Inr u, c')"
  obtains k dh1 ch1 and rp :: reply_properties and l pub where
    "class_id token = Some DDS_AUTHTOKEN_REPLY_CLASS_ID"
    "claims_in_token E token k" "claims_accepted E t trusted (cx_local c) k"
    "find_required_nonempty_binprop E token DDS_AUTHTOKEN_PROP_KEM_PUBLIC = Inr dh1"
    "validate_kem_public_key_in_token (Some dh1) (li_kagreeAlgoKind (cx_local c)) = Inr ()"
    "find_required_binprop_exactsize E token DDS_AUTHTOKEN_PROP_CHALLENGE1
       AUTHENTICATION_CHALLENGE_SIZE = Inr ch1"
    "find_required_binprop_exactsize E token DDS_AUTHTOKEN_PROP_CHALLENGE2
       AUTHENTICATION_CHALLENGE_SIZE = Inr (rp_challenge2 rp)"
    "find_required_nonempty_binprop E token DDS_AUTHTOKEN_PROP_KEM_CIPHERTEXT = Inr (rp_ciphertext rp)"
    "validate_kem_ciphertext_in_token (Some (rp_ciphertext rp)) (li_kagreeAlgoKind (cx_local c)) = Inr ()"
    "find_required_nonempty_binprop E token DDS_AUTHTOKEN_PROP_SIGNATURE = Inr (rp_signature rp)"
    "rchallenge_agrees (rp_challenge2 rp) (cx_relation c)"
    "ir_lchallenge (cx_relation c) = Some l" "same_challenge l ch1"
    "hash_matches E token DDS_AUTHTOKEN_PROP_HASH_C1 (hs_hash_c1 (cx_handshake c))"
    "hash_matches E token DDS_AUTHTOKEN_PROP_HASH_C2 (compute_hash_value E (claims_list k))"
    "X509_get_pubkey E (sc_cert k) = Some pub" "EVP_PKEY_can_sign E pub"
    "validate_pq_signature E t (Some pub)
       (reply_transcript optional
          (hash_val DDS_AUTHTOKEN_PROP_HASH_C2 (compute_hash_value E (claims_list k)))
          (rp_challenge2 rp) (rp_ciphertext rp) ch1 dh1
          (hash_val DDS_AUTHTOKEN_PROP_HASH_C1 (hs_hash_c1 (cx_handshake c))))
       (oct_buffer (bp_value (rp_signature rp))) = Inr ()"
    "c' = c\<lparr>cx_remote := with_credentials (credentials_of E (cx_local c) k)
              (with_identity (sc_cert k) (sc_perm k) (cx_remote c)),
            cx_handshake := with_hash HS_TOKEN_REPLY (compute_hash_value E (claims_list k))
              (cx_handshake c),
            cx_relation := with_rchallenge (rp_challenge2 rp) (cx_relation c)\<rparr>"
proof -
  from assms obtain pc c1 dh1 c2 ch1 rp0 c3 c4 c5 c6 where
    cls: "class_id token = Some DDS_AUTHTOKEN_REPLY_CLASS_ID"
    and cred: "validate_peer_credentials E t trusted token HS_TOKEN_REPLY c = Ret (Inr pc, c1)"
    and pub: "validate_kem_public E token pc c1 = Ret (Inr dh1, c2)"
    and ch: "find_challenges E token HS_TOKEN_REPLY pc c2 = Ret (Inr (ch1, rp0), c3)"
    and rch: "validate_rchallenge HS_TOKEN_REPLY
       (case rp0 of Some p \<Rightarrow> rp_challenge2 p | _ \<Rightarrow> ch1) c3 = Ret (Inr (), c4)"
    and hash: "validate_hashes_and_lchallenge E token HS_TOKEN_REPLY ch1 rp0 c4 = Ret (Inr (), c5)"
    and upd: "update_remote pc c5 = Ret (Inr (), c6)"
    and fin: "(case rp0 of None \<Rightarrow> ret_op ()
       | Some p \<Rightarrow> validate_signature E t optional token HS_TOKEN_REPLY dh1 ch1 p) c6 = Ret (Inr u, c')"
    unfolding validate_handshake_token_impl_def
    by (auto simp: op_ok simp del: op_eval(7) split: prod.splits)
  from cred obtain k where k: "claims_in_token E token k" "claims_accepted E t trusted (cx_local c) k"
    "pc = Some (credentials_of E (cx_local c) k)"
    and c1: "c1 = c\<lparr>cx_remote := with_identity (sc_cert k) (sc_perm k) (cx_remote c),
            cx_handshake := with_hash HS_TOKEN_REPLY (compute_hash_value E (claims_list k)) (cx_handshake c)\<rparr>"
    by (rule validate_peer_credentials_ok) simp_all
  note p = pub [unfolded validate_kem_public_ok]
    and h = ch [unfolded find_challenges_ok [of HS_TOKEN_REPLY, simplified]]
  obtain rp where rp: "rp0 = Some rp" using h by blast
  have algo: "validation_algo pc r = li_kagreeAlgoKind (cx_local c)" for r
    using k(3) by (simp add: validation_algo_def credentials_of_def)
  have c3: "c3 = c1" using p h by simp
  have c4: "c4 = c1\<lparr>cx_relation := with_rchallenge (rp_challenge2 rp) (cx_relation c)\<rparr>"
    and agrees: "rchallenge_agrees (rp_challenge2 rp) (cx_relation c)"
    using rch rp c3 c1
    by (auto simp: validate_rchallenge_ok with_rchallenge_def rchallenge_agrees_def
        split: option.splits)
  have lch: "ir_lchallenge (with_rchallenge x r) = ir_lchallenge r" for x r
    by (simp add: with_rchallenge_def)
  note hs = hash [unfolded validate_hashes_ok rp c4 c1]
  have c5: "c5 = c4" using hash by (simp add: validate_hashes_ok)
  have c6: "c6 = c5\<lparr>cx_remote := with_credentials (credentials_of E (cx_local c) k) (cx_remote c5)\<rparr>"
    using upd k(3) by (simp add: update_remote_ok)
  note sg = fin [unfolded rp option.case validate_signature_ok]
  obtain l where l: "ir_lchallenge (cx_relation c) = Some l" "same_challenge l ch1"
    using hs by (auto simp: lch)
  have reply_pub: "find_binary_property E token DDS_AUTHTOKEN_PROP_KEM_PUBLIC = Some dh1"
    using p by (simp add: find_nonempty_ok)
  have hs6: "cx_handshake c6 = with_hash HS_TOKEN_REPLY (compute_hash_value E (claims_list k)) (cx_handshake c)"
    using c6 c5 c4 c1 by simp
  have cert6: "ri_identityCert (cx_remote c6) = Some (sc_cert k)"
    using c6 c5 c4 c1 by (simp add: with_credentials_def with_identity_def)
  obtain pub where pubk: "X509_get_pubkey E (sc_cert k) = Some pub" "EVP_PKEY_can_sign E pub"
    and sig: "validate_pq_signature E t (Some pub)
          (checked_transcript E optional token HS_TOKEN_REPLY dh1 ch1 rp (cx_handshake c6))
          (oct_buffer (bp_value (rp_signature rp))) = Inr ()"
    and c': "c' = c6"
    using sg cert6 by auto
  show thesis
  proof (rule that [of k dh1 ch1 rp l pub])
    show "class_id token = Some DDS_AUTHTOKEN_REPLY_CLASS_ID" by (rule cls)
    show "claims_in_token E token k" "claims_accepted E t trusted (cx_local c) k" by (rule k)+
    show "find_required_nonempty_binprop E token DDS_AUTHTOKEN_PROP_KEM_PUBLIC = Inr dh1"
      "validate_kem_public_key_in_token (Some dh1) (li_kagreeAlgoKind (cx_local c)) = Inr ()"
      using p by (simp_all add: algo)
    show "find_required_binprop_exactsize E token DDS_AUTHTOKEN_PROP_CHALLENGE1
       AUTHENTICATION_CHALLENGE_SIZE = Inr ch1"
      "find_required_binprop_exactsize E token DDS_AUTHTOKEN_PROP_CHALLENGE2
       AUTHENTICATION_CHALLENGE_SIZE = Inr (rp_challenge2 rp)"
      "find_required_nonempty_binprop E token DDS_AUTHTOKEN_PROP_KEM_CIPHERTEXT = Inr (rp_ciphertext rp)"
      "validate_kem_ciphertext_in_token (Some (rp_ciphertext rp)) (li_kagreeAlgoKind (cx_local c)) = Inr ()"
      "find_required_nonempty_binprop E token DDS_AUTHTOKEN_PROP_SIGNATURE = Inr (rp_signature rp)"
      using h rp by (auto simp: algo)
    show "rchallenge_agrees (rp_challenge2 rp) (cx_relation c)" by (rule agrees)
    show "ir_lchallenge (cx_relation c) = Some l" "same_challenge l ch1" by (rule l)+
    show "hash_matches E token DDS_AUTHTOKEN_PROP_HASH_C1 (hs_hash_c1 (cx_handshake c))"
      "hash_matches E token DDS_AUTHTOKEN_PROP_HASH_C2 (compute_hash_value E (claims_list k))"
      using hs by (simp_all add: with_hash_def)
    show "X509_get_pubkey E (sc_cert k) = Some pub" "EVP_PKEY_can_sign E pub" by (rule pubk)+
    show "validate_pq_signature E t (Some pub)
       (reply_transcript optional
          (hash_val DDS_AUTHTOKEN_PROP_HASH_C2 (compute_hash_value E (claims_list k)))
          (rp_challenge2 rp) (rp_ciphertext rp) ch1 dh1
          (hash_val DDS_AUTHTOKEN_PROP_HASH_C1 (hs_hash_c1 (cx_handshake c))))
       (oct_buffer (bp_value (rp_signature rp))) = Inr ()"
      using sig by (simp add: checked_transcript_def Let_def hs6 with_hash_def reply_pub)
    show "c' = c\<lparr>cx_remote := with_credentials (credentials_of E (cx_local c) k)
              (with_identity (sc_cert k) (sc_perm k) (cx_remote c)),
            cx_handshake := with_hash HS_TOKEN_REPLY (compute_hash_value E (claims_list k))
              (cx_handshake c),
            cx_relation := with_rchallenge (rp_challenge2 rp) (cx_relation c)\<rparr>"
      using c' c6 c5 c4 c1 by simp
  qed
qed

lemma validate_token_impl_final_ok:
  assumes "validate_handshake_token_impl E t optional trusted token HS_TOKEN_FINAL c =
    Ret (Inr u, c')"
  obtains dh1 ch1 and rp :: reply_properties and l cert pub where
    "class_id token = Some DDS_AUTHTOKEN_FINAL_CLASS_ID" "c' = c"
    "find_required_nonempty_binprop E token DDS_AUTHTOKEN_PROP_KEM_PUBLIC = Inr dh1"
    "validate_kem_public_key_in_token (Some dh1) (ri_kagreeAlgoKind (cx_remote c)) = Inr ()"
    "find_required_binprop_exactsize E token DDS_AUTHTOKEN_PROP_CHALLENGE1
       AUTHENTICATION_CHALLENGE_SIZE = Inr ch1"
    "find_required_binprop_exactsize E token DDS_AUTHTOKEN_PROP_CHALLENGE2
       AUTHENTICATION_CHALLENGE_SIZE = Inr (rp_challenge2 rp)"
    "find_required_nonempty_binprop E token DDS_AUTHTOKEN_PROP_KEM_CIPHERTEXT = Inr (rp_ciphertext rp)"
    "validate_kem_ciphertext_in_token (Some (rp_ciphertext rp)) (ri_kagreeAlgoKind (cx_remote c)) = Inr ()"
    "find_required_nonempty_binprop E token DDS_AUTHTOKEN_PROP_SIGNATURE = Inr (rp_signature rp)"
    "rchallenge_agrees ch1 (cx_relation c)"
    "ir_lchallenge (cx_relation c) = Some l" "same_challenge l (rp_challenge2 rp)"
    "hash_matches E token DDS_AUTHTOKEN_PROP_HASH_C1 (hs_hash_c1 (cx_handshake c))"
    "hash_matches E token DDS_AUTHTOKEN_PROP_HASH_C2 (hs_hash_c2 (cx_handshake c))"
    "ri_identityCert (cx_remote c) = Some cert"
    "X509_get_pubkey E cert = Some pub" "EVP_PKEY_can_sign E pub"
    "validate_pq_signature E t (Some pub)
       (final_transcript optional
          (hash_val DDS_AUTHTOKEN_PROP_HASH_C1 (hs_hash_c1 (cx_handshake c))) ch1 dh1
          (rp_challenge2 rp) (rp_ciphertext rp)
          (hash_val DDS_AUTHTOKEN_PROP_HASH_C2 (hs_hash_c2 (cx_handshake c))))
       (oct_buffer (bp_value (rp_signature rp))) = Inr ()"
proof -
  from assms obtain pc c1 dh1 c2 ch1 rp0 c3 c4 c5 c6 where
    cls: "class_id token = Some DDS_AUTHTOKEN_FINAL_CLASS_ID"
    and cred: "validate_peer_credentials E t trusted token HS_TOKEN_FINAL c = Ret (Inr pc, c1)"
    and pub: "validate_kem_public E token pc c1 = Ret (Inr dh1, c2)"
    and ch: "find_challenges E token HS_TOKEN_FINAL pc c2 = Ret (Inr (ch1, rp0), c3)"
    and rch: "validate_rchallenge HS_TOKEN_FINAL ch1 c3 = Ret (Inr (), c4)"
    and hash: "validate_hashes_and_lchallenge E token HS_TOKEN_FINAL ch1 rp0 c4 = Ret (Inr (), c5)"
    and upd: "update_remote pc c5 = Ret (Inr (), c6)"
    and fin: "(case rp0 of None \<Rightarrow> ret_op ()
       | Some p \<Rightarrow> validate_signature E t optional token HS_TOKEN_FINAL dh1 ch1 p) c6 = Ret (Inr u, c')"
    unfolding validate_handshake_token_impl_def
    by (auto simp: op_ok simp del: op_eval(7) split: prod.splits)
  have pc: "pc = None" "c1 = c" using cred by (simp_all add: validate_peer_credentials_def)
  note p = pub [unfolded validate_kem_public_ok]
    and h = ch [unfolded find_challenges_ok [of HS_TOKEN_FINAL, simplified]]
  obtain rp where rp: "rp0 = Some rp" using h by blast
  have c4: "c4 = c" and agrees: "rchallenge_agrees ch1 (cx_relation c)"
    using rch p h pc
    by (auto simp: validate_rchallenge_ok rchallenge_agrees_def split: option.splits)
  note hs = hash [unfolded validate_hashes_ok rp c4]
  have c6: "c6 = c" using hs upd pc by (simp add: update_remote_ok)
  note sg = fin [unfolded rp option.case validate_signature_ok c6]
  obtain l where l: "ir_lchallenge (cx_relation c) = Some l" "same_challenge l (rp_challenge2 rp)"
    using hs by auto
  obtain cert pub where pubk: "ri_identityCert (cx_remote c) = Some cert"
    "X509_get_pubkey E cert = Some pub" "EVP_PKEY_can_sign E pub"
    and sig: "validate_pq_signature E t (Some pub)
          (checked_transcript E optional token HS_TOKEN_FINAL dh1 ch1 rp (cx_handshake c))
          (oct_buffer (bp_value (rp_signature rp))) = Inr ()"
    and c': "c' = c"
    using sg by auto
  show thesis
  proof (rule that [of dh1 ch1 rp l cert pub])
    show "class_id token = Some DDS_AUTHTOKEN_FINAL_CLASS_ID" by (rule cls)
    show "c' = c" by (rule c')
    show "find_required_nonempty_binprop E token DDS_AUTHTOKEN_PROP_KEM_PUBLIC = Inr dh1"
      "validate_kem_public_key_in_token (Some dh1) (ri_kagreeAlgoKind (cx_remote c)) = Inr ()"
      using p pc by (simp_all add: validation_algo_def)
    show "find_required_binprop_exactsize E token DDS_AUTHTOKEN_PROP_CHALLENGE1
       AUTHENTICATION_CHALLENGE_SIZE = Inr ch1"
      "find_required_binprop_exactsize E token DDS_AUTHTOKEN_PROP_CHALLENGE2
       AUTHENTICATION_CHALLENGE_SIZE = Inr (rp_challenge2 rp)"
      "find_required_nonempty_binprop E token DDS_AUTHTOKEN_PROP_KEM_CIPHERTEXT = Inr (rp_ciphertext rp)"
      "validate_kem_ciphertext_in_token (Some (rp_ciphertext rp)) (ri_kagreeAlgoKind (cx_remote c)) = Inr ()"
      "find_required_nonempty_binprop E token DDS_AUTHTOKEN_PROP_SIGNATURE = Inr (rp_signature rp)"
      using h rp p pc by (auto simp: validation_algo_def)
    show "rchallenge_agrees ch1 (cx_relation c)" by (rule agrees)
    show "ir_lchallenge (cx_relation c) = Some l" "same_challenge l (rp_challenge2 rp)" by (rule l)+
    show "hash_matches E token DDS_AUTHTOKEN_PROP_HASH_C1 (hs_hash_c1 (cx_handshake c))"
      "hash_matches E token DDS_AUTHTOKEN_PROP_HASH_C2 (hs_hash_c2 (cx_handshake c))"
      using hs by simp_all
    show "ri_identityCert (cx_remote c) = Some cert" "X509_get_pubkey E cert = Some pub"
      "EVP_PKEY_can_sign E pub" by (rule pubk)+
    show "validate_pq_signature E t (Some pub)
       (final_transcript optional
          (hash_val DDS_AUTHTOKEN_PROP_HASH_C1 (hs_hash_c1 (cx_handshake c))) ch1 dh1
          (rp_challenge2 rp) (rp_ciphertext rp)
          (hash_val DDS_AUTHTOKEN_PROP_HASH_C2 (hs_hash_c2 (cx_handshake c))))
       (oct_buffer (bp_value (rp_signature rp))) = Inr ()"
      using sig by (simp add: checked_transcript_def Let_def)
  qed
qed

section \<open>No faults, and what a failure leaves\<close>

text \<open>
  The part of the context no validation changes: the object headers and pointers, the local
  identity, and the handshake apart from its two hashes.
\<close>

definition ctx_frame :: "hs_ctx \<Rightarrow> hs_ctx \<Rightarrow> bool" where
  "ctx_frame c c' \<longleftrightarrow>
     cx_local c' = cx_local c \<and>
     (cx_handshake c')\<lparr>hs_hash_c1 := [], hs_hash_c2 := []\<rparr> =
       (cx_handshake c)\<lparr>hs_hash_c1 := [], hs_hash_c2 := []\<rparr> \<and>
     (cx_relation c')\<lparr>ir_rchallenge := None\<rparr> = (cx_relation c)\<lparr>ir_rchallenge := None\<rparr> \<and>
     (ir_rchallenge (cx_relation c) \<noteq> None \<longrightarrow>
        ir_rchallenge (cx_relation c') = ir_rchallenge (cx_relation c)) \<and>
     (\<forall>cert d k pd perm.
        (cx_remote c')\<lparr>ri_identityCert := cert, ri_dsignAlgoKind := d, ri_kagreeAlgoKind := k,
           ri_pdata := pd, ri_permissionsDocument := perm\<rparr> =
        (cx_remote c)\<lparr>ri_identityCert := cert, ri_dsignAlgoKind := d, ri_kagreeAlgoKind := k,
           ri_pdata := pd, ri_permissionsDocument := perm\<rparr>)"

lemma ctx_frame_refl [simp]: "ctx_frame c c"
  by (simp add: ctx_frame_def)

definition keeps :: "hs_ctx \<Rightarrow> fault set \<Rightarrow> (hs_ctx, 'a) op \<Rightarrow> ('a \<Rightarrow> bool) \<Rightarrow> bool" where
  "keeps c Z m Q \<longleftrightarrow> triple (ctx_frame c) m (\<lambda>x c'. ctx_frame c c' \<and> Q x) (ctx_frame c) Z"

named_theorems keeps_rules \<open>operations that stay within the frame\<close>

lemma keeps_bind:
  assumes "keeps c Z m R" and "\<And>x. R x \<Longrightarrow> keeps c Z (f x) Q"
  shows "keeps c Z (bind_op m f) Q"
  unfolding keeps_def
proof (rule triple_bind)
  show "triple (ctx_frame c) m (\<lambda>x c'. ctx_frame c c' \<and> R x) (ctx_frame c) Z"
    using assms(1) by (simp add: keeps_def)
  fix x
  show "triple (\<lambda>c'. ctx_frame c c' \<and> R x) (f x) (\<lambda>x c'. ctx_frame c c' \<and> Q x) (ctx_frame c) Z"
    using assms(2) [of x] by (auto simp: keeps_def triple_def)
qed

lemma keeps_bind_any [keeps_rules]:
  "keeps c Z m (\<lambda>_. True) \<Longrightarrow> (\<And>x. keeps c Z (f x) Q) \<Longrightarrow> keeps c Z (bind_op m f) Q"
  by (rule keeps_bind)

lemma keeps_basic [keeps_rules]:
  "Q x \<Longrightarrow> keeps c Z (ret_op x) Q"
  "keeps c Z get_op (\<lambda>_. True)"
  "keeps c Z (check_op b msg) (\<lambda>_. True)"
  "keeps c Z (lift_op r) (\<lambda>_. True)"
  "keeps c Z (set_handshake (\<lambda>hs. hs\<lparr>hs_hash_c1 := h\<rparr>)) (\<lambda>_. True)"
  "keeps c Z (set_handshake (with_hash ty h)) (\<lambda>_. True)"
  "keeps c Z (set_remote (\<lambda>r. r\<lparr>ri_identityCert := cert\<rparr>)) (\<lambda>_. True)"
  "keeps c Z (set_remote (\<lambda>r. r\<lparr>ri_permissionsDocument := doc\<rparr>)) (\<lambda>_. True)"
  "keeps c Z (set_remote (\<lambda>r. r\<lparr>ri_dsignAlgoKind := d, ri_kagreeAlgoKind := k, ri_pdata := pd\<rparr>))
     (\<lambda>_. True)"
  by (auto simp: keeps_def triple_def ctx_frame_def check_vres_def failed_def set_handshake_def
      set_remote_def with_hash_def split: sum.splits)

lemma keeps_if [keeps_rules]:
  "(b \<Longrightarrow> keeps c Z m Q) \<Longrightarrow> (\<not> b \<Longrightarrow> keeps c Z n Q) \<Longrightarrow> keeps c Z (if b then m else n) Q"
  by simp

lemma keeps_option [keeps_rules]:
  "keeps c Z m Q \<Longrightarrow> (\<And>y. keeps c Z (f y) Q) \<Longrightarrow>
   keeps c Z (case x of None \<Rightarrow> m | Some y \<Rightarrow> f y) Q"
  by (cases x) simp_all

lemma keeps_prod [keeps_rules]: "(\<And>a b. keeps c Z (f a b) Q) \<Longrightarrow> keeps c Z (case p of (a, b) \<Rightarrow> f a b) Q"
  by (cases p) simp

lemma keeps_identity: "keeps c Z (validate_peer_identity E t trusted token) (\<lambda>_. True)"
  unfolding validate_peer_identity_def by (intro keeps_rules TrueI)

lemma keeps_algorithms:
  "keeps c Z (validate_peer_algorithms E token cert)
     (\<lambda>(d, dsign, k, kagree). dsign \<noteq> AUTH_ALGO_KIND_UNKNOWN \<and> kagree \<noteq> AUTH_ALGO_KIND_UNKNOWN)"
proof -
  have "keeps c Z (validate_peer_algorithms E token cert) (\<lambda>_. True)"
    unfolding validate_peer_algorithms_def Let_def by (intro keeps_rules TrueI)
  then show ?thesis
    using validate_peer_algorithms_ok(8,9) [of E token cert]
    by (fastforce simp: keeps_def triple_def split: outcome.splits sum.splits prod.splits)
qed

lemma keeps_credentials:
  "keeps c Z (validate_peer_credentials E t trusted token ty)
     (\<lambda>pc. \<forall>p. pc = Some p \<longrightarrow>
        pc_dsign p \<noteq> AUTH_ALGO_KIND_UNKNOWN \<and> pc_kagree p \<noteq> AUTH_ALGO_KIND_UNKNOWN)"
proof (cases "ty = HS_TOKEN_FINAL")
  case True
  then show ?thesis by (simp add: validate_peer_credentials_def keeps_basic)
next
  case False
  show ?thesis
    unfolding validate_peer_credentials_def Let_def with_hash_def [symmetric] if_not_P [OF False]
  proof (rule keeps_bind [OF keeps_identity], intro keeps_prod, rule keeps_bind [OF keeps_algorithms])
    fix c_id c_perm c_pdata cert
    fix x :: "bin_property \<times> AuthenticationAlgoKind_t \<times> bin_property \<times> AuthenticationAlgoKind_t"
    assume "case x of (d, dsign, k, kagree) \<Rightarrow>
      dsign \<noteq> AUTH_ALGO_KIND_UNKNOWN \<and> kagree \<noteq> AUTH_ALGO_KIND_UNKNOWN"
    then show "keeps c Z
        (case x of (d, dsign, k, kagree) \<Rightarrow>
          bind_op (set_handshake (with_hash ty (compute_hash_value E [c_id, c_perm, c_pdata, d, k])))
            (\<lambda>_. ret_op (Some \<lparr>pc_pdata = bp_value c_pdata, pc_dsign = dsign, pc_kagree = kagree\<rparr>)))
        (\<lambda>pc. \<forall>p. pc = Some p \<longrightarrow>
          pc_dsign p \<noteq> AUTH_ALGO_KIND_UNKNOWN \<and> pc_kagree p \<noteq> AUTH_ALGO_KIND_UNKNOWN)"
      by (auto intro!: keeps_bind_any keeps_basic)
  qed
qed

lemma keeps_check: "keeps c Z (check_op b msg) (\<lambda>_. b)"
  by (simp add: keeps_def triple_def check_vres_def failed_def)

lemma keeps_read: "(\<And>f. buffer_fault q n = Some f \<Longrightarrow> f \<in> Z) \<Longrightarrow> keeps c Z (read_buffer q n) (\<lambda>_. True)"
  by (cases "buffer_fault q n") (simp_all add: keeps_def triple_def read_buffer_def)

lemma keeps_rchallenge:
  assumes "\<And>f. buffer_fault (bp_value rc) AUTHENTICATION_CHALLENGE_SIZE = Some f \<Longrightarrow> f \<in> Z"
  shows "keeps c Z (validate_rchallenge ty rc) (\<lambda>_. True)"
  using assms
  by (auto simp: keeps_def triple_def validate_rchallenge_def read_buffer_def bind_op_def ctx_frame_def
      set_relation_def check_vres_def failed_def split: option.splits)

text \<open>
  The faults that reading the challenges and hashes of a message can end in: one of these
  properties says it is 32 octets long, and its buffer is NULL or holds fewer.
\<close>

definition read_faults :: "('q, 'a) cyclone_scheme \<Rightarrow> data_holder \<Rightarrow> fault set" where
  "read_faults E token =
     {f. \<exists>name p. name \<in> set [DDS_AUTHTOKEN_PROP_CHALLENGE1, DDS_AUTHTOKEN_PROP_CHALLENGE2,
           DDS_AUTHTOKEN_PROP_HASH_C1, DDS_AUTHTOKEN_PROP_HASH_C2] \<and>
         find_binary_property E token name = Some p \<and> oct_length (bp_value p) = 32 \<and>
         buffer_fault (bp_value p) 32 = Some f}"

lemma read_faultsI:
  assumes "find_binary_property E token name = Some p" and "oct_length (bp_value p) = 32"
    and "buffer_fault (bp_value p) 32 = Some f"
    and "name = DDS_AUTHTOKEN_PROP_CHALLENGE1 \<or> name = DDS_AUTHTOKEN_PROP_CHALLENGE2 \<or>
      name = DDS_AUTHTOKEN_PROP_HASH_C1 \<or> name = DDS_AUTHTOKEN_PROP_HASH_C2"
  shows "f \<in> read_faults E token"
  using assms unfolding read_faults_def by auto

definition challenges_found :: "('q, 'a) cyclone_scheme \<Rightarrow> data_holder \<Rightarrow> bin_property \<times> reply_properties option \<Rightarrow> bool" where
  "challenges_found E token = (\<lambda>(challenge1, rp).
     find_required_binprop_exactsize E token DDS_AUTHTOKEN_PROP_CHALLENGE1
       AUTHENTICATION_CHALLENGE_SIZE = Inr challenge1 \<and>
     (\<forall>p. rp = Some p \<longrightarrow> find_required_binprop_exactsize E token DDS_AUTHTOKEN_PROP_CHALLENGE2
       AUTHENTICATION_CHALLENGE_SIZE = Inr (rp_challenge2 p)))"

lemma keeps_challenges: "keeps c Z (find_challenges E token ty pc) (challenges_found E token)"
proof -
  have "keeps c Z (find_challenges E token ty pc) (\<lambda>_. True)"
    unfolding find_challenges_def by (intro keeps_rules TrueI)
  moreover have "challenges_found E token x" if "find_challenges E token ty pc c1 = Ret (Inr x, c2)" for c1 c2 x
    using that by (cases x; cases "ty = HS_TOKEN_REQ")
      (auto simp: challenges_found_def find_challenges_req_ok find_challenges_ok)
  ultimately show ?thesis
    by (fastforce simp: keeps_def triple_def split: outcome.splits sum.splits)
qed

lemma challenge_read_faults:
  assumes "challenges_found E token (ch1, rp)"
    and "q = ch1 \<or> (\<exists>p. rp = Some p \<and> q = rp_challenge2 p)"
    and "buffer_fault (bp_value q) AUTHENTICATION_CHALLENGE_SIZE = Some f"
  shows "f \<in> read_faults E token"
  using assms
  by (auto simp: challenges_found_def find_exactsize_ok AUTHENTICATION_CHALLENGE_SIZE_def intro: read_faultsI)

lemma keeps_hash:
  assumes "name = DDS_AUTHTOKEN_PROP_HASH_C1 \<or> name = DDS_AUTHTOKEN_PROP_HASH_C2"
  shows "keeps c (read_faults E token) (validate_hash E token name stored) (\<lambda>_. True)"
  using assms unfolding validate_hash_def
  by (cases "find_binary_property E token name")
    (auto simp: SHA256_DIGEST_LENGTH_def intro!: keeps_basic keeps_bind [OF keeps_check] keeps_bind [OF keeps_read]
      intro: read_faultsI)

lemma keeps_hashes:
  assumes "challenges_found E token (ch1, rp)"
  shows "keeps c (read_faults E token) (validate_hashes_and_lchallenge E token ty ch1 rp) (\<lambda>_. True)"
proof (cases rp)
  case None
  show ?thesis
    unfolding validate_hashes_and_lchallenge_def None option.case
    by (intro keeps_rules keeps_hash TrueI) simp_all
next
  case (Some p)
  show ?thesis
    unfolding validate_hashes_and_lchallenge_def Some option.case
    by (intro keeps_rules keeps_hash keeps_read TrueI)
      (use challenge_read_faults [OF assms, of ch1] challenge_read_faults [OF assms, of "rp_challenge2 p"] Some
        in \<open>auto split: if_splits\<close>)
qed

lemma keeps_update:
  assumes "\<forall>p. pc = Some p \<longrightarrow>
    pc_dsign p \<noteq> AUTH_ALGO_KIND_UNKNOWN \<and> pc_kagree p \<noteq> AUTH_ALGO_KIND_UNKNOWN"
  shows "keeps c Z (update_remote pc) (\<lambda>_. True)"
proof (cases pc)
  case (Some p)
  have *: "assert_op True = ret_op ()" by (simp add: assert_op_def)
  show ?thesis
    using assms Some unfolding update_remote_def by (auto simp: * intro!: keeps_rules)
qed (simp add: update_remote_def keeps_basic)

lemma keeps_signature: "keeps c Z (validate_signature E t optional token ty dh1 ch1 rp) (\<lambda>_. True)"
  unfolding validate_signature_def Let_def by (intro keeps_rules TrueI)

lemma keeps_validate_impl:
  "keeps c (read_faults E token) (validate_handshake_token_impl E t optional trusted token ty) (\<lambda>_. True)"
  unfolding validate_handshake_token_impl_def
proof (rule keeps_bind [OF keeps_basic(3)], rule keeps_bind [OF keeps_credentials])
  fix pc :: "peer_credentials option"
  assume pc: "\<forall>p. pc = Some p \<longrightarrow>
    pc_dsign p \<noteq> AUTH_ALGO_KIND_UNKNOWN \<and> pc_kagree p \<noteq> AUTH_ALGO_KIND_UNKNOWN"
  have stages: "keeps c (read_faults E token) (bind_op (validate_rchallenge ty
       (case (ty, rp) of (HS_TOKEN_REPLY, Some p) \<Rightarrow> rp_challenge2 p | _ \<Rightarrow> challenge1)) (\<lambda>_.
     bind_op (validate_hashes_and_lchallenge E token ty challenge1 rp) (\<lambda>_.
     bind_op (update_remote pc) (\<lambda>_.
       case rp of
         None \<Rightarrow> ret_op ()
       | Some p \<Rightarrow> validate_signature E t optional token ty dh1 challenge1 p)))) (\<lambda>_. True)"
    if "challenges_found E token (challenge1, rp)" for challenge1 rp dh1
    by (intro keeps_rules keeps_rchallenge keeps_hashes [OF that] keeps_update [OF pc] keeps_signature TrueI
        challenge_read_faults [OF that])
      (auto split: handshake_token_type.splits option.splits)
  have kem: "keeps c (read_faults E token) (validate_kem_public E token pc) (\<lambda>_. True)"
    unfolding validate_kem_public_def by (intro keeps_rules TrueI)
  show "keeps c (read_faults E token) (bind_op (validate_kem_public E token pc) (\<lambda>dh1.
     bind_op (find_challenges E token ty pc) (\<lambda>(challenge1, rp).
     bind_op (validate_rchallenge ty
       (case (ty, rp) of (HS_TOKEN_REPLY, Some p) \<Rightarrow> rp_challenge2 p | _ \<Rightarrow> challenge1)) (\<lambda>_.
     bind_op (validate_hashes_and_lchallenge E token ty challenge1 rp) (\<lambda>_.
     bind_op (update_remote pc) (\<lambda>_.
       case rp of
         None \<Rightarrow> ret_op ()
       | Some p \<Rightarrow> validate_signature E t optional token ty dh1 challenge1 p)))))) (\<lambda>_. True)"
    by (rule keeps_bind [OF kem], rule keeps_bind [OF keeps_challenges])
      (simp only: split_paired_all prod.case stages [unfolded prod.case])
qed

lemma validate_handshake_token_triple:
  "triple (ctx_frame c) (validate_handshake_token E t optional trusted token ty)
     (\<lambda>_. ctx_frame c)
     (\<lambda>c'. ctx_frame c c' \<and> (ty \<noteq> HS_TOKEN_FINAL \<longrightarrow> ri_identityCert (cx_remote c') = None)) (read_faults E token)"
  unfolding validate_handshake_token_def
proof (rule triple_on_fail)
  show "triple (ctx_frame c) (validate_handshake_token_impl E t optional trusted token ty)
     (\<lambda>_. ctx_frame c) (ctx_frame c) (read_faults E token)"
    using keeps_validate_impl [where c = c and E = E and t = t and optional = optional and
      trusted = trusted and token = token and ty = ty] by (simp add: keeps_def)
  show "triple (ctx_frame c)
     (if ty = HS_TOKEN_FINAL then ret_op () else set_remote (\<lambda>r. r\<lparr>ri_identityCert := None\<rparr>))
     (\<lambda>_ c'. ctx_frame c c' \<and> (ty \<noteq> HS_TOKEN_FINAL \<longrightarrow> ri_identityCert (cx_remote c') = None))
     (\<lambda>c'. ctx_frame c c' \<and> (ty \<noteq> HS_TOKEN_FINAL \<longrightarrow> ri_identityCert (cx_remote c') = None)) (read_faults E token)"
    by (auto simp: triple_def set_remote_def ctx_frame_def)
qed

section \<open>Properties\<close>

lemma validate_handshake_token_okD:
  "validate_handshake_token E t optional trusted token ty c = Ret (Inr u, c') \<Longrightarrow>
   validate_handshake_token_impl E t optional trusted token ty c = Ret (Inr u, c')"
  by (simp add: validate_handshake_token_def op_ok)

text \<open>
  C1: a REPLY is accepted only when its sender is authenticated: its certificate parses, is
  signed by a trusted CA, is not expired and is bound to the participant data; the named
  algorithms are those of the certificate and of the local configuration; challenge1 repeats
  the challenge this side sent and challenge2 agrees with the one stored; and the certificate's
  key signed the transcript of the ciphertext, both challenges, the KEM public key and (when
  optional data is included) the hashes of both sides' credentials.  The key and the
  certificate recorded are the sender's.
\<close>
theorem reply_acceptance_authenticates:
  assumes "validate_handshake_token E t optional trusted token HS_TOKEN_REPLY c = Ret (Inr u, c')"
  shows "\<exists>k pk ch1 ch2 ct sig own pub.
     claims_in_token E token k \<and> claims_accepted E t trusted (cx_local c) k \<and>
     find_binary_property E token DDS_AUTHTOKEN_PROP_KEM_PUBLIC = Some pk \<and>
     find_binary_property E token DDS_AUTHTOKEN_PROP_CHALLENGE1 = Some ch1 \<and>
     find_binary_property E token DDS_AUTHTOKEN_PROP_CHALLENGE2 = Some ch2 \<and>
     find_binary_property E token DDS_AUTHTOKEN_PROP_KEM_CIPHERTEXT = Some ct \<and>
     find_binary_property E token DDS_AUTHTOKEN_PROP_SIGNATURE = Some sig \<and>
     ir_lchallenge (cx_relation c) = Some own \<and> same_challenge own ch1 \<and>
     rchallenge_agrees ch2 (cx_relation c) \<and>
     oct_length (bp_value pk) = get_kem_public_key_size (li_kagreeAlgoKind (cx_local c)) \<and>
     oct_length (bp_value ct) = get_kem_ciphertext_size (li_kagreeAlgoKind (cx_local c)) \<and>
     X509_get_pubkey E (sc_cert k) = Some pub \<and>
     validate_pq_signature E t (Some pub)
       (reply_transcript optional
          (hash_val DDS_AUTHTOKEN_PROP_HASH_C2 (compute_hash_value E (claims_list k)))
          ch2 ct ch1 pk
          (hash_val DDS_AUTHTOKEN_PROP_HASH_C1 (hs_hash_c1 (cx_handshake c))))
       (oct_buffer (bp_value sig)) = Inr () \<and>
     ri_identityCert (cx_remote c') = Some (sc_cert k) \<and>
     hs_hash_c2 (cx_handshake c') = compute_hash_value E (claims_list k) \<and>
     ir_rchallenge (cx_relation c') \<noteq> None"
proof -
  from assms have impl:
    "validate_handshake_token_impl E t optional trusted token HS_TOKEN_REPLY c = Ret (Inr u, c')"
    by (rule validate_handshake_token_okD)
  show ?thesis
  proof (rule validate_token_impl_reply_ok [OF impl], goal_cases)
    case (1 k dh1 ch1 rp l pub)
    have sizes: "oct_length (bp_value dh1) = get_kem_public_key_size (li_kagreeAlgoKind (cx_local c))"
      "oct_length (bp_value (rp_ciphertext rp)) =
        get_kem_ciphertext_size (li_kagreeAlgoKind (cx_local c))"
      using 1(5,9)
      by (auto simp: validate_kem_public_key_in_token_def validate_kem_ciphertext_in_token_def
          validate_kem_property_def Let_def split: if_split_asm)
    have after: "ri_identityCert (cx_remote c') = Some (sc_cert k)"
      "hs_hash_c2 (cx_handshake c') = compute_hash_value E (claims_list k)"
      "ir_rchallenge (cx_relation c') \<noteq> None"
      using 1(19)
      by (simp_all add: with_credentials_def with_identity_def with_hash_def with_rchallenge_def
          split: option.splits)
    have found: "find_binary_property E token DDS_AUTHTOKEN_PROP_KEM_PUBLIC = Some dh1"
      "find_binary_property E token DDS_AUTHTOKEN_PROP_CHALLENGE1 = Some ch1"
      "find_binary_property E token DDS_AUTHTOKEN_PROP_CHALLENGE2 = Some (rp_challenge2 rp)"
      "find_binary_property E token DDS_AUTHTOKEN_PROP_KEM_CIPHERTEXT = Some (rp_ciphertext rp)"
      "find_binary_property E token DDS_AUTHTOKEN_PROP_SIGNATURE = Some (rp_signature rp)"
      using 1(4,6,7,8,10) unfolding find_nonempty_ok find_exactsize_ok by blast+
    show ?case
      by (rule exI [of _ k], rule exI [of _ dh1], rule exI [of _ ch1],
          rule exI [of _ "rp_challenge2 rp"], rule exI [of _ "rp_ciphertext rp"],
          rule exI [of _ "rp_signature rp"], rule exI [of _ l], rule exI [of _ pub],
          intro conjI 1 found sizes after)
  qed
qed

text \<open>
  C2: a FINAL is accepted only when its sender owns the certificate recorded earlier in the
  handshake: that certificate's key signed the transcript of both challenges, the KEM public
  key and the ciphertext of the message (with the recorded hashes when optional data is
  included), challenge2 repeats the challenge this side sent, challenge1 is the recorded one,
  and any hash in the message is the recorded one.  Accepting it changes nothing.
\<close>
theorem final_acceptance_authenticates:
  assumes "validate_handshake_token E t optional trusted token HS_TOKEN_FINAL c = Ret (Inr u, c')"
  shows "c' = c \<and> (\<exists>pk ch1 ch2 ct sig own cert pub.
     find_binary_property E token DDS_AUTHTOKEN_PROP_KEM_PUBLIC = Some pk \<and>
     find_binary_property E token DDS_AUTHTOKEN_PROP_CHALLENGE1 = Some ch1 \<and>
     find_binary_property E token DDS_AUTHTOKEN_PROP_CHALLENGE2 = Some ch2 \<and>
     find_binary_property E token DDS_AUTHTOKEN_PROP_KEM_CIPHERTEXT = Some ct \<and>
     find_binary_property E token DDS_AUTHTOKEN_PROP_SIGNATURE = Some sig \<and>
     ir_lchallenge (cx_relation c) = Some own \<and> same_challenge own ch2 \<and>
     rchallenge_agrees ch1 (cx_relation c) \<and>
     hash_matches E token DDS_AUTHTOKEN_PROP_HASH_C1 (hs_hash_c1 (cx_handshake c)) \<and>
     hash_matches E token DDS_AUTHTOKEN_PROP_HASH_C2 (hs_hash_c2 (cx_handshake c)) \<and>
     ri_identityCert (cx_remote c) = Some cert \<and> X509_get_pubkey E cert = Some pub \<and>
     validate_pq_signature E t (Some pub)
       (final_transcript optional
          (hash_val DDS_AUTHTOKEN_PROP_HASH_C1 (hs_hash_c1 (cx_handshake c))) ch1 pk ch2 ct
          (hash_val DDS_AUTHTOKEN_PROP_HASH_C2 (hs_hash_c2 (cx_handshake c))))
       (oct_buffer (bp_value sig)) = Inr ())"
proof -
  from assms have impl:
    "validate_handshake_token_impl E t optional trusted token HS_TOKEN_FINAL c = Ret (Inr u, c')"
    by (rule validate_handshake_token_okD)
  show ?thesis
  proof (rule validate_token_impl_final_ok [OF impl], goal_cases)
    case (1 dh1 ch1 rp l cert pub)
    have found: "find_binary_property E token DDS_AUTHTOKEN_PROP_KEM_PUBLIC = Some dh1"
      "find_binary_property E token DDS_AUTHTOKEN_PROP_CHALLENGE1 = Some ch1"
      "find_binary_property E token DDS_AUTHTOKEN_PROP_CHALLENGE2 = Some (rp_challenge2 rp)"
      "find_binary_property E token DDS_AUTHTOKEN_PROP_KEM_CIPHERTEXT = Some (rp_ciphertext rp)"
      "find_binary_property E token DDS_AUTHTOKEN_PROP_SIGNATURE = Some (rp_signature rp)"
      using 1(3,5,6,7,9) unfolding find_nonempty_ok find_exactsize_ok by blast+
    show ?case
      by (rule conjI, rule 1(2),
          rule exI [of _ dh1], rule exI [of _ ch1],
          rule exI [of _ "rp_challenge2 rp"], rule exI [of _ "rp_ciphertext rp"],
          rule exI [of _ "rp_signature rp"], rule exI [of _ l], rule exI [of _ cert],
          rule exI [of _ pub], intro conjI 1 found)
  qed
qed


text \<open>It does happen: an otherwise valid REQUEST whose challenge has its length but no buffer.\<close>

lemma challenge_without_buffer_faults:
  assumes "class_id token = Some DDS_AUTHTOKEN_REQ_CLASS_ID"
    and "validate_peer_credentials E t trusted token HS_TOKEN_REQ c = Ret (Inr pc, c1)"
    and "validate_kem_public E token pc c1 = Ret (Inr dh1, c1)"
    and "find_required_binprop_exactsize E token DDS_AUTHTOKEN_PROP_CHALLENGE1
       AUTHENTICATION_CHALLENGE_SIZE = Inr challenge1"
    and "oct_buffer (bp_value challenge1) = None"
  shows "validate_handshake_token E t optional trusted token HS_TOKEN_REQ c = Fault Null_dereference"
proof -
  have read: "read_buffer (bp_value challenge1) n s = Fault Null_dereference" for n and s :: hs_ctx
    using assms(5) by (simp add: read_buffer_def buffer_fault_def)
  have rchallenge: "validate_rchallenge HS_TOKEN_REQ challenge1 s = Fault Null_dereference" for s
    by (simp add: validate_rchallenge_def bind_op_def read split: option.split)
  have steps: "bind_op (check_op True msg) f s = f () s"
    "bind_op (find_challenges E token HS_TOKEN_REQ pc) g c1 = g (challenge1, None) c1"
    "bind_op (validate_rchallenge HS_TOKEN_REQ challenge1) f c1 = Fault Null_dereference"
    for msg s and f :: "unit \<Rightarrow> (hs_ctx, unit) op" and g :: "_ \<Rightarrow> (hs_ctx, unit) op"
    using assms(4) by (simp_all add: bind_op_def check_vres_def find_challenges_def rchallenge)
  show ?thesis
    using assms(1) by (simp add: validate_handshake_token_def on_fail_def validate_handshake_token_impl_def
        steps
        bind_op_eval(1) [where m = "validate_peer_credentials E t trusted token HS_TOKEN_REQ", OF assms(2)]
        bind_op_eval(1) [where m = "validate_kem_public E token pc", OF assms(3)])
qed

end
