(* ===== verification/HandshakeOps.thy ===== *)
theory HandshakeOps
  imports HandshakeToken
begin

text \<open>
  The handshake operations of the plugin interface (\<open>authentication.c\<close>): starting a handshake,
  replying to one, processing the peer's answer, deriving the shared secret, and reading the
  results.  Each handler is composed the way the code composes it; the long ones are split at
  their section comments.
\<close>

section \<open>The objects of a handshake\<close>

text \<open>Following the pointers from a handshake to its relation and the two identities.\<close>

definition load_ctx :: "addr \<Rightarrow> (auth, hs_ctx) op" where
  "load_ctx hp =
     bind_op (load_handshake hp) (\<lambda>hs.
     bind_op (assert_op (hs_relation hs \<noteq> 0)) (\<lambda>_.
     bind_op (load_relation (hs_relation hs)) (\<lambda>rel.
     bind_op (load_local (ir_localIdentity rel)) (\<lambda>loc.
     bind_op (load_remote (ir_remoteIdentity rel)) (\<lambda>rem.
       ret_op \<lparr>cx_handshake = hs, cx_relation = rel, cx_local = loc, cx_remote = rem\<rparr>)))))"

definition store_ctx :: "addr \<Rightarrow> hs_ctx \<Rightarrow> auth \<Rightarrow> auth" where
  "store_ctx hp c s =
     s\<lparr>heap := (heap s)
        (hp \<mapsto> Handshake (cx_handshake c),
         hs_relation (cx_handshake c) \<mapsto> Relation (cx_relation c),
         ir_localIdentity (cx_relation c) \<mapsto> LocalIdentity (cx_local c),
         ir_remoteIdentity (cx_relation c) \<mapsto> RemoteIdentity (cx_remote c))\<rparr>"

text \<open>Code that works on the four objects, run on the heap.\<close>

definition run_ctx :: "addr \<Rightarrow> (hs_ctx, 'a) op \<Rightarrow> (auth, 'a) op" where
  "run_ctx hp m =
     bind_op (load_ctx hp) (\<lambda>c s.
       case m c of Fault f \<Rightarrow> Fault f | Ret (r, c') \<Rightarrow> Ret (r, store_ctx hp c' s))"

definition find_or_create_handshake ::
  "('q, 'a) cyclone_scheme \<Rightarrow> addr \<Rightarrow> addr \<Rightarrow> CreatedHandshakeStep_t \<Rightarrow> (auth, addr \<times> bool) op" where
  "find_or_create_handshake E localIdent remoteIdent created_in =
     bind_op (load_local localIdent) (\<lambda>l.
     bind_op (load_remote remoteIdent) (\<lambda>r.
     bind_op (find_handshake E (so_handle l) (so_handle r)) (\<lambda>found.
       case found of
         None \<Rightarrow>
           bind_op (find_identity_relation E remoteIdent (so_handle l)) (\<lambda>relation.
             case relation of
               None \<Rightarrow> fault_op Assertion_failed
             | Some relation \<Rightarrow>
                 bind_op (handshake_info_new E relation created_in) (\<lambda>h.
                 bind_op (add_to_objectHash E h) (\<lambda>_. ret_op (h, True))))
       | Some h \<Rightarrow>
           bind_op (load_handshake h) (\<lambda>hs.
           bind_op (assert_op (hs_relation hs \<noteq> 0)) (\<lambda>_. ret_op (h, False))))))"

text \<open>The clean-up of a handshake the failed call created.\<close>

definition drop_created :: "('q, 'a) cyclone_scheme \<Rightarrow> addr \<Rightarrow> bool \<Rightarrow> (auth, unit) op" where
  "drop_created E h created =
     (if created then bind_op (remove_from_objectHash E h) (\<lambda>_. security_object_free h)
      else ret_op ())"

section \<open>Starting a handshake\<close>

text \<open>A fresh ephemeral key pair, whose public key must have the size of the table.\<close>

definition generate_request_keypair ::
  "('q, 'a) cyclone_scheme \<Rightarrow> nat \<Rightarrow> (hs_ctx, bytes) op" where
  "generate_request_keypair E t =
     bind_op (set_handshake (\<lambda>hs. hs\<lparr>hs_kem_keypair := None\<rparr>)) (\<lambda>_.
     bind_op get_op (\<lambda>c.
     let kind = li_kagreeAlgoKind (cx_local c) in
     case pqsec_kem_keypair_generate E t kind True of
       (ok, kp) \<Rightarrow>
         bind_op (check_op ok ''OpenSSL EVP failed to generate %s keypair'') (\<lambda>_.
         case kp of
           None \<Rightarrow> fault_op Null_dereference
         | Some k \<Rightarrow>
             bind_op (set_handshake (\<lambda>hs. hs\<lparr>hs_kem_keypair := Some k\<rparr>)) (\<lambda>_.
             bind_op (check_op (kp_public_key_size k = get_kem_public_key_size kind)
               ''Generated %s public key has incorrect size: %u (expected %zu)'') (\<lambda>_.
             bind_op (assert_op (kp_public_key k \<noteq> None)) (\<lambda>_.
             bind_op (assert_op (kp_public_key_size k > 0)) (\<lambda>_.
               ret_op (the (kp_public_key k)))))))))"

text \<open>The five properties that describe the sender: certificate, permissions, data, algorithms.\<close>

definition credential_properties ::
  "('q, 'a) cyclone_scheme \<Rightarrow> bytes \<Rightarrow> string option \<Rightarrow> octseq \<Rightarrow> AuthenticationAlgoKind_t \<Rightarrow>
   AuthenticationAlgoKind_t \<Rightarrow> bin_property list" where
  "credential_properties E certData perm pdata dsign kagree =
     [BinaryProperty_set_by_value E DDS_AUTHTOKEN_PROP_C_ID certData,
      BinaryProperty_set_by_string E DDS_AUTHTOKEN_PROP_C_PERM
        (case perm of None \<Rightarrow> '''' | Some d \<Rightarrow> d),
      BinaryProperty_set_by_value E DDS_AUTHTOKEN_PROP_C_PDATA (oct_data pdata),
      BinaryProperty_set_by_string E DDS_AUTHTOKEN_PROP_C_DSIGN_ALGO (get_dsign_algo dsign),
      BinaryProperty_set_by_string E DDS_AUTHTOKEN_PROP_C_KAGREE_ALGO (get_kagree_algo kagree)]"

definition save_pdata :: "octseq \<Rightarrow> (hs_ctx, unit) op" where
  "save_pdata pdata =
     modify_op (\<lambda>c. if oct_length (li_pdata (cx_local c)) = 0
                    then c\<lparr>cx_local := (cx_local c)\<lparr>li_pdata := pdata\<rparr>\<rparr> else c)"

definition challenge_value :: "bytes option \<Rightarrow> (hs_ctx, bytes) op" where
  "challenge_value ch = (case ch of None \<Rightarrow> fault_op Null_dereference | Some v \<Rightarrow> ret_op v)"

definition request_tokens ::
  "('q, 'a) cyclone_scheme \<Rightarrow> bool \<Rightarrow> bytes \<Rightarrow> bytes \<Rightarrow> octseq \<Rightarrow> (hs_ctx, bin_property list) op" where
  "request_tokens E optional certData public_key pdata =
     bind_op (save_pdata pdata) (\<lambda>_.
     bind_op get_op (\<lambda>c.
     let loc = cx_local c;
         cred = credential_properties E certData (li_permissionsDocument loc) pdata
                  (li_dsignAlgoKind loc) (li_kagreeAlgoKind loc);
         hash_c1 = get_hash_binary_property_seq E cred in
     bind_op (set_handshake (\<lambda>hs. hs\<lparr>hs_hash_c1 := hash_c1\<rparr>)) (\<lambda>_.
     bind_op (challenge_value (ir_lchallenge (cx_relation c))) (\<lambda>lchallenge.
     let tokens = cred @
           (if optional then [BinaryProperty_set_by_value E DDS_AUTHTOKEN_PROP_HASH_C1 hash_c1]
            else []) @
           [BinaryProperty_set_by_value E DDS_AUTHTOKEN_PROP_KEM_PUBLIC public_key,
            BinaryProperty_set_by_value E DDS_AUTHTOKEN_PROP_CHALLENGE1 lchallenge] in
     bind_op (assert_op (length tokens = (if optional then 8 else 7))) (\<lambda>_.
       ret_op tokens)))))"

definition handshake_message :: "string \<Rightarrow> bin_property list \<Rightarrow> data_holder" where
  "handshake_message cls tokens =
     \<lparr>class_id = Some cls, dh_properties = [], dh_binary_properties = tokens\<rparr>"

text \<open>
  \<open>begin_handshake_request\<close>.  When the certificate cannot be written, the code frees the
  pointer \<open>certData\<close> it never initialised.
\<close>

definition begin_handshake_request ::
  "('q, 'a) cyclone_scheme \<Rightarrow> bool \<Rightarrow> addr \<Rightarrow> addr \<Rightarrow> octseq \<Rightarrow> (auth, addr \<times> data_holder) op" where
  "begin_handshake_request E nonnull initiator replier pdata =
     bind_op (check_op nonnull ''begin_handshake_request: Invalid parameter provided'') (\<lambda>_.
     bind_op (find_valid E SECURITY_OBJECT_KIND_LOCAL_IDENTITY initiator (Exn ERR_UNDEFINED_CODE
       ''begin_handshake_request: Invalid initiator_identity_handle provided'')) (\<lambda>localIdent.
     bind_op (find_valid E SECURITY_OBJECT_KIND_REMOTE_IDENTITY replier (Exn ERR_UNDEFINED_CODE
       ''begin_handshake_request: Invalid replier_identity_handle provided'')) (\<lambda>remoteIdent.
     bind_op (load_local localIdent) (\<lambda>l.
     bind_op tick_op (\<lambda>t.
     case get_certificate_contents E t (li_identityCert l) of
       Inl _ \<Rightarrow> fault_op Uninitialised_read
     | Inr certData \<Rightarrow>
         bind_op (find_or_create_handshake E localIdent remoteIdent CREATEDREQUEST)
           (\<lambda>(handshake, created).
         bind_op (on_fail (run_ctx handshake (generate_request_keypair E t))
           (drop_created E handshake created)) (\<lambda>public_key.
         bind_op get_op (\<lambda>s.
         bind_op (run_ctx handshake
           (request_tokens E (include_optional s) certData public_key pdata)) (\<lambda>tokens.
         bind_op (add_to_objectHash E handshake) (\<lambda>_.
         bind_op (load_handshake handshake) (\<lambda>hs.
           ret_op (so_handle hs, handshake_message DDS_AUTHTOKEN_REQ_CLASS_ID tokens))))))))))))"

section \<open>Replying to a request\<close>

text \<open>
  Encapsulation to the key of the request, unless an earlier call left a ciphertext and a
  secret: then the variable that should point to the key is never set (the value is None).
\<close>

definition encapsulate_to_request ::
  "('q, 'a) cyclone_scheme \<Rightarrow> nat \<Rightarrow> data_holder \<Rightarrow> (hs_ctx, bin_property option) op" where
  "encapsulate_to_request E t message_in =
     bind_op get_op (\<lambda>c.
     let bufs = hs_kem (cx_handshake c) in
     if kem_ct bufs = None \<or> kem_ss bufs = None then
       (case find_binary_property E message_in DDS_AUTHTOKEN_PROP_KEM_PUBLIC of
          None \<Rightarrow> lift_op (failed ''begin_handshake_reply: KEM public key not found'')
        | Some kem_public \<Rightarrow>
            (case pqsec_kem_encapsulate E t (ri_kagreeAlgoKind (cx_remote c))
                    (oct_buffer (bp_value kem_public)) True bufs of
               (ok, bufs') \<Rightarrow>
                 bind_op (set_handshake (\<lambda>hs. hs\<lparr>hs_kem := bufs'\<rparr>)) (\<lambda>_.
                 bind_op (check_op ok ''OpenSSL EVP KEM encapsulation failed'') (\<lambda>_.
                   ret_op (Some kem_public)))))
     else ret_op None)"

record reply_parts =
  rt_credentials :: "bin_property list"
  rt_ciphertext :: bin_property
  rt_kem_public :: bin_property
  rt_request_key :: bin_property
  rt_challenge1 :: bin_property
  rt_challenge2 :: bin_property

text \<open>The properties of the reply up to the optional hashes.\<close>

definition reply_token_parts ::
  "('q, 'a) cyclone_scheme \<Rightarrow> bytes \<Rightarrow> octseq \<Rightarrow> bin_property option \<Rightarrow> (hs_ctx, reply_parts) op" where
  "reply_token_parts E certData pdata kem_public =
     bind_op (save_pdata pdata) (\<lambda>_.
     bind_op get_op (\<lambda>c.
     let loc = cx_local c;
         cred = credential_properties E certData (li_permissionsDocument loc) pdata
                  (li_dsignAlgoKind loc) (ri_kagreeAlgoKind (cx_remote c)) in
     bind_op (set_handshake (\<lambda>hs. hs\<lparr>hs_hash_c2 := get_hash_binary_property_seq E cred\<rparr>)) (\<lambda>_.
     bind_op (challenge_value (kem_ct (hs_kem (cx_handshake c)))) (\<lambda>ct.
     case kem_public of
       None \<Rightarrow> fault_op Uninitialised_read
     | Some pk \<Rightarrow>
         bind_op (assert_op (ir_rchallenge (cx_relation c) \<noteq> None)) (\<lambda>_.
         bind_op (assert_op (ir_lchallenge (cx_relation c) \<noteq> None)) (\<lambda>_.
           ret_op
             \<lparr>rt_credentials = cred,
              rt_ciphertext = BinaryProperty_set_by_value E DDS_AUTHTOKEN_PROP_KEM_CIPHERTEXT ct,
              rt_kem_public = BinaryProperty_set_by_value E DDS_AUTHTOKEN_PROP_KEM_PUBLIC
                                (oct_data (bp_value pk)),
              rt_request_key = pk,
              rt_challenge1 = BinaryProperty_set_by_value E DDS_AUTHTOKEN_PROP_CHALLENGE1
                                (the (ir_rchallenge (cx_relation c))),
              rt_challenge2 = BinaryProperty_set_by_value E DDS_AUTHTOKEN_PROP_CHALLENGE2
                                (the (ir_lchallenge (cx_relation c)))\<rparr>))))))"

text \<open>Signing the reply, and the complete list of its properties.\<close>

definition sign_reply ::
  "('q, 'a) cyclone_scheme \<Rightarrow> nat \<Rightarrow> bool \<Rightarrow> reply_parts \<Rightarrow> (hs_ctx, bin_property list) op" where
  "sign_reply E t optional rt =
     bind_op get_op (\<lambda>c.
     let key = li_privateKey (cx_local c); hs = cx_handshake c;
         hash_c1_val = hash_value_to_binary_property E DDS_AUTHTOKEN_PROP_HASH_C1 (hs_hash_c1 hs);
         hash_c2_val = hash_value_to_binary_property E DDS_AUTHTOKEN_PROP_HASH_C2 (hs_hash_c2 hs) in
     bind_op (check_op (EVP_PKEY_can_sign E key)
       ''Selected key cannot perform signing operations'') (\<lambda>_.
     bind_op (lift_op (create_pq_signature E t (Some key)
       (reply_transcript optional hash_c2_val (rt_challenge2 rt) (rt_ciphertext rt)
          (rt_challenge1 rt) (rt_request_key rt) hash_c1_val))) (\<lambda>signature.
     let tokens = rt_credentials rt @
           [rt_ciphertext rt, rt_kem_public rt, rt_challenge1 rt, rt_challenge2 rt] @
           (if optional
            then [BinaryProperty_set_by_value E DDS_AUTHTOKEN_PROP_HASH_C2 (hs_hash_c2 hs),
                  BinaryProperty_set_by_value E DDS_AUTHTOKEN_PROP_HASH_C1 (hs_hash_c1 hs)]
            else []) @
           [BinaryProperty_set_by_value E DDS_AUTHTOKEN_PROP_SIGNATURE signature] in
     bind_op (assert_op (length tokens = (if optional then 12 else 10))) (\<lambda>_.
       ret_op tokens))))"

definition begin_handshake_reply ::
  "('q, 'a) cyclone_scheme \<Rightarrow> bool \<Rightarrow> data_holder \<Rightarrow> addr \<Rightarrow> addr \<Rightarrow> octseq \<Rightarrow>
   (auth, addr \<times> data_holder) op" where
  "begin_handshake_reply E nonnull message_in initiator replier pdata =
     bind_op (check_op nonnull ''begin_handshake_reply: Invalid parameter provided'') (\<lambda>_.
     bind_op (check_op (oct_length pdata \<noteq> 0 \<and> oct_buffer pdata \<noteq> None)
       ''begin_handshake_reply: Invalid parameter provided'') (\<lambda>_.
     bind_op (find_valid E SECURITY_OBJECT_KIND_LOCAL_IDENTITY replier (Exn ERR_UNDEFINED_CODE
       ''begin_handshake_reply: Invalid replier_identity_handle provided'')) (\<lambda>localIdent.
     bind_op (find_valid E SECURITY_OBJECT_KIND_REMOTE_IDENTITY initiator (Exn ERR_UNDEFINED_CODE
       ''begin_handshake_reply: Invalid initiator_identity_handle provided'')) (\<lambda>remoteIdent.
     bind_op (find_or_create_handshake E localIdent remoteIdent CREATEDREPLY)
       (\<lambda>(handshake, created).
     bind_op tick_op (\<lambda>t.
     bind_op get_op (\<lambda>s.
     bind_op
       (on_fail
         (bind_op (run_ctx handshake (validate_handshake_token E t (include_optional s)
            (trustedCAList s) message_in HS_TOKEN_REQ)) (\<lambda>_.
          bind_op (load_local localIdent) (\<lambda>l.
          bind_op (lift_op (get_certificate_contents E t (li_identityCert l))) (\<lambda>certData.
          bind_op (run_ctx handshake (encapsulate_to_request E t message_in)) (\<lambda>kem_public.
          bind_op (run_ctx handshake (reply_token_parts E certData pdata kem_public)) (\<lambda>rt.
            run_ctx handshake (sign_reply E t (include_optional s) rt)))))))
         (drop_created E handshake created)) (\<lambda>tokens.
     bind_op (add_to_objectHash E handshake) (\<lambda>_.
     bind_op (load_handshake handshake) (\<lambda>hs.
       ret_op (so_handle hs, handshake_message DDS_AUTHTOKEN_REPLY_CLASS_ID tokens)))))))))))"

section \<open>Processing the peer's answer\<close>

definition generate_shared_secret ::
  "('q, 'a) cyclone_scheme \<Rightarrow> nat \<Rightarrow> HandshakeInfo \<Rightarrow> bytes vres" where
  "generate_shared_secret E t handshake =
     (case kem_ss (hs_kem handshake) of
        None \<Rightarrow> failed ''process_handshake: No KEM shared secret available''
      | Some ss \<Rightarrow>
          if kem_ss_len (hs_kem handshake) = 0
          then failed ''process_handshake: No KEM shared secret available''
          else if \<not> malloc_ok E t SHA256_DIGEST_LENGTH then failed_silent
          else Inr (SHA256 E ss))"

text \<open>Accepting a REPLY: validation, then decapsulation with the own key pair.\<close>

definition accept_reply ::
  "('q, 'a) cyclone_scheme \<Rightarrow> nat \<Rightarrow> bool \<Rightarrow> X509Seq \<Rightarrow> data_holder \<Rightarrow>
   (hs_ctx, bin_property \<times> bin_property) op" where
  "accept_reply E t optional trusted message_in =
     bind_op (validate_handshake_token E t optional trusted message_in HS_TOKEN_REPLY) (\<lambda>_.
       case find_binary_property E message_in DDS_AUTHTOKEN_PROP_KEM_CIPHERTEXT of
         None \<Rightarrow> lift_op failed_silent
       | Some ct \<Rightarrow>
           (case find_binary_property E message_in DDS_AUTHTOKEN_PROP_KEM_PUBLIC of
              None \<Rightarrow> lift_op failed_silent
            | Some pk \<Rightarrow>
                bind_op get_op (\<lambda>c.
                case pqsec_kem_decapsulate E t (hs_kem_keypair (cx_handshake c))
                       (oct_buffer (bp_value ct)) True (hs_kem (cx_handshake c)) of
                  (ok, bufs) \<Rightarrow>
                    bind_op (set_handshake (\<lambda>hs. hs\<lparr>hs_kem := bufs\<rparr>)) (\<lambda>_.
                    bind_op (check_op ok ''OpenSSL EVP KEM decapsulation failed'') (\<lambda>_.
                      ret_op (pk, ct))))))"

text \<open>The FINAL message.\<close>

definition final_tokens ::
  "('q, 'a) cyclone_scheme \<Rightarrow> nat \<Rightarrow> bool \<Rightarrow> bin_property \<Rightarrow> bin_property \<Rightarrow>
   (hs_ctx, bin_property list) op" where
  "final_tokens E t optional kem_public kem_ciphertext =
     bind_op get_op (\<lambda>c.
     let hs = cx_handshake c; rel = cx_relation c in
     bind_op (assert_op (ir_lchallenge rel \<noteq> None)) (\<lambda>_.
     bind_op (assert_op (ir_rchallenge rel \<noteq> None)) (\<lambda>_.
     let challenge1 = BinaryProperty_set_by_value E DDS_AUTHTOKEN_PROP_CHALLENGE1
                        (the (ir_lchallenge rel));
         challenge2 = BinaryProperty_set_by_value E DDS_AUTHTOKEN_PROP_CHALLENGE2
                        (the (ir_rchallenge rel));
         hash_c1_val = hash_value_to_binary_property E DDS_AUTHTOKEN_PROP_HASH_C1 (hs_hash_c1 hs);
         hash_c2_val = hash_value_to_binary_property E DDS_AUTHTOKEN_PROP_HASH_C2 (hs_hash_c2 hs) in
     bind_op (lift_op (create_pq_signature E t (Some (li_privateKey (cx_local c)))
       (final_transcript optional hash_c1_val challenge1 kem_public challenge2 kem_ciphertext
          hash_c2_val))) (\<lambda>signature.
       ret_op
         ([challenge1, challenge2] @
          (if optional
           then [BinaryProperty_set_by_value E DDS_AUTHTOKEN_PROP_HASH_C2 (hs_hash_c2 hs),
                 BinaryProperty_set_by_value E DDS_AUTHTOKEN_PROP_HASH_C1 (hs_hash_c1 hs)]
           else []) @
          [BinaryProperty_set_by_value E DDS_AUTHTOKEN_PROP_KEM_PUBLIC
             (oct_data (bp_value kem_public)),
           BinaryProperty_set_by_value E DDS_AUTHTOKEN_PROP_KEM_CIPHERTEXT
             (oct_data (bp_value kem_ciphertext)),
           BinaryProperty_set_by_value E DDS_AUTHTOKEN_PROP_SIGNATURE signature])))))"

text \<open>
  The secret handle: its secret and the two challenges, challenge1 being that of the side that
  sent the request.
\<close>

definition make_shared_secret :: "addr \<Rightarrow> bytes \<Rightarrow> (hs_ctx, unit) op" where
  "make_shared_secret impl secret =
     bind_op get_op (\<lambda>c.
     bind_op (challenge_value (case hs_created_in (cx_handshake c) of
       CREATEDREQUEST \<Rightarrow> ir_lchallenge (cx_relation c)
     | CREATEDREPLY \<Rightarrow> ir_rchallenge (cx_relation c))) (\<lambda>challenge1.
     bind_op (challenge_value (case hs_created_in (cx_handshake c) of
       CREATEDREQUEST \<Rightarrow> ir_rchallenge (cx_relation c)
     | CREATEDREPLY \<Rightarrow> ir_lchallenge (cx_relation c))) (\<lambda>challenge2.
       set_handshake (\<lambda>hs. hs\<lparr>hs_secret := Some (impl,
         \<lparr>ss_shared_secret = secret, ss_shared_secret_size = SHA256_DIGEST_LENGTH,
          ss_challenge1 = challenge1, ss_challenge2 = challenge2\<rparr>)\<rparr>))))"

text \<open>The validity timer of the peer's certificate; an invalid date drops the secret again.\<close>

definition setup_expiry ::
  "('q, 'a) cyclone_scheme \<Rightarrow> nat \<Rightarrow> (hs_ctx, (addr \<times> 64 word) option) op" where
  "setup_expiry E t =
     bind_op get_op (\<lambda>c.
       case ri_identityCert (cx_remote c) of
         None \<Rightarrow> fault_op Null_dereference
       | Some cert \<Rightarrow>
           let cert_exp = get_certificate_expiry E t cert in
           if cert_exp = DDS_TIME_INVALID then
             bind_op (set_handshake (\<lambda>hs. hs\<lparr>hs_secret := None\<rparr>)) (\<lambda>_.
               lift_op (failed ''Expiry date of the certificate is invalid''))
           else if cert_exp \<noteq> DDS_NEVER \<and> ri_timer (cx_remote c) = 0
           then ret_op (Some (so_handle (cx_remote c), cert_exp))
           else ret_op None)"

definition malloc_impl :: "('q, 'a) cyclone_scheme \<Rightarrow> (auth, addr) op" where
  "malloc_impl E s =
     (case ddsrt_malloc E (clock s) (\<lambda>a. heap s a \<noteq> None) of
        None \<Rightarrow> Fault Out_of_memory
      | Some p \<Rightarrow> Ret (Inr p, s\<lparr>clock := Suc (clock s)\<rparr>))"

datatype handshake_result = OK_FINAL_MESSAGE data_holder | OK

definition process_handshake ::
  "('q, 'a) cyclone_scheme \<Rightarrow> bool \<Rightarrow> data_holder \<Rightarrow> addr \<Rightarrow> (auth, handshake_result) op" where
  "process_handshake E nonnull message_in handshake_handle =
     bind_op (check_op (nonnull \<and> handshake_handle \<noteq> 0)
       ''process_handshake: Invalid parameter provided'') (\<lambda>_.
     bind_op (find_valid E SECURITY_OBJECT_KIND_HANDSHAKE handshake_handle (Exn ERR_UNDEFINED_CODE
       ''process_handshake: Invalid handshake_handle provided'')) (\<lambda>handshake.
     bind_op (load_ctx handshake) (\<lambda>c.
     bind_op tick_op (\<lambda>t.
     bind_op get_op (\<lambda>s.
     bind_op
       (case hs_created_in (cx_handshake c) of
          CREATEDREQUEST \<Rightarrow>
            bind_op (run_ctx handshake (accept_reply E t (include_optional s) (trustedCAList s)
              message_in)) (\<lambda>(kem_public, kem_ciphertext).
            bind_op (run_ctx handshake (final_tokens E t (include_optional s) kem_public
              kem_ciphertext)) (\<lambda>tokens.
              ret_op (OK_FINAL_MESSAGE (handshake_message DDS_AUTHTOKEN_FINAL_CLASS_ID tokens))))
        | CREATEDREPLY \<Rightarrow>
            bind_op (run_ctx handshake (validate_handshake_token E t (include_optional s)
              (trustedCAList s) message_in HS_TOKEN_FINAL)) (\<lambda>_. ret_op OK)) (\<lambda>hs_result.
     bind_op (load_handshake handshake) (\<lambda>hs.
     bind_op (lift_op (generate_shared_secret E t hs)) (\<lambda>secret.
     bind_op (malloc_impl E) (\<lambda>impl.
     bind_op (run_ctx handshake (make_shared_secret impl secret)) (\<lambda>_.
     bind_op (run_ctx handshake (setup_expiry E t)) (\<lambda>expiry.
     bind_op
       (case expiry of
          None \<Rightarrow> ret_op ()
        | Some (hdl, cert_exp) \<Rightarrow>
            bind_op (add_validity_end_trigger E hdl cert_exp) (\<lambda>timer.
              run_ctx handshake (set_remote (\<lambda>r. r\<lparr>ri_timer := timer\<rparr>)))) (\<lambda>_.
       ret_op hs_result))))))))))))"

section \<open>Reading the results\<close>

text \<open>The handle of the shared secret is its address, NIL when there is none.\<close>

definition get_shared_secret ::
  "('q, 'a) cyclone_scheme \<Rightarrow> bool \<Rightarrow> addr \<Rightarrow> (auth, addr) op" where
  "get_shared_secret E nonnull handshake_handle =
     bind_op (check_op (nonnull \<and> handshake_handle \<noteq> 0)
       ''get_shared_secret: Invalid parameter provided'') (\<lambda>_.
     bind_op (find_valid E SECURITY_OBJECT_KIND_HANDSHAKE handshake_handle (Exn ERR_UNDEFINED_CODE
       ''get_shared_secret: Invalid handle provided'')) (\<lambda>p.
     bind_op (load_handshake p) (\<lambda>hs.
       ret_op (case hs_secret hs of None \<Rightarrow> DDS_SECURITY_HANDLE_NIL | Some (a, _) \<Rightarrow> a))))"

definition get_authenticated_peer_credential_token ::
  "('q, 'a) cyclone_scheme \<Rightarrow> bool \<Rightarrow> addr \<Rightarrow> (auth, data_holder) op" where
  "get_authenticated_peer_credential_token E nonnull handshake_handle =
     bind_op (lift_op (if nonnull \<and> handshake_handle \<noteq> 0 then Inr ()
       else failed_code ERR_INVALID_PARAMETER_CODE ''INVALID_PARAMETER'')) (\<lambda>_.
     bind_op (find_valid E SECURITY_OBJECT_KIND_HANDSHAKE handshake_handle
       (Exn ERR_INVALID_PARAMETER_CODE ''INVALID_PARAMETER'')) (\<lambda>p.
     bind_op (load_ctx p) (\<lambda>c.
     bind_op tick_op (\<lambda>t.
     case ri_identityCert (cx_remote c) of
       None \<Rightarrow> lift_op (failed_code ERR_OPERATION_NOT_PERMITTED_CODE ''OPERATION_NOT_PERMITTED'')
     | Some identity_cert \<Rightarrow>
         (case ri_permissionsDocument (cx_remote c) of
            None \<Rightarrow> lift_op (failed_code ERR_MISSING_REMOTE_PERMISSIONS_DOCUMENT_CODE
                       ''MISSING_REMOTE_PERMISSIONS_DOCUMENT'')
          | Some permissions_doc \<Rightarrow>
              bind_op (lift_op (get_certificate_contents E t identity_cert)) (\<lambda>cert_data.
                ret_op \<lparr>class_id = Some DDS_AUTHTOKEN_CLASS_ID,
                  dh_properties =
                    [token_prop DDS_AUTHTOKEN_PROP_C_ID (string_of_octets cert_data),
                     token_prop DDS_AUTHTOKEN_PROP_C_PERM permissions_doc],
                  dh_binary_properties = []\<rparr>))))))"

end
