(* ===== verification/Lifecycle.thy ===== *)
theory Lifecycle
  imports HandshakeOps
begin

text \<open>
  Returning handles, creating and destroying the plugin instance (\<open>authentication.c\<close>, last
  part), and the plugin as a state machine: every operation of the interface is a step, and the
  invariant says that the tables and the pointers between the objects are consistent.
\<close>

section \<open>Listener and returned tokens\<close>

definition set_listener :: "nat option \<Rightarrow> (auth, bool) op" where
  "set_listener new_listener =
     bind_op (modify_op (\<lambda>s. s\<lparr>listener := new_listener,
       dispatcher_enabled := (new_listener \<noteq> None)\<rparr>)) (\<lambda>_. ret_op True)"

definition return_identity_token :: "(auth, bool) op" where
  "return_identity_token = ret_op True"

definition return_identity_status_token :: "(auth, bool) op" where
  "return_identity_status_token = ret_op True"

definition return_sharedsecret_handle :: "addr \<Rightarrow> (auth, bool) op" where
  "return_sharedsecret_handle sharedsecret_handle = ret_op True"

definition return_authenticated_peer_credential_token :: "bool \<Rightarrow> (auth, bool) op" where
  "return_authenticated_peer_credential_token nonnull =
     bind_op (lift_op (if nonnull then Inr ()
       else failed_code ERR_INVALID_PARAMETER_CODE ''INVALID_PARAMETER'')) (\<lambda>_. ret_op True)"

section \<open>Returning handles\<close>

definition return_handshake_handle ::
  "('q, 'a) cyclone_scheme \<Rightarrow> bool \<Rightarrow> addr \<Rightarrow> (auth, unit) op" where
  "return_handshake_handle E nonnull handshake_handle =
     bind_op (check_op (nonnull \<and> handshake_handle \<noteq> 0)
       ''return_handshake_handle: Invalid parameter provided'') (\<lambda>_.
     bind_op (find_valid E SECURITY_OBJECT_KIND_HANDSHAKE handshake_handle (Exn ERR_UNDEFINED_CODE
       ''return_handshake_handle: Invalid handle provided'')) (\<lambda>p.
     bind_op (load_handshake p) (\<lambda>hs.
     bind_op (assert_op (hs_relation hs \<noteq> 0)) (\<lambda>_.
     bind_op (remove_from_objectHash E p) (\<lambda>_. security_object_free p)))))"

definition drop_handshake :: "('q, 'a) cyclone_scheme \<Rightarrow> addr option \<Rightarrow> (auth, unit) op" where
  "drop_handshake E handshake =
     (case handshake of
        None \<Rightarrow> ret_op ()
      | Some h \<Rightarrow> bind_op (remove_from_objectHash E h) (\<lambda>_. security_object_free h))"

text \<open>
  The loops visit the entries of a table that are still in it: an entry the loop removed is
  not visited.
\<close>

fun invalidate_local_loop ::
  "('q, 'a) cyclone_scheme \<Rightarrow> addr \<Rightarrow> addr list \<Rightarrow> (auth, unit) op" where
  "invalidate_local_loop E localIdent [] = ret_op ()"
| "invalidate_local_loop E localIdent (p # ps) =
     bind_op get_op (\<lambda>s.
     if p \<notin> set (objectHash s) then invalidate_local_loop E localIdent ps
     else
       bind_op (load_op p) (\<lambda>obj.
       if obj_kind obj \<noteq> SECURITY_OBJECT_KIND_REMOTE_IDENTITY
       then invalidate_local_loop E localIdent ps
       else
         bind_op (load_op localIdent) (\<lambda>l.
         bind_op (find_handshake E (obj_handle l) (obj_handle obj)) (\<lambda>handshake.
         bind_op (drop_handshake E handshake) (\<lambda>_.
         bind_op (find_identity_relation E p (obj_handle l)) (\<lambda>relation.
         bind_op (case relation of None \<Rightarrow> ret_op ()
                  | Some r \<Rightarrow> remove_identity_relation E p r) (\<lambda>_.
           invalidate_local_loop E localIdent ps)))))))"

definition invalidate_local_related_objects ::
  "('q, 'a) cyclone_scheme \<Rightarrow> addr \<Rightarrow> (auth, unit) op" where
  "invalidate_local_related_objects E localIdent =
     bind_op get_op (\<lambda>s. invalidate_local_loop E localIdent (hh_iter E (objectHash s)))"

fun invalidate_remote_loop ::
  "('q, 'a) cyclone_scheme \<Rightarrow> addr \<Rightarrow> addr list \<Rightarrow> (auth, unit) op" where
  "invalidate_remote_loop E remoteIdent [] = ret_op ()"
| "invalidate_remote_loop E remoteIdent (q # qs) =
     bind_op (load_remote remoteIdent) (\<lambda>r.
     if q \<notin> set (ri_linkHash r) then invalidate_remote_loop E remoteIdent qs
     else
       bind_op (load_relation q) (\<lambda>rel.
       bind_op (load_op (ir_localIdentity rel)) (\<lambda>l.
       bind_op (find_handshake E (obj_handle l) (so_handle r)) (\<lambda>handshake.
       bind_op (drop_handshake E handshake) (\<lambda>_.
       bind_op (remove_from_linkHash E remoteIdent q) (\<lambda>_.
       bind_op (security_object_free q) (\<lambda>_.
         invalidate_remote_loop E remoteIdent qs)))))))"

definition invalidate_remote_related_objects ::
  "('q, 'a) cyclone_scheme \<Rightarrow> addr \<Rightarrow> (auth, unit) op" where
  "invalidate_remote_related_objects E remoteIdent =
     bind_op (load_remote remoteIdent)
       (\<lambda>r. invalidate_remote_loop E remoteIdent (hh_iter E (ri_linkHash r)))"

definition return_identity_handle ::
  "('q, 'a) cyclone_scheme \<Rightarrow> bool \<Rightarrow> addr \<Rightarrow> (auth, unit) op" where
  "return_identity_handle E nonnull identity_handle =
     bind_op (check_op (nonnull \<and> identity_handle \<noteq> 0)
       ''return_identity_handle: Invalid parameter provided'') (\<lambda>_.
     bind_op get_op (\<lambda>s.
     bind_op (security_object_find E (objectHash s) identity_handle) (\<lambda>found.
       case found of
         None \<Rightarrow> lift_op (failed ''return_identity_handle: Invalid handle provided'')
       | Some p \<Rightarrow>
           bind_op (load_op p) (\<lambda>obj.
             case obj of
               LocalIdentity l \<Rightarrow>
                 bind_op (if li_timer l \<noteq> 0 then timed_dispatcher_remove (li_timer l) else ret_op ())
                   (\<lambda>_.
                 bind_op (invalidate_local_related_objects E p) (\<lambda>_.
                 bind_op (remove_from_objectHash E p) (\<lambda>_. security_object_free p)))
             | RemoteIdentity r \<Rightarrow>
                 bind_op (if ri_timer r \<noteq> 0 then timed_dispatcher_remove (ri_timer r) else ret_op ())
                   (\<lambda>_.
                 bind_op (invalidate_remote_related_objects E p) (\<lambda>_.
                 bind_op (remove_from_remoteGuidHash E p) (\<lambda>_.
                 bind_op (remove_from_objectHash E p) (\<lambda>_. security_object_free p))))
             | _ \<Rightarrow> lift_op (failed ''return_identity_handle: Invalid handle provided'')))))"

section \<open>The instance\<close>

text \<open>The KEM the build selected, from OpenSSL itself or from a fallback provider.\<close>

definition ensure_selected_kem_available ::
  "('q, 'a) cyclone_scheme \<Rightarrow> auth \<Rightarrow> bool \<times> auth" where
  "ensure_selected_kem_available E s =
     (let kind = get_default_kem_algorithm_kind (SELECTED_KEM_ALGORITHM E);
          named = (\<lambda>p. case p of None \<Rightarrow> None | Some n \<Rightarrow> if n = '''' then None else Some n);
          provider_name = (case named (getenv_provider E) of
             Some n \<Rightarrow> Some n | None \<Rightarrow> named (PQSEC_FALLBACK_PROVIDER E)) in
      if kind = AUTH_ALGO_KIND_UNKNOWN then (False, s)
      else if pqsec_kem_is_available E (clock s) kind then (True, s\<lparr>clock := clock s + 1\<rparr>)
      else
        (case provider_name of
           None \<Rightarrow> (False, s\<lparr>clock := clock s + 1\<rparr>)
         | Some n \<Rightarrow>
             if \<not> OSSL_PROVIDER_try_load E (clock s) n
             then (False, s\<lparr>fallback_provider := None, clock := clock s + 1\<rparr>)
             else if \<not> pqsec_kem_is_available E (clock s + 1) kind
             then (False, s\<lparr>fallback_provider := None, clock := clock s + 2\<rparr>)
             else (True, s\<lparr>fallback_provider := Some n, clock := clock s + 2\<rparr>)))"

text \<open>\<open>init_authentication\<close>: the new instance, or None for the return value -1.\<close>

definition init_authentication ::
  "('q, 'a) cyclone_scheme \<Rightarrow> bool \<Rightarrow> nat \<Rightarrow> auth option" where
  "init_authentication E handshake_include_optional now =
     (let s = \<lparr>heap = (\<lambda>_. None), objectHash = [], remoteGuidHash = [], dispatcher = [],
               dispatcher_enabled = False, listener = None,
               trustedCAList = \<lparr>xs_length = 0, xs_buffer = None\<rparr>,
               include_optional = handshake_include_optional, fallback_provider = None,
               clock = now\<rparr>
      in case ensure_selected_kem_available E s of
           (ok, s') \<Rightarrow> if ok then Some s' else None)"

text \<open>
  \<open>finalize_authentication\<close>: the objects of the table are freed, their kinds checked by the
  destructors; the value is the heap left behind.
\<close>

fun free_all :: "addr list \<Rightarrow> (auth, unit) op" where
  "free_all [] = ret_op ()"
| "free_all (p # ps) = bind_op (security_object_free p) (\<lambda>_. free_all ps)"

definition finalize_authentication :: "('q, 'a) cyclone_scheme \<Rightarrow> (auth, obj_heap) op" where
  "finalize_authentication E =
     bind_op (modify_op (\<lambda>s. s\<lparr>dispatcher := [], remoteGuidHash := []\<rparr>)) (\<lambda>_.
     bind_op get_op (\<lambda>s.
     bind_op (free_all (hh_iter E (objectHash s))) (\<lambda>_.
     bind_op (modify_op (\<lambda>s. s\<lparr>objectHash := [],
       trustedCAList := fst (free_ca_list_contents (trustedCAList s)),
       fallback_provider := None\<rparr>)) (\<lambda>_.
     bind_op get_op (\<lambda>s. ret_op (heap s))))))"

end
