(* ===== verification/Systems.thy ===== *)
theory Systems
  imports Prelude
begin

text \<open>
  Reasoning about the operations of Prelude from one state (weakest preconditions), and about
  systems that move by steps (reachable states and their invariants).  Both adapters use it.
\<close>

section \<open>Running an operation from a state\<close>

definition wp ::
  "('s, 'a) op \<Rightarrow> 's \<Rightarrow> ('a \<Rightarrow> 's \<Rightarrow> bool) \<Rightarrow> ('s \<Rightarrow> bool) \<Rightarrow> fault set \<Rightarrow> bool" where
  "wp m s Q X Z \<longleftrightarrow>
     (case m s of
        Fault f \<Rightarrow> f \<in> Z
      | Ret (r, s') \<Rightarrow> (case r of Inl e \<Rightarrow> X s' | Inr x \<Rightarrow> Q x s'))"

lemma triple_wp: "triple P m Q X Z \<longleftrightarrow> (\<forall>s. P s \<longrightarrow> wp m s Q X Z)"
  by (simp add: triple_def wp_def)

named_theorems wp_rules \<open>weakest preconditions of the operations\<close>

lemma wp_bind_iff: "wp (bind_op m f) s Q X Z \<longleftrightarrow> wp m s (\<lambda>x s'. wp (f x) s' Q X Z) X Z"
  by (auto simp: wp_def bind_op_def split: outcome.splits sum.splits prod.splits)

lemmas wp_bind [wp_rules] = iffD2 [OF wp_bind_iff]

lemma wp_on_fail:
  assumes "wp m s Q (\<lambda>s'. wp c s' (\<lambda>_. X) X Z) Z"
  shows "wp (on_fail m c) s Q X Z"
proof (cases "m s")
  case (Ret p)
  obtain r s' where p: "p = (r, s')" by fastforce
  show ?thesis
  proof (cases r)
    case (Inl e)
    then have "wp c s' (\<lambda>_. X) X Z" using assms Ret p by (simp add: wp_def)
    then show ?thesis
      using Ret p Inl
      by (simp add: wp_def on_fail_def split: outcome.splits sum.splits prod.splits)
  qed (use assms Ret p in \<open>simp add: wp_def on_fail_def\<close>)
qed (use assms in \<open>simp add: wp_def on_fail_def\<close>)

lemma wp_mono:
  assumes "wp m s Q X Z" and "\<And>x s'. Q x s' \<Longrightarrow> Q' x s'" and "\<And>s'. X s' \<Longrightarrow> X' s'" and "Z \<subseteq> Z'"
  shows "wp m s Q' X' Z'"
  using assms by (auto simp: wp_def split: outcome.splits sum.splits)

lemma wp_ret [simp]: "wp (ret_op x) s Q X Z \<longleftrightarrow> Q x s" by (simp add: wp_def)
lemma wp_get [simp]: "wp get_op s Q X Z \<longleftrightarrow> Q s s" by (simp add: wp_def)
lemma wp_modify [simp]: "wp (modify_op g) s Q X Z \<longleftrightarrow> Q () (g s)" by (simp add: wp_def)
lemma wp_fault [simp]: "wp (fault_op f) s Q X Z \<longleftrightarrow> f \<in> Z" by (simp add: wp_def)
lemma wp_lift_Inr [simp]: "wp (lift_op (Inr x)) s Q X Z \<longleftrightarrow> Q x s" by (simp add: wp_def)
lemma wp_lift_Inl [simp]: "wp (lift_op (Inl e)) s Q X Z \<longleftrightarrow> X s" by (simp add: wp_def)

lemma wp_lift_failed [simp]:
  "wp (lift_op (failed msg)) s Q X Z \<longleftrightarrow> X s"
  "wp (lift_op (failed_code cd msg)) s Q X Z \<longleftrightarrow> X s"
  "wp (lift_op failed_silent) s Q X Z \<longleftrightarrow> X s"
  by (simp_all add: wp_def failed_def failed_code_def failed_silent_def)

lemma wp_check_op [simp]: "wp (check_op b msg) s Q X Z \<longleftrightarrow> (if b then Q () s else X s)"
  by (simp add: wp_def check_vres_def failed_def)

lemma wp_assert_op [simp]:
  "wp (assert_op b) s Q X Z \<longleftrightarrow> (if b then Q () s else Assertion_failed \<in> Z)"
  by (simp add: wp_def)

lemma wp_lift: "(\<And>x. r = Inr x \<Longrightarrow> Q x s) \<Longrightarrow> X s \<Longrightarrow> wp (lift_op r) s Q X Z"
  by (cases r) simp_all

lemma wp_check: "(b \<Longrightarrow> Q () s) \<Longrightarrow> X s \<Longrightarrow> wp (check_op b msg) s Q X Z"
  by simp

text \<open>An operation whose value is dropped.\<close>

definition no_value :: "('s, 'a) op \<Rightarrow> ('s, unit) op" where
  "no_value m = bind_op m (\<lambda>_. ret_op ())"

lemma wp_no_value: "wp m s (\<lambda>_. R) R Z \<Longrightarrow> wp (no_value m) s (\<lambda>_. R) R Z"
  by (simp add: no_value_def wp_bind_iff)

section \<open>Reachable states\<close>

text \<open>
  Systems that start in some states and move by steps: what holds initially and is kept by every
  step holds of every reachable state.
\<close>

inductive reachable :: "('s \<Rightarrow> bool) \<Rightarrow> ('s \<Rightarrow> 's \<Rightarrow> bool) \<Rightarrow> 's \<Rightarrow> bool"
  for init :: "'s \<Rightarrow> bool" and step :: "'s \<Rightarrow> 's \<Rightarrow> bool" where
  start: "init s \<Longrightarrow> reachable init step s"
| step: "reachable init step s \<Longrightarrow> step s s' \<Longrightarrow> reachable init step s'"

locale state_invariant =
  fixes init :: "'s \<Rightarrow> bool" and step :: "'s \<Rightarrow> 's \<Rightarrow> bool" and inv :: "'s \<Rightarrow> bool"
  assumes init_ok: "init s \<Longrightarrow> inv s"
    and step_ok: "inv s \<Longrightarrow> step s s' \<Longrightarrow> inv s'"
begin

lemma reachable_ok: "reachable init step s \<Longrightarrow> inv s"
  by (induction rule: reachable.induct) (auto intro: init_ok step_ok)

end

end
