(* ===== verification/Store.thy ===== *)
theory Store
  imports Lifecycle Systems
begin

text \<open>
  The invariant of an instance.  The heap of security objects is abstracted to a graph of their
  handles and pointers; the graph must be closed (no pointer to a freed object, every relation
  linked from its remote identity, at most one relation between two identities and one handshake
  for a relation), and the tables must list exactly the live objects.  The lemmas say which
  changes of the heap keep it so.
\<close>

section \<open>The steps on the plugin state\<close>

lemma wp_tick: "wp tick_op s Q X Z \<longleftrightarrow> Q (clock s) (s\<lparr>clock := Suc (clock s)\<rparr>)"
  by (simp add: wp_def tick_op_def)

lemma wp_load: "heap s p = Some obj \<Longrightarrow> wp (load_op p) s Q X Z \<longleftrightarrow> Q obj s"
  by (simp add: wp_def load_op_def)

lemma wp_store:
  "heap s p = Some x \<Longrightarrow> wp (store_op p obj) s Q X Z \<longleftrightarrow> Q () (s\<lparr>heap := (heap s)(p \<mapsto> obj)\<rparr>)"
  by (simp add: wp_def store_op_def)

lemma wp_load_typed:
  "heap s p = Some (LocalIdentity l) \<Longrightarrow> wp (load_local p) s Q1 X Z \<longleftrightarrow> Q1 l s"
  "heap s p = Some (RemoteIdentity r) \<Longrightarrow> wp (load_remote p) s Q2 X Z \<longleftrightarrow> Q2 r s"
  "heap s p = Some (Relation rel) \<Longrightarrow> wp (load_relation p) s Q3 X Z \<longleftrightarrow> Q3 rel s"
  "heap s p = Some (Handshake hs) \<Longrightarrow> wp (load_handshake p) s Q4 X Z \<longleftrightarrow> Q4 hs s"
  by (simp_all add: wp_def load_local_def load_remote_def load_relation_def load_handshake_def
      bind_op_def load_op_def)

section \<open>The graph of the heap\<close>

datatype node =
    Local_node addr
  | Remote_node addr guid "addr list"
  | Relation_node addr addr addr
  | Handshake_node addr addr CreatedHandshakeStep_t

type_synonym graph = "addr \<Rightarrow> node option"

fun node_of :: "sec_obj \<Rightarrow> node" where
  "node_of (LocalIdentity l) = Local_node (so_handle l)"
| "node_of (RemoteIdentity r) = Remote_node (so_handle r) (ri_guid r) (ri_linkHash r)"
| "node_of (Relation rel) =
     Relation_node (so_handle rel) (ir_localIdentity rel) (ir_remoteIdentity rel)"
| "node_of (Handshake hs) = Handshake_node (so_handle hs) (hs_relation hs) (hs_created_in hs)"

fun obj_wf :: "sec_obj \<Rightarrow> bool" where
  "obj_wf (LocalIdentity l) \<longleftrightarrow> so_kind l = SECURITY_OBJECT_KIND_LOCAL_IDENTITY"
| "obj_wf (RemoteIdentity r) \<longleftrightarrow> so_kind r = SECURITY_OBJECT_KIND_REMOTE_IDENTITY"
| "obj_wf (Relation rel) \<longleftrightarrow>
     so_kind rel = SECURITY_OBJECT_KIND_IDENTITY_RELATION \<and> ir_lchallenge rel \<noteq> None"
| "obj_wf (Handshake hs) \<longleftrightarrow> so_kind hs = SECURITY_OBJECT_KIND_HANDSHAKE"

definition graph_of :: "obj_heap \<Rightarrow> graph" where
  "graph_of h p = map_option node_of (h p)"

fun is_relation :: "node \<Rightarrow> bool" where
  "is_relation (Relation_node a l r) = True"
| "is_relation _ = False"

fun is_remote :: "node \<Rightarrow> bool" where
  "is_remote (Remote_node a g ls) = True"
| "is_remote _ = False"

definition guid_eq :: "guid \<Rightarrow> guid \<Rightarrow> bool" where
  "guid_eq g k \<longleftrightarrow> memcmp (guid_octets g) (guid_octets k) 16 = 0"

lemma guid_eq_refl [simp]: "guid_eq g g" by (simp add: guid_eq_def)

lemma guid_eq_sym: "guid_eq g k \<longleftrightarrow> guid_eq k g"
  by (simp add: guid_eq_def memcmp_antisym [of "guid_octets g"])

text \<open>A closed graph.\<close>

fun node_ok :: "graph \<Rightarrow> addr \<Rightarrow> node \<Rightarrow> bool" where
  "node_ok G p (Local_node a) \<longleftrightarrow> a = p"
| "node_ok G p (Remote_node a g ls) \<longleftrightarrow>
     a = p \<and> (\<forall>q \<in> set ls. \<exists>l. G q = Some (Relation_node l l p))"
| "node_ok G p (Relation_node a l r) \<longleftrightarrow>
     a = l \<and> G l = Some (Local_node l) \<and>
     (\<exists>g ls. G r = Some (Remote_node r g ls) \<and> p \<in> set ls)"
| "node_ok G p (Handshake_node a q c) \<longleftrightarrow>
     a = p \<and> (\<exists>l r. G q = Some (Relation_node l l r))"

definition graph_ok :: "graph \<Rightarrow> bool" where
  "graph_ok G \<longleftrightarrow>
     G 0 = None \<and>
     (\<forall>p n. G p = Some n \<longrightarrow> node_ok G p n) \<and>
     (\<forall>p q l r. G p = Some (Relation_node l l r) \<longrightarrow> G q = Some (Relation_node l l r) \<longrightarrow> p = q) \<and>
     (\<forall>p q a b c d rel. G p = Some (Handshake_node a rel c) \<longrightarrow>
        G q = Some (Handshake_node b rel d) \<longrightarrow> p = q) \<and>
     (\<forall>p q a b g k ls ms. G p = Some (Remote_node a g ls) \<longrightarrow> G q = Some (Remote_node b k ms) \<longrightarrow>
        guid_eq g k \<longrightarrow> p = q)"

lemma graph_ok_zero: "graph_ok G \<Longrightarrow> G 0 = None"
  by (simp add: graph_ok_def)

lemma graph_ok_node: "graph_ok G \<Longrightarrow> G p = Some n \<Longrightarrow> node_ok G p n"
  by (simp add: graph_ok_def)

lemma graph_ok_relation_unique:
  "graph_ok G \<Longrightarrow> G p = Some (Relation_node l l r) \<Longrightarrow> G q = Some (Relation_node l l r) \<Longrightarrow> p = q"
  unfolding graph_ok_def by (elim conjE) metis

lemma graph_ok_handshake_unique:
  "graph_ok G \<Longrightarrow> G p = Some (Handshake_node a rel c) \<Longrightarrow> G q = Some (Handshake_node b rel d) \<Longrightarrow>
     p = q"
  unfolding graph_ok_def by (elim conjE) metis

lemma graph_ok_guid_unique:
  "graph_ok G \<Longrightarrow> G p = Some (Remote_node a g ls) \<Longrightarrow> G q = Some (Remote_node b k ms) \<Longrightarrow>
     guid_eq g k \<Longrightarrow> p = q"
  unfolding graph_ok_def by (elim conjE) metis

section \<open>Changes of a closed graph\<close>

lemma graph_okI:
  assumes "G 0 = None" and "\<And>p n. G p = Some n \<Longrightarrow> node_ok G p n"
    and "\<And>p q l r. G p = Some (Relation_node l l r) \<Longrightarrow> G q = Some (Relation_node l l r) \<Longrightarrow> p = q"
    and "\<And>p q a b c d rel. G p = Some (Handshake_node a rel c) \<Longrightarrow>
      G q = Some (Handshake_node b rel d) \<Longrightarrow> p = q"
    and "\<And>p q a b g k ls ms. G p = Some (Remote_node a g ls) \<Longrightarrow> G q = Some (Remote_node b k ms) \<Longrightarrow>
      guid_eq g k \<Longrightarrow> p = q"
  shows "graph_ok G"
  unfolding graph_ok_def using assms by (intro conjI allI impI) metis+

lemma node_ok_add:
  assumes "node_ok G q n" and "G p = None"
  shows "node_ok (G(p \<mapsto> m)) q n"
  using assms by (cases n) auto

lemma graph_add_local:
  assumes ok: "graph_ok G" and p: "G p = None" "p \<noteq> 0"
  shows "graph_ok (G(p \<mapsto> Local_node p))"
proof (rule graph_okI)
  show "node_ok (G(p \<mapsto> Local_node p)) q n" if "(G(p \<mapsto> Local_node p)) q = Some n" for q n
    using that p graph_ok_node [OF ok] by (cases "q = p") (auto intro: node_ok_add simp del: fun_upd_apply simp: fun_upd_same fun_upd_other)
qed (use p graph_ok_zero [OF ok] in \<open>auto split: if_split_asm
  dest: graph_ok_relation_unique [OF ok] graph_ok_handshake_unique [OF ok]
    graph_ok_guid_unique [OF ok]\<close>)

lemma graph_add_remote:
  assumes ok: "graph_ok G" and p: "G p = None" "p \<noteq> 0"
    and new: "\<And>q a k ls. G q = Some (Remote_node a k ls) \<Longrightarrow> \<not> guid_eq g k"
  shows "graph_ok (G(p \<mapsto> Remote_node p g []))"
proof (rule graph_okI)
  show "node_ok (G(p \<mapsto> Remote_node p g [])) q n" if "(G(p \<mapsto> Remote_node p g [])) q = Some n" for q n
    using that p graph_ok_node [OF ok] by (cases "q = p") (auto intro: node_ok_add simp del: fun_upd_apply simp: fun_upd_same fun_upd_other)
next
  fix q q' a b g1 k ls ms
  assume "(G(p \<mapsto> Remote_node p g [])) q = Some (Remote_node a g1 ls)"
    "(G(p \<mapsto> Remote_node p g [])) q' = Some (Remote_node b k ms)" "guid_eq g1 k"
  then show "q = q'"
    using new guid_eq_sym [of g1] by (auto split: if_split_asm dest: graph_ok_guid_unique [OF ok])
qed (use p graph_ok_zero [OF ok] in \<open>auto split: if_split_asm
  dest: graph_ok_relation_unique [OF ok] graph_ok_handshake_unique [OF ok]\<close>)

lemma graph_add_handshake:
  assumes ok: "graph_ok G" and p: "G p = None" "p \<noteq> 0" and rel: "G q = Some (Relation_node l l r)"
    and new: "\<And>h a c. G h \<noteq> Some (Handshake_node a q c)"
  shows "graph_ok (G(p \<mapsto> Handshake_node p q created))"
proof (rule graph_okI)
  have "q \<noteq> p" using p rel by auto
  then show "node_ok (G(p \<mapsto> Handshake_node p q created)) x n"
    if "(G(p \<mapsto> Handshake_node p q created)) x = Some n" for x n
    using that p rel graph_ok_node [OF ok]
    by (cases "x = p") (auto intro: node_ok_add simp del: fun_upd_apply simp: fun_upd_same fun_upd_other)
qed (use p new graph_ok_zero [OF ok] in \<open>auto split: if_split_asm
  dest: graph_ok_relation_unique [OF ok] graph_ok_handshake_unique [OF ok]
    graph_ok_guid_unique [OF ok]\<close>)

lemma node_ok_extend:
  assumes n: "node_ok G x n"
    and l: "\<And>a. G a = Some (Local_node a) \<Longrightarrow> G' a = Some (Local_node a)"
    and rel: "\<And>y a b. G y = Some (Relation_node a a b) \<Longrightarrow> G' y = Some (Relation_node a a b)"
    and r: "\<And>y g ls. G y = Some (Remote_node y g ls) \<Longrightarrow>
      \<exists>ms. G' y = Some (Remote_node y g ms) \<and> set ls \<subseteq> set ms"
  shows "node_ok G' x n"
proof (cases n)
  case (Relation_node a b c)
  then obtain g ls where "a = b" "G b = Some (Local_node b)" "G c = Some (Remote_node c g ls)" "x \<in> set ls"
    using n by auto
  then show ?thesis using Relation_node l [of b] r [of c g ls] by auto
next
  case (Remote_node a g ls)
  then have "a = x" "\<forall>y \<in> set ls. \<exists>m. G y = Some (Relation_node m m x)" using n by auto
  then show ?thesis using Remote_node rel by auto
next
  case (Handshake_node a q c)
  then obtain m k where "a = x" "G q = Some (Relation_node m m k)" using n by auto
  then show ?thesis using Handshake_node rel [of q m k] by auto
qed (use n in simp)

lemma graph_add_relation:
  assumes ok: "graph_ok G" and q: "G q = None" "q \<noteq> 0"
    and l: "G l = Some (Local_node l)" and r: "G r = Some (Remote_node r g ls)"
    and new: "\<And>x. G x \<noteq> Some (Relation_node l l r)" and ls': "set ls' = insert q (set ls)"
  shows "graph_ok (G(q \<mapsto> Relation_node l l r, r \<mapsto> Remote_node r g ls'))" (is "graph_ok ?G")
proof (rule graph_okI)
  have neq: "q \<noteq> l" "q \<noteq> r" "l \<noteq> r" using q l r by auto
  show "node_ok ?G x n" if "?G x = Some n" for x n
  proof -
    consider "x = r" "n = Remote_node r g ls'" | "x = q" "x \<noteq> r" "n = Relation_node l l r"
      | "x \<noteq> r" "x \<noteq> q" "G x = Some n"
      using \<open>?G x = Some n\<close> by (auto split: if_split_asm)
    then show ?thesis
    proof cases
      case 1
      have "\<forall>y \<in> set ls. y \<noteq> r \<and> (\<exists>m. G y = Some (Relation_node m m r))"
        using graph_ok_node [OF ok r] r by auto
      then show ?thesis using 1 neq ls' by auto
    next
      case 2 then show ?thesis using neq l ls' by auto
    next
      case 3
      have n: "node_ok G x n" using 3(3) by (rule graph_ok_node [OF ok])
      show ?thesis
      proof (rule node_ok_extend [OF n])
        fix y g' ls1 assume "G y = Some (Remote_node y g' ls1)"
        then show "\<exists>ms. ?G y = Some (Remote_node y g' ms) \<and> set ls1 \<subseteq> set ms"
          using r q ls' by (cases "y = r"; cases "y = q") auto
      qed (use q r in \<open>auto split: if_split_asm\<close>)
    qed
  qed
next
  show "?G 0 = None" using q r graph_ok_zero [OF ok] by (cases "r = 0") auto
next
  have old: "G y = Some (Relation_node a a b) \<or> y = q \<and> a = l \<and> b = r"
    if "?G y = Some (Relation_node a a b)" for y a b
    using that by (cases "y = r"; cases "y = q") simp_all
  fix y z a b
  assume "?G y = Some (Relation_node a a b)" and "?G z = Some (Relation_node a a b)"
  then show "y = z"
    using old [of y a b] old [of z a b] new graph_ok_relation_unique [OF ok, of y a b z] by blast
next
  have old: "G y = Some (Handshake_node a b c)" if "?G y = Some (Handshake_node a b c)" for y a b c
    using that by (cases "y = r"; cases "y = q") simp_all
  show "y = z" if "?G y = Some (Handshake_node a rel c)" and "?G z = Some (Handshake_node b rel d)"
    for y z a b c d rel
    using old [OF that(1)] old [OF that(2)] by (rule graph_ok_handshake_unique [OF ok])
next
  have old: "\<exists>ms'. G y = Some (Remote_node a k ms')" if "?G y = Some (Remote_node a k ms)" for y a k ms
    using that r by (cases "y = r"; cases "y = q") simp_all
  fix y z a b g k ls ms
  assume "?G y = Some (Remote_node a g ls)" and "?G z = Some (Remote_node b k ms)" "guid_eq g k"
  then show "y = z"
    using old [of y a g ls] old [of z b k ms] graph_ok_guid_unique [OF ok] by blast
qed

lemma graph_drop_handshake:
  assumes ok: "graph_ok G" and p: "G p = Some (Handshake_node a q c)"
  shows "graph_ok (G(p := None))"
proof (rule graph_okI)
  show "node_ok (G(p := None)) x n" if "(G(p := None)) x = Some n" for x n
  proof -
    have x: "x \<noteq> p" "G x = Some n" using that by (auto split: if_split_asm)
    have "node_ok G x n" using x(2) by (rule graph_ok_node [OF ok])
    then show ?thesis using p x by (cases n) auto
  qed
qed (use p graph_ok_zero [OF ok] in \<open>auto split: if_split_asm
  dest: graph_ok_relation_unique [OF ok] graph_ok_handshake_unique [OF ok]
    graph_ok_guid_unique [OF ok]\<close>)

lemma graph_drop_relation:
  assumes ok: "graph_ok G" and q: "G q = Some (Relation_node l l r)"
    and r: "G r = Some (Remote_node r g ls)"
    and free: "\<And>h a c. G h \<noteq> Some (Handshake_node a q c)" and ls': "set ls' = set ls - {q}"
  shows "graph_ok (G(r \<mapsto> Remote_node r g ls', q := None))" (is "graph_ok ?G")
proof (rule graph_okI)
  have neq: "q \<noteq> r" using q r by auto
  show "node_ok ?G x n" if "?G x = Some n" for x n
  proof -
    have "node_ok G r (Remote_node r g ls)" using r by (rule graph_ok_node [OF ok])
    then have links: "\<forall>y \<in> set ls. \<exists>m. G y = Some (Relation_node m m r)" by simp
    have l: "G l = Some (Local_node l)" using graph_ok_node [OF ok q] by simp
    consider "x = r" "n = Remote_node r g ls'" | "x \<noteq> r" "x \<noteq> q" "G x = Some n"
      using \<open>?G x = Some n\<close> by (auto split: if_split_asm)
    then show ?thesis
    proof cases
      case 1
      show ?thesis unfolding 1(2) node_ok.simps
      proof (intro conjI ballI)
        fix y assume "y \<in> set ls'"
        then have "y \<in> set ls" "y \<noteq> q" using ls' by auto
        moreover from this links obtain m where "G y = Some (Relation_node m m r)" by auto
        ultimately show "\<exists>m. ?G y = Some (Relation_node m m x)"
          using r 1 by (cases "y = r") auto
      qed (use 1 in simp)
    next
      case 2
      have n: "node_ok G x n" using 2(3) by (rule graph_ok_node [OF ok])
      show ?thesis
      proof (cases n)
        case (Remote_node a k ms)
        have a: "a = x" "\<forall>y \<in> set ms. \<exists>m. G y = Some (Relation_node m m x)"
          using n Remote_node by auto
        have "\<exists>m. ?G y = Some (Relation_node m m x)" if "y \<in> set ms" for y
        proof -
          from a(2) that have "\<exists>m. G y = Some (Relation_node m m x)" by (rule bspec)
          then obtain m where y: "G y = Some (Relation_node m m x)" ..
          have "y \<noteq> q" using y q 2 by auto
          moreover have "y \<noteq> r" using y r by auto
          ultimately show ?thesis using y by auto
        qed
        then show ?thesis using a Remote_node by auto
      next
        case (Relation_node a b c)
        then obtain k ms where *: "a = b" "G b = Some (Local_node b)"
            "G c = Some (Remote_node c k ms)" "x \<in> set ms"
          using n by auto
        have "?G b = Some (Local_node b)" using * q r by (cases "b = q"; cases "b = r") auto
        moreover have "\<exists>k ms. ?G c = Some (Remote_node c k ms) \<and> x \<in> set ms"
          using * q r ls' 2 by (cases "c = r"; cases "c = q") auto
        ultimately show ?thesis using Relation_node * by auto
      next
        case (Handshake_node a q' c)
        then obtain m k where *: "a = x" "G q' = Some (Relation_node m m k)" using n by auto
        have "q' \<noteq> q" using free 2 Handshake_node by auto
        moreover have "q' \<noteq> r" using * r by auto
        ultimately show ?thesis using * Handshake_node by auto
      qed (use n in simp)
    qed
  qed
next
  show "?G 0 = None" using q r graph_ok_zero [OF ok] by (cases "r = 0") auto
next
  have old: "G y = Some (Relation_node a a b)" if "?G y = Some (Relation_node a a b)" for y a b
    using that by (cases "y = q"; cases "y = r") simp_all
  show "y = z" if "?G y = Some (Relation_node a a b)" and "?G z = Some (Relation_node a a b)" for y z a b
    using old [OF that(1)] old [OF that(2)] by (rule graph_ok_relation_unique [OF ok])
next
  have old: "G y = Some (Handshake_node a b c)" if "?G y = Some (Handshake_node a b c)" for y a b c
    using that by (cases "y = q"; cases "y = r") simp_all
  show "y = z" if "?G y = Some (Handshake_node a rel c)" and "?G z = Some (Handshake_node b rel d)"
    for y z a b c d rel
    using old [OF that(1)] old [OF that(2)] by (rule graph_ok_handshake_unique [OF ok])
next
  have old: "\<exists>ms'. G y = Some (Remote_node a k ms')" if "?G y = Some (Remote_node a k ms)" for y a k ms
    using that r by (cases "y = q"; cases "y = r") simp_all
  fix y z a b g k ls ms
  assume "?G y = Some (Remote_node a g ls)" and "?G z = Some (Remote_node b k ms)" "guid_eq g k"
  then show "y = z"
    using old [of y a g ls] old [of z b k ms] graph_ok_guid_unique [OF ok] by blast
qed

lemma graph_drop_local:
  assumes ok: "graph_ok G" and p: "G p = Some (Local_node p)"
    and free: "\<And>q a r. G q \<noteq> Some (Relation_node a p r)"
  shows "graph_ok (G(p := None))"
proof (rule graph_okI)
  show "node_ok (G(p := None)) x n" if "(G(p := None)) x = Some n" for x n
  proof -
    have x: "x \<noteq> p" "G x = Some n" using that by (auto split: if_split_asm)
    have "node_ok G x n" using x(2) by (rule graph_ok_node [OF ok])
    then show ?thesis using p x free by (cases n) auto
  qed
qed (use p graph_ok_zero [OF ok] in \<open>auto split: if_split_asm
  dest: graph_ok_relation_unique [OF ok] graph_ok_handshake_unique [OF ok]
    graph_ok_guid_unique [OF ok]\<close>)

lemma graph_drop_remote:
  assumes ok: "graph_ok G" and p: "G p = Some (Remote_node p g [])"
  shows "graph_ok (G(p := None))"
proof (rule graph_okI)
  show "node_ok (G(p := None)) x n" if "(G(p := None)) x = Some n" for x n
  proof -
    have x: "x \<noteq> p" "G x = Some n" using that by (auto split: if_split_asm)
    have "node_ok G x n" using x(2) by (rule graph_ok_node [OF ok])
    then show ?thesis using p x by (cases n) auto
  qed
qed (use p graph_ok_zero [OF ok] in \<open>auto split: if_split_asm
  dest: graph_ok_relation_unique [OF ok] graph_ok_handshake_unique [OF ok]
    graph_ok_guid_unique [OF ok]\<close>)

section \<open>The shape of an instance\<close>

text \<open>The relations that have stored the peer's challenge.\<close>

definition answered :: "obj_heap \<Rightarrow> addr set" where
  "answered h = {q. \<exists>rel. h q = Some (Relation rel) \<and> ir_rchallenge rel \<noteq> None}"

definition heap_wf :: "obj_heap \<Rightarrow> bool" where
  "heap_wf h \<longleftrightarrow> (\<forall>p obj. h p = Some obj \<longrightarrow> obj_wf obj)"

definition replies_ok :: "addr set \<Rightarrow> graph \<Rightarrow> addr set \<Rightarrow> bool" where
  "replies_ok H G R \<longleftrightarrow>
     (\<forall>p a q. G p = Some (Handshake_node a q CREATEDREPLY) \<longrightarrow> p \<notin> H \<longrightarrow> q \<in> R)"

definition tables_ok :: "graph \<Rightarrow> addr set \<Rightarrow> addr set \<Rightarrow> bool" where
  "tables_ok G objs guids \<longleftrightarrow>
     objs = {p. \<exists>n. G p = Some n \<and> \<not> is_relation n} \<and> guids = {p. \<exists>n. G p = Some n \<and> is_remote n}"

text \<open>
  The invariant of an instance, in which the relation of a handshake created for a reply has the
  peer's challenge, except for the handshakes \<open>H\<close> a call has created and not yet validated.
  Between two calls there are none.
\<close>

definition auth_inv_but :: "addr set \<Rightarrow> auth \<Rightarrow> bool" where
  "auth_inv_but H s \<longleftrightarrow>
     heap_wf (heap s) \<and> graph_ok (graph_of (heap s)) \<and>
     tables_ok (graph_of (heap s)) (set (objectHash s)) (set (remoteGuidHash s)) \<and>
     replies_ok H (graph_of (heap s)) (answered (heap s))"

abbreviation auth_inv :: "auth \<Rightarrow> bool" where "auth_inv \<equiv> auth_inv_but {}"

lemma graph_of_iff:
  "graph_of h p = Some (Local_node a) \<longleftrightarrow> (\<exists>l. h p = Some (LocalIdentity l) \<and> so_handle l = a)"
  "graph_of h p = Some (Remote_node a g ls) \<longleftrightarrow>
     (\<exists>r. h p = Some (RemoteIdentity r) \<and> so_handle r = a \<and> ri_guid r = g \<and> ri_linkHash r = ls)"
  "graph_of h p = Some (Relation_node a l r) \<longleftrightarrow>
     (\<exists>rel. h p = Some (Relation rel) \<and> so_handle rel = a \<and> ir_localIdentity rel = l \<and>
        ir_remoteIdentity rel = r)"
  "graph_of h p = Some (Handshake_node a q c) \<longleftrightarrow>
     (\<exists>hs. h p = Some (Handshake hs) \<and> so_handle hs = a \<and> hs_relation hs = q \<and> hs_created_in hs = c)"
  by (auto simp: graph_of_def elim: node_of.elims)

lemma graph_of_None [simp]: "graph_of h p = None \<longleftrightarrow> h p = None"
  by (simp add: graph_of_def)

lemma graph_of_Some: "h p = Some obj \<Longrightarrow> graph_of h p = Some (node_of obj)"
  by (simp add: graph_of_def)

lemma graph_of_upd [simp]: "graph_of (h(p \<mapsto> obj)) = (graph_of h)(p \<mapsto> node_of obj)"
  by (auto simp: graph_of_def)

lemma graph_of_del [simp]: "graph_of (h(p := None)) = (graph_of h)(p := None)"
  by (auto simp: graph_of_def)

lemma heap_wf_upd: "heap_wf h \<Longrightarrow> obj_wf obj \<Longrightarrow> heap_wf (h(p \<mapsto> obj))"
  by (simp add: heap_wf_def)

lemma heap_wf_del: "heap_wf h \<Longrightarrow> heap_wf (h(p := None))"
  by (simp add: heap_wf_def)

lemma heap_wfD: "heap_wf h \<Longrightarrow> h p = Some obj \<Longrightarrow> obj_wf obj"
  by (simp add: heap_wf_def)

lemma auth_invI:
  "heap_wf (heap s) \<Longrightarrow> graph_ok (graph_of (heap s)) \<Longrightarrow>
   tables_ok (graph_of (heap s)) (set (objectHash s)) (set (remoteGuidHash s)) \<Longrightarrow>
   replies_ok H (graph_of (heap s)) (answered (heap s)) \<Longrightarrow> auth_inv_but H s"
  by (simp add: auth_inv_but_def)

lemma auth_invD:
  assumes "auth_inv_but H s"
  shows "heap_wf (heap s)" "graph_ok (graph_of (heap s))"
    "tables_ok (graph_of (heap s)) (set (objectHash s)) (set (remoteGuidHash s))"
    "replies_ok H (graph_of (heap s)) (answered (heap s))"
  using assms by (simp_all add: auth_inv_but_def)

text \<open>What the invariant says of the object at an address.\<close>

lemma inv_local:
  assumes "auth_inv_but H s" and "heap s p = Some (LocalIdentity l)"
  shows "so_handle l = p" "so_kind l = SECURITY_OBJECT_KIND_LOCAL_IDENTITY" "p \<noteq> 0"
    "p \<in> set (objectHash s)"
proof -
  show "so_handle l = p"
    using graph_ok_node [OF auth_invD(2) [OF assms(1)] graph_of_Some [where h = "heap s", OF assms(2)]] by simp
  show "so_kind l = SECURITY_OBJECT_KIND_LOCAL_IDENTITY"
    using heap_wfD [OF auth_invD(1) [OF assms(1)] assms(2)] by simp
  show "p \<noteq> 0" using graph_ok_zero [OF auth_invD(2) [OF assms(1)]] assms(2) by auto
  show "p \<in> set (objectHash s)"
    using auth_invD(3) [OF assms(1)] graph_of_Some [where h = "heap s", OF assms(2)] by (auto simp: tables_ok_def)
qed

lemma inv_remote:
  assumes "auth_inv_but H s" and "heap s p = Some (RemoteIdentity r)"
  shows "so_handle r = p" "so_kind r = SECURITY_OBJECT_KIND_REMOTE_IDENTITY" "p \<noteq> 0"
    "p \<in> set (objectHash s)" "p \<in> set (remoteGuidHash s)"
    "q \<in> set (ri_linkHash r) \<Longrightarrow>
       \<exists>rel. heap s q = Some (Relation rel) \<and> ir_remoteIdentity rel = p \<and>
         so_handle rel = ir_localIdentity rel"
proof -
  have n: "node_ok (graph_of (heap s)) p (node_of (RemoteIdentity r))"
    by (rule graph_ok_node [OF auth_invD(2) [OF assms(1)] graph_of_Some [where h = "heap s", OF assms(2)]])
  then show "so_handle r = p" by simp
  show "q \<in> set (ri_linkHash r) \<Longrightarrow>
     \<exists>rel. heap s q = Some (Relation rel) \<and> ir_remoteIdentity rel = p \<and>
       so_handle rel = ir_localIdentity rel"
    using n by (auto simp: graph_of_iff)
  show "so_kind r = SECURITY_OBJECT_KIND_REMOTE_IDENTITY"
    using heap_wfD [OF auth_invD(1) [OF assms(1)] assms(2)] by simp
  show "p \<noteq> 0" using graph_ok_zero [OF auth_invD(2) [OF assms(1)]] assms(2) by auto
  show "p \<in> set (objectHash s)" "p \<in> set (remoteGuidHash s)"
    using auth_invD(3) [OF assms(1)] graph_of_Some [where h = "heap s", OF assms(2)] by (auto simp: tables_ok_def)
qed

lemma inv_relation:
  assumes "auth_inv_but H s" and "heap s p = Some (Relation rel)"
  obtains l r where "heap s (ir_localIdentity rel) = Some (LocalIdentity l)"
    "heap s (ir_remoteIdentity rel) = Some (RemoteIdentity r)" "p \<in> set (ri_linkHash r)"
    "so_handle rel = ir_localIdentity rel" "so_kind rel = SECURITY_OBJECT_KIND_IDENTITY_RELATION"
    "ir_lchallenge rel \<noteq> None" "p \<noteq> 0"
proof -
  have n: "node_ok (graph_of (heap s)) p (node_of (Relation rel))"
    by (rule graph_ok_node [OF auth_invD(2) [OF assms(1)] graph_of_Some [where h = "heap s", OF assms(2)]])
  have "obj_wf (Relation rel)" by (rule heap_wfD [OF auth_invD(1) [OF assms(1)] assms(2)])
  moreover have "p \<noteq> 0" using graph_ok_zero [OF auth_invD(2) [OF assms(1)]] assms(2) by auto
  ultimately show thesis using n that by (auto simp: graph_of_iff)
qed

lemma inv_handshake:
  assumes "auth_inv_but H s" and "heap s p = Some (Handshake hs)"
  obtains rel where "heap s (hs_relation hs) = Some (Relation rel)" "so_handle hs = p"
    "so_kind hs = SECURITY_OBJECT_KIND_HANDSHAKE" "p \<noteq> 0" "hs_relation hs \<noteq> 0"
    "p \<in> set (objectHash s)"
    "hs_created_in hs = CREATEDREPLY \<Longrightarrow> p \<notin> H \<Longrightarrow> ir_rchallenge rel \<noteq> None"
proof -
  have n: "node_ok (graph_of (heap s)) p (node_of (Handshake hs))"
    by (rule graph_ok_node [OF auth_invD(2) [OF assms(1)] graph_of_Some [where h = "heap s", OF assms(2)]])
  have wf: "obj_wf (Handshake hs)" by (rule heap_wfD [OF auth_invD(1) [OF assms(1)] assms(2)])
  have z: "p \<noteq> 0" "graph_of (heap s) 0 = None"
    using graph_ok_zero [OF auth_invD(2) [OF assms(1)]] assms(2) by auto
  obtain rel where rel: "heap s (hs_relation hs) = Some (Relation rel)"
    using n by (auto simp: graph_of_iff)
  have "ir_rchallenge rel \<noteq> None" if "hs_created_in hs = CREATEDREPLY" "p \<notin> H"
    using auth_invD(4) [OF assms(1)] graph_of_Some [where h = "heap s", OF assms(2)] that rel
    by (fastforce simp: replies_ok_def answered_def)
  moreover have "p \<in> set (objectHash s)"
    using auth_invD(3) [OF assms(1)] graph_of_Some [where h = "heap s", OF assms(2)] by (auto simp: tables_ok_def)
  moreover have "hs_relation hs \<noteq> 0" using z rel by (metis graph_of_None option.simps(3))
  ultimately show thesis using that [OF rel] n wf z by auto
qed

section \<open>The tables\<close>

lemma hh_lookup_law:
  assumes "hash_table_laws E"
  shows "hh_lookup E eq xs = Some x \<Longrightarrow> x \<in> set xs \<and> eq x"
    and "hh_lookup E eq xs = None \<Longrightarrow> y \<in> set xs \<Longrightarrow> \<not> eq y"
proof -
  have "case hh_lookup E eq xs of None \<Rightarrow> (\<forall>x \<in> set xs. \<not> eq x) | Some x \<Rightarrow> x \<in> set xs \<and> eq x"
    by (rule assms [unfolded hash_table_laws_def, THEN conjunct1, THEN spec, THEN spec])
  then show "hh_lookup E eq xs = Some x \<Longrightarrow> x \<in> set xs \<and> eq x"
    and "hh_lookup E eq xs = None \<Longrightarrow> y \<in> set xs \<Longrightarrow> \<not> eq y" by simp_all
qed

lemma hh_add_law:
  assumes "hash_table_laws E"
  shows "\<forall>y \<in> set xs. \<not> eq y \<Longrightarrow> \<exists>ys. hh_add E eq x xs = (True, ys) \<and> set ys = insert x (set xs)"
    and "y \<in> set xs \<Longrightarrow> eq y \<Longrightarrow> hh_add E eq x xs = (False, xs)"
proof -
  have "case hh_add E eq x xs of (added, ys) \<Rightarrow>
      if \<exists>y \<in> set xs. eq y then \<not> added \<and> ys = xs else added \<and> set ys = insert x (set xs)"
    by (rule assms [unfolded hash_table_laws_def, THEN conjunct2, THEN conjunct1, THEN spec, THEN spec, THEN spec])
  then show "\<forall>y \<in> set xs. \<not> eq y \<Longrightarrow> \<exists>ys. hh_add E eq x xs = (True, ys) \<and> set ys = insert x (set xs)"
    and "y \<in> set xs \<Longrightarrow> eq y \<Longrightarrow> hh_add E eq x xs = (False, xs)"
    by (cases "hh_add E eq x xs"; auto split: if_split_asm)+
qed

lemma hash_table_laws_rest:
  assumes "hash_table_laws E"
  shows hh_remove_law: "set (hh_remove E eq xs) = {x \<in> set xs. \<not> eq x}"
    and hh_iter_law: "set (hh_iter E xs) = set xs" "distinct (hh_iter E xs)"
    and malloc_law: "ddsrt_malloc E t used = Some a \<Longrightarrow> a \<noteq> 0 \<and> \<not> used a"
proof -
  note laws = assms [unfolded hash_table_laws_def, THEN conjunct2, THEN conjunct2]
  show "set (hh_remove E eq xs) = {x \<in> set xs. \<not> eq x}"
    by (rule laws [THEN conjunct1, THEN spec, THEN spec])
  show "set (hh_iter E xs) = set xs" "distinct (hh_iter E xs)"
    using laws [THEN conjunct2, THEN conjunct1, THEN spec, of xs] by simp_all
  show "ddsrt_malloc E t used = Some a \<Longrightarrow> a \<noteq> 0 \<and> \<not> used a"
    by (rule laws [THEN conjunct2, THEN conjunct2, THEN conjunct1, THEN spec, THEN spec, THEN spec,
          THEN mp])
qed

lemma table_safeI: "(\<And>p. p \<in> set tab \<Longrightarrow> h p \<noteq> None) \<Longrightarrow> table_safe h tab"
  by (simp add: table_safe_def list_all_iff)

lemma wp_malloc:
  assumes "hash_table_laws E"
    and "\<And>p. heap s p = None \<Longrightarrow> p \<noteq> 0 \<Longrightarrow>
      Q p (s\<lparr>heap := (heap s)(p \<mapsto> mk p), clock := Suc (clock s)\<rparr>)"
    and "Out_of_memory \<in> Z"
  shows "wp (malloc_op E mk) s Q X Z"
proof (cases "ddsrt_malloc E (clock s) (\<lambda>a. heap s a \<noteq> None)")
  case (Some p)
  then have "p \<noteq> 0 \<and> \<not> (heap s p \<noteq> None)" by (rule malloc_law [OF assms(1)])
  then show ?thesis using Some assms(2) [of p] by (simp add: wp_def malloc_op_def)
qed (use assms(3) in \<open>simp add: wp_def malloc_op_def\<close>)

lemma wp_malloc_impl:
  assumes "\<And>p. Q p (s\<lparr>clock := Suc (clock s)\<rparr>)" and "Out_of_memory \<in> Z"
  shows "wp (malloc_impl E) s Q X Z"
  using assms by (simp add: wp_def malloc_impl_def split: option.splits)

lemma wp_find:
  assumes "hash_table_laws E" and "table_safe (heap s) tab"
    and "\<And>p obj. p \<in> set tab \<Longrightarrow> heap s p = Some obj \<Longrightarrow> obj_handle obj = hdl \<Longrightarrow> Q (Some p) s"
    and "(\<And>p obj. p \<in> set tab \<Longrightarrow> heap s p = Some obj \<Longrightarrow> obj_handle obj \<noteq> hdl) \<Longrightarrow> Q None s"
  shows "wp (security_object_find E tab hdl) s Q X Z"
proof (cases "hh_lookup E (has_handle (heap s) hdl) tab")
  case None
  have "Q None s"
    using hh_lookup_law(2) [OF assms(1) None] by (intro assms(4)) (auto simp: has_handle_iff)
  then show ?thesis using None assms(2) by (simp add: wp_def security_object_find_def)
next
  case (Some p)
  have "Q (Some p) s"
    using hh_lookup_law(1) [OF assms(1) Some] assms(3) by (auto simp: has_handle_iff)
  then show ?thesis using Some assms(2) by (simp add: wp_def security_object_find_def)
qed

lemma wp_add_object:
  assumes "hash_table_laws E" and "heap s p = Some obj" and "table_safe (heap s) (objectHash s)"
    and "\<And>q x. q \<in> set (objectHash s) \<Longrightarrow> heap s q = Some x \<Longrightarrow> obj_handle x \<noteq> obj_handle obj"
    and "\<And>tab. set tab = insert p (set (objectHash s)) \<Longrightarrow> Q True (s\<lparr>objectHash := tab\<rparr>)"
  shows "wp (add_to_objectHash E p) s Q X Z"
proof -
  have "\<forall>q \<in> set (objectHash s). \<not> has_handle (heap s) (obj_handle obj) q"
    using assms(4) by (auto simp: has_handle_iff)
  then obtain ys where "hh_add E (has_handle (heap s) (obj_handle obj)) p (objectHash s) = (True, ys)"
    "set ys = insert p (set (objectHash s))"
    using hh_add_law(1) [OF assms(1)] by blast
  then show ?thesis using assms(2,3,5) by (simp add: wp_def add_to_objectHash_def)
qed

lemma wp_add_object_again:
  assumes "hash_table_laws E" and "heap s p = Some obj" and "table_safe (heap s) (objectHash s)"
    and "p \<in> set (objectHash s)" and "Q False s"
  shows "wp (add_to_objectHash E p) s Q X Z"
proof -
  have "has_handle (heap s) (obj_handle obj) p" using assms(2) by (simp add: has_handle_iff)
  then show ?thesis
    using hh_add_law(2) [OF assms(1,4)] assms(2,3,5) by (simp add: wp_def add_to_objectHash_def)
qed

lemma wp_remove_object:
  assumes "hash_table_laws E" and "heap s p = Some obj" and "table_safe (heap s) (objectHash s)"
    and "\<And>tab. set tab = {q \<in> set (objectHash s). \<forall>x. heap s q = Some x \<longrightarrow> obj_handle x \<noteq> obj_handle obj}
      \<Longrightarrow> Q () (s\<lparr>objectHash := tab\<rparr>)"
  shows "wp (remove_from_objectHash E p) s Q X Z"
proof -
  have "set (hh_remove E (has_handle (heap s) (obj_handle obj)) (objectHash s)) =
      {q \<in> set (objectHash s). \<forall>x. heap s q = Some x \<longrightarrow> obj_handle x \<noteq> obj_handle obj}"
    by (auto simp: hh_remove_law [OF assms(1)] has_handle_iff)
  then show ?thesis using assms(2-4) by (simp add: wp_def remove_from_objectHash_def)
qed

lemma has_guid_iff:
  "has_guid h x p \<longleftrightarrow> (\<exists>r. h p = Some (RemoteIdentity r) \<and> guid_eq (ri_guid x) (ri_guid r))"
  by (auto simp: has_guid_def remote_guid_equal_def guid_eq_def split: option.splits sec_obj.splits)

lemma wp_find_guid:
  assumes "hash_table_laws E" and "table_safe (heap s) (remoteGuidHash s)"
    and "\<And>p r. p \<in> set (remoteGuidHash s) \<Longrightarrow> heap s p = Some (RemoteIdentity r) \<Longrightarrow>
      guid_eq (ri_guid x) (ri_guid r) \<Longrightarrow> Q (Some p) s"
    and "(\<And>p r. p \<in> set (remoteGuidHash s) \<Longrightarrow> heap s p = Some (RemoteIdentity r) \<Longrightarrow>
      \<not> guid_eq (ri_guid x) (ri_guid r)) \<Longrightarrow> Q None s"
  shows "wp (find_remote_identity_by_guid E x) s Q X Z"
proof (cases "hh_lookup E (has_guid (heap s) x) (remoteGuidHash s)")
  case None
  have "Q None s"
    using hh_lookup_law(2) [OF assms(1) None] by (intro assms(4)) (auto simp: has_guid_iff)
  then show ?thesis using None assms(2) by (simp add: wp_def find_remote_identity_by_guid_def)
next
  case (Some p)
  have "Q (Some p) s"
    using hh_lookup_law(1) [OF assms(1) Some] assms(3) by (auto simp: has_guid_iff)
  then show ?thesis using Some assms(2) by (simp add: wp_def find_remote_identity_by_guid_def)
qed

lemma wp_add_guid:
  assumes "hash_table_laws E" and "heap s p = Some (RemoteIdentity x)"
    and "table_safe (heap s) (remoteGuidHash s)"
    and "\<And>q r. q \<in> set (remoteGuidHash s) \<Longrightarrow> heap s q = Some (RemoteIdentity r) \<Longrightarrow>
      \<not> guid_eq (ri_guid x) (ri_guid r)"
    and "\<And>tab. set tab = insert p (set (remoteGuidHash s)) \<Longrightarrow> Q True (s\<lparr>remoteGuidHash := tab\<rparr>)"
  shows "wp (add_to_remoteGuidHash E p) s Q X Z"
proof -
  have "\<forall>q \<in> set (remoteGuidHash s). \<not> has_guid (heap s) x q"
    using assms(4) by (auto simp: has_guid_iff)
  then obtain ys where "hh_add E (has_guid (heap s) x) p (remoteGuidHash s) = (True, ys)"
    "set ys = insert p (set (remoteGuidHash s))"
    using hh_add_law(1) [OF assms(1)] by blast
  then show ?thesis using assms(2,3,5) by (simp add: wp_def add_to_remoteGuidHash_def)
qed

lemma wp_remove_guid:
  assumes "hash_table_laws E" and "heap s p = Some (RemoteIdentity x)"
    and "table_safe (heap s) (remoteGuidHash s)"
    and "\<And>tab. set tab = {q \<in> set (remoteGuidHash s).
        \<forall>r. heap s q = Some (RemoteIdentity r) \<longrightarrow> \<not> guid_eq (ri_guid x) (ri_guid r)}
      \<Longrightarrow> Q () (s\<lparr>remoteGuidHash := tab\<rparr>)"
  shows "wp (remove_from_remoteGuidHash E p) s Q X Z"
proof -
  have "set (hh_remove E (has_guid (heap s) x) (remoteGuidHash s)) = {q \<in> set (remoteGuidHash s).
        \<forall>r. heap s q = Some (RemoteIdentity r) \<longrightarrow> \<not> guid_eq (ri_guid x) (ri_guid r)}"
    by (auto simp: hh_remove_law [OF assms(1)] has_guid_iff)
  then show ?thesis using assms(2-4) by (simp add: wp_def remove_from_remoteGuidHash_def)
qed

lemma wp_add_link:
  assumes "hash_table_laws E" and "heap s remote = Some (RemoteIdentity r)" and "heap s p = Some obj"
    and "table_safe (heap s) (ri_linkHash r)"
    and "\<And>q x. q \<in> set (ri_linkHash r) \<Longrightarrow> heap s q = Some x \<Longrightarrow> obj_handle x \<noteq> obj_handle obj"
    and "\<And>tab. set tab = insert p (set (ri_linkHash r)) \<Longrightarrow>
      Q True (s\<lparr>heap := (heap s)(remote \<mapsto> RemoteIdentity (r\<lparr>ri_linkHash := tab\<rparr>))\<rparr>)"
  shows "wp (add_to_linkHash E remote p) s Q X Z"
proof -
  have "\<forall>q \<in> set (ri_linkHash r). \<not> has_handle (heap s) (obj_handle obj) q"
    using assms(5) by (auto simp: has_handle_iff)
  then obtain ys where "hh_add E (has_handle (heap s) (obj_handle obj)) p (ri_linkHash r) = (True, ys)"
    "set ys = insert p (set (ri_linkHash r))"
    using hh_add_law(1) [OF assms(1)] by blast
  then show ?thesis using assms(2-4,6) by (simp add: wp_def add_to_linkHash_def)
qed

lemma wp_remove_link:
  assumes "hash_table_laws E" and "heap s remote = Some (RemoteIdentity r)" and "heap s p = Some obj"
    and "table_safe (heap s) (ri_linkHash r)"
    and "\<And>tab. set tab = {q \<in> set (ri_linkHash r). \<forall>x. heap s q = Some x \<longrightarrow> obj_handle x \<noteq> obj_handle obj}
      \<Longrightarrow> Q () (s\<lparr>heap := (heap s)(remote \<mapsto> RemoteIdentity (r\<lparr>ri_linkHash := tab\<rparr>))\<rparr>)"
  shows "wp (remove_from_linkHash E remote p) s Q X Z"
proof -
  have "set (hh_remove E (has_handle (heap s) (obj_handle obj)) (ri_linkHash r)) =
      {q \<in> set (ri_linkHash r). \<forall>x. heap s q = Some x \<longrightarrow> obj_handle x \<noteq> obj_handle obj}"
    by (auto simp: hh_remove_law [OF assms(1)] has_handle_iff)
  then show ?thesis using assms(2-5) by (simp add: wp_def remove_from_linkHash_def)
qed

text \<open>Freeing an object whose header is the one its constructor wrote.\<close>

lemma wp_free:
  assumes "heap s p = Some obj" and "obj_wf obj"
    and "case obj of Relation rel \<Rightarrow> ir_localIdentity rel \<noteq> 0 \<and> ir_remoteIdentity rel \<noteq> 0 \<and>
             so_handle rel = ir_localIdentity rel | _ \<Rightarrow> obj_handle obj = p"
    and "Q () (s\<lparr>heap := (heap s)(p := None)\<rparr>)"
  shows "wp (security_object_free p) s Q X Z"
  using assms
  by (cases obj)
    (auto simp: wp_def security_object_free_def bind_op_def load_op_def free_checked_def
      local_identity_info_free_def remote_identity_info_free_def identity_relation_free_def
      handshake_info_free_def security_object_valid_def)

lemma inv_table_safe:
  assumes "auth_inv_but H s"
  shows "table_safe (heap s) (objectHash s)" "table_safe (heap s) (remoteGuidHash s)"
    "heap s p = Some (RemoteIdentity r) \<Longrightarrow> table_safe (heap s) (ri_linkHash r)"
proof -
  note tab = auth_invD(3) [OF assms, unfolded tables_ok_def]
  show "table_safe (heap s) (objectHash s)" "table_safe (heap s) (remoteGuidHash s)"
    using tab by (auto intro!: table_safeI simp: graph_of_def)
  show "heap s p = Some (RemoteIdentity r) \<Longrightarrow> table_safe (heap s) (ri_linkHash r)"
    using inv_remote(6) [OF assms] by (fastforce intro!: table_safeI)
qed

lemma inv_object_handle:
  assumes "auth_inv_but H s" and "p \<in> set (objectHash s)" and "heap s p = Some obj"
  shows "obj_handle obj = p" "\<not> is_relation (node_of obj)"
proof -
  show r: "\<not> is_relation (node_of obj)"
    using auth_invD(3) [OF assms(1)] assms(2) graph_of_Some [where h = "heap s", OF assms(3)]
    by (auto simp: tables_ok_def)
  show "obj_handle obj = p"
    using graph_ok_node [OF auth_invD(2) [OF assms(1)] graph_of_Some [where h = "heap s", OF assms(3)]] r
    by (cases obj) auto
qed

text \<open>A handle the caller passes names a live object of the kind the operation asks for.\<close>

lemma wp_find_valid:
  assumes "hash_table_laws E" and inv: "auth_inv_but H s"
    and "\<And>obj. heap s hdl = Some obj \<Longrightarrow> obj_kind obj = kind \<Longrightarrow> \<not> is_relation (node_of obj) \<Longrightarrow> Q hdl s"
    and "X s"
  shows "wp (find_valid E kind hdl e) s Q X Z"
  unfolding find_valid_def
  by (intro wp_bind iffD2 [OF wp_get] wp_find [OF assms(1) inv_table_safe(1) [OF inv]])
    (use inv_object_handle [OF inv] assms(3,4) in
      \<open>auto simp: wp_def security_object_valid_def split: option.splits sec_obj.splits\<close>)

lemma wp_find_local:
  assumes "hash_table_laws E" and "auth_inv_but H s"
    and "\<And>l. heap s hdl = Some (LocalIdentity l) \<Longrightarrow> Q hdl s" and "X s"
  shows "wp (find_valid E SECURITY_OBJECT_KIND_LOCAL_IDENTITY hdl e) s Q X Z"
proof (rule wp_find_valid [OF assms(1,2)])
  fix obj assume "heap s hdl = Some obj" "obj_kind obj = SECURITY_OBJECT_KIND_LOCAL_IDENTITY"
  then show "Q hdl s"
    using assms(3) heap_wfD [OF auth_invD(1) [OF assms(2)]] by (cases obj) fastforce+
qed (rule assms(4))

lemma wp_find_remote:
  assumes "hash_table_laws E" and "auth_inv_but H s"
    and "\<And>r. heap s hdl = Some (RemoteIdentity r) \<Longrightarrow> Q hdl s" and "X s"
  shows "wp (find_valid E SECURITY_OBJECT_KIND_REMOTE_IDENTITY hdl e) s Q X Z"
proof (rule wp_find_valid [OF assms(1,2)])
  fix obj assume "heap s hdl = Some obj" "obj_kind obj = SECURITY_OBJECT_KIND_REMOTE_IDENTITY"
  then show "Q hdl s"
    using assms(3) heap_wfD [OF auth_invD(1) [OF assms(2)]] by (cases obj) fastforce+
qed (rule assms(4))

lemma wp_find_handshake_handle:
  assumes "hash_table_laws E" and "auth_inv_but H s"
    and "\<And>hs. heap s hdl = Some (Handshake hs) \<Longrightarrow> Q hdl s" and "X s"
  shows "wp (find_valid E SECURITY_OBJECT_KIND_HANDSHAKE hdl e) s Q X Z"
proof (rule wp_find_valid [OF assms(1,2)])
  fix obj assume "heap s hdl = Some obj" "obj_kind obj = SECURITY_OBJECT_KIND_HANDSHAKE"
  then show "Q hdl s"
    using assms(3) heap_wfD [OF auth_invD(1) [OF assms(2)]] by (cases obj) fastforce+
qed (rule assms(4))

text \<open>The relation of a remote identity to a local one.\<close>

lemma wp_find_relation:
  assumes "hash_table_laws E" and inv: "auth_inv_but H s" and r: "heap s remote = Some (RemoteIdentity r)"
    and found: "\<And>q rel. heap s q = Some (Relation rel) \<Longrightarrow> q \<in> set (ri_linkHash r) \<Longrightarrow>
      ir_localIdentity rel = lid \<Longrightarrow> ir_remoteIdentity rel = remote \<Longrightarrow> Q (Some q) s"
    and none: "(\<And>q rel. heap s q = Some (Relation rel) \<Longrightarrow> ir_remoteIdentity rel = remote \<Longrightarrow>
      ir_localIdentity rel \<noteq> lid) \<Longrightarrow> Q None s"
  shows "wp (find_identity_relation E remote lid) s Q X Z"
proof -
  have "wp (security_object_find E (ri_linkHash r) lid) s Q X Z"
  proof (rule wp_find [OF assms(1) inv_table_safe(3) [OF inv r]])
    fix p obj assume p: "p \<in> set (ri_linkHash r)" "heap s p = Some obj" "obj_handle obj = lid"
    then obtain rel where "obj = Relation rel" "ir_remoteIdentity rel = remote"
      "so_handle rel = ir_localIdentity rel"
      using inv_remote(6) [OF inv r] by fastforce
    then show "Q (Some p) s" using p found by simp
  next
    assume no: "\<And>p obj. p \<in> set (ri_linkHash r) \<Longrightarrow> heap s p = Some obj \<Longrightarrow> obj_handle obj \<noteq> lid"
    show "Q None s"
    proof (rule none)
      fix q rel assume q: "heap s q = Some (Relation rel)" "ir_remoteIdentity rel = remote"
      have "q \<in> set (ri_linkHash r) \<and> so_handle rel = ir_localIdentity rel"
        using inv_relation [OF inv q(1)] q(2) r by (metis option.inject sec_obj.inject(2))
      then show "ir_localIdentity rel \<noteq> lid" using no q(1) by fastforce
    qed
  qed
  then show ?thesis
    using r unfolding find_identity_relation_def by (intro wp_bind) (simp add: wp_load)
qed

text \<open>The handshake of two identities.\<close>

lemma find_handshake_in_total:
  assumes inv: "auth_inv_but H s" and "set ps \<subseteq> set (objectHash s)"
  shows "case find_handshake_in (heap s) lid rid ps of
      Ret (Some p) \<Rightarrow> p \<in> set ps \<and> (\<exists>hs rel. heap s p = Some (Handshake hs) \<and>
        heap s (hs_relation hs) = Some (Relation rel) \<and> ir_localIdentity rel = lid \<and>
        ir_remoteIdentity rel = rid)
    | Ret None \<Rightarrow> \<forall>p \<in> set ps. \<forall>hs rel. heap s p = Some (Handshake hs) \<longrightarrow>
        heap s (hs_relation hs) = Some (Relation rel) \<longrightarrow>
        \<not> (ir_localIdentity rel = lid \<and> ir_remoteIdentity rel = rid)
    | Fault f \<Rightarrow> False"
  using assms(2)
proof (induction ps)
  case (Cons p ps)
  have "p \<in> set (objectHash s)" using Cons.prems by simp
  then obtain obj where obj: "heap s p = Some obj"
    using auth_invD(3) [OF inv] by (auto simp: tables_ok_def graph_of_def)
  show ?case
  proof (cases obj)
    case (Handshake hs)
    then obtain rel where rel: "heap s (hs_relation hs) = Some (Relation rel)" "hs_relation hs \<noteq> 0"
      using inv_handshake [OF inv, of p hs] obj by auto
    obtain l r where lr: "heap s (ir_localIdentity rel) = Some (LocalIdentity l)"
        "heap s (ir_remoteIdentity rel) = Some (RemoteIdentity r)"
      using inv_relation [OF inv rel(1)] by metis
    note h = inv_local(1) [OF inv lr(1)] inv_remote(1) [OF inv lr(2)]
    show ?thesis
    proof (cases "ir_localIdentity rel = lid \<and> ir_remoteIdentity rel = rid")
      case True
      then show ?thesis using obj Handshake rel lr h by auto
    next
      case False
      then have "find_handshake_in (heap s) lid rid (p # ps) = find_handshake_in (heap s) lid rid ps"
        using obj Handshake rel lr h by auto
      then show ?thesis
        using Cons obj Handshake rel False by (auto split: outcome.splits option.splits)
    qed
  qed (use Cons obj in \<open>auto split: outcome.splits option.splits\<close>)
qed simp

lemma wp_find_handshake:
  assumes "hash_table_laws E" and inv: "auth_inv_but H s"
    and found: "\<And>p hs rel. heap s p = Some (Handshake hs) \<Longrightarrow>
      heap s (hs_relation hs) = Some (Relation rel) \<Longrightarrow>
      ir_localIdentity rel = lid \<Longrightarrow> ir_remoteIdentity rel = rid \<Longrightarrow> Q (Some p) s"
    and none: "(\<And>p hs rel. heap s p = Some (Handshake hs) \<Longrightarrow>
      heap s (hs_relation hs) = Some (Relation rel) \<Longrightarrow> ir_remoteIdentity rel = rid \<Longrightarrow>
      ir_localIdentity rel \<noteq> lid) \<Longrightarrow> Q None s"
  shows "wp (find_handshake E lid rid) s Q X Z"
proof -
  have iter: "set (hh_iter E (objectHash s)) = set (objectHash s)"
    by (rule hh_iter_law(1) [OF assms(1)])
  note total = find_handshake_in_total [OF inv, of "hh_iter E (objectHash s)" lid rid]
  show ?thesis
  proof (cases "find_handshake_in (heap s) lid rid (hh_iter E (objectHash s))")
    case (Ret q)
    show ?thesis
    proof (cases q)
      case None
      have "Q None s"
      proof (rule none)
        fix p hs rel assume h: "heap s p = Some (Handshake hs)"
          "heap s (hs_relation hs) = Some (Relation rel)" "ir_remoteIdentity rel = rid"
        then have "p \<in> set (objectHash s)" using inv_handshake [OF inv h(1)] by metis
        then show "ir_localIdentity rel \<noteq> lid" using total iter Ret None h by auto
      qed
      then show ?thesis using Ret None by (simp add: wp_def find_handshake_def)
    next
      case (Some p)
      then have "Q (Some p) s" using total iter Ret found by auto
      then show ?thesis using Ret Some by (simp add: wp_def find_handshake_def)
    qed
  qed (use total iter in simp)
qed

section \<open>Steps that keep the shape\<close>

text \<open>
  Most code changes neither the graph nor the tables: it fills in fields of live objects.  A
  relation may gain the peer's challenge, and never loses it.
\<close>

definition steady :: "auth \<Rightarrow> auth \<Rightarrow> bool" where
  "steady s s' \<longleftrightarrow>
     (heap_wf (heap s) \<longrightarrow> heap_wf (heap s')) \<and> graph_of (heap s') = graph_of (heap s) \<and>
     answered (heap s) \<subseteq> answered (heap s') \<and> objectHash s' = objectHash s \<and>
     remoteGuidHash s' = remoteGuidHash s"

lemma steady_refl [simp]: "steady s s"
  by (simp add: steady_def)

lemma steady_trans: "steady s s' \<Longrightarrow> steady s' s'' \<Longrightarrow> steady s s''"
  by (auto simp: steady_def)

lemma steady_inv: "auth_inv_but H s \<Longrightarrow> steady s s' \<Longrightarrow> auth_inv_but H s'"
  by (auto simp: auth_inv_but_def steady_def replies_ok_def)

lemma steady_fields [simp]:
  "steady s (s\<lparr>clock := n\<rparr>)" "steady s (s\<lparr>dispatcher := d\<rparr>)" "steady s (s\<lparr>trustedCAList := x\<rparr>)"
  "steady s (s\<lparr>listener := l, dispatcher_enabled := b\<rparr>)"
  "steady s (s\<lparr>dispatcher := d, clock := n\<rparr>)"
  by (simp_all add: steady_def)

lemma steady_store:
  assumes "heap s p = Some old" and "obj_wf old \<Longrightarrow> obj_wf obj" and "node_of obj = node_of old"
    and "\<And>rel. old = Relation rel \<Longrightarrow> ir_rchallenge rel \<noteq> None \<Longrightarrow>
      \<exists>rel'. obj = Relation rel' \<and> ir_rchallenge rel' \<noteq> None"
  shows "steady s (s\<lparr>heap := (heap s)(p \<mapsto> obj)\<rparr>)"
proof -
  have "graph_of ((heap s)(p \<mapsto> obj)) = graph_of (heap s)"
    using graph_of_Some [where h = "heap s", OF assms(1)] assms(3)
    by (metis fun_upd_triv graph_of_upd)
  moreover have "answered (heap s) \<subseteq> answered ((heap s)(p \<mapsto> obj))"
    using assms(1,4) by (auto simp: answered_def)
  moreover have "heap_wf (heap s) \<longrightarrow> heap_wf ((heap s)(p \<mapsto> obj))"
    using assms(1,2) by (auto simp: heap_wf_def)
  ultimately show ?thesis by (simp add: steady_def)
qed

lemma wp_trigger:
  assumes "\<And>s' timer. steady s s' \<Longrightarrow> heap s' = heap s \<Longrightarrow>
    trustedCAList s' = trustedCAList s \<Longrightarrow> Q timer s'"
  shows "wp (add_validity_end_trigger E p t) s Q X Z"
  using assms by (simp add: wp_def add_validity_end_trigger_def Let_def)

text \<open>The four objects of a handshake.\<close>

definition ctx_at :: "auth \<Rightarrow> addr \<Rightarrow> hs_ctx \<Rightarrow> bool" where
  "ctx_at s hp c \<longleftrightarrow>
     heap s hp = Some (Handshake (cx_handshake c)) \<and> hs_relation (cx_handshake c) \<noteq> 0 \<and>
     heap s (hs_relation (cx_handshake c)) = Some (Relation (cx_relation c)) \<and>
     heap s (ir_localIdentity (cx_relation c)) = Some (LocalIdentity (cx_local c)) \<and>
     heap s (ir_remoteIdentity (cx_relation c)) = Some (RemoteIdentity (cx_remote c))"

definition ctx_keeps :: "hs_ctx \<Rightarrow> hs_ctx \<Rightarrow> bool" where
  "ctx_keeps c c' \<longleftrightarrow>
     obj_header (Handshake (cx_handshake c')) = obj_header (Handshake (cx_handshake c)) \<and>
     obj_header (Relation (cx_relation c')) = obj_header (Relation (cx_relation c)) \<and>
     obj_header (LocalIdentity (cx_local c')) = obj_header (LocalIdentity (cx_local c)) \<and>
     obj_header (RemoteIdentity (cx_remote c')) = obj_header (RemoteIdentity (cx_remote c)) \<and>
     hs_relation (cx_handshake c') = hs_relation (cx_handshake c) \<and>
     hs_created_in (cx_handshake c') = hs_created_in (cx_handshake c) \<and>
     ir_localIdentity (cx_relation c') = ir_localIdentity (cx_relation c) \<and>
     ir_remoteIdentity (cx_relation c') = ir_remoteIdentity (cx_relation c) \<and>
     ir_lchallenge (cx_relation c') = ir_lchallenge (cx_relation c) \<and>
     (ir_rchallenge (cx_relation c) \<noteq> None \<longrightarrow> ir_rchallenge (cx_relation c') \<noteq> None) \<and>
     ri_guid (cx_remote c') = ri_guid (cx_remote c) \<and>
     ri_linkHash (cx_remote c') = ri_linkHash (cx_remote c)"

lemma ctx_keeps_refl [simp]: "ctx_keeps c c"
  by (simp add: ctx_keeps_def)

lemma ctx_keeps_trans: "ctx_keeps c c' \<Longrightarrow> ctx_keeps c' c'' \<Longrightarrow> ctx_keeps c c''"
  by (auto simp: ctx_keeps_def)

lemma ctx_frame_keeps:
  assumes "ctx_frame c c'"
  shows "ctx_keeps c c'"
proof -
  note f = assms [unfolded ctx_frame_def]
  have h: "(cx_handshake c')\<lparr>hs_hash_c1 := [], hs_hash_c2 := []\<rparr> =
      (cx_handshake c)\<lparr>hs_hash_c1 := [], hs_hash_c2 := []\<rparr>"
    and rel: "(cx_relation c')\<lparr>ir_rchallenge := None\<rparr> = (cx_relation c)\<lparr>ir_rchallenge := None\<rparr>"
    and rch: "ir_rchallenge (cx_relation c) \<noteq> None \<longrightarrow>
      ir_rchallenge (cx_relation c') = ir_rchallenge (cx_relation c)"
    and loc: "cx_local c' = cx_local c"
    using f by simp_all
  define u :: "RemoteIdentityInfo \<Rightarrow> RemoteIdentityInfo" where
    "u x = x\<lparr>ri_identityCert := None, ri_dsignAlgoKind := AUTH_ALGO_KIND_UNKNOWN,
      ri_kagreeAlgoKind := AUTH_ALGO_KIND_UNKNOWN, ri_pdata := octets_to_seq [],
      ri_permissionsDocument := None\<rparr>" for x
  have r: "u (cx_remote c') = u (cx_remote c)" using f unfolding u_def by (elim conjE allE)
  have u: "so_handle (u x) = so_handle x" "so_kind (u x) = so_kind x" "ri_guid (u x) = ri_guid x"
    "ri_linkHash (u x) = ri_linkHash x" for x
    by (simp_all add: u_def)
  have "so_handle (cx_handshake c') = so_handle (cx_handshake c)"
    "so_kind (cx_handshake c') = so_kind (cx_handshake c)"
    "hs_relation (cx_handshake c') = hs_relation (cx_handshake c)"
    "hs_created_in (cx_handshake c') = hs_created_in (cx_handshake c)"
    using arg_cong [OF h, of so_handle] arg_cong [OF h, of so_kind]
      arg_cong [OF h, of hs_relation] arg_cong [OF h, of hs_created_in] by simp_all
  moreover have "so_handle (cx_relation c') = so_handle (cx_relation c)"
    "so_kind (cx_relation c') = so_kind (cx_relation c)"
    "ir_localIdentity (cx_relation c') = ir_localIdentity (cx_relation c)"
    "ir_remoteIdentity (cx_relation c') = ir_remoteIdentity (cx_relation c)"
    "ir_lchallenge (cx_relation c') = ir_lchallenge (cx_relation c)"
    using arg_cong [OF rel, of so_handle] arg_cong [OF rel, of so_kind]
      arg_cong [OF rel, of ir_localIdentity] arg_cong [OF rel, of ir_remoteIdentity]
      arg_cong [OF rel, of ir_lchallenge] by simp_all
  moreover have "so_handle (cx_remote c') = so_handle (cx_remote c)"
    "so_kind (cx_remote c') = so_kind (cx_remote c)"
    "ri_guid (cx_remote c') = ri_guid (cx_remote c)"
    "ri_linkHash (cx_remote c') = ri_linkHash (cx_remote c)"
    using r u by metis+
  ultimately show ?thesis using rch loc by (simp add: ctx_keeps_def header_def)
qed

lemma inv_ctx:
  assumes "auth_inv_but H s" and "heap s hp = Some (Handshake hs)"
  obtains c where "ctx_at s hp c" "cx_handshake c = hs" "ir_lchallenge (cx_relation c) \<noteq> None"
    "hs_created_in hs = CREATEDREPLY \<Longrightarrow> hp \<notin> H \<Longrightarrow> ir_rchallenge (cx_relation c) \<noteq> None"
    "so_handle hs = hp"
proof -
  from inv_handshake [OF assms] obtain rel where rel: "heap s (hs_relation hs) = Some (Relation rel)"
    "so_handle hs = hp" "hs_relation hs \<noteq> 0"
    "hs_created_in hs = CREATEDREPLY \<Longrightarrow> hp \<notin> H \<Longrightarrow> ir_rchallenge rel \<noteq> None"
    by metis
  from inv_relation [OF assms(1) rel(1)] obtain l r where
    "heap s (ir_localIdentity rel) = Some (LocalIdentity l)"
    "heap s (ir_remoteIdentity rel) = Some (RemoteIdentity r)" "ir_lchallenge rel \<noteq> None"
    by metis
  then show thesis
    using that [of "\<lparr>cx_handshake = hs, cx_relation = rel, cx_local = l, cx_remote = r\<rparr>"] rel assms(2)
    by (simp add: ctx_at_def)
qed

lemma load_ctx_eq: "ctx_at s hp c \<Longrightarrow> load_ctx hp s = Ret (Inr c, s)"
  by (cases c)
    (simp add: ctx_at_def load_ctx_def load_handshake_def load_relation_def load_local_def
      load_remote_def load_op_def bind_op_def)

lemma wp_load_ctx: "ctx_at s hp c \<Longrightarrow> wp (load_ctx hp) s Q X Z \<longleftrightarrow> Q c s"
  by (simp add: wp_def load_ctx_eq)

lemma run_ctx_eq:
  "ctx_at s hp c \<Longrightarrow>
   run_ctx hp m s = (case m c of Fault f \<Rightarrow> Fault f | Ret (r, c') \<Rightarrow> Ret (r, store_ctx hp c' s))"
  by (simp add: run_ctx_def bind_op_def load_ctx_eq)

lemma wp_run_ctx:
  assumes "ctx_at s hp c"
    and "wp m c (\<lambda>x c'. Q x (store_ctx hp c' s)) (\<lambda>c'. X (store_ctx hp c' s)) Z"
  shows "wp (run_ctx hp m) s Q X Z"
  using assms(2) by (simp add: wp_def run_ctx_eq [OF assms(1)] split: outcome.splits prod.splits)

lemma store_ctx_heap:
  assumes "ctx_at s hp c" and "ctx_keeps c c'"
  shows "heap (store_ctx hp c' s) p =
    (if p = ir_remoteIdentity (cx_relation c) then Some (RemoteIdentity (cx_remote c'))
     else if p = ir_localIdentity (cx_relation c) then Some (LocalIdentity (cx_local c'))
     else if p = hs_relation (cx_handshake c) then Some (Relation (cx_relation c'))
     else if p = hp then Some (Handshake (cx_handshake c')) else heap s p)"
  using assms(2) by (simp add: store_ctx_def ctx_keeps_def)

lemma store_ctx_at:
  assumes "ctx_at s hp c" and "ctx_keeps c c'"
  shows "ctx_at (store_ctx hp c' s) hp c'"
proof -
  have "hp \<noteq> hs_relation (cx_handshake c)" "hp \<noteq> ir_localIdentity (cx_relation c)"
    "hp \<noteq> ir_remoteIdentity (cx_relation c)"
    "hs_relation (cx_handshake c) \<noteq> ir_localIdentity (cx_relation c)"
    "hs_relation (cx_handshake c) \<noteq> ir_remoteIdentity (cx_relation c)"
    "ir_localIdentity (cx_relation c) \<noteq> ir_remoteIdentity (cx_relation c)"
    using assms(1) unfolding ctx_at_def by (metis option.inject sec_obj.distinct)+
  then show ?thesis
    using assms(1) unfolding ctx_at_def store_ctx_heap [OF assms]
    using assms(2) by (simp add: ctx_keeps_def)
qed

lemma store_ctx_steady:
  assumes "ctx_at s hp c" and "ctx_keeps c c'" and "auth_inv_but H s"
  shows "steady s (store_ctx hp c' s)"
proof -
  note k = assms(2) [unfolded ctx_keeps_def] and h = store_ctx_heap [OF assms(1,2)]
  note at = assms(1) [unfolded ctx_at_def]
  have new: "graph_of (heap (store_ctx hp c' s)) p = graph_of (heap s) p" for p
    using at k by (auto simp: h graph_of_def header_def)
  have wf: "heap_wf (heap s)" using assms(3) by (simp add: auth_inv_but_def)
  have "obj_wf (Handshake (cx_handshake c))" "obj_wf (Relation (cx_relation c))"
    "obj_wf (LocalIdentity (cx_local c))" "obj_wf (RemoteIdentity (cx_remote c))"
    using at heap_wfD [OF wf] by metis+
  then have "obj_wf (Handshake (cx_handshake c'))" "obj_wf (Relation (cx_relation c'))"
    "obj_wf (LocalIdentity (cx_local c'))" "obj_wf (RemoteIdentity (cx_remote c'))"
    using k by (simp_all add: header_def)
  then have "heap_wf (heap (store_ctx hp c' s))"
    using heap_wfD [OF wf] unfolding heap_wf_def h by (metis option.inject)
  moreover have "answered (heap s) \<subseteq> answered (heap (store_ctx hp c' s))"
    using at k by (auto simp: answered_def h)
  moreover have "graph_of (heap (store_ctx hp c' s)) = graph_of (heap s)"
    using new by (rule ext)
  ultimately show ?thesis by (simp add: steady_def store_ctx_def)
qed

lemma wp_run_steady:
  assumes inv: "auth_inv_but H s" and at: "ctx_at s hp c"
    and m: "wp m c R (ctx_keeps c) Z" and keeps: "\<And>x c'. R x c' \<Longrightarrow> ctx_keeps c c'"
    and Q: "\<And>x c' s'. R x c' \<Longrightarrow> ctx_keeps c c' \<Longrightarrow> steady s s' \<Longrightarrow> auth_inv_but H s' \<Longrightarrow>
      ctx_at s' hp c' \<Longrightarrow> s' = store_ctx hp c' s \<Longrightarrow> Q x s'"
    and X: "\<And>c' s'. ctx_keeps c c' \<Longrightarrow> steady s s' \<Longrightarrow> auth_inv_but H s' \<Longrightarrow> ctx_at s' hp c' \<Longrightarrow> X s'"
  shows "wp (run_ctx hp m) s Q X Z"
proof (rule wp_run_ctx [OF at])
  have step: "steady s (store_ctx hp c' s) \<and> auth_inv_but H (store_ctx hp c' s) \<and>
      ctx_at (store_ctx hp c' s) hp c'" if k: "ctx_keeps c c'" for c'
    using store_ctx_steady [OF at k inv] store_ctx_at [OF at k] steady_inv [OF inv] by blast
  show "wp m c (\<lambda>x c'. Q x (store_ctx hp c' s)) (\<lambda>c'. X (store_ctx hp c' s)) Z"
  proof (rule wp_mono [OF m])
    show "Q x (store_ctx hp c' s)" if r: "R x c'" for x c'
      using step [OF keeps [OF r]] by (intro Q [OF r keeps [OF r]]) simp_all
    show "X (store_ctx hp c' s)" if k: "ctx_keeps c c'" for c'
      using step [OF k] by (intro X [OF k]) simp_all
  qed simp
qed

end
