(* ===== verification/StoreOps.thy ===== *)
theory StoreOps
  imports Store
begin

text \<open>
  Every operation of the plugin interface keeps the invariant of the instance and ends without
  a fault other than those named; returning an identity handle frees the identity and exactly
  what depends on it.
\<close>

section \<open>Removing objects\<close>

text \<open>\<open>G'\<close> is \<open>G\<close> without the objects \<open>D\<close>, which are also taken out of the link tables.\<close>

definition graph_minus :: "graph \<Rightarrow> addr set \<Rightarrow> graph \<Rightarrow> bool" where
  "graph_minus G D G' \<longleftrightarrow>
     (\<forall>x. if x \<in> D then G' x = None
          else
            (case G x of
               Some (Remote_node a g ls) \<Rightarrow>
                 \<exists>ms. G' x = Some (Remote_node a g ms) \<and> set ms = set ls - D
             | n \<Rightarrow> G' x = n))"

lemma graph_minus_in: "graph_minus G D G' \<Longrightarrow> x \<in> D \<Longrightarrow> G' x = None"
  by (simp add: graph_minus_def)

lemma graph_minus_iff:
  assumes "graph_minus G D G'"
  shows "G' x = Some (Local_node a) \<longleftrightarrow> x \<notin> D \<and> G x = Some (Local_node a)"
    and "G' x = Some (Relation_node a l r) \<longleftrightarrow> x \<notin> D \<and> G x = Some (Relation_node a l r)"
    and "G' x = Some (Handshake_node a q c) \<longleftrightarrow> x \<notin> D \<and> G x = Some (Handshake_node a q c)"
    and "G' x = None \<longleftrightarrow> x \<in> D \<or> G x = None"
    and "(\<exists>ms. G' x = Some (Remote_node a g ms)) \<longleftrightarrow> x \<notin> D \<and> (\<exists>ls. G x = Some (Remote_node a g ls))"
  using assms [unfolded graph_minus_def, rule_format, of x]
  by (auto split: if_split_asm option.split_asm node.split_asm)

lemma graph_minus_remote:
  assumes "graph_minus G D G'" and "G x = Some (Remote_node a g ls)" and "x \<notin> D"
  obtains ms where "G' x = Some (Remote_node a g ms)" "set ms = set ls - D"
  using assms(1) [unfolded graph_minus_def, rule_format, of x] assms(2,3) by auto

lemma graph_minus_empty [simp]: "graph_minus G {} G"
  by (auto simp: graph_minus_def split: option.split node.split)

lemma graph_minus_trans:
  assumes "graph_minus G D G'" and "graph_minus G' D' G''"
  shows "graph_minus G (D \<union> D') G''"
  unfolding graph_minus_def
proof (rule allI)
  fix x
  note a = assms(1) [unfolded graph_minus_def, rule_format, of x]
    and b = assms(2) [unfolded graph_minus_def, rule_format, of x]
  show "if x \<in> D \<union> D' then G'' x = None
    else (case G x of Some (Remote_node a g ls) \<Rightarrow>
        \<exists>ms. G'' x = Some (Remote_node a g ms) \<and> set ms = set ls - (D \<union> D')
      | n \<Rightarrow> G'' x = n)"
  proof (cases "G x")
    case None then show ?thesis using a b by (auto split: if_split_asm)
  next
    case (Some n)
    show ?thesis
    proof (cases n)
      case (Remote_node c g ls)
      show ?thesis
      proof (cases "x \<in> D")
        case True
        then have "G' x = None" using a by simp
        then show ?thesis using True b by (auto split: if_split_asm)
      next
        case False
        then obtain ms where "G' x = Some (Remote_node c g ms)" "set ms = set ls - D"
          using a Some Remote_node by auto
        then show ?thesis using False b Some Remote_node by (auto split: if_split_asm)
      qed
    qed (use a b Some in \<open>auto split: if_split_asm\<close>)
  qed
qed

text \<open>The relation of two identities and its handshake.\<close>

definition handshakes_of :: "graph \<Rightarrow> addr \<Rightarrow> addr \<Rightarrow> addr set" where
  "handshakes_of G l r =
     {h. \<exists>a q c. G h = Some (Handshake_node a q c) \<and> G q = Some (Relation_node l l r)}"

definition relations_of :: "graph \<Rightarrow> addr \<Rightarrow> addr \<Rightarrow> addr set" where
  "relations_of G l r = {q. G q = Some (Relation_node l l r)}"

lemma graph_minus_related:
  assumes "graph_minus G D G'" and "\<And>q. q \<in> D \<Longrightarrow> q \<notin> relations_of G l r"
  shows "handshakes_of G' l r = handshakes_of G l r - D" "relations_of G' l r = relations_of G l r"
  using assms(2)
  by (auto simp: handshakes_of_def relations_of_def graph_minus_iff [OF assms(1)])

lemma tables_okI:
  "(\<And>p. p \<in> objs \<longleftrightarrow> (\<exists>n. G p = Some n \<and> \<not> is_relation n)) \<Longrightarrow>
   (\<And>p. p \<in> guids \<longleftrightarrow> (\<exists>n. G p = Some n \<and> is_remote n)) \<Longrightarrow> tables_ok G objs guids"
  unfolding tables_ok_def by (simp add: set_eq_iff)

lemma tables_okD:
  "tables_ok G objs guids \<Longrightarrow> p \<in> objs \<longleftrightarrow> (\<exists>n. G p = Some n \<and> \<not> is_relation n)"
  "tables_ok G objs guids \<Longrightarrow> p \<in> guids \<longleftrightarrow> (\<exists>n. G p = Some n \<and> is_remote n)"
  unfolding tables_ok_def by simp_all

lemma tables_drop_handshake:
  assumes tab: "tables_ok G objs guids" and h: "G h = Some (Handshake_node a q c)"
  shows "tables_ok (G(h := None)) (objs - {h}) guids"
proof (rule tables_okI)
  fix p
  show "p \<in> objs - {h} \<longleftrightarrow> (\<exists>n. (G(h := None)) p = Some n \<and> \<not> is_relation n)"
    by (cases "p = h") (simp_all add: tables_okD(1) [OF tab])
  show "p \<in> guids \<longleftrightarrow> (\<exists>n. (G(h := None)) p = Some n \<and> is_remote n)"
    using h by (cases "p = h") (simp_all add: tables_okD(2) [OF tab])
qed

lemma tables_drop_relation:
  assumes tab: "tables_ok G objs guids" and q: "G q = Some (Relation_node a l r)"
    and r: "G r = Some (Remote_node b g ls)"
  shows "tables_ok (G(r \<mapsto> Remote_node b g ms, q := None)) objs guids"
proof (rule tables_okI)
  fix p
  show "p \<in> objs \<longleftrightarrow> (\<exists>n. (G(r \<mapsto> Remote_node b g ms, q := None)) p = Some n \<and> \<not> is_relation n)"
    using q r by (cases "p = q"; cases "p = r") (simp_all add: tables_okD(1) [OF tab])
  show "p \<in> guids \<longleftrightarrow> (\<exists>n. (G(r \<mapsto> Remote_node b g ms, q := None)) p = Some n \<and> is_remote n)"
    using q r by (cases "p = q"; cases "p = r") (simp_all add: tables_okD(2) [OF tab])
qed

text \<open>Objects other than relations may go away without harm to the replies.\<close>

lemma replies_drop:
  assumes "replies_ok H G (answered h)" and "\<And>p a q c. G' p = Some (Handshake_node a q c) \<Longrightarrow>
      G p = Some (Handshake_node a q c) \<and> h' q = h q \<and> (p \<in> H \<longrightarrow> p \<in> H')"
  shows "replies_ok H' G' (answered h')"
  unfolding replies_ok_def
proof (intro allI impI)
  fix p a q assume "G' p = Some (Handshake_node a q CREATEDREPLY)" "p \<notin> H'"
  then have "G p = Some (Handshake_node a q CREATEDREPLY)" "h' q = h q" "p \<notin> H" using assms(2) by metis+
  moreover from this(1,3) have "q \<in> answered h"
    using assms(1) unfolding replies_ok_def by (elim allE) (erule (1) mp [OF mp])
  ultimately show "q \<in> answered h'" by (simp add: answered_def)
qed

lemma remove_object_set:
  assumes "auth_inv_but H s" and "heap s p = Some obj" and "obj_handle obj = p"
  shows "{q \<in> set (objectHash s). \<forall>x. heap s q = Some x \<longrightarrow> obj_handle x \<noteq> obj_handle obj} =
    set (objectHash s) - {p}"
proof -
  have "heap s q \<noteq> None" if "q \<in> set (objectHash s)" for q
    using auth_invD(3) [OF assms(1)] that by (auto simp: tables_ok_def graph_of_def)
  then have "q \<noteq> p \<longleftrightarrow> (\<forall>x. heap s q = Some x \<longrightarrow> obj_handle x \<noteq> obj_handle obj)"
    if q: "q \<in> set (objectHash s)" for q
    using inv_object_handle(1) [OF assms(1) q] assms(2,3) q by (cases "heap s q") auto
  then show ?thesis by (simp add: set_eq_iff) metis
qed

text \<open>Taking a handshake out of the table and freeing it.\<close>

lemma wp_free_handshake:
  assumes E: "hash_table_laws E" and inv: "auth_inv_but H s" and H: "H \<subseteq> {h}" and h: "heap s h = Some (Handshake hs)"
    and Q: "\<And>s'. auth_inv s' \<Longrightarrow> graph_of (heap s') = (graph_of (heap s))(h := None) \<Longrightarrow>
      heap s' = (heap s)(h := None) \<Longrightarrow> Q () s'"
  shows "wp (bind_op (remove_from_objectHash E h) (\<lambda>_. security_object_free h)) s Q X Z"
proof -
  from inv_handshake [OF inv h] have hd: "so_handle hs = h" "so_kind hs = SECURITY_OBJECT_KIND_HANDSHAKE"
    by metis+
  show ?thesis
  proof (intro wp_bind wp_remove_object [OF E h inv_table_safe(1) [OF inv]])
    fix tab
    assume tab: "set tab = {q \<in> set (objectHash s). \<forall>x. heap s q = Some x \<longrightarrow>
      obj_handle x \<noteq> obj_handle (Handshake hs)}"
    have tab: "set tab = set (objectHash s) - {h}"
      using tab remove_object_set [OF inv h] hd by simp
    let ?s = "s\<lparr>objectHash := tab, heap := (heap s)(h := None)\<rparr>"
    note G = graph_of_Some [where h = "heap s", OF h, simplified]
    have "auth_inv ?s"
    proof (rule auth_invI)
      show "heap_wf (heap ?s)" using heap_wf_del [OF auth_invD(1) [OF inv]] by simp
      show "graph_ok (graph_of (heap ?s))"
        using graph_drop_handshake [OF auth_invD(2) [OF inv] G] by simp
      show "tables_ok (graph_of (heap ?s)) (set (objectHash ?s)) (set (remoteGuidHash ?s))"
        using tables_drop_handshake [OF auth_invD(3) [OF inv] G] tab by simp
      show "replies_ok {} (graph_of (heap ?s)) (answered (heap ?s))"
      proof (rule replies_drop [OF auth_invD(4) [OF inv]])
        fix p a q c assume "graph_of (heap ?s) p = Some (Handshake_node a q c)"
        then have p: "graph_of (heap s) p = Some (Handshake_node a q c)"
          by (simp split: if_split_asm)
        obtain l r where "graph_of (heap s) q = Some (Relation_node l l r)"
          using graph_ok_node [OF auth_invD(2) [OF inv] p] by auto
        then have "q \<noteq> h" using G by auto
        then show "graph_of (heap s) p = Some (Handshake_node a q c) \<and> heap ?s q = heap s q \<and>
            (p \<in> H \<longrightarrow> p \<in> {})"
          using p H \<open>graph_of (heap ?s) p = _\<close> by auto
      qed
    qed
    then show "wp (security_object_free h) (s\<lparr>objectHash := tab\<rparr>) Q X Z"
      using h hd Q [of ?s] by (intro wp_free [where obj = "Handshake hs"]) simp_all
  qed
qed

text \<open>Taking a relation whose handshake is gone out of the link table, and freeing it.\<close>

lemma wp_free_relation:
  assumes E: "hash_table_laws E" and inv: "auth_inv s" and q: "heap s q = Some (Relation rel)"
    and r: "ir_remoteIdentity rel = remote"
    and free: "\<And>h hs. heap s h = Some (Handshake hs) \<Longrightarrow> hs_relation hs \<noteq> q"
    and Q: "\<And>s'. auth_inv s' \<Longrightarrow> graph_minus (graph_of (heap s)) {q} (graph_of (heap s')) \<Longrightarrow> Q () s'"
  shows "wp (bind_op (remove_from_linkHash E remote q) (\<lambda>_. security_object_free q)) s Q X Z"
proof -
  obtain l rm where l: "heap s (ir_localIdentity rel) = Some (LocalIdentity l)"
    and rm: "heap s remote = Some (RemoteIdentity rm)" and link: "q \<in> set (ri_linkHash rm)"
    and hd: "so_handle rel = ir_localIdentity rel" "so_kind rel = SECURITY_OBJECT_KIND_IDENTITY_RELATION"
    using inv_relation [OF inv q] r by metis
  have nz: "ir_localIdentity rel \<noteq> 0" "remote \<noteq> 0"
    using inv_local(3) [OF inv l] inv_remote(3) [OF inv rm] by simp_all
  have neq: "q \<noteq> remote" "q \<noteq> ir_localIdentity rel" using q rm l by auto
  note Gq = graph_of_Some [where h = "heap s", OF q, simplified]
    and Gr = graph_of_Some [where h = "heap s", OF rm, simplified]
  have hdr: "so_handle rm = remote" by (rule inv_remote(1) [OF inv rm])
  show ?thesis
  proof (intro wp_bind wp_remove_link [OF E rm q inv_table_safe(3) [OF inv rm]])
    fix tab
    assume "set tab = {x \<in> set (ri_linkHash rm). \<forall>obj. heap s x = Some obj \<longrightarrow>
      obj_handle obj \<noteq> obj_handle (Relation rel)}"
    moreover have "(\<forall>obj. heap s x = Some obj \<longrightarrow> obj_handle obj \<noteq> so_handle rel) \<longleftrightarrow> x \<noteq> q"
      if x: "x \<in> set (ri_linkHash rm)" for x
    proof -
      obtain rel' where rel': "heap s x = Some (Relation rel')" "ir_remoteIdentity rel' = remote"
        "so_handle rel' = ir_localIdentity rel'"
        using inv_remote(6) [OF inv rm x] by metis
      have "x = q" if "so_handle rel' = so_handle rel"
        by (rule graph_ok_relation_unique [OF auth_invD(2) [OF inv],
              of _ "ir_localIdentity rel" remote])
          (use rel' q r hd that in \<open>auto simp: graph_of_iff\<close>)
      then show ?thesis using rel' q by auto
    qed
    ultimately have tab: "set tab = set (ri_linkHash rm) - {q}" by auto
    let ?h = "(heap s)(remote \<mapsto> RemoteIdentity (rm\<lparr>ri_linkHash := tab\<rparr>))"
    let ?s = "s\<lparr>heap := ?h(q := None)\<rparr>"
    have G: "graph_of (heap ?s) =
        (graph_of (heap s))(remote \<mapsto> Remote_node remote (ri_guid rm) tab, q := None)"
      using hdr by simp
    have "auth_inv ?s"
    proof (rule auth_invI)
      show "heap_wf (heap ?s)"
        using auth_invD(1) [OF inv] inv_remote(2) [OF inv rm]
        by (simp add: heap_wf_del heap_wf_upd)
      show "graph_ok (graph_of (heap ?s))"
        unfolding G
      proof (rule graph_drop_relation [OF auth_invD(2) [OF inv]])
        show "graph_of (heap s) q = Some (Relation_node (ir_localIdentity rel) (ir_localIdentity rel) remote)"
          using Gq hd r by simp
        show "graph_of (heap s) remote = Some (Remote_node remote (ri_guid rm) (ri_linkHash rm))"
          using Gr hdr by simp
        show "graph_of (heap s) h \<noteq> Some (Handshake_node a q c)" for h a c
          using free by (auto simp: graph_of_iff)
        show "set tab = set (ri_linkHash rm) - {q}" by (rule tab)
      qed
      show "tables_ok (graph_of (heap ?s)) (set (objectHash ?s)) (set (remoteGuidHash ?s))"
        using tables_drop_relation [OF auth_invD(3) [OF inv] Gq, of "so_handle rm" "ri_guid rm" "ri_linkHash rm" tab]
          Gr r hdr unfolding G by simp
      show "replies_ok {} (graph_of (heap ?s)) (answered (heap ?s))"
      proof (rule replies_drop [OF auth_invD(4) [OF inv]])
        fix p a q' c assume "graph_of (heap ?s) p = Some (Handshake_node a q' c)"
        then have p: "graph_of (heap s) p = Some (Handshake_node a q' c)"
          unfolding G by (simp split: if_split_asm)
        obtain l' r' where "graph_of (heap s) q' = Some (Relation_node l' l' r')"
          using graph_ok_node [OF auth_invD(2) [OF inv] p] by auto
        then have "q' \<noteq> remote" using Gr by auto
        moreover have "q' \<noteq> q" using p free by (auto simp: graph_of_iff)
        ultimately show "graph_of (heap s) p = Some (Handshake_node a q' c) \<and> heap ?s q' = heap s q' \<and>
            (p \<in> {} \<longrightarrow> p \<in> {})"
          using p by simp
      qed
    qed
    moreover have others: "q \<notin> set ms" if "graph_of (heap s) x = Some (Remote_node a g ms)" "x \<noteq> remote"
      for x a g ms
      using graph_ok_node [OF auth_invD(2) [OF inv] that(1)] that(2) Gq r by auto
    ultimately have "auth_inv ?s" by simp
    moreover have "graph_minus (graph_of (heap s)) {q} (graph_of (heap ?s))"
      unfolding G graph_minus_def
    proof (rule allI)
      fix x
      show "if x \<in> {q} then ((graph_of (heap s))(remote \<mapsto> Remote_node remote (ri_guid rm) tab, q := None)) x = None
        else (case graph_of (heap s) x of Some (Remote_node a g ls) \<Rightarrow>
          \<exists>ms. ((graph_of (heap s))(remote \<mapsto> Remote_node remote (ri_guid rm) tab, q := None)) x =
            Some (Remote_node a g ms) \<and> set ms = set ls - {q}
        | n \<Rightarrow> ((graph_of (heap s))(remote \<mapsto> Remote_node remote (ri_guid rm) tab, q := None)) x = n)"
        using tab Gr hdr neq Gq others
        by (cases "x = q"; cases "x = remote") (auto split: option.split node.split)
    qed
    ultimately show "wp (security_object_free q)
        (s\<lparr>heap := (heap s)(remote \<mapsto> RemoteIdentity (rm\<lparr>ri_linkHash := tab\<rparr>))\<rparr>) Q X Z"
      using q hd nz neq r Q [of ?s] heap_wfD [OF auth_invD(1) [OF inv] q]
      by (intro wp_free [where obj = "Relation rel"]) simp_all
  qed
qed

section \<open>Returning handles\<close>

lemma graph_minus_single:
  assumes "graph_ok G" and "G p = Some n" and "\<not> is_relation n"
  shows "graph_minus G {p} (G(p := None))"
  unfolding graph_minus_def
proof (rule allI)
  fix x
  have "p \<notin> set ls" if "G x = Some (Remote_node b g ls)" for b g ls
    using graph_ok_node [OF assms(1) that] assms(2,3) by fastforce
  then show "if x \<in> {p} then (G(p := None)) x = None
    else (case G x of Some (Remote_node a g ls) \<Rightarrow>
        \<exists>ms. (G(p := None)) x = Some (Remote_node a g ms) \<and> set ms = set ls - {p}
      | n \<Rightarrow> (G(p := None)) x = n)"
    by (cases "x = p") (auto split: option.split node.split)
qed

text \<open>The handshake of a local and a remote identity, if there is one, is freed.\<close>

lemma wp_drop_pair_handshake:
  assumes E: "hash_table_laws E" and inv: "auth_inv s"
    and Q: "\<And>s'. auth_inv s' \<Longrightarrow>
      graph_minus (graph_of (heap s)) (handshakes_of (graph_of (heap s)) l r) (graph_of (heap s')) \<Longrightarrow>
      wp m s' Q X Z"
  shows "wp (bind_op (find_handshake E l r) (\<lambda>h. bind_op (drop_handshake E h) (\<lambda>_. m))) s Q X Z"
proof (rule wp_bind, rule wp_find_handshake [OF E inv])
  fix h hs rel
  assume h: "heap s h = Some (Handshake hs)" and rel: "heap s (hs_relation hs) = Some (Relation rel)"
    "ir_localIdentity rel = l" "ir_remoteIdentity rel = r"
  have hdl: "so_handle rel = l" using inv_relation [OF inv rel(1)] rel(2) by metis
  note Gh = graph_of_Some [where h = "heap s", OF h, simplified]
  have Grel: "graph_of (heap s) (hs_relation hs) = Some (Relation_node l l r)"
    using rel hdl by (auto simp: graph_of_iff)
  have "h' = h" if mem: "h' \<in> handshakes_of (graph_of (heap s)) l r" for h'
  proof -
    obtain a q c where h': "graph_of (heap s) h' = Some (Handshake_node a q c)"
        "graph_of (heap s) q = Some (Relation_node l l r)"
      using mem by (auto simp: handshakes_of_def)
    have "q = hs_relation hs"
      by (rule graph_ok_relation_unique [OF auth_invD(2) [OF inv] h'(2) Grel])
    then show "h' = h"
      using graph_ok_handshake_unique [OF auth_invD(2) [OF inv] h'(1)] Gh by simp
  qed
  moreover have "h \<in> handshakes_of (graph_of (heap s)) l r"
    using Gh Grel by (auto simp: handshakes_of_def)
  ultimately have set: "handshakes_of (graph_of (heap s)) l r = {h}" by blast
  have "wp (drop_handshake E (Some h)) s (\<lambda>_ s'. wp m s' Q X Z) X Z"
    unfolding drop_handshake_def option.case
  proof (rule wp_free_handshake [OF E inv empty_subsetI h])
    fix s' assume s': "auth_inv s'" "graph_of (heap s') = (graph_of (heap s))(h := None)"
    show "wp m s' Q X Z"
      by (rule Q [OF s'(1)]) (unfold s'(2) set, rule graph_minus_single [OF auth_invD(2) [OF inv] Gh], simp)
  qed
  then show "wp (bind_op (drop_handshake E (Some h)) (\<lambda>_. m)) s Q X Z" by (rule wp_bind)
next
  assume none: "\<And>p hs rel. heap s p = Some (Handshake hs) \<Longrightarrow>
    heap s (hs_relation hs) = Some (Relation rel) \<Longrightarrow> ir_remoteIdentity rel = r \<Longrightarrow>
    ir_localIdentity rel \<noteq> l"
  have "handshakes_of (graph_of (heap s)) l r = {}"
    using none by (fastforce simp: handshakes_of_def graph_of_iff)
  then have "wp m s Q X Z" using Q [OF inv] by simp
  then show "wp (bind_op (drop_handshake E None) (\<lambda>_. m)) s Q X Z"
    by (intro wp_bind) (simp add: drop_handshake_def)
qed

text \<open>The objects that depend on an identity through its relation to another.\<close>

definition pair_objects :: "graph \<Rightarrow> addr \<Rightarrow> addr \<Rightarrow> addr set" where
  "pair_objects G l r = handshakes_of G l r \<union> relations_of G l r"

lemma graph_minus_pairs:
  assumes minus: "graph_minus G D G'" and ok: "graph_ok G'"
  shows "D \<union> pair_objects G' l r = D \<union> pair_objects G l r"
proof -
  have rel: "relations_of G' l r = relations_of G l r - D"
    by (auto simp: relations_of_def graph_minus_iff [OF minus])
  have "h \<in> D \<union> handshakes_of G' l r" if mem: "h \<in> handshakes_of G l r" for h
  proof (cases "h \<in> D")
    case False
    obtain a q c where h: "G h = Some (Handshake_node a q c)" "G q = Some (Relation_node l l r)"
      using mem by (auto simp: handshakes_of_def)
    then have h': "G' h = Some (Handshake_node a q c)" using False by (simp add: graph_minus_iff [OF minus])
    then obtain l' r' where "G' q = Some (Relation_node l' l' r')" using graph_ok_node [OF ok h'] by auto
    then have "G' q = Some (Relation_node l l r)" using h by (simp add: graph_minus_iff [OF minus])
    then show ?thesis using h' by (auto simp: handshakes_of_def)
  qed simp
  moreover have "handshakes_of G' l r \<subseteq> handshakes_of G l r"
    by (auto simp: handshakes_of_def graph_minus_iff [OF minus])
  ultimately show ?thesis using rel by (auto simp: pair_objects_def)
qed

text \<open>Freeing the relation of a pair whose handshake is gone.\<close>

lemma relation_unused:
  assumes "auth_inv s" and "handshakes_of (graph_of (heap s)) l r = {}"
    and "heap s q = Some (Relation rel)" "ir_localIdentity rel = l" "ir_remoteIdentity rel = r"
    and "heap s h = Some (Handshake hs)"
  shows "hs_relation hs \<noteq> q"
proof
  assume "hs_relation hs = q"
  moreover have "so_handle rel = l" using inv_relation [OF assms(1,3)] assms(4) by metis
  ultimately have "h \<in> handshakes_of (graph_of (heap s)) l r"
    using assms(3-6) by (auto simp: handshakes_of_def graph_of_iff)
  then show False using assms(2) by simp
qed

lemma pair_after_handshake:
  assumes "graph_minus G (handshakes_of G l r) G'" and "graph_ok G'"
  shows "handshakes_of G' l r = {}" "relations_of G' l r = relations_of G l r"
proof -
  show "relations_of G' l r = relations_of G l r"
    by (auto simp: relations_of_def graph_minus_iff [OF assms(1)]) (auto simp: handshakes_of_def)
  show "handshakes_of G' l r = {}"
    by (auto simp: handshakes_of_def graph_minus_iff [OF assms(1)])
qed

lemma pair_freed:
  assumes G1: "graph_minus G (handshakes_of G l r) G1" "graph_ok G1"
    and q: "G1 q = Some (Relation_node l l r)" and G2: "graph_minus G1 {q} G2"
  shows "graph_minus G (pair_objects G l r) G2"
proof -
  have "relations_of G l r = {q}"
  proof -
    have "x = q" if "x \<in> relations_of G1 l r" for x
      using that q graph_ok_relation_unique [OF G1(2), of x l r q] by (simp add: relations_of_def)
    moreover have "q \<in> relations_of G1 l r" using q by (simp add: relations_of_def)
    ultimately show ?thesis using pair_after_handshake(2) [OF G1] by blast
  qed
  then show ?thesis using graph_minus_trans [OF G1(1) G2] by (simp add: pair_objects_def)
qed

lemma wp_drop_pair_local:
  assumes E: "hash_table_laws E" and inv: "auth_inv s" and r: "heap s r = Some (RemoteIdentity rm)"
    and Q: "\<And>s'. auth_inv s' \<Longrightarrow>
      graph_minus (graph_of (heap s)) (pair_objects (graph_of (heap s)) l r) (graph_of (heap s')) \<Longrightarrow>
      wp m s' Q X Z"
  shows "wp (bind_op (find_handshake E l r) (\<lambda>h. bind_op (drop_handshake E h) (\<lambda>_.
    bind_op (find_identity_relation E r l) (\<lambda>relation.
    bind_op (case relation of None \<Rightarrow> ret_op () | Some q \<Rightarrow> remove_identity_relation E r q) (\<lambda>_. m)))))
    s Q X Z"
proof (rule wp_drop_pair_handshake [OF E inv])
  fix s1 assume s1: "auth_inv s1"
    and G1: "graph_minus (graph_of (heap s)) (handshakes_of (graph_of (heap s)) l r) (graph_of (heap s1))"
  note after = pair_after_handshake [OF G1 auth_invD(2) [OF s1]]
  have "r \<notin> handshakes_of (graph_of (heap s)) l r"
    using r by (auto simp: handshakes_of_def graph_of_iff)
  then have "\<exists>ms. graph_of (heap s1) r = Some (Remote_node (so_handle rm) (ri_guid rm) ms)"
    using graph_of_Some [where h = "heap s", OF r] by (simp add: graph_minus_iff(5) [OF G1])
  then obtain rm1 where r1: "heap s1 r = Some (RemoteIdentity rm1)" by (auto simp: graph_of_iff)
  show "wp (bind_op (find_identity_relation E r l) (\<lambda>relation.
    bind_op (case relation of None \<Rightarrow> ret_op () | Some q \<Rightarrow> remove_identity_relation E r q) (\<lambda>_. m)))
    s1 Q X Z"
  proof (rule wp_bind, rule wp_find_relation [OF E s1 r1])
    fix q rel assume q: "heap s1 q = Some (Relation rel)" "ir_localIdentity rel = l"
      "ir_remoteIdentity rel = r"
    have Gq: "graph_of (heap s1) q = Some (Relation_node l l r)"
      using q inv_relation [OF s1 q(1)] by (metis graph_of_iff(3))
    have "wp (remove_identity_relation E r q) s1 (\<lambda>_ s'. wp m s' Q X Z) X Z"
      unfolding remove_identity_relation_def
    proof (rule wp_free_relation [OF E s1 q(1,3)])
      show "hs_relation hs \<noteq> q" if "heap s1 h = Some (Handshake hs)" for h hs
        by (rule relation_unused [OF s1 after(1) q that])
      fix s2 assume "auth_inv s2" "graph_minus (graph_of (heap s1)) {q} (graph_of (heap s2))"
      then show "wp m s2 Q X Z"
        using pair_freed [OF G1 auth_invD(2) [OF s1] Gq] by (intro Q)
    qed
    then show "wp (bind_op (case Some q of None \<Rightarrow> ret_op () | Some q \<Rightarrow> remove_identity_relation E r q)
        (\<lambda>_. m)) s1 Q X Z"
      by (intro wp_bind) simp
  next
    assume none: "\<And>q rel. heap s1 q = Some (Relation rel) \<Longrightarrow> ir_remoteIdentity rel = r \<Longrightarrow>
      ir_localIdentity rel \<noteq> l"
    have "relations_of (graph_of (heap s1)) l r = {}"
      using none by (auto simp: relations_of_def graph_of_iff)
    then have "wp m s1 Q X Z" using Q [OF s1] G1 after(2) by (simp add: pair_objects_def)
    then show "wp (bind_op (case None of None \<Rightarrow> ret_op () | Some q \<Rightarrow> remove_identity_relation E r q)
        (\<lambda>_. m)) s1 Q X Z"
      by (intro wp_bind) simp
  qed
qed

lemma wp_drop_pair_remote:
  assumes E: "hash_table_laws E" and inv: "auth_inv s" and q: "heap s q = Some (Relation rel)"
    "ir_localIdentity rel = l" "ir_remoteIdentity rel = r"
    and Q: "\<And>s'. auth_inv s' \<Longrightarrow>
      graph_minus (graph_of (heap s)) (pair_objects (graph_of (heap s)) l r) (graph_of (heap s')) \<Longrightarrow>
      wp m s' Q X Z"
  shows "wp (bind_op (find_handshake E l r) (\<lambda>h. bind_op (drop_handshake E h) (\<lambda>_.
    bind_op (remove_from_linkHash E r q) (\<lambda>_. bind_op (security_object_free q) (\<lambda>_. m))))) s Q X Z"
proof (rule wp_drop_pair_handshake [OF E inv])
  fix s1 assume s1: "auth_inv s1"
    and G1: "graph_minus (graph_of (heap s)) (handshakes_of (graph_of (heap s)) l r) (graph_of (heap s1))"
  note after = pair_after_handshake [OF G1 auth_invD(2) [OF s1]]
  have "graph_of (heap s) q = Some (Relation_node l l r)"
    using q inv_relation [OF inv q(1)] by (metis graph_of_iff(3))
  then have Gq: "graph_of (heap s1) q = Some (Relation_node l l r)"
    using after(2) by (auto simp: relations_of_def)
  then obtain rel1 where rel1: "heap s1 q = Some (Relation rel1)" "ir_localIdentity rel1 = l"
      "ir_remoteIdentity rel1 = r"
    by (auto simp: graph_of_iff)
  have "wp (bind_op (remove_from_linkHash E r q) (\<lambda>_. security_object_free q)) s1
      (\<lambda>_ s'. wp m s' Q X Z) X Z"
  proof (rule wp_free_relation [OF E s1 rel1(1,3)])
    show "hs_relation hs \<noteq> q" if "heap s1 h = Some (Handshake hs)" for h hs
      by (rule relation_unused [OF s1 after(1) rel1 that])
    fix s2 assume "auth_inv s2" "graph_minus (graph_of (heap s1)) {q} (graph_of (heap s2))"
    then show "wp m s2 Q X Z"
      using pair_freed [OF G1 auth_invD(2) [OF s1] Gq] by (intro Q)
  qed
  then have "wp (bind_op (bind_op (remove_from_linkHash E r q) (\<lambda>_. security_object_free q)) (\<lambda>_. m))
      s1 Q X Z"
    by (rule wp_bind)
  then show "wp (bind_op (remove_from_linkHash E r q)
      (\<lambda>_. bind_op (security_object_free q) (\<lambda>_. m))) s1 Q X Z"
    by (simp add: bind_op_assoc)
qed

text \<open>What depends on an identity: its relations and their handshakes.\<close>

definition dependents :: "graph \<Rightarrow> addr \<Rightarrow> addr set" where
  "dependents G p =
     {q. \<exists>l r. G q = Some (Relation_node l l r) \<and> (l = p \<or> r = p)} \<union>
     {h. \<exists>a q c l r. G h = Some (Handshake_node a q c) \<and> G q = Some (Relation_node l l r) \<and>
        (l = p \<or> r = p)}"

lemma pair_objects_not_remote:
  assumes "graph_ok G" and "\<And>g ls. G r \<noteq> Some (Remote_node r g ls)"
  shows "pair_objects G l r = {}"
proof -
  have "G q \<noteq> Some (Relation_node l l r)" for q
    using graph_ok_node [OF assms(1), of q "Relation_node l l r"] assms(2) by auto
  then show ?thesis by (simp add: pair_objects_def handshakes_of_def relations_of_def)
qed

lemma wp_invalidate_local_loop:
  assumes E: "hash_table_laws E"
  shows "auth_inv s \<Longrightarrow> graph_of (heap s) p = Some (Local_node p) \<Longrightarrow>
    (\<And>s'. auth_inv s' \<Longrightarrow> graph_minus (graph_of (heap s))
       (\<Union>r \<in> set ps. pair_objects (graph_of (heap s)) p r) (graph_of (heap s')) \<Longrightarrow> Q () s') \<Longrightarrow>
    wp (invalidate_local_loop E p ps) s Q X Z"
proof (induction ps arbitrary: s)
  case (Cons x ps)
  note inv = Cons.prems(1) and p = Cons.prems(2) and Q = Cons.prems(3)
  let ?G = "graph_of (heap s)"
  have skip: "wp (invalidate_local_loop E p ps) s Q X Z"
    if "\<And>g ls. ?G x \<noteq> Some (Remote_node x g ls)"
    using Cons.IH [OF inv p] Q pair_objects_not_remote [OF auth_invD(2) [OF inv] that]
    by simp
  show ?case
  proof (cases "x \<in> set (objectHash s)")
    case False
    then have "?G x \<noteq> Some (Remote_node x g ls)" for g ls
      using tables_okD(1) [OF auth_invD(3) [OF inv], of x] by fastforce
    then show ?thesis using False skip by (simp add: wp_bind)
  next
    case True
    then obtain obj where obj: "heap s x = Some obj"
      using tables_okD(1) [OF auth_invD(3) [OF inv], of x] by (auto simp: graph_of_def)
    show ?thesis
    proof (cases "obj_kind obj = SECURITY_OBJECT_KIND_REMOTE_IDENTITY")
      case False
      then have "?G x \<noteq> Some (Remote_node x g ls)" for g ls
        using obj inv_remote(2) [OF inv, of x] by (auto simp: graph_of_iff)
      then have "wp (invalidate_local_loop E p ps) s Q X Z" by (rule skip)
      then show ?thesis using False True obj by (simp add: wp_bind wp_load)
    next
      case kind: True
      then obtain rm where rm: "heap s x = Some (RemoteIdentity rm)"
        using obj heap_wfD [OF auth_invD(1) [OF inv] obj] by (cases obj) auto
      obtain l where l: "heap s p = Some (LocalIdentity l)" "so_handle l = p"
        using p by (auto simp: graph_of_iff)
      have "wp (bind_op (find_handshake E p x) (\<lambda>h. bind_op (drop_handshake E h) (\<lambda>_.
          bind_op (find_identity_relation E x p) (\<lambda>relation.
          bind_op (case relation of None \<Rightarrow> ret_op () | Some q \<Rightarrow> remove_identity_relation E x q)
            (\<lambda>_. invalidate_local_loop E p ps))))) s Q X Z"
      proof (rule wp_drop_pair_local [OF E inv rm])
        fix s1 assume s1: "auth_inv s1"
          and G1: "graph_minus ?G (pair_objects ?G p x) (graph_of (heap s1))"
        have "p \<notin> pair_objects ?G p x"
          using p by (auto simp: pair_objects_def handshakes_of_def relations_of_def)
        then have p1: "graph_of (heap s1) p = Some (Local_node p)"
          using p by (simp add: graph_minus_iff [OF G1])
        show "wp (invalidate_local_loop E p ps) s1 Q X Z"
        proof (rule Cons.IH [OF s1 p1])
          fix s2 assume s2: "auth_inv s2" and G2: "graph_minus (graph_of (heap s1))
            (\<Union>r \<in> set ps. pair_objects (graph_of (heap s1)) p r) (graph_of (heap s2))"
          have "pair_objects ?G p x \<union> (\<Union>r \<in> set ps. pair_objects (graph_of (heap s1)) p r) =
              (\<Union>r \<in> set (x # ps). pair_objects ?G p r)"
            using graph_minus_pairs [OF G1 auth_invD(2) [OF s1], of p] by auto
          then show "Q () s2" using Q [OF s2] graph_minus_trans [OF G1 G2] by simp
        qed
      qed
      then show ?thesis
        using True rm kind obj l inv_remote(1) [OF inv rm] by (simp add: wp_bind wp_load)
    qed
  qed
qed simp

lemma pair_subset_dependents:
  "pair_objects G l r \<subseteq> dependents G l" "pair_objects G l r \<subseteq> dependents G r"
  by (auto simp: pair_objects_def handshakes_of_def relations_of_def dependents_def)

text \<open>The relations \<open>qs\<close> of the remote identity \<open>r\<close>, with their handshakes.\<close>

definition linked_objects :: "graph \<Rightarrow> addr \<Rightarrow> addr list \<Rightarrow> addr set" where
  "linked_objects G r qs =
     (\<Union>q \<in> set qs. {x. \<exists>l. G q = Some (Relation_node l l r) \<and> x \<in> pair_objects G l r})"

lemma linked_objects_Cons:
  assumes q: "G q = Some (Relation_node l l r)" and G1: "graph_minus G (pair_objects G l r) G1"
    and ok: "graph_ok G1"
  shows "pair_objects G l r \<union> linked_objects G1 r qs = linked_objects G r (q # qs)"
proof -
  have G1q: "G1 q' = Some (Relation_node a a r) \<longleftrightarrow>
      q' \<notin> pair_objects G l r \<and> G q' = Some (Relation_node a a r)" for q' a
    by (rule graph_minus_iff(2) [OF G1])
  have mem: "a = l" if "q' \<in> pair_objects G l r" "G q' = Some (Relation_node a a r)" for q' a
    using that by (auto simp: pair_objects_def handshakes_of_def relations_of_def)
  note pairs = graph_minus_pairs [OF G1 ok, of _ r]
  show ?thesis
  proof (rule set_eqI)
    fix x
    show "x \<in> pair_objects G l r \<union> linked_objects G1 r qs \<longleftrightarrow> x \<in> linked_objects G r (q # qs)"
    proof (cases "x \<in> pair_objects G l r")
      case False
      have eq: "x \<in> pair_objects G1 a r \<longleftrightarrow> x \<in> pair_objects G a r" for a
        using pairs [of a] False by blast
      have "q' \<notin> pair_objects G l r" if "G q' = Some (Relation_node a a r)" "x \<in> pair_objects G a r" for q' a
        using mem [of q' a] that False by auto
      then show ?thesis using False q by (auto simp: linked_objects_def G1q eq)
    qed (use q in \<open>simp add: linked_objects_def\<close>)
  qed
qed

lemma wp_invalidate_remote_loop:
  assumes E: "hash_table_laws E"
  shows "auth_inv s \<Longrightarrow> graph_of (heap s) r = Some (Remote_node r g ls) \<Longrightarrow>
    (\<And>s'. auth_inv s' \<Longrightarrow>
       graph_minus (graph_of (heap s)) (linked_objects (graph_of (heap s)) r qs) (graph_of (heap s')) \<Longrightarrow>
       Q () s') \<Longrightarrow>
    wp (invalidate_remote_loop E r qs) s Q X Z"
proof (induction qs arbitrary: s ls)
  case (Cons q qs)
  note inv = Cons.prems(1) and r = Cons.prems(2) and Q = Cons.prems(3)
  let ?G = "graph_of (heap s)"
  obtain rm where rm: "heap s r = Some (RemoteIdentity rm)" "so_handle rm = r" "ri_linkHash rm = ls"
    using r by (auto simp: graph_of_iff)
  show ?case
  proof (cases "q \<in> set ls")
    case False
    have "?G q \<noteq> Some (Relation_node l l r)" for l
      using graph_ok_node [OF auth_invD(2) [OF inv], of q "Relation_node l l r"] r False by auto
    then have "linked_objects ?G r (q # qs) = linked_objects ?G r qs"
      by (simp add: linked_objects_def)
    then have "wp (invalidate_remote_loop E r qs) s Q X Z" using Cons.IH [OF inv r] Q by simp
    then show ?thesis using rm False by (simp add: wp_bind wp_load_typed)
  next
    case True
    then obtain rel where rel: "heap s q = Some (Relation rel)" "ir_remoteIdentity rel = r"
        "so_handle rel = ir_localIdentity rel"
      using inv_remote(6) [OF inv rm(1)] rm(3) by metis
    obtain l where l: "heap s (ir_localIdentity rel) = Some (LocalIdentity l)"
      using inv_relation [OF inv rel(1)] by metis
    have Gq: "?G q = Some (Relation_node (ir_localIdentity rel) (ir_localIdentity rel) r)"
      using rel by (auto simp: graph_of_iff)
    have "wp (bind_op (find_handshake E (ir_localIdentity rel) r) (\<lambda>h. bind_op (drop_handshake E h) (\<lambda>_.
        bind_op (remove_from_linkHash E r q) (\<lambda>_. bind_op (security_object_free q)
          (\<lambda>_. invalidate_remote_loop E r qs))))) s Q X Z"
    proof (rule wp_drop_pair_remote [OF E inv rel(1) refl rel(2)])
      fix s1 assume s1: "auth_inv s1"
        and G1: "graph_minus ?G (pair_objects ?G (ir_localIdentity rel) r) (graph_of (heap s1))"
      have "r \<notin> pair_objects ?G (ir_localIdentity rel) r"
        using r by (auto simp: pair_objects_def handshakes_of_def relations_of_def)
      then have "\<exists>ms. graph_of (heap s1) r = Some (Remote_node r g ms)"
        using r by (simp add: graph_minus_iff(5) [OF G1])
      then obtain ms where r1: "graph_of (heap s1) r = Some (Remote_node r g ms)" ..
      show "wp (invalidate_remote_loop E r qs) s1 Q X Z"
      proof (rule Cons.IH [OF s1 r1])
        fix s2 assume s2: "auth_inv s2" and G2: "graph_minus (graph_of (heap s1))
          (linked_objects (graph_of (heap s1)) r qs) (graph_of (heap s2))"
        show "Q () s2"
          using Q [OF s2] graph_minus_trans [OF G1 G2]
            linked_objects_Cons [OF Gq G1 auth_invD(2) [OF s1], of qs] by simp
      qed
    qed
    then show ?thesis
      using rm True rel l inv_local(1) [OF inv l] by (simp add: wp_bind wp_load wp_load_typed)
  qed
qed (simp add: linked_objects_def)

lemma wp_invalidate_local:
  assumes E: "hash_table_laws E" and inv: "auth_inv s" and p: "graph_of (heap s) p = Some (Local_node p)"
    and Q: "\<And>s'. auth_inv s' \<Longrightarrow>
      graph_minus (graph_of (heap s)) (dependents (graph_of (heap s)) p) (graph_of (heap s')) \<Longrightarrow> Q () s'"
  shows "wp (invalidate_local_related_objects E p) s Q X Z"
proof -
  let ?G = "graph_of (heap s)"
  have "dependents ?G p = (\<Union>r \<in> set (objectHash s). pair_objects ?G p r)"
  proof (intro equalityI subsetI)
    fix x assume "x \<in> dependents ?G p"
    then obtain q l r where q: "?G q = Some (Relation_node l l r)" "l = p \<or> r = p"
      and x: "x = q \<or> (\<exists>a c. ?G x = Some (Handshake_node a q c))"
      by (auto simp: dependents_def)
    obtain g ls where r: "?G r = Some (Remote_node r g ls)"
      using graph_ok_node [OF auth_invD(2) [OF inv] q(1)] by auto
    then have "l = p" using q(2) p by auto
    moreover have "r \<in> set (objectHash s)"
      using tables_okD(1) [OF auth_invD(3) [OF inv], of r] r by simp
    ultimately show "x \<in> (\<Union>r \<in> set (objectHash s). pair_objects ?G p r)"
      using q x by (auto simp: pair_objects_def handshakes_of_def relations_of_def)
  qed (use pair_subset_dependents(1) [of ?G p] in blast)
  then show ?thesis
    unfolding invalidate_local_related_objects_def
    using wp_invalidate_local_loop [OF E inv p, of "hh_iter E (objectHash s)"] Q hh_iter_law(1) [OF E]
    by (intro wp_bind) simp
qed

lemma wp_invalidate_remote:
  assumes E: "hash_table_laws E" and inv: "auth_inv s"
    and r: "graph_of (heap s) r = Some (Remote_node r g ls)"
    and Q: "\<And>s'. auth_inv s' \<Longrightarrow>
      graph_minus (graph_of (heap s)) (dependents (graph_of (heap s)) r) (graph_of (heap s')) \<Longrightarrow> Q () s'"
  shows "wp (invalidate_remote_related_objects E r) s Q X Z"
proof -
  let ?G = "graph_of (heap s)"
  obtain rm where rm: "heap s r = Some (RemoteIdentity rm)" "ri_linkHash rm = ls"
    using r by (auto simp: graph_of_iff)
  have iter: "set (hh_iter E ls) = set ls" by (rule hh_iter_law(1) [OF E])
  have "dependents ?G r = linked_objects ?G r (hh_iter E ls)"
  proof (intro equalityI subsetI)
    fix x assume "x \<in> dependents ?G r"
    then obtain q l r' where q: "?G q = Some (Relation_node l l r')" "l = r \<or> r' = r"
      and x: "x = q \<or> (\<exists>a c. ?G x = Some (Handshake_node a q c))"
      by (auto simp: dependents_def)
    note n = graph_ok_node [OF auth_invD(2) [OF inv] q(1)]
    then have r': "r' = r" using q(2) r by auto
    then have "q \<in> set ls" using n r by auto
    then show "x \<in> linked_objects ?G r (hh_iter E ls)"
      using q x r' iter
      by (auto simp: linked_objects_def pair_objects_def handshakes_of_def relations_of_def)
  next
    fix x assume "x \<in> linked_objects ?G r (hh_iter E ls)"
    then show "x \<in> dependents ?G r"
      using pair_subset_dependents(2) by (fastforce simp: linked_objects_def)
  qed
  then show ?thesis
    unfolding invalidate_remote_related_objects_def
    using wp_invalidate_remote_loop [OF E inv r, of "hh_iter E ls"] Q rm
    by (intro wp_bind) (simp add: wp_load_typed)
qed

lemma tables_drop_identity:
  assumes tab: "tables_ok G objs guids" and p: "G p = Some n" "\<not> is_relation n"
  shows "tables_ok (G(p := None)) (objs - {p}) (guids - {p})"
proof (rule tables_okI)
  fix q
  show "q \<in> objs - {p} \<longleftrightarrow> (\<exists>n. (G(p := None)) q = Some n \<and> \<not> is_relation n)"
    by (cases "q = p") (simp_all add: tables_okD(1) [OF tab])
  show "q \<in> guids - {p} \<longleftrightarrow> (\<exists>n. (G(p := None)) q = Some n \<and> is_remote n)"
    by (cases "q = p") (simp_all add: tables_okD(2) [OF tab])
qed

lemma replies_drop_identity:
  assumes inv: "auth_inv s" and p: "graph_of (heap s) p = Some n" "\<not> is_relation n"
  shows "replies_ok {} ((graph_of (heap s))(p := None)) (answered ((heap s)(p := None)))"
proof (rule replies_drop [OF auth_invD(4) [OF inv]])
  fix x a q c assume "((graph_of (heap s))(p := None)) x = Some (Handshake_node a q c)"
  then have x: "graph_of (heap s) x = Some (Handshake_node a q c)" by (simp split: if_split_asm)
  then obtain l r where "graph_of (heap s) q = Some (Relation_node l l r)"
    using graph_ok_node [OF auth_invD(2) [OF inv] x] by auto
  then have "q \<noteq> p" using p by auto
  then show "graph_of (heap s) x = Some (Handshake_node a q c) \<and> ((heap s)(p := None)) q = heap s q \<and>
      (x \<in> {} \<longrightarrow> x \<in> {})"
    using x by simp
qed

lemma wp_free_local:
  assumes E: "hash_table_laws E" and inv: "auth_inv s" and p: "heap s p = Some (LocalIdentity l)"
    and free: "\<And>q a r. graph_of (heap s) q \<noteq> Some (Relation_node a p r)"
    and Q: "\<And>s'. auth_inv s' \<Longrightarrow> graph_minus (graph_of (heap s)) {p} (graph_of (heap s')) \<Longrightarrow> Q () s'"
  shows "wp (bind_op (remove_from_objectHash E p) (\<lambda>_. security_object_free p)) s Q X Z"
proof (intro wp_bind wp_remove_object [OF E p inv_table_safe(1) [OF inv]])
  note hd = inv_local [OF inv p] and Gp = graph_of_Some [where h = "heap s", OF p, simplified]
  fix tab
  assume "set tab = {q \<in> set (objectHash s). \<forall>x. heap s q = Some x \<longrightarrow>
      obj_handle x \<noteq> obj_handle (LocalIdentity l)}"
  then have tab: "set tab = set (objectHash s) - {p}"
    using remove_object_set [OF inv p] hd by simp
  have "p \<notin> set (remoteGuidHash s)"
    using tables_okD(2) [OF auth_invD(3) [OF inv], of p] Gp by simp
  let ?s = "s\<lparr>objectHash := tab, heap := (heap s)(p := None)\<rparr>"
  have "auth_inv ?s"
  proof (rule auth_invI)
    show "heap_wf (heap ?s)" using heap_wf_del [OF auth_invD(1) [OF inv]] by simp
    show "graph_ok (graph_of (heap ?s))"
      using graph_drop_local [OF auth_invD(2) [OF inv] _ free] Gp hd by simp
    show "tables_ok (graph_of (heap ?s)) (set (objectHash ?s)) (set (remoteGuidHash ?s))"
      using tables_drop_identity [OF auth_invD(3) [OF inv] Gp] tab \<open>p \<notin> set (remoteGuidHash s)\<close> by simp
    show "replies_ok {} (graph_of (heap ?s)) (answered (heap ?s))"
      using replies_drop_identity [OF inv Gp] by simp
  qed
  then show "wp (security_object_free p) (s\<lparr>objectHash := tab\<rparr>) Q X Z"
    using p hd Q [of ?s] graph_minus_single [OF auth_invD(2) [OF inv] Gp]
    by (intro wp_free [where obj = "LocalIdentity l"]) simp_all
qed

lemma wp_free_remote:
  assumes E: "hash_table_laws E" and inv: "auth_inv s" and p: "heap s p = Some (RemoteIdentity r)"
    and free: "ri_linkHash r = []"
    and Q: "\<And>s'. auth_inv s' \<Longrightarrow> graph_minus (graph_of (heap s)) {p} (graph_of (heap s')) \<Longrightarrow> Q () s'"
  shows "wp (bind_op (remove_from_remoteGuidHash E p) (\<lambda>_. bind_op (remove_from_objectHash E p)
    (\<lambda>_. security_object_free p))) s Q X Z"
proof (rule wp_bind, rule wp_remove_guid [OF E p inv_table_safe(2) [OF inv]])
  note hd = inv_remote(1-5) [OF inv p] and Gp = graph_of_Some [where h = "heap s", OF p, simplified]
  fix tab
  assume "set tab = {q \<in> set (remoteGuidHash s). \<forall>r'. heap s q = Some (RemoteIdentity r') \<longrightarrow>
    \<not> guid_eq (ri_guid r) (ri_guid r')}"
  moreover have "(\<forall>r'. heap s q = Some (RemoteIdentity r') \<longrightarrow> \<not> guid_eq (ri_guid r) (ri_guid r')) \<longleftrightarrow> q \<noteq> p"
    if q: "q \<in> set (remoteGuidHash s)" for q
  proof -
    obtain n where "graph_of (heap s) q = Some n" "is_remote n"
      using q tables_okD(2) [OF auth_invD(3) [OF inv], of q] by auto
    then obtain r' where r': "heap s q = Some (RemoteIdentity r')" by (cases n) (auto simp: graph_of_iff)
    have "q = p" if "guid_eq (ri_guid r) (ri_guid r')"
      using graph_ok_guid_unique [OF auth_invD(2) [OF inv] Gp
          graph_of_Some [where h = "heap s", OF r', simplified]] that by simp
    then show ?thesis using r' p by auto
  qed
  ultimately have guids: "set tab = set (remoteGuidHash s) - {p}" by (simp add: set_eq_iff) metis
  let ?s1 = "s\<lparr>remoteGuidHash := tab\<rparr>"
  show "wp (bind_op (remove_from_objectHash E p) (\<lambda>_. security_object_free p)) ?s1 Q X Z"
  proof (rule wp_bind, rule wp_remove_object [OF E])
    show "heap ?s1 p = Some (RemoteIdentity r)" using p by simp
    show "table_safe (heap ?s1) (objectHash ?s1)" using inv_table_safe(1) [OF inv] by simp
    fix objs
    assume "set objs = {q \<in> set (objectHash ?s1). \<forall>x. heap ?s1 q = Some x \<longrightarrow>
        obj_handle x \<noteq> obj_handle (RemoteIdentity r)}"
    then have tab2: "set objs = set (objectHash s) - {p}"
      using remove_object_set [OF inv p] hd by simp
    let ?s = "?s1\<lparr>objectHash := objs, heap := (heap s)(p := None)\<rparr>"
    have "auth_inv ?s"
    proof (rule auth_invI)
      show "heap_wf (heap ?s)" using heap_wf_del [OF auth_invD(1) [OF inv]] by simp
      show "graph_ok (graph_of (heap ?s))"
        using graph_drop_remote [OF auth_invD(2) [OF inv]] Gp hd free by simp
      show "tables_ok (graph_of (heap ?s)) (set (objectHash ?s)) (set (remoteGuidHash ?s))"
        using tables_drop_identity [OF auth_invD(3) [OF inv] Gp] tab2 guids by simp
      show "replies_ok {} (graph_of (heap ?s)) (answered (heap ?s))"
        using replies_drop_identity [OF inv Gp] by simp
    qed
    then show "wp (security_object_free p) (?s1\<lparr>objectHash := objs\<rparr>) Q X Z"
      using p hd Q [of ?s] graph_minus_single [OF auth_invD(2) [OF inv] Gp]
      by (intro wp_free [where obj = "RemoteIdentity r"]) simp_all
  qed
qed

lemma wp_timer_remove:
  assumes "\<And>s'. steady s s' \<Longrightarrow> Q () s'"
  shows "wp (if t \<noteq> 0 then timed_dispatcher_remove t else ret_op ()) s Q X Z"
  using assms by (simp add: timed_dispatcher_remove_def)

lemma wp_return_handshake_handle:
  assumes E: "hash_table_laws E" and inv: "auth_inv s"
  shows "wp (return_handshake_handle E nonnull h) s
    (\<lambda>_ s'. auth_inv s' \<and> graph_minus (graph_of (heap s)) {h} (graph_of (heap s')))
    (\<lambda>s'. s' = s) {}"
  unfolding return_handshake_handle_def
proof (rule wp_bind, rule wp_check, rule wp_bind, rule wp_find_handshake_handle [OF E inv])
  fix hs assume h: "heap s h = Some (Handshake hs)"
  have nz: "hs_relation hs \<noteq> 0" using inv_handshake [OF inv h] by metis
  note Gh = graph_of_Some [where h = "heap s", OF h, simplified]
  have "wp (bind_op (remove_from_objectHash E h) (\<lambda>_. security_object_free h)) s
      (\<lambda>_ s'. auth_inv s' \<and> graph_minus (graph_of (heap s)) {h} (graph_of (heap s')))
      (\<lambda>s'. s' = s) {}"
    by (rule wp_free_handshake [OF E inv empty_subsetI h])
      (use graph_minus_single [OF auth_invD(2) [OF inv] Gh] in simp)
  then show "wp (bind_op (load_handshake h) (\<lambda>hs. bind_op (assert_op (hs_relation hs \<noteq> 0))
      (\<lambda>_. bind_op (remove_from_objectHash E h) (\<lambda>_. security_object_free h)))) s
      (\<lambda>_ s'. auth_inv s' \<and> graph_minus (graph_of (heap s)) {h} (graph_of (heap s')))
      (\<lambda>s'. s' = s) {}"
    using h nz by (simp add: wp_bind wp_load_typed)
qed simp_all

text \<open>An identity with everything that depends on it.\<close>

definition identity_objects :: "graph \<Rightarrow> addr \<Rightarrow> addr set" where
  "identity_objects G p = insert p (dependents G p)"

lemma dependents_identity:
  assumes "G p = Some n" and "\<not> is_relation n" and "\<And>a q c. n \<noteq> Handshake_node a q c"
  shows "p \<notin> dependents G p"
  using assms by (auto simp: dependents_def)

lemma wp_return_local:
  assumes E: "hash_table_laws E" and inv: "auth_inv s" and l: "heap s p = Some (LocalIdentity l)"
    and Q: "\<And>s'. auth_inv s' \<Longrightarrow>
      graph_minus (graph_of (heap s)) (identity_objects (graph_of (heap s)) p) (graph_of (heap s')) \<Longrightarrow>
      Q () s'"
  shows "wp (bind_op (if li_timer l \<noteq> 0 then timed_dispatcher_remove (li_timer l) else ret_op ()) (\<lambda>_.
    bind_op (invalidate_local_related_objects E p) (\<lambda>_.
    bind_op (remove_from_objectHash E p) (\<lambda>_. security_object_free p)))) s Q X Z"
proof (rule wp_bind, rule wp_timer_remove, rule wp_bind)
  let ?G = "graph_of (heap s)"
  have Gp: "?G p = Some (Local_node p)"
    using graph_of_Some [where h = "heap s", OF l] inv_local(1) [OF inv l] by simp
  fix s1 assume s1: "steady s s1"
  then have G1: "graph_of (heap s1) = ?G" by (simp add: steady_def)
  show "wp (invalidate_local_related_objects E p) s1
      (\<lambda>_ s2. wp (bind_op (remove_from_objectHash E p) (\<lambda>_. security_object_free p)) s2 Q X Z) X Z"
  proof (rule wp_invalidate_local [OF E steady_inv [OF inv s1]])
    show "graph_of (heap s1) p = Some (Local_node p)" using Gp G1 by simp
    fix s2 assume s2: "auth_inv s2"
      and "graph_minus (graph_of (heap s1)) (dependents (graph_of (heap s1)) p) (graph_of (heap s2))"
    then have G2: "graph_minus ?G (dependents ?G p) (graph_of (heap s2))" using G1 by simp
    have "graph_of (heap s2) p = Some (Local_node p)"
      using Gp dependents_identity [of ?G p] by (simp add: graph_minus_iff [OF G2])
    then obtain l2 where l2: "heap s2 p = Some (LocalIdentity l2)" by (auto simp: graph_of_iff)
    show "wp (bind_op (remove_from_objectHash E p) (\<lambda>_. security_object_free p)) s2 Q X Z"
    proof (rule wp_free_local [OF E s2 l2])
      show "graph_of (heap s2) q \<noteq> Some (Relation_node a p r)" for q a r
      proof
        assume q: "graph_of (heap s2) q = Some (Relation_node a p r)"
        then have "a = p" using graph_ok_node [OF auth_invD(2) [OF s2] q] by simp
        then show False using q by (auto simp: graph_minus_iff [OF G2] dependents_def)
      qed
      fix s3 assume s3: "auth_inv s3" "graph_minus (graph_of (heap s2)) {p} (graph_of (heap s3))"
      show "Q () s3"
        using Q [OF s3(1)] graph_minus_trans [OF G2 s3(2)] by (simp add: identity_objects_def)
    qed
  qed
qed

lemma wp_return_remote:
  assumes E: "hash_table_laws E" and inv: "auth_inv s" and r: "heap s p = Some (RemoteIdentity r)"
    and Q: "\<And>s'. auth_inv s' \<Longrightarrow>
      graph_minus (graph_of (heap s)) (identity_objects (graph_of (heap s)) p) (graph_of (heap s')) \<Longrightarrow>
      Q () s'"
  shows "wp (bind_op (if ri_timer r \<noteq> 0 then timed_dispatcher_remove (ri_timer r) else ret_op ()) (\<lambda>_.
    bind_op (invalidate_remote_related_objects E p) (\<lambda>_.
    bind_op (remove_from_remoteGuidHash E p) (\<lambda>_.
    bind_op (remove_from_objectHash E p) (\<lambda>_. security_object_free p))))) s Q X Z"
proof (rule wp_bind, rule wp_timer_remove, rule wp_bind)
  let ?G = "graph_of (heap s)"
  have Gp: "?G p = Some (Remote_node p (ri_guid r) (ri_linkHash r))"
    using graph_of_Some [where h = "heap s", OF r] inv_remote(1) [OF inv r] by simp
  fix s1 assume s1: "steady s s1"
  then have G1: "graph_of (heap s1) = ?G" by (simp add: steady_def)
  show "wp (invalidate_remote_related_objects E p) s1
      (\<lambda>_ s2. wp (bind_op (remove_from_remoteGuidHash E p) (\<lambda>_. bind_op (remove_from_objectHash E p)
         (\<lambda>_. security_object_free p))) s2 Q X Z) X Z"
  proof (rule wp_invalidate_remote [OF E steady_inv [OF inv s1]])
    show "graph_of (heap s1) p = Some (Remote_node p (ri_guid r) (ri_linkHash r))" using Gp G1 by simp
    fix s2 assume s2: "auth_inv s2"
      and "graph_minus (graph_of (heap s1)) (dependents (graph_of (heap s1)) p) (graph_of (heap s2))"
    then have G2: "graph_minus ?G (dependents ?G p) (graph_of (heap s2))" using G1 by simp
    have "\<exists>ms. graph_of (heap s2) p = Some (Remote_node p (ri_guid r) ms)"
      using Gp dependents_identity [of ?G p] by (simp add: graph_minus_iff(5) [OF G2])
    then obtain r2 where r2: "heap s2 p = Some (RemoteIdentity r2)" by (auto simp: graph_of_iff)
    show "wp (bind_op (remove_from_remoteGuidHash E p) (\<lambda>_. bind_op (remove_from_objectHash E p)
         (\<lambda>_. security_object_free p))) s2 Q X Z"
    proof (rule wp_free_remote [OF E s2 r2])
      have "q \<notin> set (ri_linkHash r2)" for q
      proof
        assume "q \<in> set (ri_linkHash r2)"
        from inv_remote(6) [OF s2 r2 this] obtain l where
          "graph_of (heap s2) q = Some (Relation_node l l p)" by (auto simp: graph_of_iff)
        then show False by (auto simp: graph_minus_iff [OF G2] dependents_def)
      qed
      then show "ri_linkHash r2 = []" by (metis list.set_sel(1))
      fix s3 assume s3: "auth_inv s3" "graph_minus (graph_of (heap s2)) {p} (graph_of (heap s3))"
      show "Q () s3"
        using Q [OF s3(1)] graph_minus_trans [OF G2 s3(2)] by (simp add: identity_objects_def)
    qed
  qed
qed

lemma wp_return_identity_handle:
  assumes E: "hash_table_laws E" and inv: "auth_inv s"
  shows "wp (return_identity_handle E nonnull p) s
    (\<lambda>_ s'. auth_inv s' \<and>
       graph_minus (graph_of (heap s)) (identity_objects (graph_of (heap s)) p) (graph_of (heap s')))
    (\<lambda>s'. s' = s) {}"
  unfolding return_identity_handle_def
proof (rule wp_bind, rule wp_check, rule wp_bind, rule iffD2 [OF wp_get], rule wp_bind,
    rule wp_find [OF E inv_table_safe(1) [OF inv]], goal_cases)
  case (1 x obj)
  have "x = p" using inv_object_handle(1) [OF inv 1(2,3)] 1(4) by simp
  then have obj: "heap s p = Some obj" using 1 by simp
  show ?case
  proof (cases obj)
    case (LocalIdentity l)
    then show ?thesis
      using \<open>x = p\<close> obj by (simp add: wp_bind wp_load wp_return_local [OF E inv] del: neq0_conv)
  next
    case (RemoteIdentity r)
    then show ?thesis
      using \<open>x = p\<close> obj by (simp add: wp_bind wp_load wp_return_remote [OF E inv] del: neq0_conv)
  qed (use \<open>x = p\<close> obj in \<open>simp_all add: wp_bind wp_load\<close>)
qed simp_all

end
