(* ===== verification/StoreSteps.thy ===== *)
theory StoreSteps
  imports StoreOps
begin

text \<open>
  The operations that create objects or work on live ones: each keeps the invariant of the
  instance, and faults only where the code runs out of memory or, as named, asserts.
\<close>

section \<open>Entering a new object\<close>

fun node_handle :: "node \<Rightarrow> addr" where
  "node_handle (Local_node a) = a"
| "node_handle (Remote_node a g ls) = a"
| "node_handle (Relation_node a l r) = a"
| "node_handle (Handshake_node a q c) = a"

lemma node_handle_of [simp]: "node_handle (node_of obj) = obj_handle obj"
  by (cases obj) simp_all

text \<open>The state \<open>t\<close> has one object more than the state \<open>s\<close>, not yet entered into the tables.\<close>

definition extends :: "auth \<Rightarrow> addr \<Rightarrow> sec_obj \<Rightarrow> auth \<Rightarrow> bool" where
  "extends s p obj t \<longleftrightarrow>
     heap s p = None \<and> p \<noteq> 0 \<and> heap t p = Some obj \<and> heap_wf (heap t) \<and>
     graph_of (heap t) = (graph_of (heap s))(p \<mapsto> node_of obj) \<and>
     answered (heap s) \<subseteq> answered (heap t) \<and>
     objectHash t = objectHash s \<and> remoteGuidHash t = remoteGuidHash s"

lemma extends_malloc:
  assumes "auth_inv_but H s" and "heap s p = None" and "p \<noteq> 0" and "obj_wf obj"
  shows "extends s p obj (s\<lparr>heap := (heap s)(p \<mapsto> obj), clock := n\<rparr>)"
  using assms auth_invD(1) [OF assms(1)]
  by (auto simp: extends_def heap_wf_upd answered_def)

lemma extends_steady:
  assumes "extends s p obj t" and "steady t u" and "heap u p = Some obj'"
  shows "extends s p obj' u"
proof -
  have "node_of obj' = node_of obj"
    using assms graph_of_Some [where h = "heap u", OF assms(3)] by (simp add: extends_def steady_def)
  then show ?thesis using assms by (auto simp: extends_def steady_def)
qed

lemma extends_object:
  assumes "auth_inv_but H s" and "extends s p obj t" and "q \<in> set (objectHash s)"
  obtains x where "heap t q = Some x" "obj_handle x = q" "q \<noteq> p"
proof -
  obtain n where n: "graph_of (heap s) q = Some n" "\<not> is_relation n"
    using tables_okD(1) [OF auth_invD(3) [OF assms(1)]] assms(3) by auto
  have "q \<noteq> p" using n assms(2) by (auto simp: extends_def graph_of_def)
  moreover have "node_handle n = q"
    using graph_ok_node [OF auth_invD(2) [OF assms(1)] n(1)] n(2) by (cases n) auto
  moreover have "graph_of (heap t) q = Some n"
    using n \<open>q \<noteq> p\<close> assms(2) by (simp add: extends_def)
  then obtain x where "heap t q = Some x" "node_of x = n" by (auto simp: graph_of_def)
  ultimately show thesis using that by auto
qed

lemma wp_add_new:
  assumes E: "hash_table_laws E" and inv: "auth_inv_but H s" and ext: "extends s p obj t"
    and "obj_handle obj = p"
    and Q: "\<And>tab. set tab = insert p (set (objectHash s)) \<Longrightarrow> Q True (t\<lparr>objectHash := tab\<rparr>)"
  shows "wp (add_to_objectHash E p) t Q X Z"
proof (rule wp_add_object [OF E])
  show "heap t p = Some obj" using ext by (simp add: extends_def)
  have tab: "objectHash t = objectHash s" using ext by (simp add: extends_def)
  show "table_safe (heap t) (objectHash t)"
  proof (rule table_safeI)
    fix q assume "q \<in> set (objectHash t)"
    then have "q \<in> set (objectHash s)" by (simp add: tab)
    then show "heap t q \<noteq> None" by (rule extends_object [OF inv ext]) simp
  qed
  fix q x assume q: "q \<in> set (objectHash t)" "heap t q = Some x"
  then have "q \<in> set (objectHash s)" by (simp add: tab)
  then show "obj_handle x \<noteq> obj_handle obj"
    by (rule extends_object [OF inv ext]) (use q assms(4) in simp)
qed (use ext Q in \<open>simp add: extends_def\<close>)

text \<open>Entering an identity or a handshake completes the step.\<close>

lemma inv_extended:
  assumes inv: "auth_inv_but H s" and ext: "extends s p obj t"
    and ok: "graph_ok ((graph_of (heap s))(p \<mapsto> node_of obj))"
    and node: "\<not> is_relation (node_of obj)"
    and replies: "\<And>a q. node_of obj = Handshake_node a q CREATEDREPLY \<Longrightarrow> p \<in> H'" "H \<subseteq> H'"
    and objs: "set tab = insert p (set (objectHash s))"
    and guids: "set gs = (if is_remote (node_of obj) then insert p (set (remoteGuidHash s))
      else set (remoteGuidHash s))"
  shows "auth_inv_but H' (t\<lparr>objectHash := tab, remoteGuidHash := gs\<rparr>)"
proof (rule auth_invI)
  let ?G = "(graph_of (heap s))(p \<mapsto> node_of obj)"
  have G: "graph_of (heap t) = ?G" using ext by (simp add: extends_def)
  show "heap_wf (heap (t\<lparr>objectHash := tab, remoteGuidHash := gs\<rparr>))" using ext by (simp add: extends_def)
  show "graph_ok (graph_of (heap (t\<lparr>objectHash := tab, remoteGuidHash := gs\<rparr>)))" using ok G by simp
  have "tables_ok ?G (insert p (set (objectHash s))) (if is_remote (node_of obj)
      then insert p (set (remoteGuidHash s)) else set (remoteGuidHash s))"
  proof (rule tables_okI)
    have "graph_of (heap s) p = None" using ext by (simp add: extends_def)
    note old = tables_okD [OF auth_invD(3) [OF inv]]
    fix q
    show "q \<in> insert p (set (objectHash s)) \<longleftrightarrow> (\<exists>n. ?G q = Some n \<and> \<not> is_relation n)"
      using node by (cases "q = p") (simp_all add: old)
    show "q \<in> (if is_remote (node_of obj) then insert p (set (remoteGuidHash s))
        else set (remoteGuidHash s)) \<longleftrightarrow> (\<exists>n. ?G q = Some n \<and> is_remote n)"
      using \<open>graph_of (heap s) p = None\<close> by (cases "q = p") (simp_all add: old del: graph_of_None)
  qed
  then show "tables_ok (graph_of (heap (t\<lparr>objectHash := tab, remoteGuidHash := gs\<rparr>)))
      (set (objectHash (t\<lparr>objectHash := tab, remoteGuidHash := gs\<rparr>)))
      (set (remoteGuidHash (t\<lparr>objectHash := tab, remoteGuidHash := gs\<rparr>)))"
    using objs guids G by simp
  have "replies_ok H' ?G (answered (heap t))"
    unfolding replies_ok_def
  proof (intro allI impI)
    fix x a q assume x: "?G x = Some (Handshake_node a q CREATEDREPLY)" "x \<notin> H'"
    then have "x \<noteq> p" using replies(1) by auto
    then have "q \<in> answered (heap s)"
      using x replies(2) auth_invD(4) [OF inv] by (auto simp: replies_ok_def)
    then show "q \<in> answered (heap t)" using ext by (auto simp: extends_def)
  qed
  then show "replies_ok H' (graph_of (heap (t\<lparr>objectHash := tab, remoteGuidHash := gs\<rparr>)))
      (answered (heap (t\<lparr>objectHash := tab, remoteGuidHash := gs\<rparr>)))"
    using G by simp
qed

section \<open>The local identity\<close>

definition local_of_credentials :: "credentials \<Rightarrow> LocalIdentityInfo \<Rightarrow> bool" where
  "local_of_credentials cr l \<longleftrightarrow>
     li_identityCert l = cr_cert cr \<and> li_identityCA l = cr_ca cr \<and> li_privateKey l = cr_key cr \<and>
     li_crl l = cr_crl cr \<and> li_adjustedGUID l = cr_guid cr"

lemma wp_register_local:
  assumes E: "hash_table_laws E" and inv: "auth_inv s"
    and Q: "\<And>p s'. auth_inv s' \<Longrightarrow> heap s p = None \<Longrightarrow>
      graph_of (heap s') = (graph_of (heap s))(p \<mapsto> Local_node p) \<Longrightarrow>
      trustedCAList s' = trustedCAList s \<Longrightarrow>
      \<exists>l. heap s' p = Some (LocalIdentity l) \<and> local_of_credentials cr l \<Longrightarrow> Q p s'"
    and Z: "Out_of_memory \<in> Z"
  shows "wp (register_local_identity E domain_id candidate cr) s Q X Z"
  unfolding register_local_identity_def local_identity_info_new_def
proof (rule wp_bind, rule wp_malloc [OF E _ Z], rule wp_bind)
  fix p assume p: "heap s p = None" "p \<noteq> 0"
  define l where "l = \<lparr>so_handle = p, so_kind = SECURITY_OBJECT_KIND_LOCAL_IDENTITY,
      li_domainId = domain_id, li_candidateGUID = candidate, li_adjustedGUID = cr_guid cr,
      li_identityCert = cr_cert cr, li_identityCA = cr_ca cr, li_privateKey = cr_key cr,
      li_crl = cr_crl cr, li_pdata = \<lparr>oct_length = 0, oct_buffer = None\<rparr>,
      li_dsignAlgoKind = get_authentication_algo_kind E (Some (cr_cert cr)),
      li_kagreeAlgoKind = get_default_kem_algorithm_kind (SELECTED_KEM_ALGORITHM E),
      li_permissionsDocument = None, li_timer = 0\<rparr>"
  let ?t = "s\<lparr>heap := (heap s)(p \<mapsto> LocalIdentity l), clock := Suc (clock s)\<rparr>"
  have ext: "extends s p (LocalIdentity l) ?t"
    by (rule extends_malloc [OF inv p]) (simp add: l_def)
  have entered: "wp (bind_op (add_to_objectHash E p) (\<lambda>_. ret_op p)) u Q X Z"
    if u: "extends s p (LocalIdentity l') u" and cas: "trustedCAList u = trustedCAList s"
      and l': "so_handle l' = p" "local_of_credentials cr l'" for u l'
  proof (rule wp_bind, rule wp_add_new [OF E inv u])
    fix tab assume tab: "set tab = insert p (set (objectHash s))"
    have "auth_inv (u\<lparr>objectHash := tab, remoteGuidHash := remoteGuidHash u\<rparr>)"
      by (rule inv_extended [OF inv u _ _ _ _ tab])
        (use graph_add_local [OF auth_invD(2) [OF inv]] p l' u in \<open>simp_all add: extends_def\<close>)
    then show "wp (ret_op p) (u\<lparr>objectHash := tab\<rparr>) Q X Z"
      using Q [of "u\<lparr>objectHash := tab\<rparr>" p] u cas l' p(1) by (auto simp: extends_def)
  qed (use l' in simp)
  show "wp (if cr_expiry cr \<noteq> DDS_NEVER
      then bind_op (add_validity_end_trigger E p (cr_expiry cr))
             (\<lambda>timer. bind_op (load_op p) (\<lambda>obj. store_op p (set_timer timer obj)))
      else ret_op ()) ?t (\<lambda>_ s'. wp (bind_op (add_to_objectHash E p) (\<lambda>_. ret_op p)) s' Q X Z) X Z"
  proof (cases "cr_expiry cr \<noteq> DDS_NEVER")
    case True
    have "wp (bind_op (load_op p) (\<lambda>obj. store_op p (set_timer timer obj))) u
        (\<lambda>_ s'. wp (bind_op (add_to_objectHash E p) (\<lambda>_. ret_op p)) s' Q X Z) X Z"
      if u: "steady ?t u" "heap u = heap ?t" "trustedCAList u = trustedCAList ?t" for u timer
    proof -
      have h: "heap u p = Some (LocalIdentity l)" using u(2) by simp
      have "steady u (u\<lparr>heap := (heap u)(p \<mapsto> LocalIdentity (l\<lparr>li_timer := timer\<rparr>))\<rparr>)"
        by (rule steady_store [OF h]) simp_all
      then have "extends s p (LocalIdentity (l\<lparr>li_timer := timer\<rparr>))
          (u\<lparr>heap := (heap u)(p \<mapsto> LocalIdentity (l\<lparr>li_timer := timer\<rparr>))\<rparr>)"
        by (intro extends_steady [OF ext steady_trans [OF u(1)]]) simp_all
      then show ?thesis
        using entered h u(3) by (simp add: wp_bind wp_load wp_store set_timer_def l_def local_of_credentials_def)
    qed
    then show ?thesis unfolding if_P [OF True] by (rule wp_bind [OF wp_trigger])
  next
    case False
    then show ?thesis using entered [OF ext] by (simp add: l_def local_of_credentials_def)
  qed
qed

lemma wp_refresh_cas:
  assumes "\<And>cas. Q () (u\<lparr>trustedCAList := cas\<rparr>)" and "Q () u" and "X u"
  shows "wp (if nonempty dir
      then bind_op get_op (\<lambda>s. bind_op (lift_op (get_trusted_ca_list E t (the dir) (trustedCAList s)))
             (\<lambda>cas. modify_op (\<lambda>s. s\<lparr>trustedCAList := cas\<rparr>)))
      else ret_op ()) u Q X Z"
  using assms by (simp add: wp_bind wp_lift)

lemma wp_validate_local_identity:
  assumes E: "hash_table_laws E" and inv: "auth_inv s"
  shows "wp (validate_local_identity E nonnull domain_id qos candidate) s
    (\<lambda>(p, g) s'. auth_inv s' \<and> heap s p = None \<and>
       graph_of (heap s') = (graph_of (heap s))(p \<mapsto> Local_node p) \<and>
       (\<exists>l t cr certPEM caPEM keyPEM.
          require_property E qos DDS_SEC_PROP_AUTH_IDENTITY_CERT = Inr certPEM \<and>
          require_property E qos DDS_SEC_PROP_AUTH_IDENTITY_CA = Inr caPEM \<and>
          require_property E qos DDS_SEC_PROP_AUTH_PRIV_KEY = Inr keyPEM \<and>
          load_local_credentials E t (trustedCAList s') certPEM caPEM keyPEM
            (Property_get_value E qos DDS_SEC_PROP_AUTH_PASSWORD)
            (Property_get_value E qos ORG_ECLIPSE_CYCLONEDDS_SEC_AUTH_CRL) candidate = Inr cr \<and> g = cr_guid cr \<and> heap s' p = Some (LocalIdentity l) \<and>
          local_of_credentials cr l))
    (\<lambda>s'. auth_inv s' \<and> heap s' = heap s) {Out_of_memory}"
    (is "wp _ _ ?Q ?X _")
proof -
  have reg: "wp (bind_op get_op (\<lambda>s. bind_op (lift_op (load_local_credentials E t (trustedCAList s)
        certPEM caPEM keyPEM (Property_get_value E qos DDS_SEC_PROP_AUTH_PASSWORD)
        (Property_get_value E qos ORG_ECLIPSE_CYCLONEDDS_SEC_AUTH_CRL) candidate))
        (\<lambda>cr. bind_op (register_local_identity E domain_id candidate cr)
          (\<lambda>p. ret_op (p, cr_guid cr))))) u ?Q ?X {Out_of_memory}"
    if u: "steady s u" "heap u = heap s"
      and pem: "require_property E qos DDS_SEC_PROP_AUTH_IDENTITY_CERT = Inr certPEM"
        "require_property E qos DDS_SEC_PROP_AUTH_IDENTITY_CA = Inr caPEM"
        "require_property E qos DDS_SEC_PROP_AUTH_PRIV_KEY = Inr keyPEM" for t u certPEM caPEM keyPEM
    by (rule wp_bind, rule iffD2 [OF wp_get], rule wp_bind, rule wp_lift, rule wp_bind,
        rule wp_register_local [OF E steady_inv [OF inv u(1)]])
      (use u pem steady_inv [OF inv u(1)] in \<open>simp_all, blast\<close>)
  have cas: "steady s (s\<lparr>clock := Suc (clock s), trustedCAList := cas\<rparr>)" for cas
    by (simp add: steady_def)
  have "auth_inv (s\<lparr>clock := Suc (clock s)\<rparr>)" by (rule steady_inv [OF inv]) simp
  note facts = this cas inv
  show ?thesis
    unfolding validate_local_identity_def Let_def
    by (rule wp_bind, rule wp_check, rule wp_bind, rule wp_lift, rule wp_bind, rule wp_lift,
        rule wp_bind, rule wp_lift, rule wp_bind, rule iffD2 [OF wp_tick], rule wp_bind,
        rule wp_refresh_cas; (rule reg)?)
      (use facts in simp_all)
qed

section \<open>Remote identities\<close>

text \<open>The relation of a local identity, a remote identity and their challenges.\<close>

definition new_relation :: "addr \<Rightarrow> addr \<Rightarrow> bytes \<Rightarrow> bytes option \<Rightarrow> IdentityRelation" where
  "new_relation l r lc rc =
     \<lparr>so_handle = l, so_kind = SECURITY_OBJECT_KIND_IDENTITY_RELATION, ir_localIdentity = l,
      ir_remoteIdentity = r, ir_lchallenge = Some lc, ir_rchallenge = rc\<rparr>"

lemma new_relation_simps [simp]:
  "node_of (Relation (new_relation l r lc rc)) = Relation_node l l r"
  "obj_wf (Relation (new_relation l r lc rc))"
  "ir_rchallenge (new_relation l r lc rc) = rc" "ir_lchallenge (new_relation l r lc rc) = Some lc"
  "so_handle (new_relation l r lc rc) = l" "ir_localIdentity (new_relation l r lc rc) = l"
  "ir_remoteIdentity (new_relation l r lc rc) = r"
  by (simp_all add: new_relation_def)

lemma tables_add_relation:
  assumes tab: "tables_ok G objs guids" and q: "G q = None" and r: "G r = Some (Remote_node b g ls)"
  shows "tables_ok (G(q \<mapsto> Relation_node a l m, r \<mapsto> Remote_node b g ms)) objs guids"
proof (rule tables_okI)
  have "q \<noteq> r" using q r by auto
  fix p
  show "p \<in> objs \<longleftrightarrow>
      (\<exists>n. (G(q \<mapsto> Relation_node a l m, r \<mapsto> Remote_node b g ms)) p = Some n \<and> \<not> is_relation n)"
    using q r \<open>q \<noteq> r\<close> by (cases "p = q"; cases "p = r") (simp_all add: tables_okD(1) [OF tab])
  show "p \<in> guids \<longleftrightarrow>
      (\<exists>n. (G(q \<mapsto> Relation_node a l m, r \<mapsto> Remote_node b g ms)) p = Some n \<and> is_remote n)"
    using q r \<open>q \<noteq> r\<close> by (cases "p = q"; cases "p = r") (simp_all add: tables_okD(2) [OF tab])
qed

lemma inv_add_relation:
  assumes inv: "auth_inv s" and q: "heap s q = None" "q \<noteq> 0"
    and l: "graph_of (heap s) l = Some (Local_node l)" and r: "heap s r = Some (RemoteIdentity rm)"
    and new: "\<And>x. graph_of (heap s) x \<noteq> Some (Relation_node l l r)"
    and tab: "set tab = insert q (set (ri_linkHash rm))"
  shows "auth_inv (s\<lparr>clock := n, heap := (heap s)(q \<mapsto> Relation (new_relation l r lc rc),
    r \<mapsto> RemoteIdentity (rm\<lparr>ri_linkHash := tab\<rparr>))\<rparr>)" (is "auth_inv ?s")
proof (rule auth_invI)
  have hd: "so_handle rm = r" by (rule inv_remote(1) [OF inv r])
  note Gr = graph_of_Some [where h = "heap s", OF r, simplified, unfolded hd]
  have Gq: "graph_of (heap s) q = None" using q by simp
  have neq: "q \<noteq> r" using q r by auto
  have G: "graph_of (heap ?s) =
      (graph_of (heap s))(q \<mapsto> Relation_node l l r, r \<mapsto> Remote_node r (ri_guid rm) tab)"
    using hd by simp
  show "heap_wf (heap ?s)"
    using auth_invD(1) [OF inv] inv_remote(2) [OF inv r] by (simp add: heap_wf_upd del: obj_wf.simps(3))
  show "graph_ok (graph_of (heap ?s))"
    unfolding G by (rule graph_add_relation [OF auth_invD(2) [OF inv] Gq q(2) l Gr new tab])
  show "tables_ok (graph_of (heap ?s)) (set (objectHash ?s)) (set (remoteGuidHash ?s))"
    unfolding G using tables_add_relation [OF auth_invD(3) [OF inv] Gq Gr] by simp
  show "replies_ok {} (graph_of (heap ?s)) (answered (heap ?s))"
  proof (rule replies_drop [OF auth_invD(4) [OF inv]])
    fix x a y c assume x: "graph_of (heap ?s) x = Some (Handshake_node a y c)"
    then have x: "graph_of (heap s) x = Some (Handshake_node a y c)"
      unfolding G by (simp split: if_split_asm)
    obtain l' r' where "graph_of (heap s) y = Some (Relation_node l' l' r')"
      using graph_ok_node [OF auth_invD(2) [OF inv] x] by auto
    then have "y \<noteq> q" "y \<noteq> r" using Gq Gr by (auto simp del: graph_of_None)
    then show "graph_of (heap s) x = Some (Handshake_node a y c) \<and> heap ?s y = heap s y \<and>
        (x \<in> {} \<longrightarrow> x \<in> {})"
      using x by simp
  qed
qed

lemma wp_new_relation:
  assumes E: "hash_table_laws E" and inv: "auth_inv s" and l: "heap s l = Some (LocalIdentity lm)"
    and r: "heap s r = Some (RemoteIdentity rm)"
    and new: "\<And>x. graph_of (heap s) x \<noteq> Some (Relation_node l l r)"
    and Q: "\<And>q s'. auth_inv s' \<Longrightarrow> heap s' q = Some (Relation (new_relation l r lc rc)) \<Longrightarrow>
      heap s' l = heap s l \<Longrightarrow>
      (\<exists>ls. heap s' r = Some (RemoteIdentity (rm\<lparr>ri_linkHash := ls\<rparr>))) \<Longrightarrow> wp (f q True) s' Q X Z"
    and Z: "Out_of_memory \<in> Z"
  shows "wp (bind_op (identity_relation_new E l r (Some lc) rc)
    (\<lambda>q. bind_op (add_to_linkHash E r q) (f q))) s Q X Z"
proof -
  have lh: "so_handle lm = l" by (rule inv_local(1) [OF inv l])
  have "wp (malloc_op E (\<lambda>p. Relation (new_relation l r lc rc))) s
      (\<lambda>q s'. wp (bind_op (add_to_linkHash E r q) (f q)) s' Q X Z) X Z"
  proof (rule wp_malloc [OF E _ Z])
    fix q assume q: "heap s q = None" "q \<noteq> 0"
    have neq: "q \<noteq> r" "q \<noteq> l" "l \<noteq> r" using q l r by auto
    let ?s = "s\<lparr>heap := (heap s)(q \<mapsto> Relation (new_relation l r lc rc)), clock := Suc (clock s)\<rparr>"
    show "wp (bind_op (add_to_linkHash E r q) (f q)) ?s Q X Z"
    proof (rule wp_bind, rule wp_add_link [OF E])
      show "heap ?s r = Some (RemoteIdentity rm)" using r neq by simp
      show "heap ?s q = Some (Relation (new_relation l r lc rc))" by simp
      show "table_safe (heap ?s) (ri_linkHash rm)"
        using inv_remote(6) [OF inv r] by (intro table_safeI) fastforce
      show "obj_handle x \<noteq> obj_handle (Relation (new_relation l r lc rc))"
        if x: "y \<in> set (ri_linkHash rm)" "heap ?s y = Some x" for y x
      proof -
        obtain rel where rel: "heap s y = Some (Relation rel)" "ir_remoteIdentity rel = r"
          "so_handle rel = ir_localIdentity rel"
          using inv_remote(6) [OF inv r x(1)] by metis
        then have "x = Relation rel" using x q by (auto split: if_split_asm)
        then show ?thesis using rel new [of y] by (auto simp: graph_of_iff)
      qed
      fix tab assume tab: "set tab = insert q (set (ri_linkHash rm))"
      have Gl: "graph_of (heap s) l = Some (Local_node l)"
        using graph_of_Some [where h = "heap s", OF l] lh by simp
      show "wp (f q True) (?s\<lparr>heap := (heap ?s)(r \<mapsto> RemoteIdentity (rm\<lparr>ri_linkHash := tab\<rparr>))\<rparr>) Q X Z"
        using inv_add_relation [OF inv q Gl r new tab] neq by (intro Q) auto
    qed
  qed
  then show ?thesis
    unfolding identity_relation_new_def using l lh
    by (simp add: wp_bind wp_load bind_op_assoc new_relation_def)
qed

lemma wp_new_remote:
  assumes E: "hash_table_laws E" and inv: "auth_inv s" and l: "heap s l = Some (LocalIdentity lm)"
    and new: "\<And>p r. p \<in> set (remoteGuidHash s) \<Longrightarrow> heap s p = Some (RemoteIdentity r) \<Longrightarrow>
      \<not> guid_eq g (ri_guid r)"
    and Q: "\<And>p q rm s'. auth_inv s' \<Longrightarrow> heap s' q = Some (Relation (new_relation l p lc rc)) \<Longrightarrow>
      heap s' l = heap s l \<Longrightarrow> heap s' p = Some (RemoteIdentity rm) \<Longrightarrow> ri_guid rm = g \<Longrightarrow>
      ri_remoteIdentityToken rm = token \<Longrightarrow> Q (p, q) s'"
    and Z: "Out_of_memory \<in> Z"
  shows "wp (new_remote_identity E l g token lc rc) s Q X Z"
  unfolding new_remote_identity_def remote_identity_info_new_def
proof (rule wp_bind, rule wp_malloc [OF E _ Z])
  fix p assume p: "heap s p = None" "p \<noteq> 0"
  define rm where "rm = \<lparr>so_handle = p, so_kind = SECURITY_OBJECT_KIND_REMOTE_IDENTITY,
      ri_guid = g, ri_identityCert = None, ri_dsignAlgoKind = AUTH_ALGO_KIND_UNKNOWN,
      ri_kagreeAlgoKind = AUTH_ALGO_KIND_UNKNOWN, ri_remoteIdentityToken = token,
      ri_pdata = \<lparr>oct_length = 0, oct_buffer = None\<rparr>,
      ri_permissionsDocument = Some '''', ri_linkHash = [], ri_timer = 0\<rparr>"
  have rm: "so_handle rm = p" "so_kind rm = SECURITY_OBJECT_KIND_REMOTE_IDENTITY" "ri_guid rm = g"
    "ri_linkHash rm = []" "ri_remoteIdentityToken rm = token"
    by (simp_all add: rm_def)
  let ?t = "s\<lparr>heap := (heap s)(p \<mapsto> RemoteIdentity rm), clock := Suc (clock s)\<rparr>"
  have ext: "extends s p (RemoteIdentity rm) ?t" by (rule extends_malloc [OF inv p]) (simp add: rm)
  show "wp (bind_op (add_to_objectHash E p) (\<lambda>_. bind_op (add_to_remoteGuidHash E p) (\<lambda>_.
      bind_op (identity_relation_new E l p (Some lc) rc) (\<lambda>relation.
      bind_op (add_to_linkHash E p relation) (\<lambda>_. ret_op (p, relation)))))) ?t Q X Z"
  proof (rule wp_bind, rule wp_add_new [OF E inv ext])
    show "obj_handle (RemoteIdentity rm) = p" by (simp add: rm)
    fix tab assume tab: "set tab = insert p (set (objectHash s))"
    let ?u = "?t\<lparr>objectHash := tab\<rparr>"
    show "wp (bind_op (add_to_remoteGuidHash E p) (\<lambda>_.
        bind_op (identity_relation_new E l p (Some lc) rc) (\<lambda>relation.
        bind_op (add_to_linkHash E p relation) (\<lambda>_. ret_op (p, relation))))) ?u Q X Z"
    proof (rule wp_bind, rule wp_add_guid [OF E])
      show "heap ?u p = Some (RemoteIdentity rm)" by simp
      show "table_safe (heap ?u) (remoteGuidHash ?u)"
        using inv_table_safe(2) [OF inv] by (simp add: table_safe_def list_all_iff)
      show "\<not> guid_eq (ri_guid rm) (ri_guid r)"
        if "q \<in> set (remoteGuidHash ?u)" "heap ?u q = Some (RemoteIdentity r)" for q r
      proof -
        have "heap s q \<noteq> None" using inv_table_safe(2) [OF inv] that(1) by (simp add: table_safe_def list_all_iff)
        then have "q \<noteq> p" using p by auto
        then show ?thesis using new [of q r] that rm by simp
      qed
      fix gs assume gs: "set gs = insert p (set (remoteGuidHash ?u))"
      let ?v = "?u\<lparr>remoteGuidHash := gs\<rparr>"
      have Gp: "graph_of (heap s) p = None" using p by simp
      have "graph_ok ((graph_of (heap s))(p \<mapsto> Remote_node p g []))"
      proof (rule graph_add_remote [OF auth_invD(2) [OF inv] Gp p(2)])
        fix q a k ls assume q: "graph_of (heap s) q = Some (Remote_node a k ls)"
        then have "q \<in> set (remoteGuidHash s)" using tables_okD(2) [OF auth_invD(3) [OF inv]] by fastforce
        then show "\<not> guid_eq g k" using new q by (auto simp: graph_of_iff)
      qed
      then have v: "auth_inv ?v"
        by (intro inv_extended [OF inv ext]) (use tab gs rm in simp_all)
      have lp: "l \<noteq> p" using p l by auto
      show "wp (bind_op (identity_relation_new E l p (Some lc) rc) (\<lambda>relation.
          bind_op (add_to_linkHash E p relation) (\<lambda>_. ret_op (p, relation)))) ?v Q X Z"
      proof (rule wp_new_relation [OF E v _ _ _ _ Z])
        show "heap ?v l = Some (LocalIdentity lm)" using l lp by simp
        show "heap ?v p = Some (RemoteIdentity rm)" by simp
        show "graph_of (heap ?v) x \<noteq> Some (Relation_node l l p)" for x
        proof
          assume "graph_of (heap ?v) x = Some (Relation_node l l p)"
          then have "graph_of (heap s) x = Some (Relation_node l l p)"
            by (simp split: if_split_asm)
          from graph_ok_node [OF auth_invD(2) [OF inv] this] Gp show False
            by (auto simp del: graph_of_None)
        qed
        fix q s' assume "auth_inv s'" "heap s' q = Some (Relation (new_relation l p lc rc))"
          "heap s' l = heap ?v l" "\<exists>ls. heap s' p = Some (RemoteIdentity (rm\<lparr>ri_linkHash := ls\<rparr>))"
        then show "wp (ret_op (p, q)) s' Q X Z"
          using lp rm by (auto intro!: Q)
      qed
    qed
  qed
qed

lemma wp_known_remote:
  assumes E: "hash_table_laws E" and inv: "auth_inv s" and l: "heap s l = Some (LocalIdentity lm)"
    and r: "heap s r = Some (RemoteIdentity rm)" and req: "have_request \<Longrightarrow> rc \<noteq> None"
    and Q: "\<And>q rel ls s'. auth_inv s' \<Longrightarrow> heap s' q = Some (Relation rel) \<Longrightarrow>
      ir_localIdentity rel = l \<Longrightarrow> ir_remoteIdentity rel = r \<Longrightarrow> ir_lchallenge rel \<noteq> None \<Longrightarrow>
      (have_request \<Longrightarrow> ir_rchallenge rel = rc) \<Longrightarrow> heap s' l = heap s l \<Longrightarrow>
      heap s' r = Some (RemoteIdentity (rm\<lparr>ri_linkHash := ls\<rparr>)) \<Longrightarrow>
      DataHolder_equal E (ri_remoteIdentityToken rm) token \<Longrightarrow> Q (r, q) s'"
    and X: "X s" and Z: "Out_of_memory \<in> Z"
  shows "wp (known_remote_identity E l r token lc rc have_request) s Q X Z"
proof -
  have lh: "so_handle lm = l" by (rule inv_local(1) [OF inv l])
  have "wp (bind_op (find_identity_relation E r l) (\<lambda>found. case found of
      None \<Rightarrow> bind_op (identity_relation_new E l r (Some lc) rc) (\<lambda>relation.
        bind_op (add_to_linkHash E r relation) (\<lambda>added.
        bind_op (assert_op added) (\<lambda>_. ret_op (r, relation))))
    | Some relation \<Rightarrow> bind_op (load_relation relation) (\<lambda>rel.
        bind_op (if have_request then bind_op (assert_op (rc \<noteq> None))
            (\<lambda>_. store_op relation (Relation (rel\<lparr>ir_rchallenge := rc\<rparr>))) else ret_op ())
          (\<lambda>_. ret_op (r, relation))))) s Q X Z" if tok: "DataHolder_equal E (ri_remoteIdentityToken rm) token"
  proof (rule wp_bind, rule wp_find_relation [OF E inv r], goal_cases)
    case (1 q rel)
    note q = 1(1) and lr = 1(3,4)
    have lc: "ir_lchallenge rel \<noteq> None" using inv_relation [OF inv q] by metis
    have neq: "q \<noteq> l" "q \<noteq> r" using q l r by auto
    have keep: "heap s r = Some (RemoteIdentity (rm\<lparr>ri_linkHash := ri_linkHash rm\<rparr>))" using r by simp
    show ?case
    proof (cases have_request)
      case True
      let ?s = "s\<lparr>heap := (heap s)(q \<mapsto> Relation (rel\<lparr>ir_rchallenge := rc\<rparr>))\<rparr>"
      have "steady s ?s" by (rule steady_store [OF q]) (use req True in auto)
      then have "Q (r, q) ?s"
        using keep neq lr lc tok by (intro Q [where rel = "rel\<lparr>ir_rchallenge := rc\<rparr>" and ls = "ri_linkHash rm"] steady_inv [OF inv]) auto
      then show ?thesis using True req q by (simp add: wp_bind wp_load_typed wp_store)
    next
      case False
      then have "Q (r, q) s" using Q [OF inv q lr lc _ refl keep tok] by simp
      then show ?thesis using False q by (simp add: wp_bind wp_load_typed)
    qed
  next
    case 2
    have "graph_of (heap s) x \<noteq> Some (Relation_node l l r)" for x
      using 2 by (auto simp: graph_of_iff)
    then have "wp (bind_op (identity_relation_new E l r (Some lc) rc) (\<lambda>relation.
        bind_op (add_to_linkHash E r relation) (\<lambda>added.
        bind_op (assert_op added) (\<lambda>_. ret_op (r, relation))))) s Q X Z"
      by (rule wp_new_relation [OF E inv l r _ _ Z]) (use tok in \<open>auto intro!: wp_bind Q\<close>)
    then show ?case by simp
  qed
  then show ?thesis
    unfolding known_remote_identity_def using r l lh X by (simp add: wp_bind wp_load wp_load_typed)
qed

text \<open>
  What a successful \<open>validate_remote_identity\<close> leaves: the remote identity of the GUID, related
  to the local one; the challenge of the received token is stored with the relation, and when
  there was none the token to send carries the local challenge.
\<close>

definition remote_registered ::
  "auth \<Rightarrow> addr \<Rightarrow> guid \<Rightarrow> data_holder option \<Rightarrow> handshake_role \<times> addr \<times> data_holder \<Rightarrow> bool" where
  "remote_registered s l g request res \<longleftrightarrow>
     (case res of (role, r, answer) \<Rightarrow>
        \<exists>lm rm q rel.
          heap s l = Some (LocalIdentity lm) \<and> heap s r = Some (RemoteIdentity rm) \<and>
          heap s q = Some (Relation rel) \<and> ir_localIdentity rel = l \<and> ir_remoteIdentity rel = r \<and>
          guid_eq g (ri_guid rm) \<and> role = handshake_role_of (li_adjustedGUID lm) (ri_guid rm) \<and>
          (case request of
             None \<Rightarrow> \<exists>c. ir_lchallenge rel = Some c \<and> answer = fill_auth_request_token c
           | Some token \<Rightarrow> answer = token_nil \<and>
               (\<exists>c. validate_auth_request_token token = Inr c \<and> ir_rchallenge rel = Some c)))"

text \<open>The last part of the operation: the answer is read off the objects.\<close>

lemma wp_remote_answer:
  assumes inv: "auth_inv s" and l: "heap s l = Some (LocalIdentity lm)"
    and r: "heap s r = Some (RemoteIdentity rm)" and q: "heap s q = Some (Relation rel)"
    and rel: "ir_localIdentity rel = l" "ir_remoteIdentity rel = r" "ir_lchallenge rel \<noteq> None"
    and g: "guid_eq g (ri_guid rm)"
    and req: "\<And>token. request = Some token \<Longrightarrow>
      \<exists>c. validate_auth_request_token token = Inr c \<and> ir_rchallenge rel = Some c"
  shows "wp (bind_op (load_relation q) (\<lambda>rel.
      bind_op (case request of Some _ \<Rightarrow> ret_op token_nil
        | None \<Rightarrow> (case ir_lchallenge rel of None \<Rightarrow> fault_op Null_dereference
            | Some c \<Rightarrow> ret_op (fill_auth_request_token c))) (\<lambda>answer.
      bind_op (load_local l) (\<lambda>l. bind_op (load_remote r) (\<lambda>r.
        ret_op (handshake_role_of (li_adjustedGUID l) (ri_guid r), so_handle r, answer)))))) s
    (\<lambda>res s'. auth_inv s' \<and> remote_registered s' l g request res) X Z"
proof -
  have hd: "so_handle rm = r" by (rule inv_remote(1) [OF inv r])
  obtain c where c: "ir_lchallenge rel = Some c" using rel(3) by auto
  show ?thesis
  proof (cases request)
    case None
    then have "remote_registered s l g request
        (handshake_role_of (li_adjustedGUID lm) (ri_guid rm), r, fill_auth_request_token c)"
      using l r q rel c g by (auto simp: remote_registered_def)
    then show ?thesis
      using inv l r q c hd None by (simp add: wp_bind wp_load_typed)
  next
    case (Some token)
    then have "remote_registered s l g request
        (handshake_role_of (li_adjustedGUID lm) (ri_guid rm), r, token_nil)"
      using l r q rel c g req [OF Some] by (auto simp: remote_registered_def)
    then show ?thesis
      using inv l r q c hd Some by (simp add: wp_bind wp_load_typed)
  qed
qed

lemma wp_auth_request:
  assumes "\<And>rc. (\<And>token. request = Some token \<Longrightarrow>
      \<exists>c. validate_auth_request_token token = Inr c \<and> rc = Some c) \<Longrightarrow> (request = None \<Longrightarrow> rc = None) \<Longrightarrow> Q rc s"
    and "X s"
  shows "wp (case request of None \<Rightarrow> ret_op None
    | Some token \<Rightarrow> bind_op (lift_op (validate_auth_request_token token)) (\<lambda>c. ret_op (Some c))) s Q X Z"
  using assms by (cases request) (auto intro!: wp_bind wp_lift)

lemma wp_validate_remote_identity:
  assumes E: "hash_table_laws E" and inv: "auth_inv s"
  shows "wp (validate_remote_identity E nonnull request l token g) s
    (\<lambda>res s'. auth_inv s' \<and> remote_registered s' l g request res)
    auth_inv {Out_of_memory}"
    (is "wp _ _ ?Q _ _")
proof -
  let ?s = "s\<lparr>clock := Suc (clock s)\<rparr>"
  have inv': "auth_inv ?s" by (rule steady_inv [OF inv]) simp
  have body: "wp (bind_op (find_remote_identity_by_guid E (guid_template g)) (\<lambda>found.
      bind_op (case found of None \<Rightarrow> new_remote_identity E l g token lc rc
        | Some r \<Rightarrow> known_remote_identity E l r token lc rc (request \<noteq> None)) (\<lambda>(r, q).
      bind_op (load_relation q) (\<lambda>rel.
      bind_op (case request of Some _ \<Rightarrow> ret_op token_nil
        | None \<Rightarrow> (case ir_lchallenge rel of None \<Rightarrow> fault_op Null_dereference
            | Some c \<Rightarrow> ret_op (fill_auth_request_token c))) (\<lambda>answer.
      bind_op (load_local l) (\<lambda>l. bind_op (load_remote r) (\<lambda>r.
        ret_op (handshake_role_of (li_adjustedGUID l) (ri_guid r), so_handle r, answer)))))))) ?s
      ?Q auth_inv {Out_of_memory}"
    if l: "heap s l = Some (LocalIdentity lm)"
      and rc: "\<And>token. request = Some token \<Longrightarrow>
        \<exists>c. validate_auth_request_token token = Inr c \<and> rc = Some c" for lm lc rc
  proof (rule wp_bind, rule wp_find_guid [OF E inv_table_safe(2) [OF inv']], goal_cases)
    case (1 p rm)
    have g: "guid_eq g (ri_guid rm)" using 1(3) by (simp add: guid_template_def)
    have r: "heap ?s p = Some (RemoteIdentity rm)" and l': "heap ?s l = Some (LocalIdentity lm)"
      using 1(2) l by simp_all
    show ?case unfolding option.case
    proof (rule wp_bind, rule wp_known_remote [OF E inv' l' r], goal_cases)
      case 1 then show ?case using rc by auto
    next
      case (2 q rel ls s')
      show ?case unfolding prod.case
        by (rule wp_remote_answer [OF 2(1) _ 2(8,2,3,4,5)]) (use 2 l rc g in auto)
    qed (use inv' in simp_all)
  next
    case 2
    have l': "heap ?s l = Some (LocalIdentity lm)" using l by simp
    show ?case unfolding option.case
    proof (rule wp_bind, rule wp_new_remote [OF E inv' l'], goal_cases)
      case 1 then show ?case using 2 by (auto simp: guid_template_def)
    next
      case (2 p q rm s')
      show ?case unfolding prod.case
        by (rule wp_remote_answer [OF 2(1) _ 2(4,2)]) (use 2 l rc in auto)
    qed simp
  qed
  show ?thesis
    unfolding validate_remote_identity_def
    by (rule wp_bind, rule wp_check, rule wp_bind, rule wp_find_local [OF E inv], rule wp_bind, rule wp_lift,
        rule wp_bind, rule wp_auth_request, rule wp_bind, rule iffD2 [OF wp_tick], rule wp_bind,
        rule wp_lift; (rule body)?)
      (use inv inv' in simp_all)
qed

end
