(* ===== verification/HandshakeSteps.thy ===== *)
theory HandshakeSteps
  imports StoreSteps
begin

text \<open>
  The handshake operations keep the invariant of the instance.  First the code that works on the
  four objects of a handshake, then the handlers: starting, replying, processing an answer and
  reading the results.
\<close>

section \<open>Code on the objects of a handshake\<close>

lemma wp_validate_token:
  assumes Z: "read_faults E token \<subseteq> Z"
  shows "wp (validate_handshake_token E t optional trusted token ty) c
     (\<lambda>_ c'. ctx_keeps c c' \<and> hs_kem (cx_handshake c') = hs_kem (cx_handshake c) \<and>
        hs_kem_keypair (cx_handshake c') = hs_kem_keypair (cx_handshake c) \<and>
        ri_identityCert (cx_remote c') \<noteq> None \<and>
        (ty \<noteq> HS_TOKEN_FINAL \<longrightarrow> ir_rchallenge (cx_relation c') \<noteq> None) \<and>
        validate_handshake_token_impl E t optional trusted token ty c = Ret (Inr (), c'))
     (ctx_keeps c) Z"
proof -
  have frame: "wp (validate_handshake_token E t optional trusted token ty) c
      (\<lambda>_. ctx_frame c) (ctx_frame c) Z"
    by (rule wp_mono [OF validate_handshake_token_triple [of c, unfolded triple_wp, THEN spec, THEN mp]])
      (erule conjunct1 | simp add: Z)+
  show ?thesis
  proof (cases "validate_handshake_token E t optional trusted token ty c")
    case (Ret p)
    obtain r c' where p: "p = (r, c')" by fastforce
    show ?thesis
    proof (cases r)
      case (Inl e)
      then have "ctx_frame c c'" using frame Ret p by (simp add: wp_def)
      then show ?thesis using Ret p Inl by (simp add: wp_def ctx_frame_keeps)
    next
      case (Inr u)
      have keeps: "ctx_keeps c c'" using frame Ret p Inr by (simp add: wp_def ctx_frame_keeps)
      have ok: "validate_handshake_token_impl E t optional trusted token ty c = Ret (Inr u, c')"
        using Ret p Inr by (intro validate_handshake_token_okD) simp
      have "hs_kem (cx_handshake c') = hs_kem (cx_handshake c) \<and>
        hs_kem_keypair (cx_handshake c') = hs_kem_keypair (cx_handshake c) \<and>
        ri_identityCert (cx_remote c') \<noteq> None \<and>
        (ty \<noteq> HS_TOKEN_FINAL \<longrightarrow> ir_rchallenge (cx_relation c') \<noteq> None)"
      proof (cases ty)
        case HS_TOKEN_REQ
        show ?thesis
          by (rule validate_token_impl_req_ok [OF ok [unfolded HS_TOKEN_REQ]])
            (simp add: with_credentials_def with_identity_def with_hash_def with_rchallenge_def
              split: option.splits)
      next
        case HS_TOKEN_REPLY
        show ?thesis
          by (rule validate_token_impl_reply_ok [OF ok [unfolded HS_TOKEN_REPLY]])
            (simp add: with_credentials_def with_identity_def with_hash_def with_rchallenge_def
              split: option.splits)
      next
        case HS_TOKEN_FINAL
        show ?thesis
          by (rule validate_token_impl_final_ok [OF ok [unfolded HS_TOKEN_FINAL]])
            (simp add: HS_TOKEN_FINAL)
      qed
      then show ?thesis using Ret p Inr keeps ok by (simp add: wp_def)
    qed
  qed (use frame in \<open>simp add: wp_def\<close>)
qed

lemma kem_public_key_size_pos:
  "get_kem_openssl_name_by_kind kind = Some name \<Longrightarrow> get_kem_public_key_size kind > 0"
  by (auto simp: get_kem_openssl_name_by_kind_def kem_kind_has_sizes(1) [symmetric]
      split: option.splits)

lemma wp_generate_request_keypair:
  "wp (generate_request_keypair E t) c
     (\<lambda>pk c'. ctx_keeps c c' \<and> (\<exists>kp. hs_kem_keypair (cx_handshake c') = Some kp \<and>
        kp_public_key kp = Some pk \<and> length pk = get_kem_public_key_size (li_kagreeAlgoKind (cx_local c)) \<and>
        pqsec_kem_keypair_generate E t (li_kagreeAlgoKind (cx_local c)) True = (True, Some kp)) \<and>
        c' = c\<lparr>cx_handshake := (cx_handshake c)\<lparr>hs_kem_keypair := hs_kem_keypair (cx_handshake c')\<rparr>\<rparr>)
     (ctx_keeps c) Z"
proof -
  let ?kind = "li_kagreeAlgoKind (cx_local c)"
  have keeps: "ctx_keeps c (c\<lparr>cx_handshake := (cx_handshake c)\<lparr>hs_kem_keypair := kp\<rparr>\<rparr>)" for kp
    by (simp add: ctx_keeps_def header_def)
  obtain ok kp where gen: "pqsec_kem_keypair_generate E t ?kind True = (ok, kp)" by fastforce
  show ?thesis
  proof (cases ok)
    case False
    then show ?thesis
      using gen keeps by (simp add: generate_request_keypair_def set_handshake_def wp_bind_iff)
  next
    case True
    then obtain k pk where k: "kp = Some k" "kp_kind k = ?kind" "kp_public_key k = Some pk"
      "kp_public_key_size k = length pk"
      using gen kem_generate_public_key [of E t ?kind True kp] by auto
    have "get_kem_public_key_size ?kind > 0"
      using gen True by (auto elim: kem_generate_SomeE intro: kem_public_key_size_pos)
    then show ?thesis
      using gen keeps k True
      by (simp add: generate_request_keypair_def set_handshake_def wp_bind_iff)
  qed
qed

text \<open>Updates of a context that keep its pointers, headers and challenges.\<close>

lemma ctx_keeps_updates [simp]:
  "ctx_keeps c (c\<lparr>cx_handshake := (cx_handshake c)\<lparr>hs_kem_keypair := kp\<rparr>\<rparr>)"
  "ctx_keeps c (c\<lparr>cx_handshake := (cx_handshake c)\<lparr>hs_kem := b\<rparr>\<rparr>)"
  "ctx_keeps c (c\<lparr>cx_handshake := (cx_handshake c)\<lparr>hs_hash_c1 := h\<rparr>\<rparr>)"
  "ctx_keeps c (c\<lparr>cx_handshake := (cx_handshake c)\<lparr>hs_hash_c2 := h\<rparr>\<rparr>)"
  "ctx_keeps c (c\<lparr>cx_handshake := (cx_handshake c)\<lparr>hs_secret := sec\<rparr>\<rparr>)"
  "ctx_keeps c (c\<lparr>cx_local := (cx_local c)\<lparr>li_pdata := d\<rparr>\<rparr>)"
  "ctx_keeps c (c\<lparr>cx_remote := (cx_remote c)\<lparr>ri_timer := m\<rparr>\<rparr>)"
  "ctx_keeps c (c\<lparr>cx_local := (cx_local c)\<lparr>li_pdata := d\<rparr>,
                  cx_handshake := (cx_handshake c)\<lparr>hs_hash_c1 := h\<rparr>\<rparr>)"
  "ctx_keeps c (c\<lparr>cx_local := (cx_local c)\<lparr>li_pdata := d\<rparr>,
                  cx_handshake := (cx_handshake c)\<lparr>hs_hash_c2 := h\<rparr>\<rparr>)"
  by (simp_all add: ctx_keeps_def header_def)

lemmas ctx_ops = set_handshake_def set_remote_def set_relation_def save_pdata_def challenge_value_def

lemma credential_properties_length [simp]:
  "length (credential_properties E cert perm pdata d k) = 5"
  by (simp add: credential_properties_def)

text \<open>
  What the messages carry.  A request: the sender's credentials, the public key and the local
  challenge.  A reply: the credentials, the ciphertext, the key and both challenges, and then
  hashes and the signature.  A final message: both challenges, and the rest.
\<close>

definition request_properties ::
  "('q, 'a) cyclone_scheme \<Rightarrow> bool \<Rightarrow> bin_property list \<Rightarrow> bytes \<Rightarrow> bytes \<Rightarrow> bytes \<Rightarrow> bin_property list" where
  "request_properties E optional cred hash pk lchallenge =
     cred @
     (if optional then [BinaryProperty_set_by_value E DDS_AUTHTOKEN_PROP_HASH_C1 hash] else []) @
     [BinaryProperty_set_by_value E DDS_AUTHTOKEN_PROP_KEM_PUBLIC pk,
      BinaryProperty_set_by_value E DDS_AUTHTOKEN_PROP_CHALLENGE1 lchallenge]"

lemma wp_request_tokens:
  assumes "ir_lchallenge (cx_relation c) \<noteq> None"
  shows "wp (request_tokens E optional cert pk pdata) c
    (\<lambda>tokens c'. ctx_keeps c c' \<and> cx_relation c' = cx_relation c \<and>
       hs_kem_keypair (cx_handshake c') = hs_kem_keypair (cx_handshake c) \<and>
       li_kagreeAlgoKind (cx_local c') = li_kagreeAlgoKind (cx_local c) \<and>
       (\<exists>perm dsign hash. tokens = request_properties E optional
          (credential_properties E cert perm pdata dsign (li_kagreeAlgoKind (cx_local c))) hash pk
          (the (ir_lchallenge (cx_relation c)))))
    (ctx_keeps c) Z"
  using assms by (auto simp: request_tokens_def request_properties_def ctx_ops wp_bind_iff Let_def) blast+

lemma wp_encapsulate:
  "wp (encapsulate_to_request E t message) c
     (\<lambda>pk c'. ctx_keeps c c' \<and> cx_relation c' = cx_relation c \<and> cx_remote c' = cx_remote c \<and>
        kem_ct (hs_kem (cx_handshake c')) \<noteq> None \<and>
        (case pk of
           None \<Rightarrow> kem_ct (hs_kem (cx_handshake c)) \<noteq> None \<and> kem_ss (hs_kem (cx_handshake c)) \<noteq> None
         | Some p \<Rightarrow> find_binary_property E message DDS_AUTHTOKEN_PROP_KEM_PUBLIC = Some p \<and>
             pqsec_kem_encapsulate E t (ri_kagreeAlgoKind (cx_remote c)) (oct_buffer (bp_value p)) True
               (hs_kem (cx_handshake c)) = (True, hs_kem (cx_handshake c'))))
     (ctx_keeps c) Z"
proof -
  let ?bufs = "hs_kem (cx_handshake c)"
  show ?thesis
  proof (cases "kem_ct ?bufs = None \<or> kem_ss ?bufs = None")
    case True
    show ?thesis
    proof (cases "find_binary_property E message DDS_AUTHTOKEN_PROP_KEM_PUBLIC")
      case None
      then show ?thesis using True by (simp add: encapsulate_to_request_def wp_bind_iff)
    next
      case (Some pk)
      obtain ok b where enc: "pqsec_kem_encapsulate E t (ri_kagreeAlgoKind (cx_remote c))
          (oct_buffer (bp_value pk)) True ?bufs = (ok, b)" by fastforce
      show ?thesis
      proof (cases ok)
        case okT: True
        then have "kem_ct b \<noteq> None"
          using enc by (auto elim: kem_encapsulate_TrueE)
        then show ?thesis
          using enc Some True okT by (simp add: encapsulate_to_request_def ctx_ops wp_bind_iff)
      next
        case False
        then show ?thesis
          using enc Some True by (simp add: encapsulate_to_request_def ctx_ops wp_bind_iff)
      qed
    qed
  qed (auto simp: encapsulate_to_request_def wp_bind_iff)
qed

lemma wp_reply_token_parts:
  assumes "ir_lchallenge (cx_relation c) \<noteq> None" and "ir_rchallenge (cx_relation c) \<noteq> None"
    and "kem_ct (hs_kem (cx_handshake c)) \<noteq> None" and "pk = None \<Longrightarrow> Uninitialised_read \<in> Z"
  shows "wp (reply_token_parts E cert pdata pk) c
    (\<lambda>rt c'. ctx_keeps c c' \<and> cx_relation c' = cx_relation c \<and>
       hs_kem (cx_handshake c') = hs_kem (cx_handshake c) \<and> pk \<noteq> None \<and>
       (\<exists>perm dsign kagree. rt_credentials rt = credential_properties E cert perm pdata dsign kagree) \<and>
       rt_ciphertext rt = BinaryProperty_set_by_value E DDS_AUTHTOKEN_PROP_KEM_CIPHERTEXT
         (the (kem_ct (hs_kem (cx_handshake c)))) \<and>
       (\<exists>key. rt_kem_public rt = BinaryProperty_set_by_value E DDS_AUTHTOKEN_PROP_KEM_PUBLIC key) \<and>
       rt_challenge1 rt = BinaryProperty_set_by_value E DDS_AUTHTOKEN_PROP_CHALLENGE1
         (the (ir_rchallenge (cx_relation c))) \<and>
       rt_challenge2 rt = BinaryProperty_set_by_value E DDS_AUTHTOKEN_PROP_CHALLENGE2
         (the (ir_lchallenge (cx_relation c))))
    (ctx_keeps c) Z"
  using assms by (cases pk) (auto simp: reply_token_parts_def ctx_ops wp_bind_iff Let_def, blast+)

lemma wp_sign_reply:
  assumes "length (rt_credentials rt) = 5"
  shows "wp (sign_reply E t optional rt) c
    (\<lambda>tokens c'. c' = c \<and> (\<exists>rest. tokens = rt_credentials rt @
       [rt_ciphertext rt, rt_kem_public rt, rt_challenge1 rt, rt_challenge2 rt] @ rest))
    (ctx_keeps c) Z"
  using assms by (auto simp: sign_reply_def wp_bind_iff Let_def intro!: wp_lift)

text \<open>The context after a REPLY was validated and its ciphertext decapsulated.\<close>

definition reply_decapsulated ::
  "('q, 'a) cyclone_scheme \<Rightarrow> nat \<Rightarrow> bool \<Rightarrow> X509Seq \<Rightarrow> data_holder \<Rightarrow> hs_ctx \<Rightarrow> hs_ctx \<Rightarrow> bool" where
  "reply_decapsulated E t optional trusted message c c' \<longleftrightarrow>
     (\<exists>c1 ct b.
        validate_handshake_token_impl E t optional trusted message HS_TOKEN_REPLY c = Ret (Inr (), c1) \<and>
        find_binary_property E message DDS_AUTHTOKEN_PROP_KEM_CIPHERTEXT = Some ct \<and>
        pqsec_kem_decapsulate E t (hs_kem_keypair (cx_handshake c1)) (oct_buffer (bp_value ct)) True
          (hs_kem (cx_handshake c1)) = (True, b) \<and>
        c' = c1\<lparr>cx_handshake := (cx_handshake c1)\<lparr>hs_kem := b\<rparr>\<rparr>)"

lemma wp_accept_reply:
  assumes Z: "read_faults E message \<subseteq> Z"
  shows "wp (accept_reply E t optional trusted message) c
     (\<lambda>_ c'. ctx_keeps c c' \<and> ri_identityCert (cx_remote c') \<noteq> None \<and>
        ir_rchallenge (cx_relation c') \<noteq> None \<and> reply_decapsulated E t optional trusted message c c')
     (ctx_keeps c) Z"
  unfolding accept_reply_def
proof (rule wp_bind, rule wp_mono [OF wp_validate_token [OF Z]])
  fix u c1
  assume c1: "ctx_keeps c c1 \<and> hs_kem (cx_handshake c1) = hs_kem (cx_handshake c) \<and>
    hs_kem_keypair (cx_handshake c1) = hs_kem_keypair (cx_handshake c) \<and>
    ri_identityCert (cx_remote c1) \<noteq> None \<and>
    (HS_TOKEN_REPLY \<noteq> HS_TOKEN_FINAL \<longrightarrow> ir_rchallenge (cx_relation c1) \<noteq> None) \<and>
    validate_handshake_token_impl E t optional trusted message HS_TOKEN_REPLY c = Ret (Inr (), c1)"
  have keeps: "ctx_keeps c (c1\<lparr>cx_handshake := (cx_handshake c1)\<lparr>hs_kem := b\<rparr>\<rparr>)" for b
    by (rule ctx_keeps_trans [of _ c1]) (use c1 in simp_all)
  show "wp (case find_binary_property E message DDS_AUTHTOKEN_PROP_KEM_CIPHERTEXT of
       None \<Rightarrow> lift_op failed_silent
     | Some ct \<Rightarrow>
         (case find_binary_property E message DDS_AUTHTOKEN_PROP_KEM_PUBLIC of
            None \<Rightarrow> lift_op failed_silent
          | Some pk \<Rightarrow>
              bind_op get_op (\<lambda>c.
              case pqsec_kem_decapsulate E t (hs_kem_keypair (cx_handshake c))
                     (oct_buffer (bp_value ct)) True (hs_kem (cx_handshake c)) of
                (ok, bufs) \<Rightarrow>
                  bind_op (set_handshake (\<lambda>hs. hs\<lparr>hs_kem := bufs\<rparr>)) (\<lambda>_.
                  bind_op (check_op ok ''OpenSSL EVP KEM decapsulation failed'') (\<lambda>_.
                    ret_op (pk, ct)))))) c1
     (\<lambda>_ c'. ctx_keeps c c' \<and> ri_identityCert (cx_remote c') \<noteq> None \<and>
        ir_rchallenge (cx_relation c') \<noteq> None \<and> reply_decapsulated E t optional trusted message c c')
     (ctx_keeps c) Z"
    using c1 keeps
    by (auto simp: ctx_ops wp_bind_iff reply_decapsulated_def split: option.split prod.split)
qed simp_all

lemma wp_final_tokens:
  assumes "ir_lchallenge (cx_relation c) \<noteq> None" and "ir_rchallenge (cx_relation c) \<noteq> None"
  shows "wp (final_tokens E t optional pk ct) c
    (\<lambda>tokens c'. c' = c \<and> (\<exists>rest. tokens =
       [BinaryProperty_set_by_value E DDS_AUTHTOKEN_PROP_CHALLENGE1 (the (ir_lchallenge (cx_relation c))),
        BinaryProperty_set_by_value E DDS_AUTHTOKEN_PROP_CHALLENGE2 (the (ir_rchallenge (cx_relation c)))] @
       rest))
    (ctx_keeps c) Z"
  using assms by (auto simp: final_tokens_def wp_bind_iff Let_def intro!: wp_lift)

text \<open>The secret a side derives: challenge1 is the initiator's, challenge2 the replier's.\<close>

definition derived_secret ::
  "('q, 'a) cyclone_scheme \<Rightarrow> hs_ctx \<Rightarrow> bytes \<Rightarrow> SharedSecretHandleImpl" where
  "derived_secret E c secret =
     (let l = the (ir_lchallenge (cx_relation c)); r = the (ir_rchallenge (cx_relation c)) in
      case hs_created_in (cx_handshake c) of
        CREATEDREQUEST \<Rightarrow> \<lparr>ss_shared_secret = secret, ss_shared_secret_size = SHA256_DIGEST_LENGTH,
                           ss_challenge1 = l, ss_challenge2 = r\<rparr>
      | CREATEDREPLY \<Rightarrow> \<lparr>ss_shared_secret = secret, ss_shared_secret_size = SHA256_DIGEST_LENGTH,
                         ss_challenge1 = r, ss_challenge2 = l\<rparr>)"

lemma wp_make_shared_secret:
  assumes "ir_lchallenge (cx_relation c) \<noteq> None" and "ir_rchallenge (cx_relation c) \<noteq> None"
  shows "wp (make_shared_secret impl secret) c
    (\<lambda>_ c'. ctx_keeps c c' \<and> cx_remote c' = cx_remote c \<and> cx_relation c' = cx_relation c \<and>
       hs_secret (cx_handshake c') = Some (impl, derived_secret E c secret)) (ctx_keeps c) Z"
  using assms
  by (cases "hs_created_in (cx_handshake c)")
    (auto simp: make_shared_secret_def derived_secret_def ctx_ops wp_bind_iff Let_def)

lemma wp_setup_expiry:
  assumes "ri_identityCert (cx_remote c) \<noteq> None"
  shows "wp (setup_expiry E t) c (\<lambda>_ c'. c' = c) (ctx_keeps c) Z"
  using assms by (auto simp: setup_expiry_def ctx_ops wp_bind_iff Let_def)

text \<open>
  What a handshake and a message have in common after each operation: the request carries the
  public key of the stored key pair and the local challenge; the reply carries the ciphertext
  encapsulated to the key of the request, for the algorithm the request names, and both
  challenges; accepting an answer derives the secret from the stored material.
\<close>

definition request_sent ::
  "('q, 'a) cyclone_scheme \<Rightarrow> hs_ctx \<Rightarrow> data_holder \<Rightarrow> bool" where
  "request_sent E c m \<longleftrightarrow>
     (\<exists>t optional kp pk cert perm pdata dsign hash.
        hs_kem_keypair (cx_handshake c) = Some kp \<and> kp_public_key kp = Some pk \<and>
        pqsec_kem_keypair_generate E t (li_kagreeAlgoKind (cx_local c)) True = (True, Some kp) \<and>
        m = handshake_message DDS_AUTHTOKEN_REQ_CLASS_ID (request_properties E optional
          (credential_properties E cert perm pdata dsign (li_kagreeAlgoKind (cx_local c))) hash pk
          (the (ir_lchallenge (cx_relation c)))))"

definition reply_sent ::
  "('q, 'a) cyclone_scheme \<Rightarrow> data_holder \<Rightarrow> hs_ctx \<Rightarrow> data_holder \<Rightarrow> bool" where
  "reply_sent E message c m \<longleftrightarrow>
     (\<exists>t ka pk bufs ch1 ct cert perm pdata dsign kagree key rest.
        find_binary_property E message DDS_AUTHTOKEN_PROP_C_KAGREE_ALGO = Some ka \<and>
        find_binary_property E message DDS_AUTHTOKEN_PROP_KEM_PUBLIC = Some pk \<and>
        pqsec_kem_encapsulate E t (get_kagree_algo_from_octseq (Some (bp_value ka)))
          (oct_buffer (bp_value pk)) True bufs = (True, hs_kem (cx_handshake c)) \<and>
        find_required_binprop_exactsize E message DDS_AUTHTOKEN_PROP_CHALLENGE1
          AUTHENTICATION_CHALLENGE_SIZE = Inr ch1 \<and>
        same_challenge (the (ir_rchallenge (cx_relation c))) ch1 \<and>
        kem_ct (hs_kem (cx_handshake c)) = Some ct \<and>
        m = handshake_message DDS_AUTHTOKEN_REPLY_CLASS_ID
          (credential_properties E cert perm pdata dsign kagree @
           [BinaryProperty_set_by_value E DDS_AUTHTOKEN_PROP_KEM_CIPHERTEXT ct,
            BinaryProperty_set_by_value E DDS_AUTHTOKEN_PROP_KEM_PUBLIC key,
            BinaryProperty_set_by_value E DDS_AUTHTOKEN_PROP_CHALLENGE1 (the (ir_rchallenge (cx_relation c))),
            BinaryProperty_set_by_value E DDS_AUTHTOKEN_PROP_CHALLENGE2 (the (ir_lchallenge (cx_relation c)))] @
           rest))"

definition secret_derived ::
  "('q, 'a) cyclone_scheme \<Rightarrow> hs_ctx \<Rightarrow> hs_ctx \<Rightarrow> bool" where
  "secret_derived E c c' \<longleftrightarrow>
     (\<exists>ss impl. kem_ss (hs_kem (cx_handshake c)) = Some ss \<and>
        hs_secret (cx_handshake c') = Some (impl, derived_secret E c (SHA256 E ss)))"

definition answer_processed ::
  "('q, 'a) cyclone_scheme \<Rightarrow> data_holder \<Rightarrow> hs_ctx \<Rightarrow> handshake_result \<Rightarrow> hs_ctx \<Rightarrow> bool" where
  "answer_processed E message c res c' \<longleftrightarrow>
     (case res of
        OK_FINAL_MESSAGE m \<Rightarrow> hs_created_in (cx_handshake c) = CREATEDREQUEST \<and>
          (\<exists>t optional trusted c1 rest.
             reply_decapsulated E t optional trusted message c c1 \<and> secret_derived E c1 c' \<and>
             m = handshake_message DDS_AUTHTOKEN_FINAL_CLASS_ID
               ([BinaryProperty_set_by_value E DDS_AUTHTOKEN_PROP_CHALLENGE1 (the (ir_lchallenge (cx_relation c1))),
                 BinaryProperty_set_by_value E DDS_AUTHTOKEN_PROP_CHALLENGE2 (the (ir_rchallenge (cx_relation c1)))] @
                rest))
      | OK \<Rightarrow> hs_created_in (cx_handshake c) = CREATEDREPLY \<and>
          (\<exists>t optional trusted.
             validate_handshake_token_impl E t optional trusted message HS_TOKEN_FINAL c = Ret (Inr (), c)) \<and>
          secret_derived E c c')"

lemma answer_processedI:
  assumes "hs_created_in (cx_handshake c) = CREATEDREQUEST"
    and "reply_decapsulated E t optional trusted message c c1" and "secret_derived E c1 c'"
  shows "answer_processed E message c (OK_FINAL_MESSAGE (handshake_message DDS_AUTHTOKEN_FINAL_CLASS_ID
    ([BinaryProperty_set_by_value E DDS_AUTHTOKEN_PROP_CHALLENGE1 (the (ir_lchallenge (cx_relation c1))),
      BinaryProperty_set_by_value E DDS_AUTHTOKEN_PROP_CHALLENGE2 (the (ir_rchallenge (cx_relation c1)))] @
     rest))) c'"
  unfolding answer_processed_def handshake_result.case using assms by blast

section \<open>Finding or creating a handshake\<close>

text \<open>The handshake \<open>h\<close> was created from the state \<open>s\<close> for the two identities.\<close>

definition handshake_added ::
  "auth \<Rightarrow> addr \<Rightarrow> addr \<Rightarrow> addr \<Rightarrow> HandshakeInfo \<Rightarrow> auth \<Rightarrow> bool" where
  "handshake_added s l r h hs t \<longleftrightarrow>
     heap s h = None \<and> heap t h = Some (Handshake hs) \<and> hs_kem hs = kem_buffers_empty \<and>
     graph_of (heap s) (hs_relation hs) = Some (Relation_node l l r) \<and>
     (\<forall>x. x \<noteq> h \<longrightarrow> heap t x = heap s x)"

lemma wp_create_handshake:
  assumes E: "hash_table_laws E" and inv: "auth_inv s"
    and q: "graph_of (heap s) q = Some (Relation_node l l r)"
    and new: "\<And>h a c. graph_of (heap s) h \<noteq> Some (Handshake_node a q c)"
    and Q: "\<And>h hs s'. auth_inv_but (if created_in = CREATEDREPLY then {h} else {}) s' \<Longrightarrow>
      handshake_added s l r h hs s' \<Longrightarrow> hs_created_in hs = created_in \<Longrightarrow> Q (h, True) s'"
    and Z: "Out_of_memory \<in> Z"
  shows "wp (bind_op (handshake_info_new E q created_in) (\<lambda>h.
    bind_op (add_to_objectHash E h) (\<lambda>_. ret_op (h, True)))) s Q X Z"
  unfolding handshake_info_new_def
proof (rule wp_bind, rule wp_malloc [OF E _ Z])
  fix h assume h: "heap s h = None" "h \<noteq> 0"
  define hs where "hs = \<lparr>so_handle = h, so_kind = SECURITY_OBJECT_KIND_HANDSHAKE,
           hs_relation = q, hs_hash_c1 = replicate SHA256_DIGEST_LENGTH 0,
           hs_hash_c2 = replicate SHA256_DIGEST_LENGTH 0, hs_kem_keypair = None,
           hs_kem = kem_buffers_empty, hs_secret = None, hs_created_in = created_in\<rparr>"
  have hs: "so_handle hs = h" "so_kind hs = SECURITY_OBJECT_KIND_HANDSHAKE" "hs_relation hs = q"
    "hs_kem hs = kem_buffers_empty" "hs_created_in hs = created_in"
    by (simp_all add: hs_def)
  let ?t = "s\<lparr>heap := (heap s)(h \<mapsto> Handshake hs), clock := Suc (clock s)\<rparr>"
  have ext: "extends s h (Handshake hs) ?t" by (rule extends_malloc [OF inv h]) (simp add: hs)
  have Gh: "graph_of (heap s) h = None" using h by simp
  show "wp (bind_op (add_to_objectHash E h) (\<lambda>_. ret_op (h, True))) ?t Q X Z"
  proof (rule wp_bind, rule wp_add_new [OF E inv ext])
    show "obj_handle (Handshake hs) = h" by (simp add: hs)
    fix tab assume tab: "set tab = insert h (set (objectHash s))"
    let ?u = "?t\<lparr>objectHash := tab, remoteGuidHash := remoteGuidHash s\<rparr>"
    have "auth_inv_but (if created_in = CREATEDREPLY then {h} else {}) ?u"
      by (rule inv_extended [OF inv ext])
        (use graph_add_handshake [OF auth_invD(2) [OF inv] Gh h(2) q new] hs tab in simp_all)
    then show "wp (ret_op (h, True)) (?t\<lparr>objectHash := tab\<rparr>) Q X Z"
      using h hs q by (intro iffD2 [OF wp_ret] Q [where hs = hs]) (simp_all add: handshake_added_def)
  qed
qed

lemma wp_find_or_create:
  assumes E: "hash_table_laws E" and inv: "auth_inv s" and l: "heap s l = Some (LocalIdentity lm)"
    and r: "heap s r = Some (RemoteIdentity rm)"
    and found: "\<And>h hs rel. heap s h = Some (Handshake hs) \<Longrightarrow>
      heap s (hs_relation hs) = Some (Relation rel) \<Longrightarrow> ir_localIdentity rel = l \<Longrightarrow>
      ir_remoteIdentity rel = r \<Longrightarrow> Q (h, False) s"
    and created: "\<And>h hs s'. auth_inv_but (if created_in = CREATEDREPLY then {h} else {}) s' \<Longrightarrow>
      handshake_added s l r h hs s' \<Longrightarrow> hs_created_in hs = created_in \<Longrightarrow> Q (h, True) s'"
    and Z: "Out_of_memory \<in> Z" "relations_of (graph_of (heap s)) l r = {} \<Longrightarrow> Assertion_failed \<in> Z"
  shows "wp (find_or_create_handshake E l r created_in) s Q X Z"
proof -
  have lr: "so_handle lm = l" "so_handle rm = r"
    using inv_local(1) [OF inv l] inv_remote(1) [OF inv r] by simp_all
  have "wp (bind_op (find_handshake E l r) (\<lambda>found. case found of
      None \<Rightarrow> bind_op (find_identity_relation E r l) (\<lambda>relation. case relation of
          None \<Rightarrow> fault_op Assertion_failed
        | Some relation \<Rightarrow> bind_op (handshake_info_new E relation created_in) (\<lambda>h.
            bind_op (add_to_objectHash E h) (\<lambda>_. ret_op (h, True))))
    | Some h \<Rightarrow> bind_op (load_handshake h) (\<lambda>hs.
        bind_op (assert_op (hs_relation hs \<noteq> 0)) (\<lambda>_. ret_op (h, False))))) s Q X Z"
  proof (rule wp_bind, rule wp_find_handshake [OF E inv], goal_cases)
    case (1 h hs rel)
    have "hs_relation hs \<noteq> 0" using inv_handshake [OF inv 1(1)] by metis
    then show ?case using found [OF 1] 1(1) by (simp add: wp_bind_iff wp_load_typed)
  next
    case none: 2
    show ?case unfolding option.case
    proof (rule wp_bind, rule wp_find_relation [OF E inv r], goal_cases)
      case (1 q rel)
      have q: "graph_of (heap s) q = Some (Relation_node l l r)"
        using 1 inv_relation [OF inv 1(1)] by (metis graph_of_iff(3))
      have new: "graph_of (heap s) h \<noteq> Some (Handshake_node a q c)" for h a c
        using none 1 by (auto simp: graph_of_iff)
      show ?case unfolding option.case
        by (rule wp_create_handshake [OF E inv q new _ Z(1)]) (rule created)
    next
      case 2
      then have "relations_of (graph_of (heap s)) l r = {}"
        by (auto simp: relations_of_def graph_of_iff)
      then show ?case using Z(2) by simp
    qed
  qed
  then show ?thesis
    unfolding find_or_create_handshake_def wp_bind_iff wp_load_typed(1) [OF l] wp_load_typed(2) [OF r] lr
    by simp
qed

section \<open>Starting a handshake\<close>

lemma wp_drop_created:
  assumes E: "hash_table_laws E" and inv: "auth_inv_but H s" and h: "heap s h = Some (Handshake hs)"
    and H: "H \<subseteq> (if created then {h} else {})"
  shows "wp (drop_created E h created) s (\<lambda>_. auth_inv) X Z"
proof (cases created)
  case True
  then show ?thesis unfolding drop_created_def if_P [OF True]
    using wp_free_handshake [OF E inv _ h, of "\<lambda>_. auth_inv"] H by simp
qed (use inv H in \<open>simp add: drop_created_def\<close>)

text \<open>A handshake that is in the table already stays the only one with its handle.\<close>

lemma wp_add_handshake_again:
  assumes E: "hash_table_laws E" and inv: "auth_inv_but H s" and h: "heap s h = Some (Handshake hs)"
    and Q: "Q False s"
  shows "wp (add_to_objectHash E h) s Q X Z"
proof (rule wp_add_object_again [where Q = Q, OF E h inv_table_safe(1) [OF inv] _ Q])
  show "h \<in> set (objectHash s)" using inv_handshake [OF inv h] by metis
qed

lemma wp_request_body:
  assumes E: "hash_table_laws E" and inv: "auth_inv s" and h: "heap s h = Some (Handshake hs)"
  shows "wp (bind_op (on_fail (run_ctx h (generate_request_keypair E t)) (drop_created E h created))
      (\<lambda>public_key. bind_op get_op (\<lambda>s.
       bind_op (run_ctx h (request_tokens E (include_optional s) cert public_key pdata)) (\<lambda>tokens.
       bind_op (add_to_objectHash E h) (\<lambda>_. bind_op (load_handshake h) (\<lambda>hs.
         ret_op (so_handle hs, handshake_message DDS_AUTHTOKEN_REQ_CLASS_ID tokens))))))) s
    (\<lambda>(hd, m) s'. auth_inv s' \<and> (\<exists>c. ctx_at s' hd c \<and> request_sent E c m)) auth_inv Z"
proof -
  obtain c where c: "ctx_at s h c" "cx_handshake c = hs" "ir_lchallenge (cx_relation c) \<noteq> None"
    "so_handle hs = h"
    using inv_ctx [OF inv h] by metis
  show ?thesis
  proof (rule wp_bind, rule wp_on_fail,
      rule wp_run_steady [OF inv c(1) wp_generate_request_keypair], goal_cases)
    case (2 pk c1 s1)
    have lc1: "ir_lchallenge (cx_relation c1) \<noteq> None" using 2(2) c(3) by (simp add: ctx_keeps_def)
    obtain kp where kp: "hs_kem_keypair (cx_handshake c1) = Some kp" "kp_public_key kp = Some pk"
      "pqsec_kem_keypair_generate E t (li_kagreeAlgoKind (cx_local c)) True = (True, Some kp)"
      using 2(1) by blast
    have "cx_local c1 = cx_local c" using 2(1) by (metis hs_ctx.select_convs(3) hs_ctx.update_convs(1) hs_ctx.surjective)
    note kp = kp this
    show ?case
    proof (rule wp_bind, rule iffD2 [OF wp_get], rule wp_bind,
        rule wp_run_steady [OF 2(4,5) wp_request_tokens [OF lc1]], goal_cases)
      case (2 tokens c2 s2)
      note s2 = 2
      have sent: "request_sent E c2 (handshake_message DDS_AUTHTOKEN_REQ_CLASS_ID tokens)"
        using s2(1) kp unfolding request_sent_def by metis
      have h2: "heap s2 h = Some (Handshake (cx_handshake c2))" using s2(5) by (simp add: ctx_at_def)
      have "so_handle (cx_handshake c2) = h"
        using inv_handshake [OF s2(4) h2] by metis
      then show ?case
        using s2(4,5) h2 sent
        by (intro wp_bind wp_add_handshake_again [OF E s2(4) h2]) (auto simp: wp_load_typed)
    qed simp_all
  next
    case (3 c1 s1)
    have "heap s1 h = Some (Handshake (cx_handshake c1))" using 3(4) by (simp add: ctx_at_def)
    then show ?case by (intro wp_drop_created [OF E 3(3)]) simp_all
  qed simp_all
qed

text \<open>
  \<open>begin_handshake_request\<close> faults only when memory runs out, when the certificate cannot be
  written (the uninitialised \<open>certData\<close>), or when the two identities were never related.
\<close>

definition certificate_unwritable :: "('q, 'a) cyclone_scheme \<Rightarrow> auth \<Rightarrow> addr \<Rightarrow> bool" where
  "certificate_unwritable E s l \<longleftrightarrow>
     (case heap s l of
        Some (LocalIdentity lm) \<Rightarrow>
          \<not> is_ok (get_certificate_contents E (clock s) (li_identityCert lm))
      | _ \<Rightarrow> False)"

lemma wp_begin_handshake_request:
  assumes E: "hash_table_laws E" and inv: "auth_inv s"
  shows "wp (begin_handshake_request E nonnull l r pdata) s
    (\<lambda>(h, m) s'. auth_inv s' \<and> (\<exists>c. ctx_at s' h c \<and> request_sent E c m))
    auth_inv
    ({Out_of_memory} \<union> (if certificate_unwritable E s l then {Uninitialised_read} else {}) \<union>
     (if relations_of (graph_of (heap s)) l r = {} then {Assertion_failed} else {}))"
    (is "wp _ _ ?Q _ ?Z")
  unfolding begin_handshake_request_def
proof (rule wp_bind, rule wp_check, rule wp_bind, rule wp_find_local [OF E inv], rule wp_bind,
    rule wp_find_remote [OF E inv], goal_cases)
  case (1 lm rm)
  note l = 1(2) and r = 1(3)
  let ?s = "s\<lparr>clock := Suc (clock s)\<rparr>"
  have inv': "auth_inv ?s" by (rule steady_inv [OF inv]) simp
  have l': "heap ?s l = Some (LocalIdentity lm)" and r': "heap ?s r = Some (RemoteIdentity rm)"
    using l r by simp_all
  show ?case
  proof (cases "get_certificate_contents E (clock s) (li_identityCert lm)")
    case (Inl e)
    then have "certificate_unwritable E s l" using l by (simp add: certificate_unwritable_def)
    then show ?thesis using Inl by (simp add: wp_bind_iff wp_load_typed(1) [OF l] wp_tick)
  next
    case (Inr cert)
    show ?thesis
    proof (rule wp_bind, unfold wp_load_typed(1) [OF l], rule wp_bind, rule iffD2 [OF wp_tick],
        unfold Inr sum.case, rule wp_bind, rule wp_find_or_create [OF E inv' l' r'], goal_cases)
      case (1 h hs rel)
      show ?case unfolding prod.case by (rule wp_request_body [OF E inv' 1(1)])
    next
      case (2 h hs u)
      then show ?case unfolding prod.case
        by (intro wp_request_body [OF E]) (simp_all add: handshake_added_def)
    qed simp_all
  qed
qed (use inv in simp_all)

section \<open>Replying\<close>

text \<open>Once the relation has the peer's challenge the exception for the new handshake is over.\<close>

lemma inv_validated:
  assumes inv: "auth_inv_but H s" and "H \<subseteq> {h}" and "ctx_at s h c"
    and "ir_rchallenge (cx_relation c) \<noteq> None"
  shows "auth_inv s"
proof (rule auth_invI [OF auth_invD(1-3) [OF inv]])
  have rel: "hs_relation (cx_handshake c) \<in> answered (heap s)"
    using assms(3,4) by (auto simp: ctx_at_def answered_def)
  show "replies_ok {} (graph_of (heap s)) (answered (heap s))"
    unfolding replies_ok_def
  proof (intro allI impI)
    fix p a q assume p: "graph_of (heap s) p = Some (Handshake_node a q CREATEDREPLY)"
    show "q \<in> answered (heap s)"
    proof (cases "p = h")
      case True
      then show ?thesis using p rel assms(3) by (auto simp: graph_of_iff ctx_at_def)
    next
      case False
      then show ?thesis using p auth_invD(4) [OF inv] assms(2) by (auto simp: replies_ok_def)
    qed
  qed
qed

text \<open>An earlier reply in the same handshake left a ciphertext and a secret.\<close>

definition replied_before :: "auth \<Rightarrow> addr \<Rightarrow> addr \<Rightarrow> bool" where
  "replied_before s l r \<longleftrightarrow>
     (\<exists>h hs rel. heap s h = Some (Handshake hs) \<and> heap s (hs_relation hs) = Some (Relation rel) \<and>
        ir_localIdentity rel = l \<and> ir_remoteIdentity rel = r \<and>
        kem_ct (hs_kem hs) \<noteq> None \<and> kem_ss (hs_kem hs) \<noteq> None)"

text \<open>What the validation of a REQUEST leaves behind.\<close>

definition request_accepted ::
  "('q, 'a) cyclone_scheme \<Rightarrow> data_holder \<Rightarrow> hs_ctx \<Rightarrow> bool" where
  "request_accepted E message c \<longleftrightarrow>
     (\<exists>ka ch1.
        find_binary_property E message DDS_AUTHTOKEN_PROP_C_KAGREE_ALGO = Some ka \<and>
        get_kagree_algo_from_octseq (Some (bp_value ka)) = ri_kagreeAlgoKind (cx_remote c) \<and>
        find_required_binprop_exactsize E message DDS_AUTHTOKEN_PROP_CHALLENGE1
          AUTHENTICATION_CHALLENGE_SIZE = Inr ch1 \<and>
        same_challenge (the (ir_rchallenge (cx_relation c))) ch1)"

lemma request_acceptedI:
  assumes "validate_handshake_token_impl E t optional trusted message HS_TOKEN_REQ c = Ret (Inr u, c')"
  shows "request_accepted E message c'"
proof -
  have take: "same_challenge (take AUTHENTICATION_CHALLENGE_SIZE (oct_data (bp_value p))) p"
    if "buffer_fault (bp_value p) AUTHENTICATION_CHALLENGE_SIZE = None" for p
    using that unfolding same_challenge_def by (subst memcmp_take) simp
  show ?thesis
    using assms
    by (rule validate_token_impl_req_ok)
      (auto simp: request_accepted_def claims_in_token_def claims_accepted_def credentials_of_def
        with_credentials_def with_rchallenge_def rchallenge_agrees_def take split: option.splits)
qed

lemma wp_reply_tokens:
  assumes inv: "auth_inv s" and at: "ctx_at s h c" and lc: "ir_lchallenge (cx_relation c) \<noteq> None"
    and rc: "ir_rchallenge (cx_relation c) \<noteq> None"
    and Z: "kem_ct (hs_kem (cx_handshake c)) \<noteq> None \<Longrightarrow> kem_ss (hs_kem (cx_handshake c)) \<noteq> None \<Longrightarrow>
      Uninitialised_read \<in> Z"
    and accepted: "request_accepted E message c"
  shows "wp (bind_op (run_ctx h (encapsulate_to_request E t message)) (\<lambda>kem_public.
      bind_op (run_ctx h (reply_token_parts E cert pdata kem_public)) (\<lambda>rt.
        run_ctx h (sign_reply E t optional rt)))) s
    (\<lambda>tokens s'. auth_inv s' \<and> (\<exists>c'. ctx_at s' h c' \<and>
       reply_sent E message c' (handshake_message DDS_AUTHTOKEN_REPLY_CLASS_ID tokens)))
    (\<lambda>s'. auth_inv s' \<and> (\<exists>hs. heap s' h = Some (Handshake hs))) Z"
proof (rule wp_bind, rule wp_run_steady [OF inv at wp_encapsulate], goal_cases)
  case (2 pk c1 s1)
  have ch1: "ir_lchallenge (cx_relation c1) \<noteq> None" "ir_rchallenge (cx_relation c1) \<noteq> None"
    using 2(1) lc rc by simp_all
  have ct1: "kem_ct (hs_kem (cx_handshake c1)) \<noteq> None" using 2(1) by simp
  have Z1: "pk = None \<Longrightarrow> Uninitialised_read \<in> Z" using 2(1) Z by simp
  note c1 = 2
  show ?case
  proof (rule wp_bind, rule wp_run_steady [OF 2(4,5) wp_reply_token_parts [OF ch1 ct1 Z1]], goal_cases)
    case (3 rt c2 s2)
    have len: "length (rt_credentials rt) = 5" using 3(1) by auto
    obtain p where p: "pk = Some p" using 3(1) by blast
    have enc: "find_binary_property E message DDS_AUTHTOKEN_PROP_KEM_PUBLIC = Some p"
      "pqsec_kem_encapsulate E t (ri_kagreeAlgoKind (cx_remote c)) (oct_buffer (bp_value p)) True
         (hs_kem (cx_handshake c)) = (True, hs_kem (cx_handshake c2))"
      using c1(1) 3(1) p by simp_all
    have keep: "cx_relation c2 = cx_relation c" "kem_ct (hs_kem (cx_handshake c2)) \<noteq> None"
      using c1(1) 3(1) by simp_all
    show ?case
    proof (rule wp_run_steady [OF 3(4,5) wp_sign_reply [OF len]], goal_cases)
      case (2 tokens c3 s3)
      have "c3 = c2" using 2(1) by simp
      have "reply_sent E message c3 (handshake_message DDS_AUTHTOKEN_REPLY_CLASS_ID tokens)"
        using 2(1) 3(1) c1(1) accepted enc keep
        unfolding reply_sent_def request_accepted_def by (auto 0 0) (blast, intro exI, rule refl)
      then show ?case using 2(4,5) by blast
    qed (auto simp: ctx_at_def)
  qed (auto simp: ctx_at_def)
qed (auto simp: ctx_at_def)

lemma wp_reply_body:
  assumes E: "hash_table_laws E" and inv: "auth_inv_but H s" and H: "H \<subseteq> (if created then {h} else {})"
    and l: "heap s l = Some (LocalIdentity lm)" and h: "heap s h = Some (Handshake hs)"
    and Z: "kem_ct (hs_kem hs) \<noteq> None \<Longrightarrow> kem_ss (hs_kem hs) \<noteq> None \<Longrightarrow> Uninitialised_read \<in> Z"
    and read: "read_faults E message \<subseteq> Z"
  shows "wp (bind_op (on_fail
       (bind_op (run_ctx h (validate_handshake_token E t optional trusted message HS_TOKEN_REQ)) (\<lambda>_.
        bind_op (load_local l) (\<lambda>l.
        bind_op (lift_op (get_certificate_contents E t (li_identityCert l))) (\<lambda>cert.
        bind_op (run_ctx h (encapsulate_to_request E t message)) (\<lambda>kem_public.
        bind_op (run_ctx h (reply_token_parts E cert pdata kem_public)) (\<lambda>rt.
          run_ctx h (sign_reply E t optional rt)))))))
       (drop_created E h created)) (\<lambda>tokens.
     bind_op (add_to_objectHash E h) (\<lambda>_. bind_op (load_handshake h) (\<lambda>hs.
       ret_op (so_handle hs, handshake_message DDS_AUTHTOKEN_REPLY_CLASS_ID tokens))))) s
    (\<lambda>(hd, m) s'. auth_inv s' \<and> (\<exists>c. ctx_at s' hd c \<and> reply_sent E message c m)) auth_inv Z"
proof -
  obtain c where c: "ctx_at s h c" "cx_handshake c = hs" "ir_lchallenge (cx_relation c) \<noteq> None"
    using inv_ctx [OF inv h] by metis
  have enter: "wp (bind_op (add_to_objectHash E h) (\<lambda>_. bind_op (load_handshake h) (\<lambda>hs.
       ret_op (so_handle hs, handshake_message DDS_AUTHTOKEN_REPLY_CLASS_ID tokens)))) u
    (\<lambda>(hd, m) s'. auth_inv s' \<and> (\<exists>c. ctx_at s' hd c \<and> reply_sent E message c m)) auth_inv Z"
    if u: "auth_inv u \<and> (\<exists>c. ctx_at u h c \<and>
      reply_sent E message c (handshake_message DDS_AUTHTOKEN_REPLY_CLASS_ID tokens))" for u tokens
  proof -
    obtain c where at: "ctx_at u h c" and sent:
      "reply_sent E message c (handshake_message DDS_AUTHTOKEN_REPLY_CLASS_ID tokens)" using u by blast
    have h': "heap u h = Some (Handshake (cx_handshake c))" using at by (simp add: ctx_at_def)
    have inv_u: "auth_inv u" using u by simp
    have "so_handle (cx_handshake c) = h" using inv_handshake [OF inv_u h'] by metis
    then show ?thesis
      using inv_u h' at sent
      by (intro wp_bind wp_add_handshake_again [OF E inv_u h']) (auto simp: wp_load_typed)
  qed
  have drop: "wp (drop_created E h created) u (\<lambda>_. auth_inv) auth_inv Z"
    if "auth_inv_but H' u" "H' \<subseteq> (if created then {h} else {})" "\<exists>hs. heap u h = Some (Handshake hs)" for u H'
    using that wp_drop_created [OF E that(1) _ that(2)] by auto
  show ?thesis
  proof (rule wp_bind, rule wp_on_fail, rule wp_bind, rule wp_run_steady [OF inv c(1) wp_validate_token [OF read]],
      goal_cases)
    case (2 u c1 s1)
    have lc1: "ir_lchallenge (cx_relation c1) \<noteq> None" using 2(2) c(3) by (simp add: ctx_keeps_def)
    have rc1: "ir_rchallenge (cx_relation c1) \<noteq> None" using 2(1) by simp
    have accepted: "request_accepted E message c1" using 2(1) request_acceptedI by blast
    have H1: "H \<subseteq> {h}" using H by (auto split: if_split_asm)
    have inv1: "auth_inv s1" by (rule inv_validated [OF 2(4) H1 2(5) rc1])
    have h1: "\<exists>hs. heap s1 h = Some (Handshake hs)" using 2(5) by (auto simp: ctx_at_def)
    have Z1: "Uninitialised_read \<in> Z"
      if "kem_ct (hs_kem (cx_handshake c1)) \<noteq> None" "kem_ss (hs_kem (cx_handshake c1)) \<noteq> None"
      using that 2(1) c(2) Z by simp
    have "graph_of (heap s1) l = Some (Local_node (so_handle lm))"
      using 2(3) graph_of_Some [where h = "heap s", OF l] by (simp add: steady_def)
    then obtain lm1 where l1: "heap s1 l = Some (LocalIdentity lm1)" by (auto simp: graph_of_iff)
    show ?case
    proof (rule wp_bind, unfold wp_load_typed(1) [OF l1], rule wp_bind, rule wp_lift, goal_cases)
      case (1 cert)
      show ?case
        by (rule wp_mono [OF wp_reply_tokens [where Z = Z, OF inv1 2(5) lc1 rc1 Z1 accepted]])
          (auto intro!: enter drop [where H' = "{}"])
    next
      case 2 show ?case by (rule drop [OF inv1 _ h1]) simp
    qed
  next
    case (3 c1 s1)
    then show ?case using H by (intro drop [OF 3(3)]) (auto simp: ctx_at_def)
  qed simp
qed

lemma wp_begin_handshake_reply:
  assumes E: "hash_table_laws E" and inv: "auth_inv s"
  shows "wp (begin_handshake_reply E nonnull message r l pdata) s
    (\<lambda>(h, m) s'. auth_inv s' \<and> (\<exists>c. ctx_at s' h c \<and> reply_sent E message c m))
    auth_inv
    ({Out_of_memory} \<union> read_faults E message \<union> (if replied_before s l r then {Uninitialised_read} else {}) \<union>
     (if relations_of (graph_of (heap s)) l r = {} then {Assertion_failed} else {}))"
  unfolding begin_handshake_reply_def
proof (rule wp_bind, rule wp_check, rule wp_bind, rule wp_check, rule wp_bind, rule wp_find_local [OF E inv],
    rule wp_bind, rule wp_find_remote [OF E inv], goal_cases)
  case (1 lm rm)
  note l = 1(3) and r = 1(4)
  show ?case
  proof (rule wp_bind, rule wp_find_or_create [OF E inv l r], goal_cases)
    case (1 h hs rel)
    have Z: "Uninitialised_read \<in> {Out_of_memory} \<union> read_faults E message \<union>
        (if replied_before s l r then {Uninitialised_read} else {}) \<union>
        (if relations_of (graph_of (heap s)) l r = {} then {Assertion_failed} else {})"
      if "kem_ct (hs_kem hs) \<noteq> None" "kem_ss (hs_kem hs) \<noteq> None"
    proof -
      have "replied_before s l r" unfolding replied_before_def using 1 that by blast
      then show ?thesis by simp
    qed
    let ?t = "s\<lparr>clock := Suc (clock s)\<rparr>"
    have t: "auth_inv ?t" "heap ?t l = Some (LocalIdentity lm)" "heap ?t h = Some (Handshake hs)"
      using steady_inv [OF inv, of ?t] l 1(1) by simp_all
    show ?case unfolding prod.case
      by (rule wp_bind, rule iffD2 [OF wp_tick], rule wp_bind, rule iffD2 [OF wp_get],
          rule wp_reply_body [OF E t(1) _ t(2,3) Z]) (blast | simp)+
  next
    case (2 h hs u)
    let ?t = "u\<lparr>clock := Suc (clock u)\<rparr>"
    have inv_t: "auth_inv_but {h} ?t"
      using steady_inv [OF 2(1), of ?t] by (auto simp: auth_inv_but_def replies_ok_def split: if_split_asm)
    have neq: "l \<noteq> h" using 2(2) l by (auto simp: handshake_added_def)
    have t: "heap ?t l = Some (LocalIdentity lm)" "heap ?t h = Some (Handshake hs)"
      using 2(2) l neq by (simp_all add: handshake_added_def)
    show ?case unfolding prod.case
    proof (rule wp_bind, rule iffD2 [OF wp_tick], rule wp_bind, rule iffD2 [OF wp_get],
        rule wp_reply_body [OF E inv_t _ t])
      show "{h} \<subseteq> (if True then {h} else {})" by simp
      show "read_faults E message \<subseteq> {Out_of_memory} \<union> read_faults E message \<union>
          (if replied_before s l r then {Uninitialised_read} else {}) \<union>
          (if relations_of (graph_of (heap s)) l r = {} then {Assertion_failed} else {})" by blast
      assume "kem_ct (hs_kem hs) \<noteq> None"
      then show "Uninitialised_read \<in> {Out_of_memory} \<union> read_faults E message \<union>
          (if replied_before s l r then {Uninitialised_read} else {}) \<union>
          (if relations_of (graph_of (heap s)) l r = {} then {Assertion_failed} else {})"
        using 2(2) by (simp add: handshake_added_def kem_buffers_empty_def)
    qed
  qed simp_all
qed (use inv in simp_all)

section \<open>Processing an answer\<close>

lemma wp_expiry_timer:
  assumes inv: "auth_inv s" and at: "ctx_at s h c"
    and Q: "\<And>s' c'. auth_inv s' \<Longrightarrow> ctx_at s' h c' \<Longrightarrow> cx_handshake c' = cx_handshake c \<Longrightarrow>
      wp m s' Q X Z" and X: "\<And>s'. auth_inv s' \<Longrightarrow> X s'"
  shows "wp (bind_op (case expiry of None \<Rightarrow> ret_op ()
      | Some (hdl, cert_exp) \<Rightarrow> bind_op (add_validity_end_trigger E hdl cert_exp) (\<lambda>timer.
          run_ctx h (set_remote (\<lambda>r. r\<lparr>ri_timer := timer\<rparr>)))) (\<lambda>_. m)) s Q X Z"
proof (cases expiry)
  case None
  then show ?thesis using Q [OF inv at refl] by (simp add: wp_bind_iff)
next
  case (Some e)
  obtain hdl cert_exp where e: "e = (hdl, cert_exp)" by fastforce
  have set: "wp (set_remote (\<lambda>r. r\<lparr>ri_timer := timer\<rparr>)) c
      (\<lambda>_ c'. ctx_keeps c c' \<and> cx_handshake c' = cx_handshake c) (ctx_keeps c) Z" for timer
    by (simp add: set_remote_def)
  show ?thesis
    unfolding Some e option.case prod.case
  proof (rule wp_bind, rule wp_bind, rule wp_trigger)
    fix u timer assume u: "steady s u" "heap u = heap s"
    have at_u: "ctx_at u h c" using at u(2) by (simp add: ctx_at_def)
    show "wp (run_ctx h (set_remote (\<lambda>r. r\<lparr>ri_timer := timer\<rparr>))) u (\<lambda>_ s'. wp m s' Q X Z) X Z"
      by (rule wp_run_steady [OF steady_inv [OF inv u(1)] at_u set]) (auto intro: Q X)
  qed
qed

text \<open>The end of the operation, once the peer's answer has been accepted.\<close>

lemma wp_derive_secret:
  assumes inv: "auth_inv s" and at: "ctx_at s h c"
    and c: "ir_lchallenge (cx_relation c) \<noteq> None" "ir_rchallenge (cx_relation c) \<noteq> None"
      "ri_identityCert (cx_remote c) \<noteq> None"
    and Z: "Out_of_memory \<in> Z"
  shows "wp (bind_op (load_handshake h) (\<lambda>hs.
     bind_op (lift_op (generate_shared_secret E t hs)) (\<lambda>secret.
     bind_op (malloc_impl E) (\<lambda>impl.
     bind_op (run_ctx h (make_shared_secret impl secret)) (\<lambda>_.
     bind_op (run_ctx h (setup_expiry E t)) (\<lambda>expiry.
     bind_op (case expiry of None \<Rightarrow> ret_op ()
        | Some (hdl, cert_exp) \<Rightarrow> bind_op (add_validity_end_trigger E hdl cert_exp) (\<lambda>timer.
            run_ctx h (set_remote (\<lambda>r. r\<lparr>ri_timer := timer\<rparr>)))) (\<lambda>_.
       ret_op result))))))) s
    (\<lambda>res s'. res = result \<and> auth_inv s' \<and> (\<exists>c'. ctx_at s' h c' \<and> secret_derived E c c')) auth_inv Z"
proof -
  have h: "heap s h = Some (Handshake (cx_handshake c))" using at by (simp add: ctx_at_def)
  show ?thesis
  proof (rule wp_bind, unfold wp_load_typed(4) [OF h], rule wp_bind, rule wp_lift, rule wp_bind,
      rule wp_malloc_impl [OF _ Z], goal_cases)
    case (1 secret impl)
    let ?s = "s\<lparr>clock := Suc (clock s)\<rparr>"
    have inv1: "auth_inv ?s" by (rule steady_inv [OF inv]) simp
    have at1: "ctx_at ?s h c" using at by (simp add: ctx_at_def)
    obtain ss where ss: "kem_ss (hs_kem (cx_handshake c)) = Some ss" "secret = SHA256 E ss"
      using 1(1) by (auto simp: generate_shared_secret_def split: option.split_asm if_split_asm)
    show ?case
    proof (rule wp_bind, rule wp_run_steady [OF inv1 at1 wp_make_shared_secret [where E = E, OF c(1,2)]], goal_cases)
      case (2 u c1 s1)
      have cert: "ri_identityCert (cx_remote c1) \<noteq> None" using 2(1) c(3) by simp
      have derived: "secret_derived E c c1"
        using 2(1) ss by (simp add: secret_derived_def)
      show ?case
      proof (rule wp_bind, rule wp_run_steady [OF 2(4,5) wp_setup_expiry [OF cert]], goal_cases)
        case (2 expiry c2 s2)
        show ?case
        proof (rule wp_expiry_timer [OF 2(4,5)], unfold wp_ret, goal_cases)
          case (1 s3 c3)
          have "secret_derived E c c3" using derived 1(3) 2(1) by (simp add: secret_derived_def)
          then show ?case using 1(1,2) by blast
        qed
      qed simp_all
    qed simp_all
  qed (use inv in simp_all)
qed

lemma wp_process_handshake:
  assumes E: "hash_table_laws E" and inv: "auth_inv s"
  shows "wp (process_handshake E nonnull message h) s
    (\<lambda>res s'. auth_inv s' \<and> (\<exists>c c'. ctx_at s h c \<and> ctx_at s' h c' \<and> answer_processed E message c res c'))
    auth_inv ({Out_of_memory} \<union> read_faults E message)"
  (is "wp _ _ _ _ ?Z")
  unfolding process_handshake_def
proof (rule wp_bind, rule wp_check, rule wp_bind, rule wp_find_handshake_handle [OF E inv], goal_cases)
  case (1 hs)
  have read: "read_faults E message \<subseteq> ?Z" by blast
  obtain c where c: "ctx_at s h c" "cx_handshake c = hs" "ir_lchallenge (cx_relation c) \<noteq> None"
    "hs_created_in hs = CREATEDREPLY \<Longrightarrow> ir_rchallenge (cx_relation c) \<noteq> None"
    using inv_ctx [OF inv 1(2)] by (metis empty_iff)
  let ?s = "s\<lparr>clock := Suc (clock s)\<rparr>"
  have inv1: "auth_inv ?s" by (rule steady_inv [OF inv]) simp
  have at1: "ctx_at ?s h c" using c(1) by (simp add: ctx_at_def)
  show ?case
  proof (rule wp_bind, unfold wp_load_ctx [OF c(1)], rule wp_bind, rule iffD2 [OF wp_tick],
      rule wp_bind, rule iffD2 [OF wp_get], rule wp_bind, cases "hs_created_in (cx_handshake c)", goal_cases)
    case initiator: 1
    show ?case unfolding initiator CreatedHandshakeStep_t.case
    proof (rule wp_bind, rule wp_run_steady [OF inv1 at1 wp_accept_reply [OF read]], goal_cases)
      case (2 pkct c1 s1)
      note accepted = 2
      obtain pk ct where pkct: "pkct = (pk, ct)" by fastforce
      have c1: "ir_lchallenge (cx_relation c1) \<noteq> None" "ir_rchallenge (cx_relation c1) \<noteq> None"
        "ri_identityCert (cx_remote c1) \<noteq> None"
        using 2(1) c(3) by (simp_all add: ctx_keeps_def)
      show ?case unfolding pkct prod.case
      proof (rule wp_bind, rule wp_run_steady [OF 2(4,5) wp_final_tokens [OF c1(1,2)]], goal_cases)
        case (2 tokens c2 s2)
        then have "c2 = c1" by simp
        show ?case unfolding wp_ret
        proof (rule wp_mono [OF wp_derive_secret [where Z = ?Z, OF 2(4,5)]], goal_cases)
          case (5 res s3)
          then obtain c3 where c3: "ctx_at s3 h c3" "secret_derived E c1 c3" using \<open>c2 = c1\<close> by blast
          have "\<exists>rest. tokens =
            [BinaryProperty_set_by_value E DDS_AUTHTOKEN_PROP_CHALLENGE1 (the (ir_lchallenge (cx_relation c1))),
             BinaryProperty_set_by_value E DDS_AUTHTOKEN_PROP_CHALLENGE2 (the (ir_rchallenge (cx_relation c1)))] @
            rest" using 2(1) by blast
          moreover have "res = OK_FINAL_MESSAGE (handshake_message DDS_AUTHTOKEN_FINAL_CLASS_ID tokens)"
            using 5 by simp
          moreover have "reply_decapsulated E (clock s) (include_optional s) (trustedCAList s) message c c1"
            using accepted(1) by simp
          ultimately have "answer_processed E message c res c3"
            using c3(2) initiator by (auto simp only: intro: answer_processedI)
          then show ?case using 5 c(1) c3(1) by blast
        qed (use 2(1) c1 in simp_all)
      qed simp_all
    qed simp_all
  next
    case replier: 2
    show ?case unfolding replier CreatedHandshakeStep_t.case
    proof (rule wp_bind, rule wp_run_steady [OF inv1 at1 wp_validate_token [OF read]], unfold wp_ret, goal_cases)
      case (2 u c1 s1)
      note accepted = 2
      have c1: "ir_lchallenge (cx_relation c1) \<noteq> None" "ir_rchallenge (cx_relation c1) \<noteq> None"
        "ri_identityCert (cx_remote c1) \<noteq> None"
        using 2(1,2) c(2-4) replier by (simp_all add: ctx_keeps_def)
      have same: "c1 = c" using 2(1) by (blast elim: validate_token_impl_final_ok)
      show ?case
      proof (rule wp_mono [OF wp_derive_secret [where Z = ?Z, OF 2(4,5) c1]], goal_cases)
        case (2 res s3)
        then obtain c3 where c3: "ctx_at s3 h c3" "secret_derived E c c3" using same by blast
        have "answer_processed E message c res c3"
          using 2 c3 accepted(1) replier same unfolding answer_processed_def by auto
        then show ?case using 2 c(1) c3(1) by blast
      qed simp_all
    qed simp_all
  qed
qed (use inv in simp_all)

end
