(* ===== verification/Plugin.thy ===== *)
theory Plugin
  imports HandshakeSteps
begin

text \<open>
  The plugin as a state machine: an instance comes from \<open>init_authentication\<close>, and every call of
  the interface and every expiry callback is a step.  Every reachable instance has the
  invariant, so no call follows a NULL or dangling pointer.
\<close>

section \<open>Operations that only read, or fill in a field\<close>

lemma wp_get_identity_info:
  assumes E: "hash_table_laws E" and inv: "auth_inv s"
    and Q: "Q None s" "\<And>obj. heap s hdl = Some obj \<Longrightarrow> Q (Some hdl) s"
  shows "wp (get_identity_info E hdl) s Q X Z"
  unfolding get_identity_info_def
proof (rule wp_bind, rule iffD2 [OF wp_get], rule wp_bind, rule wp_find [OF E inv_table_safe(1) [OF inv]])
  fix p obj assume p: "p \<in> set (objectHash s)" "heap s p = Some obj" "obj_handle obj = hdl"
  have "p = hdl" using inv_object_handle(1) [OF inv p(1,2)] p(3) by simp
  then show "wp (case Some p of None \<Rightarrow> ret_op None | Some p \<Rightarrow> bind_op (load_op p)
      (\<lambda>obj. if obj_kind obj \<noteq> SECURITY_OBJECT_KIND_LOCAL_IDENTITY \<and>
                obj_kind obj \<noteq> SECURITY_OBJECT_KIND_REMOTE_IDENTITY
             then ret_op None else ret_op (Some p))) s Q X Z"
    using p Q by (simp add: wp_bind_iff wp_load)
qed (use Q in simp)

lemma steady_clear_timer:
  "heap s p = Some obj \<Longrightarrow> steady s (s\<lparr>heap := (heap s)(p \<mapsto> clear_timer obj)\<rparr>)"
  by (cases obj) (auto simp: clear_timer_def intro!: steady_store)

lemma wp_validity_callback:
  assumes E: "hash_table_laws E" and inv: "auth_inv s"
    and Z: "listener s = None \<Longrightarrow> Assertion_failed \<in> Z"
  shows "wp (validity_callback E has_cb kind hdl) s (\<lambda>_. auth_inv) auth_inv Z"
proof (cases "kind = TIMED_CB_KIND_TIMEOUT")
  case True
  then have kind: "\<not> kind \<noteq> TIMED_CB_KIND_TIMEOUT" by simp
  show ?thesis
    unfolding validity_callback_def if_not_P [OF kind]
  proof (rule wp_bind, rule iffD2 [OF wp_get], rule wp_bind, cases "listener s")
    case (Some x)
    have "wp (get_identity_info E hdl) s (\<lambda>p s'. wp (case p of None \<Rightarrow> ret_op None
        | Some p \<Rightarrow> bind_op (load_op p) (\<lambda>obj. bind_op (store_op p (clear_timer obj))
            (\<lambda>_. ret_op (if has_cb then Some hdl else None)))) s' (\<lambda>_. auth_inv) auth_inv Z) auth_inv Z"
    proof (rule wp_get_identity_info [OF E inv])
      fix obj assume "heap s hdl = Some obj"
      then show "wp (case Some hdl of None \<Rightarrow> ret_op None
          | Some p \<Rightarrow> bind_op (load_op p) (\<lambda>obj. bind_op (store_op p (clear_timer obj))
              (\<lambda>_. ret_op (if has_cb then Some hdl else None)))) s (\<lambda>_. auth_inv) auth_inv Z"
        using steady_inv [OF inv steady_clear_timer] by (simp add: wp_bind_iff wp_load wp_store)
    qed (use inv in simp)
    then show "wp (assert_op (listener s \<noteq> None)) s (\<lambda>x s'. wp (bind_op (get_identity_info E hdl)
        (\<lambda>p. case p of None \<Rightarrow> ret_op None
          | Some p \<Rightarrow> bind_op (load_op p) (\<lambda>obj. bind_op (store_op p (clear_timer obj))
              (\<lambda>_. ret_op (if has_cb then Some hdl else None))))) s' (\<lambda>_. auth_inv) auth_inv Z) auth_inv Z"
      using Some by (simp add: wp_bind_iff)
  qed (use Z in simp)
qed (use inv in \<open>simp add: validity_callback_def\<close>)

lemma wp_get_identity_token:
  assumes "hash_table_laws E" and inv: "auth_inv s"
  shows "wp (get_identity_token E nonnull hdl) s (\<lambda>_ s'. s' = s) (\<lambda>s'. s' = s) Z"
  unfolding get_identity_token_def
  by (rule wp_bind, rule wp_check, rule wp_bind, rule wp_find_local [OF assms])
    (auto simp: wp_bind_iff wp_load_typed intro!: wp_lift)

lemma wp_set_permissions:
  assumes "hash_table_laws E" and inv: "auth_inv s"
  shows "wp (set_permissions_credential_and_token E nonnull hdl cred) s
    (\<lambda>_. auth_inv) (\<lambda>s'. s' = s) Z"
proof -
  have "auth_inv (s\<lparr>heap := (heap s)(hdl \<mapsto> LocalIdentity (l\<lparr>li_permissionsDocument := d\<rparr>))\<rparr>)"
    if "heap s hdl = Some (LocalIdentity l)" for l d
    by (rule steady_inv [OF inv steady_store [OF that]]) simp_all
  then show ?thesis
    unfolding set_permissions_credential_and_token_def
    by (intro wp_bind wp_check wp_find_local [OF assms]) (auto simp: wp_bind_iff wp_load_typed wp_store)
qed

lemma wp_get_shared_secret:
  assumes "hash_table_laws E" and inv: "auth_inv s"
  shows "wp (get_shared_secret E nonnull h) s (\<lambda>_ s'. s' = s) (\<lambda>s'. s' = s) Z"
  unfolding get_shared_secret_def
  by (rule wp_bind, rule wp_check, rule wp_bind, rule wp_find_handshake_handle [OF assms])
    (auto simp: wp_bind_iff wp_load_typed)

lemma wp_get_peer_token:
  assumes "hash_table_laws E" and inv: "auth_inv s"
  shows "wp (get_authenticated_peer_credential_token E nonnull h) s (\<lambda>_. auth_inv) auth_inv Z"
  unfolding get_authenticated_peer_credential_token_def
proof (rule wp_bind, rule wp_lift, rule wp_bind, rule wp_find_handshake_handle [OF assms], goal_cases)
  case (1 u hs)
  obtain c where c: "ctx_at s h c" using inv_ctx [OF inv 1(2)] by metis
  have "auth_inv (s\<lparr>clock := Suc (clock s)\<rparr>)" by (rule steady_inv [OF inv]) simp
  then show ?case
    by (auto simp: wp_bind_iff wp_load_ctx [OF c] wp_tick intro!: wp_lift split: option.split)
qed (use inv in simp_all)

section \<open>Creating and destroying an instance\<close>

lemma init_authentication_heap:
  assumes "init_authentication E include_opt now = Some s"
  shows "heap s = (\<lambda>_. None)" "objectHash s = []" "remoteGuidHash s = []"
  using assms
  by (auto simp: init_authentication_def ensure_selected_kem_available_def Let_def
      split: if_split_asm option.split_asm)

lemma init_inv: "init_authentication E include_opt now = Some s \<Longrightarrow> auth_inv s"
  using init_authentication_heap [of E include_opt now s]
  by (auto simp: auth_inv_but_def heap_wf_def graph_ok_def graph_of_def tables_ok_def replies_ok_def)

text \<open>Freeing all objects of the table; what is left of the heap.\<close>

lemma wp_free_all:
  assumes "distinct ps" and "\<And>p. p \<in> set ps \<Longrightarrow>
      \<exists>obj. heap s p = Some obj \<and> obj_wf obj \<and> \<not> is_relation (node_of obj) \<and> obj_handle obj = p"
    and "Q () (s\<lparr>heap := (\<lambda>x. if x \<in> set ps then None else heap s x)\<rparr>)"
  shows "wp (free_all ps) s Q X Z"
  using assms
proof (induction ps arbitrary: s)
  case (Cons p ps)
  obtain obj where obj: "heap s p = Some obj" "obj_wf obj" "\<not> is_relation (node_of obj)" "obj_handle obj = p"
    using Cons.prems(2) [of p] by auto
  let ?s = "s\<lparr>heap := (heap s)(p := None)\<rparr>"
  have "wp (free_all ps) ?s Q X Z"
  proof (rule Cons.IH)
    show "distinct ps" using Cons.prems(1) by simp
    show "\<exists>obj. heap ?s q = Some obj \<and> obj_wf obj \<and> \<not> is_relation (node_of obj) \<and> obj_handle obj = q"
      if "q \<in> set ps" for q
      using Cons.prems(1,2) that by auto
    have "(\<lambda>x. if x \<in> set ps then None else heap ?s x) = (\<lambda>x. if x \<in> set (p # ps) then None else heap s x)"
      by auto
    then show "Q () (?s\<lparr>heap := \<lambda>x. if x \<in> set ps then None else heap ?s x\<rparr>)"
      using Cons.prems(3) by simp
  qed
  then show ?case
    unfolding free_all.simps
    by (intro wp_bind wp_free [OF obj(1,2)]) (use obj in \<open>auto split: sec_obj.split\<close>)
qed simp

lemma wp_finalize:
  assumes E: "hash_table_laws E" and inv: "auth_inv s"
  shows "wp (finalize_authentication E) s
    (\<lambda>left s'. left = heap s' \<and> objectHash s' = [] \<and> remoteGuidHash s' = [] \<and> dispatcher s' = [] \<and>
       (\<forall>p. left p = (case heap s p of Some (Relation rel) \<Rightarrow> Some (Relation rel) | _ \<Rightarrow> None)))
    (\<lambda>_. False) {}"
    (is "wp _ _ ?Q _ _")
proof -
  let ?ps = "hh_iter E (objectHash s)"
  let ?s = "s\<lparr>dispatcher := [], remoteGuidHash := []\<rparr>"
  have live: "p \<in> set ?ps \<longleftrightarrow> (\<exists>obj. heap s p = Some obj \<and> \<not> is_relation (node_of obj))" for p
    using tables_okD(1) [OF auth_invD(3) [OF inv], of p] by (auto simp: hh_iter_law(1) [OF E] graph_of_def)
  have objs: "\<exists>obj. heap ?s p = Some obj \<and> obj_wf obj \<and> \<not> is_relation (node_of obj) \<and> obj_handle obj = p"
    if "p \<in> set ?ps" for p
  proof -
    obtain obj where obj: "heap s p = Some obj" "\<not> is_relation (node_of obj)" using live [of p] \<open>p \<in> set ?ps\<close> by auto
    have "p \<in> set (objectHash s)" using \<open>p \<in> set ?ps\<close> by (simp add: hh_iter_law(1) [OF E])
    then show ?thesis
      using obj heap_wfD [OF auth_invD(1) [OF inv] obj(1)] inv_object_handle(1) [OF inv _ obj(1)] by simp
  qed
  have left: "(if p \<in> set ?ps then None else heap ?s p) =
      (case heap s p of Some (Relation rel) \<Rightarrow> Some (Relation rel) | _ \<Rightarrow> None)" for p
    using live [of p] by (auto split: option.split sec_obj.split)
  have "wp (free_all ?ps) ?s (\<lambda>_ s'. wp (bind_op (modify_op (\<lambda>s. s\<lparr>objectHash := [],
       trustedCAList := fst (free_ca_list_contents (trustedCAList s)), fallback_provider := None\<rparr>))
       (\<lambda>_. bind_op get_op (\<lambda>s. ret_op (heap s)))) s' ?Q (\<lambda>_. False) {}) (\<lambda>_. False) {}"
    by (rule wp_free_all [OF hh_iter_law(2) [OF E] objs]) (simp_all add: wp_bind_iff left split del: if_split)
  then show ?thesis unfolding finalize_authentication_def by (simp add: wp_bind_iff)
qed

section \<open>The plugin as a state machine\<close>

text \<open>
  The calls of the plugin interface with their arguments; the boolean says that the pointers
  the function requires are not NULL.  \<open>Validity_expired\<close> is the callback of the timed
  dispatcher.
\<close>

datatype 'q call =
    Validate_local_identity bool int 'q guid
  | Get_identity_token bool addr
  | Get_identity_status_token
  | Set_permissions_credential_and_token bool addr data_holder
  | Validate_remote_identity bool "data_holder option" addr data_holder guid
  | Begin_handshake_request bool addr addr octseq
  | Begin_handshake_reply bool data_holder addr addr octseq
  | Process_handshake bool data_holder addr
  | Get_shared_secret bool addr
  | Get_authenticated_peer_credential_token bool addr
  | Set_listener "nat option"
  | Return_identity_token
  | Return_identity_status_token
  | Return_authenticated_peer_credential_token bool
  | Return_handshake_handle bool addr
  | Return_identity_handle bool addr
  | Return_sharedsecret_handle addr
  | Validity_expired bool timed_cb_kind addr

fun perform :: "('q, 'a) cyclone_scheme \<Rightarrow> 'q call \<Rightarrow> (auth, unit) op" where
  "perform E (Validate_local_identity nn d qos g) = no_value (validate_local_identity E nn d qos g)"
| "perform E (Get_identity_token nn p) = no_value (get_identity_token E nn p)"
| "perform E Get_identity_status_token = no_value get_identity_status_token"
| "perform E (Set_permissions_credential_and_token nn p cred) =
     no_value (set_permissions_credential_and_token E nn p cred)"
| "perform E (Validate_remote_identity nn request l token g) =
     no_value (validate_remote_identity E nn request l token g)"
| "perform E (Begin_handshake_request nn l r pdata) =
     no_value (begin_handshake_request E nn l r pdata)"
| "perform E (Begin_handshake_reply nn message r l pdata) =
     no_value (begin_handshake_reply E nn message r l pdata)"
| "perform E (Process_handshake nn message h) = no_value (process_handshake E nn message h)"
| "perform E (Get_shared_secret nn h) = no_value (get_shared_secret E nn h)"
| "perform E (Get_authenticated_peer_credential_token nn h) =
     no_value (get_authenticated_peer_credential_token E nn h)"
| "perform E (Set_listener l) = no_value (set_listener l)"
| "perform E Return_identity_token = no_value return_identity_token"
| "perform E Return_identity_status_token = no_value return_identity_status_token"
| "perform E (Return_authenticated_peer_credential_token nn) =
     no_value (return_authenticated_peer_credential_token nn)"
| "perform E (Return_handshake_handle nn h) = no_value (return_handshake_handle E nn h)"
| "perform E (Return_identity_handle nn p) = no_value (return_identity_handle E nn p)"
| "perform E (Return_sharedsecret_handle x) = no_value (return_sharedsecret_handle x)"
| "perform E (Validity_expired has_cb kind p) = no_value (validity_callback E has_cb kind p)"

text \<open>The faults a call may end in, apart from running out of memory.\<close>

fun may_fault :: "('q, 'a) cyclone_scheme \<Rightarrow> auth \<Rightarrow> 'q call \<Rightarrow> fault set" where
  "may_fault E s (Begin_handshake_request nn l r pdata) =
     (if certificate_unwritable E s l then {Uninitialised_read} else {}) \<union>
     (if relations_of (graph_of (heap s)) l r = {} then {Assertion_failed} else {})"
| "may_fault E s (Begin_handshake_reply nn message r l pdata) =
     read_faults E message \<union>
     (if replied_before s l r then {Uninitialised_read} else {}) \<union>
     (if relations_of (graph_of (heap s)) l r = {} then {Assertion_failed} else {})"
| "may_fault E s (Process_handshake nn message h) = read_faults E message"
| "may_fault E s (Validity_expired has_cb kind p) =
     (if listener s = None then {Assertion_failed} else {})"
| "may_fault E s _ = {}"

text \<open>Weakening the specification of an operation to that of a step.\<close>

lemma wp_step:
  assumes "wp m s Q X Z" and "\<And>x s'. Q x s' \<Longrightarrow> auth_inv s'" and "\<And>s'. X s' \<Longrightarrow> auth_inv s'"
    and "Z \<subseteq> Z'"
  shows "wp (no_value m) s (\<lambda>_. auth_inv) auth_inv Z'"
  using assms by (intro wp_no_value) (rule wp_mono)

lemma wp_perform:
  assumes E: "hash_table_laws E" and inv: "auth_inv s"
  shows "wp (perform E c) s (\<lambda>_. auth_inv) auth_inv (insert Out_of_memory (may_fault E s c))"
proof -
  let ?Z = "insert Out_of_memory (may_fault E s c)"
  have same: "auth_inv s'" if "s' = s" for s' using that inv by simp
  note laws = E inv
  show ?thesis
  proof (cases c)
    case (Validate_local_identity nn d qos g)
    show ?thesis unfolding Validate_local_identity perform.simps
      by (rule wp_step [OF wp_validate_local_identity [OF laws]]) auto
  next
    case (Get_identity_token nn p)
    show ?thesis unfolding Get_identity_token perform.simps
      by (rule wp_step [OF wp_get_identity_token [OF laws, where Z = ?Z]])
        (use same Get_identity_token in auto)
  next
    case (Set_permissions_credential_and_token nn p cred)
    show ?thesis unfolding Set_permissions_credential_and_token perform.simps
      by (rule wp_step [OF wp_set_permissions [OF laws, where Z = ?Z]])
        (use same Set_permissions_credential_and_token in auto)
  next
    case (Validate_remote_identity nn request l token g)
    show ?thesis unfolding Validate_remote_identity perform.simps
      by (rule wp_step [OF wp_validate_remote_identity [OF laws]]) auto
  next
    case (Begin_handshake_request nn l r pdata)
    show ?thesis unfolding Begin_handshake_request perform.simps
      by (rule wp_step [OF wp_begin_handshake_request [OF laws]]) auto
  next
    case (Begin_handshake_reply nn message r l pdata)
    show ?thesis unfolding Begin_handshake_reply perform.simps
      by (rule wp_step [OF wp_begin_handshake_reply [OF laws]]) auto
  next
    case (Process_handshake nn message h)
    show ?thesis unfolding Process_handshake perform.simps
      by (rule wp_step [OF wp_process_handshake [OF laws]]) auto
  next
    case (Get_shared_secret nn h)
    show ?thesis unfolding Get_shared_secret perform.simps
      by (rule wp_step [OF wp_get_shared_secret [OF laws, where Z = ?Z]])
        (use same Get_shared_secret in auto)
  next
    case (Get_authenticated_peer_credential_token nn h)
    show ?thesis unfolding Get_authenticated_peer_credential_token perform.simps
      by (rule wp_step [OF wp_get_peer_token [OF laws, where Z = ?Z]])
        (use Get_authenticated_peer_credential_token in auto)
  next
    case (Set_listener l)
    have "auth_inv (s\<lparr>listener := l, dispatcher_enabled := (l \<noteq> None)\<rparr>)"
      by (rule steady_inv [OF inv]) simp
    then show ?thesis
      by (simp add: Set_listener no_value_def set_listener_def wp_bind_iff)
  next
    case (Return_handshake_handle nn h)
    show ?thesis unfolding Return_handshake_handle perform.simps
      by (rule wp_step [OF wp_return_handshake_handle [OF laws]]) (use same in auto)
  next
    case (Return_identity_handle nn p)
    show ?thesis unfolding Return_identity_handle perform.simps
      by (rule wp_step [OF wp_return_identity_handle [OF laws]]) (use same in auto)
  next
    case (Return_authenticated_peer_credential_token nn)
    show ?thesis
      by (simp add: Return_authenticated_peer_credential_token no_value_def wp_bind_iff inv
          return_authenticated_peer_credential_token_def)
  next
    case (Validity_expired has_cb kind p)
    show ?thesis unfolding Validity_expired perform.simps
      by (rule wp_step [OF wp_validity_callback [OF laws, where Z = ?Z]])
        (use Validity_expired in auto)
  qed (simp_all add: inv no_value_def wp_bind_iff get_identity_status_token_def
      return_identity_token_def return_identity_status_token_def return_sharedsecret_handle_def)
qed

text \<open>One call that comes back, in a process with the documented hash tables.\<close>

definition plugin_init :: "('q, 'a) cyclone_scheme \<Rightarrow> auth \<Rightarrow> bool" where
  "plugin_init E s \<longleftrightarrow> (\<exists>include_opt now. init_authentication E include_opt now = Some s)"

inductive plugin_step :: "('q, 'a) cyclone_scheme \<Rightarrow> auth \<Rightarrow> auth \<Rightarrow> bool"
  for E :: "('q, 'a) cyclone_scheme" where
  call: "perform E c s = Ret (r, s') \<Longrightarrow> plugin_step E s s'"

inductive_cases plugin_stepE: "plugin_step E s s'"

definition plugin_reachable :: "('q, 'a) cyclone_scheme \<Rightarrow> auth \<Rightarrow> bool" where
  "plugin_reachable E s \<longleftrightarrow> hash_table_laws E \<and> reachable (plugin_init E) (plugin_step E) s"

lemma perform_inv:
  assumes "hash_table_laws E" and "auth_inv s" and "perform E c s = Ret (r, s')"
  shows "auth_inv s'"
  using wp_perform [OF assms(1,2), of c] assms(3) by (simp add: wp_def split: sum.split_asm)

interpretation plugin: state_invariant
  "\<lambda>s. hash_table_laws E \<and> plugin_init E s" "\<lambda>s s'. hash_table_laws E \<and> plugin_step E s s'" auth_inv
  for E :: "('q, 'a) cyclone_scheme"
  by unfold_locales (auto simp: plugin_init_def init_inv elim!: plugin_stepE intro: perform_inv)

lemma plugin_reachable_inv: "plugin_reachable E s \<Longrightarrow> auth_inv s"
  unfolding plugin_reachable_def
proof (elim conjE)
  assume E: "hash_table_laws E" and "reachable (plugin_init E) (plugin_step E) s"
  from this(2) have "reachable (\<lambda>s. hash_table_laws E \<and> plugin_init E s)
      (\<lambda>s s'. hash_table_laws E \<and> plugin_step E s s') s"
    by (induction rule: reachable.induct) (auto intro: reachable.intros E)
  then show "auth_inv s" by (rule plugin.reachable_ok)
qed

lemma identity_objects_iff:
  assumes "auth_inv s"
  shows "x \<in> identity_objects (graph_of (heap s)) p \<longleftrightarrow>
     x = p \<or>
     (\<exists>rel. heap s x = Some (Relation rel) \<and> (ir_localIdentity rel = p \<or> ir_remoteIdentity rel = p)) \<or>
     (\<exists>hs rel. heap s x = Some (Handshake hs) \<and> heap s (hs_relation hs) = Some (Relation rel) \<and>
        (ir_localIdentity rel = p \<or> ir_remoteIdentity rel = p))"
proof -
  have rel: "(\<exists>l r. graph_of (heap s) q = Some (Relation_node l l r) \<and> (l = p \<or> r = p)) \<longleftrightarrow>
      (\<exists>rel. heap s q = Some (Relation rel) \<and> (ir_localIdentity rel = p \<or> ir_remoteIdentity rel = p))"
    (is "?G \<longleftrightarrow> ?H") for q
  proof
    show "?G \<Longrightarrow> ?H" by (auto simp: graph_of_iff)
  next
    assume ?H
    then obtain rel where rel: "heap s q = Some (Relation rel)"
        "ir_localIdentity rel = p \<or> ir_remoteIdentity rel = p" by blast
    have "so_handle rel = ir_localIdentity rel" using inv_relation [OF assms rel(1)] by metis
    then have "graph_of (heap s) q =
        Some (Relation_node (ir_localIdentity rel) (ir_localIdentity rel) (ir_remoteIdentity rel))"
      using rel(1) by (simp add: graph_of_iff)
    then show ?G using rel(2) by blast
  qed
  have hs: "(\<exists>a q c l r. graph_of (heap s) x = Some (Handshake_node a q c) \<and>
        graph_of (heap s) q = Some (Relation_node l l r) \<and> (l = p \<or> r = p)) \<longleftrightarrow>
      (\<exists>hs. heap s x = Some (Handshake hs) \<and>
        (\<exists>l r. graph_of (heap s) (hs_relation hs) = Some (Relation_node l l r) \<and> (l = p \<or> r = p)))"
    unfolding graph_of_iff(4) by blast
  show ?thesis
    unfolding identity_objects_def dependents_def insert_iff Un_iff mem_Collect_eq hs rel by blast
qed

section \<open>Properties\<close>


text \<open>
  C5: in every reachable instance the tables and the pointers agree with the live objects: the
  object table holds exactly the identities and handshakes, each under its own address; a
  relation connects a live local with a live remote identity, which links back to it; two
  identities have at most one relation, a relation at most one handshake, and a GUID belongs to
  at most one remote identity.
\<close>
theorem reachable_instance_consistent:
  assumes "plugin_reachable E s"
  shows "(\<forall>p. p \<in> set (objectHash s) \<longleftrightarrow>
        (\<exists>obj. heap s p = Some obj \<and> obj_kind obj \<noteq> SECURITY_OBJECT_KIND_IDENTITY_RELATION)) \<and>
     (\<forall>p obj. heap s p = Some obj \<longrightarrow> obj_kind obj \<noteq> SECURITY_OBJECT_KIND_IDENTITY_RELATION \<longrightarrow>
        obj_handle obj = p) \<and>
     (\<forall>p hs. heap s p = Some (Handshake hs) \<longrightarrow>
        (\<exists>rel. heap s (hs_relation hs) = Some (Relation rel))) \<and>
     (\<forall>q rel. heap s q = Some (Relation rel) \<longrightarrow>
        (\<exists>l r. heap s (ir_localIdentity rel) = Some (LocalIdentity l) \<and>
           heap s (ir_remoteIdentity rel) = Some (RemoteIdentity r) \<and> q \<in> set (ri_linkHash r))) \<and>
     (\<forall>p r q. heap s p = Some (RemoteIdentity r) \<longrightarrow> q \<in> set (ri_linkHash r) \<longrightarrow>
        (\<exists>rel. heap s q = Some (Relation rel) \<and> ir_remoteIdentity rel = p)) \<and>
     (\<forall>q q' rel rel'. heap s q = Some (Relation rel) \<longrightarrow> heap s q' = Some (Relation rel') \<longrightarrow>
        ir_localIdentity rel = ir_localIdentity rel' \<longrightarrow>
        ir_remoteIdentity rel = ir_remoteIdentity rel' \<longrightarrow> q = q') \<and>
     (\<forall>p p' hs hs'. heap s p = Some (Handshake hs) \<longrightarrow> heap s p' = Some (Handshake hs') \<longrightarrow>
        hs_relation hs = hs_relation hs' \<longrightarrow> p = p') \<and>
     (\<forall>p p' r r'. heap s p = Some (RemoteIdentity r) \<longrightarrow> heap s p' = Some (RemoteIdentity r') \<longrightarrow>
        ri_guid r = ri_guid r' \<longrightarrow> p = p')"
proof (intro conjI allI impI, goal_cases)
  have inv: "auth_inv s" by (rule plugin_reachable_inv [OF assms])
  have kind: "obj_kind obj \<noteq> SECURITY_OBJECT_KIND_IDENTITY_RELATION \<longleftrightarrow> \<not> is_relation (node_of obj)"
    if "heap s p = Some obj" for p obj
    using heap_wfD [OF auth_invD(1) [OF inv] that] by (cases obj) auto
  note ok = auth_invD(2) [OF inv]
  {
    case (1 p)
    show ?case
      using tables_okD(1) [OF auth_invD(3) [OF inv], of p] kind [of p] by (auto simp: graph_of_def)
  next
    case (2 p obj)
    then have "p \<in> set (objectHash s)"
      using tables_okD(1) [OF auth_invD(3) [OF inv], of p] kind [of p obj] by (auto simp: graph_of_def)
    then show ?case using inv_object_handle(1) [OF inv _ 2(1)] by simp
  next
    case (3 p hs) then show ?case using inv_handshake [OF inv] by metis
  next
    case (4 q rel) then show ?case using inv_relation [OF inv] by metis
  next
    case (5 p r q) then show ?case using inv_remote(6) [OF inv] by metis
  next
    case (6 q q' rel rel')
    have "so_handle rel = ir_localIdentity rel" "so_handle rel' = ir_localIdentity rel'"
      using inv_relation [OF inv 6(1)] inv_relation [OF inv 6(2)] by metis+
    then show ?case
      using 6 by (intro graph_ok_relation_unique [OF ok, of q "ir_localIdentity rel" "ir_remoteIdentity rel"])
        (auto simp: graph_of_iff)
  next
    case (7 p p' hs hs')
    then show ?case
      by (intro graph_ok_handshake_unique [OF ok, of p "so_handle hs" "hs_relation hs" "hs_created_in hs"])
        (auto simp: graph_of_iff)
  next
    case (8 p p' r r')
    then show ?case
      by (intro graph_ok_guid_unique [OF ok, of p "so_handle r" "ri_guid r" "ri_linkHash r"])
        (auto simp: graph_of_iff)
  }
qed

text \<open>
  C12: returning an identity handle frees the identity, its relations and their handshakes, and
  nothing else: an address is live afterwards exactly when it was live and does not belong to
  them.  A rejected handle changes nothing.
\<close>
theorem return_identity_handle_frees:
  assumes "plugin_reachable E s" and "return_identity_handle E True p s = Ret (res, s')"
  shows "case res of
      Inl e \<Rightarrow> s' = s
    | Inr _ \<Rightarrow>
        \<forall>x. heap s' x = None \<longleftrightarrow>
          heap s x = None \<or> x = p \<or>
          (\<exists>rel. heap s x = Some (Relation rel) \<and>
             (ir_localIdentity rel = p \<or> ir_remoteIdentity rel = p)) \<or>
          (\<exists>hs rel. heap s x = Some (Handshake hs) \<and> heap s (hs_relation hs) = Some (Relation rel) \<and>
             (ir_localIdentity rel = p \<or> ir_remoteIdentity rel = p))"
proof -
  have inv: "auth_inv s" "hash_table_laws E"
    using assms(1) plugin_reachable_inv [OF assms(1)] by (simp_all add: plugin_reachable_def)
  note wp = wp_return_identity_handle [OF inv(2,1), of True p, unfolded wp_def assms(2) outcome.case]
  show ?thesis
  proof (cases res)
    case (Inl e) then show ?thesis using wp by simp
  next
    case (Inr u)
    then have G: "graph_minus (graph_of (heap s)) (identity_objects (graph_of (heap s)) p) (graph_of (heap s'))"
      using wp by simp
    have freed: "heap s' x = None \<longleftrightarrow> heap s x = None \<or> x \<in> identity_objects (graph_of (heap s)) p" for x
      using graph_minus_iff(4) [OF G, of x] by auto
    show ?thesis
      unfolding Inr sum.case by (rule allI, rule freed [unfolded identity_objects_iff [OF inv(1)]])
  qed
qed

text \<open>
  C33: destroying an instance ends without a fault and frees every identity and handshake; what
  is left on the heap is exactly the relations, which no table holds: they leak.
\<close>
theorem finalize_leaves_relations:
  assumes "plugin_reachable E s"
  shows "\<exists>left s'. finalize_authentication E s = Ret (Inr left, s') \<and>
    (\<forall>p. left p = (case heap s p of Some (Relation rel) \<Rightarrow> Some (Relation rel) | _ \<Rightarrow> None))"
proof -
  have "wp (finalize_authentication E) s
    (\<lambda>left s'. left = heap s' \<and> objectHash s' = [] \<and> remoteGuidHash s' = [] \<and> dispatcher s' = [] \<and>
       (\<forall>p. left p = (case heap s p of Some (Relation rel) \<Rightarrow> Some (Relation rel) | _ \<Rightarrow> None)))
    (\<lambda>_. False) {}"
    by (rule wp_finalize [OF _ plugin_reachable_inv [OF assms]])
      (use assms in \<open>simp add: plugin_reachable_def\<close>)
  then show ?thesis
  proof (cases "finalize_authentication E s")
    case (Ret x)
    moreover obtain r s' where "x = (r, s')" by fastforce
    ultimately show ?thesis
      using \<open>wp (finalize_authentication E) s _ _ _\<close> by (cases r) (auto simp: wp_def)
  qed (simp add: wp_def)
qed

text \<open>
  C13: a local identity is accepted only with sound credentials: its certificate and CA parse,
  the private key belongs to the certificate, the CA signed the certificate and is trusted
  where a list of trusted CAs is configured, the certificate has a valid expiry date, and the
  returned GUID is the one adjusted to the certificate's subject.  The new object keeps them.
\<close>
theorem validate_local_identity_sound:
  assumes "plugin_reachable E s"
    and "validate_local_identity E True domain_id qos candidate s = Ret (Inr (p, adjusted), s')"
  shows "heap s p = None \<and>
    (\<exists>l t certPEM caPEM.
       heap s' p = Some (LocalIdentity l) \<and> li_adjustedGUID l = adjusted \<and>
       Property_get_value E qos DDS_SEC_PROP_AUTH_IDENTITY_CERT = Some certPEM \<and>
       Property_get_value E qos DDS_SEC_PROP_AUTH_IDENTITY_CA = Some caPEM \<and>
       load_X509_certificate E t caPEM = Inr (li_identityCA l) \<and>
       load_X509_certificate E (t + 1) certPEM = Inr (li_identityCert l) \<and>
       X509_check_private_key E (li_identityCert l) (li_privateKey l) = 1 \<and>
       verify_certificate E (t + 4) (li_identityCert l) (li_identityCA l) (li_crl l) = Inr () \<and>
       check_identity_ca_trusted E (trustedCAList s')
         (Property_get_value E qos ORG_ECLIPSE_CYCLONEDDS_SEC_AUTH_CRL) (li_identityCA l) = Inr () \<and>
       get_certificate_expiry E (t + 4) (li_identityCert l) \<noteq> DDS_TIME_INVALID \<and>
       get_adjusted_participant_guid E (li_identityCert l) candidate = Inr adjusted)"
proof -
  have inv: "auth_inv s" "hash_table_laws E"
    using assms(1) plugin_reachable_inv [OF assms(1)] by (simp_all add: plugin_reachable_def)
  note wp = wp_validate_local_identity [OF inv(2,1), of True domain_id qos candidate,
      unfolded wp_def assms(2) outcome.case prod.case sum.case]
  from wp obtain l t cr certPEM caPEM keyPEM where
    pem: "require_property E qos DDS_SEC_PROP_AUTH_IDENTITY_CERT = Inr certPEM"
      "require_property E qos DDS_SEC_PROP_AUTH_IDENTITY_CA = Inr caPEM"
    and load: "load_local_credentials E t (trustedCAList s') certPEM caPEM keyPEM
        (Property_get_value E qos DDS_SEC_PROP_AUTH_PASSWORD)
        (Property_get_value E qos ORG_ECLIPSE_CYCLONEDDS_SEC_AUTH_CRL) candidate = Inr cr"
    and l: "heap s' p = Some (LocalIdentity l)" "local_of_credentials cr l" "adjusted = cr_guid cr"
    by (elim conjE exE) (rule that)
  have "Property_get_value E qos DDS_SEC_PROP_AUTH_IDENTITY_CERT = Some certPEM"
    "Property_get_value E qos DDS_SEC_PROP_AUTH_IDENTITY_CA = Some caPEM"
    using pem by (simp_all add: require_property_def split: option.split_asm)
  moreover have "heap s p = None" using wp by simp
  ultimately show ?thesis
    using load l unfolding load_local_credentials_def local_of_credentials_def
    by (auto simp: Let_def intro!: exI [of _ t])
qed

text \<open>
  C14: registering a remote identity relates it to the local one: the handle returned is that of
  the live remote identity of the GUID, its relation to the local identity exists, the role
  follows from the order of the GUIDs, the challenge of a received request token is stored, and
  without one the answer carries the challenge generated for this relation.
\<close>
theorem validate_remote_identity_registers:
  assumes "plugin_reachable E s"
    and "validate_remote_identity E True request l token g s = Ret (Inr (role, r, answer), s')"
  shows "\<exists>lm rm q rel.
    heap s' l = Some (LocalIdentity lm) \<and> heap s' r = Some (RemoteIdentity rm) \<and>
    memcmp (guid_octets g) (guid_octets (ri_guid rm)) 16 = 0 \<and>
    heap s' q = Some (Relation rel) \<and> ir_localIdentity rel = l \<and> ir_remoteIdentity rel = r \<and>
    role = handshake_role_of (li_adjustedGUID lm) (ri_guid rm) \<and>
    (case request of
       None \<Rightarrow> \<exists>c. ir_lchallenge rel = Some c \<and> answer = fill_auth_request_token c
     | Some request_token \<Rightarrow> answer = token_nil \<and>
         (\<exists>c. validate_auth_request_token request_token = Inr c \<and> ir_rchallenge rel = Some c))"
proof -
  have inv: "auth_inv s" "hash_table_laws E"
    using assms(1) plugin_reachable_inv [OF assms(1)] by (simp_all add: plugin_reachable_def)
  have "remote_registered s' l g request (role, r, answer)"
    using wp_validate_remote_identity [OF inv(2,1), of True request l token g]
    by (simp add: wp_def assms(2))
  then show ?thesis unfolding remote_registered_def prod.case guid_eq_def by blast
qed

end
