(* ===== verification/Agreement.thy ===== *)
theory Agreement
  imports Plugin
begin

text \<open>
  A whole handshake between two instances: the request of one, the reply of the other, and the
  processing of the two answers.  When both sides report success, they hold the same secret and
  the same challenges.
\<close>

section \<open>Looking up what was sent\<close>

lemma oct_buffer_set:
  assumes "dds_data_laws E" and "oct_buffer (bp_value (BinaryProperty_set_by_value E n d)) = Some b"
  shows "b = d"
  using dds_data_lawsD(4) [OF assms(1), of n d] assms(2) by (simp add: oct_data_def)

lemma oct_length_set: "dds_data_laws E \<Longrightarrow> oct_length (bp_value (BinaryProperty_set_by_value E n d)) = length d"
  using dds_data_lawsD(3,4) [of E n d] by (simp add: oct_wf_def)

text \<open>The name of the key agreement survives the way from one participant to the other.\<close>

lemma kagree_name_received:
  assumes laws: "dds_data_laws E" and kind: "get_kem_openssl_name_by_kind kind = Some name"
  shows "get_kagree_algo_from_octseq (Some (bp_value (BinaryProperty_set_by_value E n
    (cstring_octets (get_kagree_algo kind))))) = kind"
proof -
  let ?q = "bp_value (BinaryProperty_set_by_value E n (cstring_octets (get_kagree_algo kind)))"
  obtain a where a: "find_by_kind kem_algorithms kind = Some a"
    using kind by (auto simp: get_kem_openssl_name_by_kind_def split: option.split_asm)
  note member = kem.by_kind_Some [OF a]
  have "kind \<noteq> AUTH_ALGO_KIND_UNKNOWN" using a by (auto simp: unknown_kind_no_info)
  moreover have "oct_data ?q = cstring_octets (wire_name a)"
    using a by (simp add: dds_data_lawsD(4) [OF laws] get_kagree_algo_def)
  ultimately show ?thesis
    unfolding get_kagree_algo_from_octseq_def
    using kem.wire_kind_sound_complete [OF dds_data_lawsD(3) [OF laws], of kind n] member by metis
qed

lemma request_lookups:
  assumes "dds_data_laws E" and m: "m = handshake_message cls (request_properties E optional
    (credential_properties E cert perm pdata dsign kagree) hash pk challenge)"
  shows "find_binary_property E m DDS_AUTHTOKEN_PROP_C_KAGREE_ALGO = Some (BinaryProperty_set_by_value E
      DDS_AUTHTOKEN_PROP_C_KAGREE_ALGO (cstring_octets (get_kagree_algo kagree)))"
    and "find_binary_property E m DDS_AUTHTOKEN_PROP_KEM_PUBLIC =
      Some (BinaryProperty_set_by_value E DDS_AUTHTOKEN_PROP_KEM_PUBLIC pk)"
    and "find_binary_property E m DDS_AUTHTOKEN_PROP_CHALLENGE1 =
      Some (BinaryProperty_set_by_value E DDS_AUTHTOKEN_PROP_CHALLENGE1 challenge)"
  by (simp_all add: m dds_data_lawsD(1,2,6) [OF assms(1)] handshake_message_def
      request_properties_def credential_properties_def prop_name_defs)

lemma reply_lookups:
  assumes "dds_data_laws E" and m: "m = handshake_message cls (credential_properties E cert perm pdata dsign kagree @
    [BinaryProperty_set_by_value E DDS_AUTHTOKEN_PROP_KEM_CIPHERTEXT ct,
     BinaryProperty_set_by_value E DDS_AUTHTOKEN_PROP_KEM_PUBLIC key,
     BinaryProperty_set_by_value E DDS_AUTHTOKEN_PROP_CHALLENGE1 challenge1,
     BinaryProperty_set_by_value E DDS_AUTHTOKEN_PROP_CHALLENGE2 challenge2] @ rest)"
  shows "find_binary_property E m DDS_AUTHTOKEN_PROP_KEM_CIPHERTEXT =
      Some (BinaryProperty_set_by_value E DDS_AUTHTOKEN_PROP_KEM_CIPHERTEXT ct)"
    and "find_binary_property E m DDS_AUTHTOKEN_PROP_CHALLENGE1 =
      Some (BinaryProperty_set_by_value E DDS_AUTHTOKEN_PROP_CHALLENGE1 challenge1)"
    and "find_binary_property E m DDS_AUTHTOKEN_PROP_CHALLENGE2 =
      Some (BinaryProperty_set_by_value E DDS_AUTHTOKEN_PROP_CHALLENGE2 challenge2)"
  by (simp_all add: m dds_data_lawsD(1,2,6) [OF assms(1)] handshake_message_def
      credential_properties_def prop_name_defs)

lemma final_lookups:
  assumes "dds_data_laws E" and m: "m = handshake_message cls
    ([BinaryProperty_set_by_value E DDS_AUTHTOKEN_PROP_CHALLENGE1 challenge1,
      BinaryProperty_set_by_value E DDS_AUTHTOKEN_PROP_CHALLENGE2 challenge2] @ rest)"
  shows "find_binary_property E m DDS_AUTHTOKEN_PROP_CHALLENGE1 =
      Some (BinaryProperty_set_by_value E DDS_AUTHTOKEN_PROP_CHALLENGE1 challenge1)"
    and "find_binary_property E m DDS_AUTHTOKEN_PROP_CHALLENGE2 =
      Some (BinaryProperty_set_by_value E DDS_AUTHTOKEN_PROP_CHALLENGE2 challenge2)"
  by (simp_all add: m dds_data_lawsD(1,2) [OF assms(1)] handshake_message_def prop_name_defs)

text \<open>A challenge of the required size that passes the comparison is the one stored.\<close>

lemma challenge_received:
  assumes laws: "dds_data_laws E"
    and "find_binary_property E m n = Some (BinaryProperty_set_by_value E n challenge)"
    and "find_required_binprop_exactsize E m n AUTHENTICATION_CHALLENGE_SIZE = Inr p"
  shows "length challenge = AUTHENTICATION_CHALLENGE_SIZE" and "oct_data (bp_value p) = challenge"
    and "same_challenge stored p \<Longrightarrow> length stored = AUTHENTICATION_CHALLENGE_SIZE \<Longrightarrow> stored = challenge"
proof -
  have p: "p = BinaryProperty_set_by_value E n challenge"
    "oct_length (bp_value p) = AUTHENTICATION_CHALLENGE_SIZE"
    using assms(2,3) by (simp_all add: find_exactsize_ok)
  show len: "length challenge = AUTHENTICATION_CHALLENGE_SIZE" using p oct_length_set [OF laws] by simp
  show data: "oct_data (bp_value p) = challenge" using p dds_data_lawsD(4) [OF laws] by simp
  assume "same_challenge stored p" "length stored = AUTHENTICATION_CHALLENGE_SIZE"
  then show "stored = challenge" using len data by (simp add: same_challenge_def memcmp_eq_0_iff)
qed

section \<open>The two sides\<close>

lemma ctx_at_unique: "ctx_at s h c \<Longrightarrow> ctx_at s h c' \<Longrightarrow> c = c'"
  by (auto simp: ctx_at_def intro: hs_ctx.equality)

lemma request_outcome:
  assumes "plugin_reachable E s" and "begin_handshake_request E nn l r pdata s = Ret (Inr (h, m), s')"
  obtains c where "ctx_at s' h c" "request_sent E c m" "auth_inv s'"
  using wp_begin_handshake_request [OF _ plugin_reachable_inv [OF assms(1)], of E nn l r pdata] assms
  by (auto simp: wp_def plugin_reachable_def)

lemma reply_outcome:
  assumes "plugin_reachable E s" and "begin_handshake_reply E nn msg r l pdata s = Ret (Inr (h, m), s')"
  obtains c where "ctx_at s' h c" "reply_sent E msg c m" "auth_inv s'"
  using wp_begin_handshake_reply [OF _ plugin_reachable_inv [OF assms(1)], of E nn msg r l pdata] assms
  by (auto simp: wp_def plugin_reachable_def)

lemma process_outcome:
  assumes "hash_table_laws E" and "auth_inv s" and "ctx_at s h c"
    and "process_handshake E nn msg h s = Ret (Inr res, s')"
  obtains c' where "ctx_at s' h c'" "answer_processed E msg c res c'"
  using wp_process_handshake [OF assms(1,2), of nn msg h] assms(3,4) ctx_at_unique
  by (fastforce simp: wp_def)

text \<open>The KEM secrets of a request and its reply, as the initiator recovers them.\<close>

lemma exchanged_kem_secret:
  assumes kem: "kem_correct E" and laws: "dds_data_laws E"
    and request: "request_sent E cA request" and reply: "reply_sent E request cB reply"
    and accepted: "reply_decapsulated E t optional trusted reply cA c1"
  shows "\<exists>ss. kem_ss (hs_kem (cx_handshake cB)) = Some ss \<and> kem_ss (hs_kem (cx_handshake c1)) = Some ss"
proof -
  let ?kind = "li_kagreeAlgoKind (cx_local cA)"
  from request obtain t1 kp pk opt1 cert perm pdata dsign hash where
    kp: "hs_kem_keypair (cx_handshake cA) = Some kp" "kp_public_key kp = Some pk"
    and gen: "pqsec_kem_keypair_generate E t1 ?kind True = (True, Some kp)"
    and m1: "request = handshake_message DDS_AUTHTOKEN_REQ_CLASS_ID (request_properties E opt1
      (credential_properties E cert perm pdata dsign ?kind) hash pk (the (ir_lchallenge (cx_relation cA))))"
    unfolding request_sent_def by blast
  note sent = request_lookups [OF laws m1]
  have name: "get_kem_openssl_name_by_kind ?kind \<noteq> None" using gen by (auto elim: kem_generate_SomeE)
  have kind: "get_kagree_algo_from_octseq (Some (bp_value (BinaryProperty_set_by_value E n
      (cstring_octets (get_kagree_algo ?kind))))) = ?kind" for n
    using name kagree_name_received [OF laws] by blast
  from reply obtain t2 p bufs ct cert2 perm2 pdata2 dsign2 kagree2 key rest where
    enc: "pqsec_kem_encapsulate E t2 ?kind (oct_buffer (bp_value p)) True bufs =
      (True, hs_kem (cx_handshake cB))"
    and p: "p = BinaryProperty_set_by_value E DDS_AUTHTOKEN_PROP_KEM_PUBLIC pk"
    and ct: "kem_ct (hs_kem (cx_handshake cB)) = Some ct"
    and m2: "reply = handshake_message DDS_AUTHTOKEN_REPLY_CLASS_ID
          (credential_properties E cert2 perm2 pdata2 dsign2 kagree2 @
           [BinaryProperty_set_by_value E DDS_AUTHTOKEN_PROP_KEM_CIPHERTEXT ct,
            BinaryProperty_set_by_value E DDS_AUTHTOKEN_PROP_KEM_PUBLIC key,
            BinaryProperty_set_by_value E DDS_AUTHTOKEN_PROP_CHALLENGE1 (the (ir_rchallenge (cx_relation cB))),
            BinaryProperty_set_by_value E DDS_AUTHTOKEN_PROP_CHALLENGE2 (the (ir_lchallenge (cx_relation cB)))] @
           rest)"
    unfolding reply_sent_def by (auto simp: sent kind)
  have pk: "oct_buffer (bp_value p) = kp_public_key kp"
    using enc p kp(2) oct_buffer_set [OF laws] by (auto elim: kem_encapsulate_TrueE)
  from accepted obtain c0 q b where
    val: "validate_handshake_token_impl E t optional trusted reply HS_TOKEN_REPLY cA = Ret (Inr (), c0)"
    and q: "find_binary_property E reply DDS_AUTHTOKEN_PROP_KEM_CIPHERTEXT = Some q"
    and dec: "pqsec_kem_decapsulate E t (hs_kem_keypair (cx_handshake c0)) (oct_buffer (bp_value q)) True
      (hs_kem (cx_handshake c0)) = (True, b)"
    and c1: "c1 = c0\<lparr>cx_handshake := (cx_handshake c0)\<lparr>hs_kem := b\<rparr>\<rparr>"
    unfolding reply_decapsulated_def by blast
  have keypair: "hs_kem_keypair (cx_handshake c0) = Some kp"
    using val kp(1) by (auto elim!: validate_token_impl_reply_ok simp: with_hash_def)
  have "q = BinaryProperty_set_by_value E DDS_AUTHTOKEN_PROP_KEM_CIPHERTEXT ct"
    using q reply_lookups(1) [OF laws m2] by simp
  then have "oct_buffer (bp_value q) = kem_ct (hs_kem (cx_handshake cB))"
    using dec ct oct_buffer_set [OF laws] by (auto elim: kem_decapsulate_TrueE)
  then show ?thesis
    using kem_secrets_agree [OF kem gen enc [unfolded pk]] dec keypair c1 by fastforce
qed

lemma exchanged_challenges:
  assumes laws: "dds_data_laws E"
    and request: "request_sent E cA request" and reply: "reply_sent E request cB reply"
    and accepted: "reply_decapsulated E t optional trusted reply cA c1"
    and final: "m3 = handshake_message DDS_AUTHTOKEN_FINAL_CLASS_ID
      ([BinaryProperty_set_by_value E DDS_AUTHTOKEN_PROP_CHALLENGE1 (the (ir_lchallenge (cx_relation c1))),
        BinaryProperty_set_by_value E DDS_AUTHTOKEN_PROP_CHALLENGE2 (the (ir_rchallenge (cx_relation c1)))] @
       rest3)"
    and confirmed: "validate_handshake_token_impl E t' optional' trusted' m3 HS_TOKEN_FINAL cB = Ret (Inr (), cB')"
  shows "the (ir_lchallenge (cx_relation c1)) = the (ir_rchallenge (cx_relation cB))"
    and "the (ir_rchallenge (cx_relation c1)) = the (ir_lchallenge (cx_relation cB))"
    and "length (the (ir_rchallenge (cx_relation cB))) = AUTHENTICATION_CHALLENGE_SIZE"
    and "length (the (ir_lchallenge (cx_relation cB))) = AUTHENTICATION_CHALLENGE_SIZE"
proof -
  define lA where "lA = the (ir_lchallenge (cx_relation cA))"
  define lB where "lB = the (ir_lchallenge (cx_relation cB))"
  define rB where "rB = the (ir_rchallenge (cx_relation cB))"
  define rA where "rA = the (ir_rchallenge (cx_relation c1))"
  from request obtain opt1 cert perm pdata dsign hash pk kagree where
    m1: "request = handshake_message DDS_AUTHTOKEN_REQ_CLASS_ID (request_properties E opt1
      (credential_properties E cert perm pdata dsign kagree) hash pk lA)"
    unfolding request_sent_def lA_def by blast
  from reply obtain ct cert2 perm2 pdata2 dsign2 kagree2 key rest ch where
    ch: "find_required_binprop_exactsize E request DDS_AUTHTOKEN_PROP_CHALLENGE1
      AUTHENTICATION_CHALLENGE_SIZE = Inr ch" "same_challenge rB ch"
    and m2: "reply = handshake_message DDS_AUTHTOKEN_REPLY_CLASS_ID
          (credential_properties E cert2 perm2 pdata2 dsign2 kagree2 @
           [BinaryProperty_set_by_value E DDS_AUTHTOKEN_PROP_KEM_CIPHERTEXT ct,
            BinaryProperty_set_by_value E DDS_AUTHTOKEN_PROP_KEM_PUBLIC key,
            BinaryProperty_set_by_value E DDS_AUTHTOKEN_PROP_CHALLENGE1 rB,
            BinaryProperty_set_by_value E DDS_AUTHTOKEN_PROP_CHALLENGE2 lB] @ rest)"
    unfolding reply_sent_def lB_def rB_def by blast
  from accepted obtain c0 b where
    val: "validate_handshake_token_impl E t optional trusted reply HS_TOKEN_REPLY cA = Ret (Inr (), c0)"
    and c1: "c1 = c0\<lparr>cx_handshake := (cx_handshake c0)\<lparr>hs_kem := b\<rparr>\<rparr>"
    unfolding reply_decapsulated_def by blast
  from val obtain ch1 and rp :: reply_properties where
    ch1: "find_required_binprop_exactsize E reply DDS_AUTHTOKEN_PROP_CHALLENGE1
      AUTHENTICATION_CHALLENGE_SIZE = Inr ch1"
    and ch2: "find_required_binprop_exactsize E reply DDS_AUTHTOKEN_PROP_CHALLENGE2
       AUTHENTICATION_CHALLENGE_SIZE = Inr (rp_challenge2 rp)"
    and agrees: "rchallenge_agrees (rp_challenge2 rp) (cx_relation cA)"
    and rel: "cx_relation c0 = with_rchallenge (rp_challenge2 rp) (cx_relation cA)"
    by (rule validate_token_impl_reply_ok) simp
  from confirmed obtain ch3 where
    ch3: "find_required_binprop_exactsize E m3 DDS_AUTHTOKEN_PROP_CHALLENGE2
       AUTHENTICATION_CHALLENGE_SIZE = Inr ch3"
    by (rule validate_token_impl_final_ok) blast
  note r1 = challenge_received [OF laws reply_lookups(2) [OF laws m2] ch1]
  note r2 = challenge_received [OF laws reply_lookups(3) [OF laws m2] ch2]
  note r3 = challenge_received [OF laws final_lookups(2) [OF laws final] ch3, folded rA_def]
  have "rB = lA"
    by (rule challenge_received(3) [OF laws request_lookups(3) [OF laws m1] ch(1) ch(2) r1(1)])
  moreover have "the (ir_lchallenge (cx_relation c1)) = lA"
    using c1 rel by (simp add: with_rchallenge_def lA_def)
  moreover have "rA = lB"
  proof (cases "ir_rchallenge (cx_relation cA)")
    case None
    then show ?thesis using c1 rel r2(1,2) by (simp add: rA_def with_rchallenge_def)
  next
    case (Some stored)
    then have "rA = stored" using c1 rel by (simp add: rA_def with_rchallenge_def)
    then show ?thesis using r2(3) [of rA] r3(1) agrees Some by (simp add: rchallenge_agrees_def)
  qed
  ultimately show "the (ir_lchallenge (cx_relation c1)) = the (ir_rchallenge (cx_relation cB))"
    "the (ir_rchallenge (cx_relation c1)) = the (ir_lchallenge (cx_relation cB))"
    "length (the (ir_rchallenge (cx_relation cB))) = AUTHENTICATION_CHALLENGE_SIZE"
    "length (the (ir_lchallenge (cx_relation cB))) = AUTHENTICATION_CHALLENGE_SIZE"
    using r1(1) r2(1) by (simp_all add: lA_def lB_def rB_def rA_def)
qed

section \<open>Properties\<close>

text \<open>
  C3: a completed handshake agrees: when one instance sends a request, another answers it, the
  first accepts the reply and the second its final message, then both handshakes hold the same
  shared secret record: the same 32-octet secret, and the same two 32-octet challenges in the
  same order.  Whatever else the two instances did before is arbitrary; OpenSSL's KEM is assumed
  to be correct.
\<close>
theorem handshake_agreement:
  assumes "kem_correct E" and "dds_data_laws E"
    and "plugin_reachable E sA" and "plugin_reachable E sB"
    and "begin_handshake_request E True lA rB pdataA sA = Ret (Inr (hA, request), sA1)"
    and "begin_handshake_reply E True request rA lB pdataB sB = Ret (Inr (hB, reply), sB1)"
    and "process_handshake E True reply hA sA1 = Ret (Inr (OK_FINAL_MESSAGE final), sA2)"
    and "process_handshake E True final hB sB1 = Ret (Inr OK, sB2)"
  shows "\<exists>hsA hsB implA implB secret.
    heap sA2 hA = Some (Handshake hsA) \<and> hs_secret hsA = Some (implA, secret) \<and>
    heap sB2 hB = Some (Handshake hsB) \<and> hs_secret hsB = Some (implB, secret) \<and>
    length (ss_shared_secret secret) = 32 \<and> ss_shared_secret_size secret = 32 \<and>
    length (ss_challenge1 secret) = 32 \<and> length (ss_challenge2 secret) = 32"
proof -
  note laws = assms(2)
  have tables: "hash_table_laws E" using assms(3) by (simp add: plugin_reachable_def)
  obtain cA where cA: "ctx_at sA1 hA cA" "request_sent E cA request" "auth_inv sA1"
    by (rule request_outcome [OF assms(3,5)])
  obtain cB where cB: "ctx_at sB1 hB cB" "reply_sent E request cB reply" "auth_inv sB1"
    by (rule reply_outcome [OF assms(4,6)])
  obtain dA where dA: "ctx_at sA2 hA dA" "answer_processed E reply cA (OK_FINAL_MESSAGE final) dA"
    by (rule process_outcome [OF tables cA(3,1) assms(7)])
  obtain dB where dB: "ctx_at sB2 hB dB" "answer_processed E final cB OK dB"
    by (rule process_outcome [OF tables cB(3,1) assms(8)])
  from dA(2) obtain t opt trusted c1 rest where
    roleA: "hs_created_in (cx_handshake cA) = CREATEDREQUEST"
    and acc: "reply_decapsulated E t opt trusted reply cA c1" "secret_derived E c1 dA"
    and fin: "final = handshake_message DDS_AUTHTOKEN_FINAL_CLASS_ID
      ([BinaryProperty_set_by_value E DDS_AUTHTOKEN_PROP_CHALLENGE1 (the (ir_lchallenge (cx_relation c1))),
        BinaryProperty_set_by_value E DDS_AUTHTOKEN_PROP_CHALLENGE2 (the (ir_rchallenge (cx_relation c1)))] @
       rest)"
    unfolding answer_processed_def handshake_result.case by blast
  from dB(2) obtain t' opt' trusted' where
    roleB: "hs_created_in (cx_handshake cB) = CREATEDREPLY"
    and conf: "validate_handshake_token_impl E t' opt' trusted' final HS_TOKEN_FINAL cB = Ret (Inr (), cB)"
      "secret_derived E cB dB"
    unfolding answer_processed_def handshake_result.case by blast
  note ch = exchanged_challenges [OF laws cA(2) cB(2) acc(1) fin conf(1)]
  have role1: "hs_created_in (cx_handshake c1) = CREATEDREQUEST"
    using acc(1) roleA unfolding reply_decapsulated_def
    by (auto elim!: validate_token_impl_reply_ok simp: with_hash_def)
  obtain ss where ss: "kem_ss (hs_kem (cx_handshake cB)) = Some ss" "kem_ss (hs_kem (cx_handshake c1)) = Some ss"
    using exchanged_kem_secret [OF assms(1) laws cA(2) cB(2) acc(1)] by blast
  define secret where "secret = derived_secret E cB (SHA256 E ss)"
  have "derived_secret E c1 (SHA256 E ss) = secret"
    using role1 roleB ch(1,2) by (simp add: secret_def derived_secret_def)
  then obtain implA implB where "hs_secret (cx_handshake dA) = Some (implA, secret)"
    "hs_secret (cx_handshake dB) = Some (implB, secret)"
    using acc(2) conf(2) ss unfolding secret_derived_def secret_def by auto
  moreover have "length (ss_shared_secret secret) = 32" "ss_shared_secret_size secret = 32"
    "length (ss_challenge1 secret) = 32" "length (ss_challenge2 secret) = 32"
    using roleB ch(3,4) dds_data_lawsD(7) [OF laws]
    by (simp_all add: secret_def derived_secret_def SHA256_DIGEST_LENGTH_def AUTHENTICATION_CHALLENGE_SIZE_def)
  ultimately show ?thesis using dA(1) dB(1) unfolding ctx_at_def by blast
qed

end
