(* ===== verification/Demo.thy ===== *)
theory Demo
  imports Lifecycle
begin

text \<open>
  A concrete environment in which every law the development assumes holds, and a complete
  handshake between two participants run in it.  The witnesses of the properties with
  hypotheses evaluate the model here.

  Keys and certificates are numbers below 256: certificate \<open>n\<close> holds public key \<open>n\<close>, which
  belongs to private key \<open>n\<close>; its PEM text is the one octet \<open>n\<close>, and certificate 67 (the letter C)
  is the authority.  The schemes are toys with the documented algebra: a signature is the key
  and a checksum, a shared secret is the key and a random octet carried in the ciphertext.
\<close>

fun pkey_id :: "evp_pkey \<Rightarrow> nat" where "pkey_id (EVP_PKEY n) = n"
fun cert_id :: "x509 \<Rightarrow> nat" where "cert_id (X509 n) = n"

definition octet_of_int :: "int \<Rightarrow> octet" where "octet_of_int i = word_of_int i"

definition octet_of_nat :: "nat \<Rightarrow> octet" where "octet_of_nat n = octet_of_int (int n)"

text \<open>The sum of the octets, computed on integers.\<close>

fun sum_octets :: "bytes \<Rightarrow> int" where
  "sum_octets [] = 0"
| "sum_octets (x # xs) = uint x + sum_octets xs"

definition checksum :: "bytes \<Rightarrow> octet" where
  "checksum b = octet_of_int (sum_octets b mod 256)"

definition demo_sha :: "bytes \<Rightarrow> bytes" where
  "demo_sha b = take 32 (take 6 b @ replicate 32 0)"

definition demo_sign :: "nat \<Rightarrow> bytes \<Rightarrow> bytes" where
  "demo_sign n msg = [octet_of_nat n, checksum msg]"

fun first_octet :: "bytes option \<Rightarrow> octet" where
  "first_octet (Some (x # xs)) = x"
| "first_octet _ = 0"

text \<open>The serialization of a list of properties: the first octet of each.\<close>

definition demo_serialize :: "bin_property list \<Rightarrow> bytes" where
  "demo_serialize ps = map (\<lambda>p. first_octet (oct_buffer (bp_value p))) ps"

definition demo_set_by_value :: "string \<Rightarrow> bytes \<Rightarrow> bin_property" where
  "demo_set_by_value n d = \<lparr>bp_name = Some n, bp_value = octets_to_seq d, bp_propagate = True\<rparr>"

definition demo_malloc :: "nat \<Rightarrow> (addr \<Rightarrow> bool) \<Rightarrow> addr option" where
  "demo_malloc t used =
     (let a = word_of_nat (t + 4096) in if a = 0 \<or> used a then None else Some a)"

text \<open>Functions that ignore their arguments.\<close>

definition const1 :: "'r \<Rightarrow> 'a \<Rightarrow> 'r" where "const1 v a = v"
definition const2 :: "'r \<Rightarrow> 'a \<Rightarrow> 'b \<Rightarrow> 'r" where "const2 v a b = v"
definition const3 :: "'r \<Rightarrow> 'a \<Rightarrow> 'b \<Rightarrow> 'c \<Rightarrow> 'r" where "const3 v a b c = v"
definition const4 :: "'r \<Rightarrow> 'a \<Rightarrow> 'b \<Rightarrow> 'c \<Rightarrow> 'd \<Rightarrow> 'r" where "const4 v a b c d = v"

lemmas const_defs = const1_def const2_def const3_def const4_def

text \<open>Keys, signatures and KEM.\<close>

definition demo_pubkey :: "x509 \<Rightarrow> evp_pkey option" where
  "demo_pubkey c = Some (EVP_PKEY (cert_id c))"
definition demo_is_a :: "evp_pkey \<Rightarrow> string \<Rightarrow> bool" where
  "demo_is_a k n = (n = ''ML-DSA-65'')"
definition demo_generate :: "nat \<Rightarrow> string \<Rightarrow> int \<times> evp_pkey option" where
  "demo_generate t n = (1, Some (EVP_PKEY (t mod 256)))"
definition demo_encode :: "evp_pkey \<Rightarrow> bytes" where
  "demo_encode k = replicate 65 (octet_of_nat (pkey_id k))"
definition demo_raw :: "evp_pkey \<Rightarrow> int \<times> bytes" where
  "demo_raw k = (1, demo_encode k)"
definition demo_fromdata :: "nat \<Rightarrow> string \<Rightarrow> bytes \<Rightarrow> int \<times> evp_pkey option" where
  "demo_fromdata t n b = (1, Some (EVP_PKEY (unat (hd b))))"
definition demo_encapsulate :: "nat \<Rightarrow> evp_pkey \<Rightarrow> int \<times> bytes \<times> bytes" where
  "demo_encapsulate t k =
     (1, replicate 65 (octet_of_nat t), [octet_of_nat (pkey_id k), octet_of_nat t])"
definition demo_decapsulate :: "nat \<Rightarrow> evp_pkey \<Rightarrow> bytes \<Rightarrow> int \<times> bytes" where
  "demo_decapsulate t k ct = (1, [octet_of_nat (pkey_id k), hd ct])"
definition demo_digest_sign :: "nat \<Rightarrow> evp_pkey \<Rightarrow> bytes \<Rightarrow> int \<times> bytes" where
  "demo_digest_sign t k d = (1, demo_sign (pkey_id k) d)"
definition demo_digest_verify :: "nat \<Rightarrow> evp_pkey \<Rightarrow> bytes \<Rightarrow> bytes \<Rightarrow> int" where
  "demo_digest_verify t k s d = (if s = demo_sign (pkey_id k) d then 1 else 0)"

text \<open>Certificates.\<close>

definition demo_subject :: "x509 \<Rightarrow> x509_name option" where
  "demo_subject c = Some (X509_NAME (cert_id c))"
fun demo_i2d :: "x509_name \<Rightarrow> int \<times> bytes" where
  "demo_i2d (X509_NAME i) = (1, [octet_of_nat i])"
definition demo_cmp_time :: "nat \<Rightarrow> asn1_time option \<Rightarrow> int" where
  "demo_cmp_time t a = (if a = Some (ASN1_TIME 0) then -1 else 1)"
fun demo_read_x509 :: "bytes \<Rightarrow> x509 option" where
  "demo_read_x509 [x] = Some (X509 (unat x))"
| "demo_read_x509 _ = None"
fun demo_read_key :: "bytes \<Rightarrow> string \<Rightarrow> evp_pkey option" where
  "demo_read_key [x] p = Some (EVP_PKEY (unat x))"
| "demo_read_key _ p = None"
definition demo_write_x509 :: "x509 \<Rightarrow> bytes option" where
  "demo_write_x509 c = Some [octet_of_nat (cert_id c)]"
definition demo_verify_cert :: "nat \<Rightarrow> x509 \<Rightarrow> x509_crl option \<Rightarrow> x509 \<Rightarrow> int" where
  "demo_verify_cert t ca crl c = (if cert_id ca = 67 then 1 else 0)"
definition demo_sha1 :: "x509 \<Rightarrow> bool \<times> bytes" where
  "demo_sha1 c = (True, replicate 20 (octet_of_nat (cert_id c)))"
definition demo_check_key :: "x509 \<Rightarrow> evp_pkey \<Rightarrow> int" where
  "demo_check_key c k = (if cert_id c = pkey_id k then 1 else 0)"

text \<open>Randomness, tokens, tables.\<close>

definition demo_rand :: "nat \<Rightarrow> int \<times> bytes" where
  "demo_rand t = (1, replicate 32 (octet_of_nat t))"
definition demo_find_prop :: "data_holder \<Rightarrow> string \<Rightarrow> bin_property option" where
  "demo_find_prop h n = find (\<lambda>p. bp_name p = Some n) (dh_binary_properties h)"
definition demo_holder_eq :: "data_holder \<Rightarrow> data_holder \<Rightarrow> bool" where
  "demo_holder_eq h k = (h = k)"
definition demo_set_by_string :: "string \<Rightarrow> string \<Rightarrow> bin_property" where
  "demo_set_by_string n s = demo_set_by_value n (cstring_octets s)"
definition demo_key_of_pdata :: "bytes \<Rightarrow> bytes vres" where
  "demo_key_of_pdata b = Inr (take 12 (b @ replicate 12 0))"
definition demo_hh_add :: "(addr \<Rightarrow> bool) \<Rightarrow> addr \<Rightarrow> addr list \<Rightarrow> bool \<times> addr list" where
  "demo_hh_add eq x xs = (if list_ex eq xs then (False, xs) else (True, x # xs))"
definition demo_hh_remove :: "(addr \<Rightarrow> bool) \<Rightarrow> addr list \<Rightarrow> addr list" where
  "demo_hh_remove eq xs = filter (\<lambda>x. \<not> eq x) xs"
definition demo_hh_iter :: "addr list \<Rightarrow> addr list" where "demo_hh_iter xs = remdups xs"
definition demo_timer :: "nat \<Rightarrow> nat" where "demo_timer t = t + 1"

text \<open>A participant's configuration: its properties as a list.\<close>

type_synonym demo_qos = "(security_property \<times> string) list"

definition demo_property :: "demo_qos \<Rightarrow> security_property \<Rightarrow> string option" where
  "demo_property q k = map_of q k"

definition demo :: "demo_qos cyclone" where
  "demo =
    \<lparr>X509_get_pubkey = demo_pubkey,
     EVP_PKEY_is_a = demo_is_a,
     EVP_PKEY_get_bits = const1 0,
     EVP_PKEY_id = const1 (EVP_PKEY_OTHER 0),
     EVP_PKEY_can_sign = const1 True,
     EVP_PKEY_CTX_new_from_name = const2 True,
     EVP_PKEY_keygen_init = const2 1,
     EVP_PKEY_generate = demo_generate,
     EVP_PKEY_get1_encoded_public_key = demo_encode,
     EVP_PKEY_raw_public_key_size = const1 (1, 65),
     EVP_PKEY_get_raw_public_key = demo_raw,
     OPENSSL_malloc = const2 True,
     calloc = const1 True,
     EVP_PKEY_fromdata_init = const2 1,
     EVP_PKEY_fromdata = demo_fromdata,
     EVP_PKEY_new_raw_public_key_ex = const3 None,
     EVP_PKEY_CTX_new_from_pkey = const2 True,
     EVP_PKEY_encapsulate_init = const2 1,
     EVP_PKEY_encapsulate_sizes = const2 (1, 65, 2),
     EVP_PKEY_encapsulate = demo_encapsulate,
     EVP_PKEY_decapsulate_init = const2 1,
     EVP_PKEY_decapsulate_size = const3 (1, 2),
     EVP_PKEY_decapsulate = demo_decapsulate,
     X509_get_subject_name = demo_subject,
     X509_NAME_oneline = const1 ''CN'',
     i2d_X509_NAME_length = const1 1,
     i2d_X509_NAME = demo_i2d,
     X509_get_notBefore = const1 (ASN1_TIME 0),
     X509_get_notAfter = const1 (Some (ASN1_TIME 1)),
     X509_cmp_current_time = demo_cmp_time,
     ASN1_TIME_diff = const2 (1, 1, 10),
     dds_time = const1 1000,
     EVP_PKEY_private_check = const1 1,
     EVP_PKEY_public_check = const1 1,
     EVP_PKEY_bits = const1 0,
     RSA_check_key = const1 None,
     EC_KEY_check_key = const1 None,
     BIO_new = const1 True,
     BIO_write = const2 1,
     PEM_read_bio_X509 = demo_read_x509,
     PEM_read_bio_PrivateKey = demo_read_key,
     PEM_read_bio_X509_CRL = const1 None,
     PEM_write_bio_X509 = demo_write_x509,
     X509_STORE_new = const1 True,
     X509_STORE_add_cert = const2 1,
     X509_STORE_add_crl = const2 1,
     X509_STORE_CTX_new = const1 True,
     X509_STORE_CTX_init = const2 1,
     X509_verify_cert = demo_verify_cert,
     RAND_bytes = demo_rand,
     fopen = const2 None,
     ddsrt_file_normalize = Some,
     ddsrt_file_sep = ''/'',
     ddsrt_opendir = const2 None,
     ddsrt_stat = const2 False,
     find_binary_property = demo_find_prop,
     DataHolder_equal = demo_holder_eq,
     BinaryProperty_set_by_value = demo_set_by_value,
     BinaryProperty_set_by_string = demo_set_by_string,
     Serialize_BinaryPropertySeq = demo_serialize,
     Serialize_BinaryPropertyArray = demo_serialize,
     Serializer_new = const1 True,
     SHA256 = demo_sha,
     Deserializer_new = const1 True,
     ParticipantBuiltinTopicData_alloc = const1 True,
     Deserialize_participant_key = demo_key_of_pdata,
     EVP_MD_CTX_new = const1 True,
     EVP_DigestSignInit_ex = const2 1,
     EVP_DigestSign_size = const3 (1, 2),
     EVP_DigestSign = demo_digest_sign,
     EVP_DigestVerifyInit_ex = const2 1,
     EVP_DigestVerify = demo_digest_verify,
     EVP_DigestSignVerifyInit = const3 1,
     EVP_PKEY_CTX_set_rsa_pss = const2 1,
     EVP_DigestSignVerifyUpdate = const4 1,
     EVP_DigestSignFinal_size = const3 (1, 2),
     EVP_DigestSignFinal = demo_digest_sign,
     EVP_DigestVerifyFinal = demo_digest_verify,
     malloc_ok = const2 True,
     ddsrt_malloc = demo_malloc,
     hh_lookup = find,
     hh_add = demo_hh_add,
     hh_remove = demo_hh_remove,
     hh_iter = demo_hh_iter,
     timed_dispatcher_add = demo_timer,
     Property_get_value = demo_property,
     X509_digest_sha1 = demo_sha1,
     X509_check_private_key = demo_check_key,
     getenv_provider = None,
     PQSEC_FALLBACK_PROVIDER = None,
     OSSL_PROVIDER_try_load = const2 True,
     SELECTED_KEM_ALGORITHM = ''ecdh_p256''\<rparr>"

lemma demo_sel [simp]:
  "X509_get_pubkey demo = demo_pubkey"
  "EVP_PKEY_is_a demo = demo_is_a"
  "EVP_PKEY_get_bits demo = const1 0"
  "EVP_PKEY_id demo = const1 (EVP_PKEY_OTHER 0)"
  "EVP_PKEY_can_sign demo = const1 True"
  "EVP_PKEY_CTX_new_from_name demo = const2 True"
  "EVP_PKEY_keygen_init demo = const2 1"
  "EVP_PKEY_generate demo = demo_generate"
  "EVP_PKEY_get1_encoded_public_key demo = demo_encode"
  "EVP_PKEY_raw_public_key_size demo = const1 (1, 65)"
  "EVP_PKEY_get_raw_public_key demo = demo_raw"
  "OPENSSL_malloc demo = const2 True"
  "calloc demo = const1 True"
  "EVP_PKEY_fromdata_init demo = const2 1"
  "EVP_PKEY_fromdata demo = demo_fromdata"
  "EVP_PKEY_new_raw_public_key_ex demo = const3 None"
  "EVP_PKEY_CTX_new_from_pkey demo = const2 True"
  "EVP_PKEY_encapsulate_init demo = const2 1"
  "EVP_PKEY_encapsulate_sizes demo = const2 (1, 65, 2)"
  "EVP_PKEY_encapsulate demo = demo_encapsulate"
  "EVP_PKEY_decapsulate_init demo = const2 1"
  "EVP_PKEY_decapsulate_size demo = const3 (1, 2)"
  "EVP_PKEY_decapsulate demo = demo_decapsulate"
  "X509_get_subject_name demo = demo_subject"
  "X509_NAME_oneline demo = const1 ''CN''"
  "i2d_X509_NAME_length demo = const1 1"
  "i2d_X509_NAME demo = demo_i2d"
  "X509_get_notBefore demo = const1 (ASN1_TIME 0)"
  "X509_get_notAfter demo = const1 (Some (ASN1_TIME 1))"
  "X509_cmp_current_time demo = demo_cmp_time"
  "ASN1_TIME_diff demo = const2 (1, 1, 10)"
  "dds_time demo = const1 1000"
  "EVP_PKEY_private_check demo = const1 1"
  "EVP_PKEY_public_check demo = const1 1"
  "EVP_PKEY_bits demo = const1 0"
  "RSA_check_key demo = const1 None"
  "EC_KEY_check_key demo = const1 None"
  "BIO_new demo = const1 True"
  "BIO_write demo = const2 1"
  "PEM_read_bio_X509 demo = demo_read_x509"
  "PEM_read_bio_PrivateKey demo = demo_read_key"
  "PEM_read_bio_X509_CRL demo = const1 None"
  "PEM_write_bio_X509 demo = demo_write_x509"
  "X509_STORE_new demo = const1 True"
  "X509_STORE_add_cert demo = const2 1"
  "X509_STORE_add_crl demo = const2 1"
  "X509_STORE_CTX_new demo = const1 True"
  "X509_STORE_CTX_init demo = const2 1"
  "X509_verify_cert demo = demo_verify_cert"
  "RAND_bytes demo = demo_rand"
  "fopen demo = const2 None"
  "ddsrt_file_normalize demo = Some"
  "ddsrt_file_sep demo = ''/''"
  "ddsrt_opendir demo = const2 None"
  "ddsrt_stat demo = const2 False"
  "find_binary_property demo = demo_find_prop"
  "DataHolder_equal demo = demo_holder_eq"
  "BinaryProperty_set_by_value demo = demo_set_by_value"
  "BinaryProperty_set_by_string demo = demo_set_by_string"
  "Serialize_BinaryPropertySeq demo = demo_serialize"
  "Serialize_BinaryPropertyArray demo = demo_serialize"
  "Serializer_new demo = const1 True"
  "SHA256 demo = demo_sha"
  "Deserializer_new demo = const1 True"
  "ParticipantBuiltinTopicData_alloc demo = const1 True"
  "Deserialize_participant_key demo = demo_key_of_pdata"
  "EVP_MD_CTX_new demo = const1 True"
  "EVP_DigestSignInit_ex demo = const2 1"
  "EVP_DigestSign_size demo = const3 (1, 2)"
  "EVP_DigestSign demo = demo_digest_sign"
  "EVP_DigestVerifyInit_ex demo = const2 1"
  "EVP_DigestVerify demo = demo_digest_verify"
  "EVP_DigestSignVerifyInit demo = const3 1"
  "EVP_PKEY_CTX_set_rsa_pss demo = const2 1"
  "EVP_DigestSignVerifyUpdate demo = const4 1"
  "EVP_DigestSignFinal_size demo = const3 (1, 2)"
  "EVP_DigestSignFinal demo = demo_digest_sign"
  "EVP_DigestVerifyFinal demo = demo_digest_verify"
  "malloc_ok demo = const2 True"
  "ddsrt_malloc demo = demo_malloc"
  "hh_lookup demo = find"
  "hh_add demo = demo_hh_add"
  "hh_remove demo = demo_hh_remove"
  "hh_iter demo = demo_hh_iter"
  "timed_dispatcher_add demo = demo_timer"
  "Property_get_value demo = demo_property"
  "X509_digest_sha1 demo = demo_sha1"
  "X509_check_private_key demo = demo_check_key"
  "getenv_provider demo = None"
  "PQSEC_FALLBACK_PROVIDER demo = None"
  "OSSL_PROVIDER_try_load demo = const2 True"
  "SELECTED_KEM_ALGORITHM demo = ''ecdh_p256''"
  by (simp_all add: demo_def)

section \<open>Evaluation\<close>

text \<open>
  The witnesses evaluate the model with the simplifier.  The congruence rules keep it from
  working on the rest of a sequence before the first operation has its value, and \<open>eval_let\<close>
  does the same for local definitions.
\<close>

definition eval_let :: "'a \<Rightarrow> ('a \<Rightarrow> 'b) \<Rightarrow> 'b" where "eval_let e f = f e"

lemma let_eval: "Let \<equiv> eval_let"
  by (simp add: eval_let_def [abs_def] Let_def [abs_def])

lemma bind_op_weak: "m = m' \<Longrightarrow> bind_op m f = bind_op m' f" by simp
lemma on_fail_weak: "m = m' \<Longrightarrow> on_fail m f = on_fail m' f" by simp
lemma bind_vres_weak: "m = m' \<Longrightarrow> bind_vres m f = bind_vres m' f" by simp
lemma eval_let_weak: "m = m' \<Longrightarrow> eval_let m f = eval_let m' f" by simp

lemmas eval_congs = eval_let_weak bind_op_weak on_fail_weak bind_vres_weak prod.case_cong_weak
  sum.case_cong_weak outcome.case_cong_weak option.case_cong_weak if_weak_cong

lemma replicate_num: "replicate (numeral n) x = x # replicate (pred_numeral n) x"
  by (simp add: numeral_eq_Suc)

lemmas model_defs =
  octets_of_def cstring_octets_def strncmp_prefix_def SHA256_DIGEST_LENGTH_def oct_data_def
  octets_to_seq_def failed_def failed_code_def failed_silent_def check_vres_def ret_op_def
  lift_op_def fault_op_def bind_op_def get_op_def modify_op_def assert_op_def check_op_def
  on_fail_def algorithm_info_def kem_algorithms_def signature_algorithms_def find_by_kind_def
  octets_equal_string_def get_authentication_algo_def get_dsign_algo_def get_kagree_algo_def
  get_dsign_algo_from_octseq_def get_kagree_algo_from_octseq_def
  get_default_kem_algorithm_kind_def get_kem_openssl_name_by_kind_def
  get_default_kem_openssl_name_def get_default_kem_name_def is_supported_kem_algorithm_def
  kem_sizes_def kem_key_sizes_def find_sizes_def get_kem_public_key_size_def
  get_kem_ciphertext_size_def get_kem_secret_key_size_def validate_kem_public_key_size_def
  get_kem_key_sizes_def get_authentication_algo_kind_def kem_buffers_empty_def
  new_keygen_context_def export_public_key_def import_public_key_def pqsec_kem_is_available_def
  pqsec_kem_keypair_generate_def pqsec_kem_encapsulate_def pqsec_kem_decapsulate_def
  get_certificate_subject_name_def get_subject_name_DER_encoded_def INT64_MAX_def DDS_NEVER_def
  DDS_TIME_INVALID_def DDS_NSECS_IN_SEC_def secs_in_day_def c_sdiv_def get_certificate_expiry_def
  is_ml_dsa_def check_key_type_and_size_def check_certificate_type_and_size_def
  check_certificate_expiry_def fread512_def load_file_into_BIO_def get_conf_item_type_def
  load_X509_certificate_from_bio_def load_X509_certificate_from_data_def
  load_X509_certificate_from_file_def load_private_key_from_data_def
  load_private_key_from_file_def load_X509_certificate_def load_X509_private_key_def
  load_CRL_from_file_def load_CRL_from_data_def load_X509_CRL_def verify_certificate_def
  generate_challenge_def get_certificate_contents_def string_of_octets_def string_from_data_def
  MAX_TRUSTED_CA_def free_ca_list_contents_def get_trusted_ca_list_def DDS_AUTHTOKEN_CLASS_ID_def
  DDS_AUTHTOKEN_AUTHREQ_CLASS_ID_def DDS_AUTHTOKEN_REQ_CLASS_ID_def
  DDS_AUTHTOKEN_REPLY_CLASS_ID_def DDS_AUTHTOKEN_FINAL_CLASS_ID_def DDS_AUTHTOKEN_PROP_CERT_SN_def
  DDS_AUTHTOKEN_PROP_CERT_ALGO_def DDS_AUTHTOKEN_PROP_CA_SN_def DDS_AUTHTOKEN_PROP_CA_ALGO_def
  DDS_AUTHTOKEN_PROP_C_ID_def DDS_AUTHTOKEN_PROP_C_PERM_def
  DDS_AUTHTOKEN_PROP_FUTURE_CHALLENGE_def DDS_AUTHTOKEN_PROP_C_PDATA_def
  DDS_AUTHTOKEN_PROP_C_DSIGN_ALGO_def DDS_AUTHTOKEN_PROP_C_KAGREE_ALGO_def
  DDS_AUTHTOKEN_PROP_KEM_PUBLIC_def DDS_AUTHTOKEN_PROP_HASH_C1_def
  DDS_AUTHTOKEN_PROP_CHALLENGE1_def DDS_AUTHTOKEN_PROP_HASH_C2_def
  DDS_AUTHTOKEN_PROP_KEM_CIPHERTEXT_def DDS_AUTHTOKEN_PROP_CHALLENGE2_def
  DDS_AUTHTOKEN_PROP_SIGNATURE_def DDS_ACTOKEN_PERMISSIONS_CREDENTIAL_CLASS_ID_def
  DDS_ACTOKEN_PROP_PERM_CERT_def token_nil_def INT_MAX_def find_required_binprop_def
  find_required_nonempty_binprop_def find_required_binprop_exactsize_def
  load_X509_certificate_from_binprop_def trusted_by_def get_hash_binary_property_seq_def
  compute_hash_value_def hash_value_to_binary_property_def
  create_validate_pq_signature_def
  create_validate_pq_signature_properties_def create_pq_signature_def validate_pq_signature_def
  validate_kem_property_def validate_kem_public_key_in_token_def
  validate_kem_ciphertext_in_token_def guid_octets_def guid_zero_def ADJUSTED_GUID_PREFIX_FLAG_def
  get_adjusted_participant_guid_def validate_pdata_def handshake_role_of_def
  DDS_SECURITY_HANDLE_NIL_def security_object_hash_def security_object_equal_def
  remote_guid_hash_def remote_guid_equal_def header_def obj_handle_def obj_kind_def tick_op_def
  load_op_def store_op_def malloc_op_def table_safe_def security_object_valid_def
  handle_template_def has_handle_def security_object_find_def has_guid_def
  find_remote_identity_by_guid_def add_to_objectHash_def remove_from_objectHash_def
  add_to_remoteGuidHash_def remove_from_remoteGuidHash_def add_to_linkHash_def
  remove_from_linkHash_def free_checked_def local_identity_info_free_def
  remote_identity_info_free_def identity_relation_free_def handshake_info_free_def
  security_object_free_def local_identity_info_new_def remote_identity_info_new_def
  identity_relation_new_def handshake_info_new_def find_identity_relation_def
  remove_identity_relation_def find_handshake_def add_validity_end_trigger_def
  timed_dispatcher_remove_def get_identity_info_def clear_timer_def validity_callback_def
  require_property_def nonempty_def check_identity_ca_trusted_def load_local_credentials_def
  set_timer_def register_local_identity_def validate_local_identity_def find_valid_def
  load_local_def load_remote_def load_relation_def load_handshake_def token_prop_def
  get_identity_token_def get_identity_status_token_def set_permissions_credential_and_token_def
  validate_remote_identity_token_def validate_auth_request_token_def fill_auth_request_token_def
  guid_template_def new_remote_identity_def known_remote_identity_def validate_remote_identity_def
  AUTHENTICATION_CHALLENGE_SIZE_def set_remote_def set_handshake_def set_relation_def
  validate_peer_identity_def validate_peer_algorithms_def validate_peer_credentials_def
  validation_algo_def validate_kem_public_def find_challenges_def same_challenge_def read_buffer_def buffer_fault_def
  validate_rchallenge_def validate_hash_def validate_hashes_and_lchallenge_def update_remote_def
  hash_val_def reply_transcript_def final_transcript_def validate_signature_def
  validate_handshake_token_impl_def validate_handshake_token_def with_identity_def load_ctx_def
  store_ctx_def run_ctx_def find_or_create_handshake_def drop_created_def
  generate_request_keypair_def credential_properties_def save_pdata_def challenge_value_def
  request_tokens_def handshake_message_def begin_handshake_request_def encapsulate_to_request_def
  reply_token_parts_def sign_reply_def begin_handshake_reply_def generate_shared_secret_def
  accept_reply_def final_tokens_def make_shared_secret_def setup_expiry_def malloc_impl_def
  process_handshake_def get_shared_secret_def get_authenticated_peer_credential_token_def
  set_listener_def return_identity_token_def return_identity_status_token_def
  return_sharedsecret_handle_def return_authenticated_peer_credential_token_def
  return_handshake_handle_def drop_handshake_def invalidate_local_related_objects_def
  invalidate_remote_related_objects_def return_identity_handle_def
  ensure_selected_kem_available_def init_authentication_def finalize_authentication_def
  octet_of_int_def octet_of_nat_def checksum_def demo_sha_def demo_sign_def demo_serialize_def
  demo_set_by_value_def demo_malloc_def const1_def const2_def const3_def const4_def
  demo_pubkey_def demo_is_a_def demo_generate_def demo_encode_def demo_raw_def demo_fromdata_def
  demo_encapsulate_def demo_decapsulate_def demo_digest_sign_def demo_digest_verify_def
  demo_subject_def demo_cmp_time_def demo_write_x509_def demo_verify_cert_def demo_sha1_def
  demo_check_key_def demo_rand_def demo_find_prop_def demo_holder_eq_def demo_set_by_string_def
  demo_key_of_pdata_def demo_hh_add_def demo_hh_remove_def demo_hh_iter_def demo_timer_def
  demo_property_def

lemmas eval = model_defs [unfolded let_eval] eval_let_def replicate_num
  numeral_2_eq_2 [symmetric]

section \<open>Two participants\<close>

definition demo_config :: "string \<Rightarrow> demo_qos" where
  "demo_config name =
     [(DDS_SEC_PROP_AUTH_IDENTITY_CERT, ''data:,'' @ name),
      (DDS_SEC_PROP_AUTH_IDENTITY_CA, ''data:,C''),
      (DDS_SEC_PROP_AUTH_PRIV_KEY, ''data:,'' @ name)]"

definition demo_guid :: guid where
  "demo_guid = \<lparr>guid_prefix = [1, 2, 3, 4, 5, 6, 7, 8, 9, 10, 11, 12],
                entity_key = [0, 1, 193], entity_kind = 193\<rparr>"

definition demo_pdata :: "guid \<Rightarrow> octseq" where
  "demo_pdata g = octets_to_seq (guid_prefix g)"

end
