(* ===== verification/Runs.thy ===== *)
theory Runs
  imports Agreement Demo
begin

text \<open>
  A complete handshake between two instances in the environment of \<open>Demo\<close>, evaluated once; the
  witnesses take their concrete instances, handles and messages from it.
\<close>

text \<open>The value of a call that neither faults nor fails.\<close>

definition run :: "('s, 'a) op \<Rightarrow> 's \<Rightarrow> ('a \<times> 's) option" where
  "run m s = (case m s of Ret (Inr x, s') \<Rightarrow> Some (x, s') | _ \<Rightarrow> None)"

definition opt_bind :: "'a option \<Rightarrow> ('a \<Rightarrow> 'b option) \<Rightarrow> 'b option" where
  "opt_bind m f = (case m of None \<Rightarrow> None | Some x \<Rightarrow> f x)"

lemma run_SomeD: "run m s = Some (x, s') \<Longrightarrow> m s = Ret (Inr x, s')"
  by (auto simp: run_def split: outcome.split_asm prod.split_asm sum.split_asm)

lemma opt_bind_SomeE:
  assumes "opt_bind m f = Some y"
  obtains x where "m = Some x" "f x = Some y"
  using assms by (auto simp: opt_bind_def split: option.split_asm)

text \<open>
  The instances and messages along the run.  A participant is given by its certificate number
  \<open>n\<close>, the first octets \<open>own\<close> and \<open>peer\<close> of the two adjusted GUIDs, and the number \<open>t\<close> of the
  calls to the environment before its instance was created.
\<close>

definition demo_adjusted :: "octet \<times> octet \<Rightarrow> guid" where
  "demo_adjusted h = \<lparr>guid_prefix = [fst h, snd h, 0, 0, 0, 0, 1, 2, 3, 4, 5, 6],
     entity_key = [0, 1, 193], entity_kind = 193\<rparr>"

definition demo_self :: "nat \<Rightarrow> octet \<times> octet \<Rightarrow> nat \<Rightarrow> octseq \<Rightarrow> LocalIdentityInfo" where
  "demo_self n own t pdata =
     \<lparr>so_handle = word_of_nat (4098 + t), so_kind = SECURITY_OBJECT_KIND_LOCAL_IDENTITY,
      li_domainId = 0, li_candidateGUID = demo_guid, li_adjustedGUID = demo_adjusted own,
      li_identityCert = X509 n, li_identityCA = X509 67, li_privateKey = EVP_PKEY n,
      li_crl = None, li_pdata = pdata,
      li_dsignAlgoKind = AUTH_ALGO_KIND_ML_DSA_65,
      li_kagreeAlgoKind = AUTH_ALGO_KIND_EC_PRIME256V1, li_permissionsDocument = None,
      li_timer = 4 + t\<rparr>"

definition demo_related :: "nat \<Rightarrow> bytes option \<Rightarrow> IdentityRelation" where
  "demo_related t received =
     \<lparr>so_handle = word_of_nat (4098 + t), so_kind = SECURITY_OBJECT_KIND_IDENTITY_RELATION,
      ir_localIdentity = word_of_nat (4098 + t), ir_remoteIdentity = word_of_nat (4101 + t),
      ir_lchallenge = Some (replicate 32 (octet_of_nat (4 + t))), ir_rchallenge = received\<rparr>"

definition demo_peer ::
  "octet \<times> octet \<Rightarrow> nat \<Rightarrow> x509 option \<Rightarrow> AuthenticationAlgoKind_t \<Rightarrow> AuthenticationAlgoKind_t \<Rightarrow>
   octseq \<Rightarrow> nat \<Rightarrow> RemoteIdentityInfo" where
  "demo_peer peer t cert dsign kagree pdata timer =
     (let prop = \<lambda>name v. \<lparr>tp_name = Some name, tp_value = Some v, tp_propagate = False\<rparr> in
      \<lparr>so_handle = word_of_nat (4101 + t), so_kind = SECURITY_OBJECT_KIND_REMOTE_IDENTITY,
       ri_guid = demo_adjusted peer, ri_identityCert = cert, ri_dsignAlgoKind = dsign,
       ri_kagreeAlgoKind = kagree,
       ri_remoteIdentityToken =
         \<lparr>class_id = Some ''pqsec-dds.auth:1.0'',
          dh_properties = [prop ''dds.cert.sn'' ''CN'', prop ''dds.cert.algo'' ''mldsa65'',
            prop ''dds.ca.sn'' ''CN'', prop ''dds.ca.algo'' ''mldsa65''],
          dh_binary_properties = []\<rparr>,
       ri_pdata = pdata, ri_permissionsDocument = Some [], ri_linkHash = [word_of_nat (4102 + t)],
       ri_timer = timer\<rparr>)"

definition demo_auth ::
  "obj_heap \<Rightarrow> addr list \<Rightarrow> nat \<Rightarrow> (nat \<times> addr \<times> 64 word) list \<Rightarrow> nat \<Rightarrow> auth" where
  "demo_auth objects table t timers now =
     \<lparr>heap = objects, objectHash = table, remoteGuidHash = [word_of_nat (4101 + t)],
      dispatcher = timers @ [(4 + t, word_of_nat (4098 + t), 86410000001000)],
      dispatcher_enabled = False, listener = None,
      trustedCAList = \<lparr>xs_length = 0, xs_buffer = None\<rparr>, include_optional = False,
      fallback_provider = None, clock = now\<rparr>"

text \<open>Before the handshake, and with a handshake.\<close>

definition demo_instance :: "nat \<Rightarrow> octet \<times> octet \<Rightarrow> octet \<times> octet \<Rightarrow> nat \<Rightarrow> auth" where
  "demo_instance n own peer t =
     demo_auth
       [word_of_nat (4098 + t) \<mapsto>
          LocalIdentity (demo_self n own t \<lparr>oct_length = 0, oct_buffer = None\<rparr>),
        word_of_nat (4102 + t) \<mapsto> Relation (demo_related t None),
        word_of_nat (4101 + t) \<mapsto>
          RemoteIdentity (demo_peer peer t None AUTH_ALGO_KIND_UNKNOWN AUTH_ALGO_KIND_UNKNOWN
            \<lparr>oct_length = 0, oct_buffer = None\<rparr> 0)]
       [word_of_nat (4101 + t), word_of_nat (4098 + t)] t [] (7 + t)"

definition demo_meeting ::
  "addr \<Rightarrow> HandshakeInfo \<Rightarrow> nat \<Rightarrow> octet \<times> octet \<Rightarrow> nat \<Rightarrow> bytes option \<Rightarrow> RemoteIdentityInfo \<Rightarrow>
   (nat \<times> addr \<times> 64 word) list \<Rightarrow> nat \<Rightarrow> auth" where
  "demo_meeting h hs n own t received remote timers now =
     demo_auth
       [h \<mapsto> Handshake hs,
        word_of_nat (4102 + t) \<mapsto> Relation (demo_related t received),
        word_of_nat (4098 + t) \<mapsto>
          LocalIdentity (demo_self n own t (demo_pdata (demo_adjusted own))),
        word_of_nat (4101 + t) \<mapsto> RemoteIdentity remote]
       [h, word_of_nat (4101 + t), word_of_nat (4098 + t)] t timers now"

definition demo_hash :: "nat \<Rightarrow> octet \<Rightarrow> bytes" where
  "demo_hash n first = [octet_of_nat n, 0, first, 77, 69] @ replicate 27 0"

definition demo_keypair :: pqsec_kem_keypair where
  "demo_keypair = \<lparr>kp_kind = AUTH_ALGO_KIND_EC_PRIME256V1, kp_key = Some (EVP_PKEY 8),
     kp_public_key = Some (replicate 65 8), kp_public_key_size = 65\<rparr>"

definition demo_secret :: SharedSecretHandleImpl where
  "demo_secret = \<lparr>ss_shared_secret = [8, 109] @ replicate 30 0, ss_shared_secret_size = 32,
     ss_challenge1 = replicate 32 5, ss_challenge2 = replicate 32 105\<rparr>"

definition demo_A :: auth where "demo_A = demo_instance 65 (160, 8320) (161, 8448) 1"
definition demo_B :: auth where "demo_B = demo_instance 66 (161, 8448) (160, 8320) 101"

definition demo_A_requested :: auth where
  "demo_A_requested =
     demo_meeting 4105
       \<lparr>so_handle = 4105, so_kind = SECURITY_OBJECT_KIND_HANDSHAKE, hs_relation = 4103,
        hs_hash_c1 = demo_hash 65 160, hs_hash_c2 = replicate 32 0,
        hs_kem_keypair = Some demo_keypair, hs_kem = kem_buffers_empty, hs_secret = None,
        hs_created_in = CREATEDREQUEST\<rparr>
       65 (160, 8320) 1 None
       (demo_peer (161, 8448) 1 None AUTH_ALGO_KIND_UNKNOWN AUTH_ALGO_KIND_UNKNOWN
          \<lparr>oct_length = 0, oct_buffer = None\<rparr> 0) [] 10"

definition demo_B_replied :: auth where
  "demo_B_replied =
     demo_meeting 4204
       \<lparr>so_handle = 4204, so_kind = SECURITY_OBJECT_KIND_HANDSHAKE, hs_relation = 4203,
        hs_hash_c1 = demo_hash 65 160, hs_hash_c2 = demo_hash 66 161, hs_kem_keypair = None,
        hs_kem = \<lparr>kem_ct = Some (replicate 65 109), kem_ct_len = 65, kem_ss = Some [8, 109],
          kem_ss_len = 2\<rparr>, hs_secret = None, hs_created_in = CREATEDREPLY\<rparr>
       66 (161, 8448) 101 (Some (replicate 32 5))
       (demo_peer (160, 8320) 101 (Some (X509 65)) AUTH_ALGO_KIND_ML_DSA_65
          AUTH_ALGO_KIND_EC_PRIME256V1 (demo_pdata (demo_adjusted (160, 8320))) 0) [] 110"

definition demo_A_done :: auth where
  "demo_A_done =
     demo_meeting 4105
       \<lparr>so_handle = 4105, so_kind = SECURITY_OBJECT_KIND_HANDSHAKE, hs_relation = 4103,
        hs_hash_c1 = demo_hash 65 160, hs_hash_c2 = demo_hash 66 161,
        hs_kem_keypair = Some demo_keypair,
        hs_kem = \<lparr>kem_ct = None, kem_ct_len = 0, kem_ss = Some [8, 109], kem_ss_len = 2\<rparr>,
        hs_secret = Some (4107, demo_secret), hs_created_in = CREATEDREQUEST\<rparr>
       65 (160, 8320) 1 (Some (replicate 32 105))
       (demo_peer (161, 8448) 1 (Some (X509 66)) AUTH_ALGO_KIND_ML_DSA_65
          AUTH_ALGO_KIND_EC_PRIME256V1 (demo_pdata (demo_adjusted (161, 8448))) 13)
       [(13, 4102, 86410000001000)] 13"

definition demo_credentials :: "nat \<Rightarrow> octet \<times> octet \<Rightarrow> bin_property list" where
  "demo_credentials n own = credential_properties demo [octet_of_nat n] None
     (demo_pdata (demo_adjusted own)) AUTH_ALGO_KIND_ML_DSA_65 AUTH_ALGO_KIND_EC_PRIME256V1"

definition demo_request_sent :: data_holder where
  "demo_request_sent = handshake_message DDS_AUTHTOKEN_REQ_CLASS_ID
     (demo_credentials 65 (160, 8320) @
      [demo_set_by_value DDS_AUTHTOKEN_PROP_KEM_PUBLIC (replicate 65 8),
       demo_set_by_value DDS_AUTHTOKEN_PROP_CHALLENGE1 (replicate 32 5)])"

definition demo_reply_sent :: data_holder where
  "demo_reply_sent = handshake_message DDS_AUTHTOKEN_REPLY_CLASS_ID
     (demo_credentials 66 (161, 8448) @
      [demo_set_by_value DDS_AUTHTOKEN_PROP_KEM_CIPHERTEXT (replicate 65 109),
       demo_set_by_value DDS_AUTHTOKEN_PROP_KEM_PUBLIC (replicate 65 8),
       demo_set_by_value DDS_AUTHTOKEN_PROP_CHALLENGE1 (replicate 32 5),
       demo_set_by_value DDS_AUTHTOKEN_PROP_CHALLENGE2 (replicate 32 105),
       demo_set_by_value DDS_AUTHTOKEN_PROP_SIGNATURE [66, 227]])"

definition demo_final_sent :: data_holder where
  "demo_final_sent = handshake_message DDS_AUTHTOKEN_FINAL_CLASS_ID
     [demo_set_by_value DDS_AUTHTOKEN_PROP_CHALLENGE1 (replicate 32 5),
      demo_set_by_value DDS_AUTHTOKEN_PROP_CHALLENGE2 (replicate 32 105),
      demo_set_by_value DDS_AUTHTOKEN_PROP_KEM_PUBLIC (replicate 65 8),
      demo_set_by_value DDS_AUTHTOKEN_PROP_KEM_CIPHERTEXT (replicate 65 109),
      demo_set_by_value DDS_AUTHTOKEN_PROP_SIGNATURE [65, 227]]"

lemmas demo_run_defs = demo_A_def demo_B_def demo_instance_def demo_adjusted_def demo_self_def
  demo_related_def demo_peer_def demo_auth_def demo_guid_def demo_pdata_def demo_config_def run_def
  opt_bind_def kem_buffers_empty_def

lemmas demo_meeting_defs = demo_meeting_def demo_A_requested_def demo_B_replied_def
  demo_A_done_def demo_keypair_def demo_hash_def demo_secret_def
  demo_credentials_def demo_request_sent_def demo_reply_sent_def demo_final_sent_def

text \<open>
  Participant A (certificate 65) and participant B (certificate 66) register themselves and each
  other, A sends the request, B replies, A accepts and sends the final message, B accepts it.
\<close>

definition demo_registered ::
  "bool \<Rightarrow> ((auth \<times> addr \<times> addr) \<times> (auth \<times> addr \<times> addr) \<times> guid \<times> guid) option" where
  "demo_registered optional =
     opt_bind (init_authentication demo optional 1) (\<lambda>a0.
     opt_bind (init_authentication demo optional 101) (\<lambda>b0.
     opt_bind (run (validate_local_identity demo True 0 (demo_config ''A'') demo_guid) a0)
       (\<lambda>((lA, gA), a1).
     opt_bind (run (validate_local_identity demo True 0 (demo_config ''B'') demo_guid) b0)
       (\<lambda>((lB, gB), b1).
     opt_bind (run (get_identity_token demo True lA) a1) (\<lambda>(tokA, a2).
     opt_bind (run (get_identity_token demo True lB) b1) (\<lambda>(tokB, b2).
     opt_bind (run (validate_remote_identity demo True None lA tokB gB) a2) (\<lambda>((roleA, rB, _), a3).
     opt_bind (run (validate_remote_identity demo True None lB tokA gA) b2) (\<lambda>((roleB, rA, _), b3).
     if roleA \<noteq> PENDING_HANDSHAKE_REQUEST \<or> roleB \<noteq> PENDING_HANDSHAKE_MESSAGE then None
     else Some ((a3, lA, rB), (b3, lB, rA), gA, gB)))))))))"

lemma demo_registers:
  "demo_registered False = Some ((demo_A, 4099, 4102), (demo_B, 4199, 4202),
     demo_adjusted (160, 8320), demo_adjusted (161, 8448))"
  by (simp add: demo_run_defs eval demo_registered_def cong: eval_congs)

lemma demo_requests:
  "begin_handshake_request demo True 4099 4102 (demo_pdata (demo_adjusted (160, 8320))) demo_A =
     Ret (Inr (4105, demo_request_sent), demo_A_requested)"
  by (simp add: demo_run_defs demo_meeting_defs eval cong: eval_congs)

lemma demo_replies:
  "begin_handshake_reply demo True demo_request_sent 4202 4199
     (demo_pdata (demo_adjusted (161, 8448))) demo_B = Ret (Inr (4204, demo_reply_sent), demo_B_replied)"
  by (simp add: demo_run_defs demo_meeting_defs eval cong: eval_congs)

lemma demo_processes_reply:
  "process_handshake demo True demo_reply_sent 4105 demo_A_requested =
     Ret (Inr (OK_FINAL_MESSAGE demo_final_sent), demo_A_done)"
  by (simp add: demo_run_defs demo_meeting_defs eval cong: eval_congs)

lemma demo_processes_final:
  "\<exists>s. process_handshake demo True demo_final_sent 4204 demo_B_replied = Ret (Inr OK, s)"
  by (simp add: demo_run_defs demo_meeting_defs eval cong: eval_congs)

end
