(* ===== verification/Witnesses.thy ===== *)
theory Witnesses
  imports Runs
begin

text \<open>
  The laws the properties assume hold in the environment of \<open>Demo\<close>, and each property with
  hypotheses is applied there to concrete keys, certificates and messages.
\<close>

section \<open>The laws\<close>

lemma octet_of_nat_octet [simp]: "octet_of_nat (unat w) = w"
  by (simp add: octet_of_nat_def octet_of_int_def)

lemma first_octet_hd: "first_octet (oct_buffer q) = hd (oct_data q @ [0])"
  by (cases "oct_buffer q" rule: first_octet.cases) (simp_all add: oct_data_def)

lemma demo_data_laws: "dds_data_laws demo"
proof -
  have 1: "demo_serialize ps = demo_serialize qs"
    if "map (\<lambda>p. (bp_name p, oct_data (bp_value p))) ps =
      map (\<lambda>p. (bp_name p, oct_data (bp_value p))) qs" for ps qs :: "bin_property list"
  proof -
    have "map (\<lambda>x. hd (snd x @ [0])) (map (\<lambda>p. (bp_name p, oct_data (bp_value p))) ps) =
      map (\<lambda>x. hd (snd x @ [0])) (map (\<lambda>p. (bp_name p, oct_data (bp_value p))) qs)"
      using that by (rule arg_cong)
    then show ?thesis by (simp add: demo_serialize_def first_octet_hd comp_def)
  qed
  have 2: "length (demo_sha b) = SHA256_DIGEST_LENGTH" for b
    by (simp add: demo_sha_def SHA256_DIGEST_LENGTH_def)
  have 3: "demo_key_of_pdata b = Inr key \<Longrightarrow> length key = 12" for b key
    by (auto simp: demo_key_of_pdata_def)
  have 4: "bp_name (demo_set_by_value n d) = Some n" "oct_wf (bp_value (demo_set_by_value n d))"
    "oct_data (bp_value (demo_set_by_value n d)) = d"
    "oct_buffer (bp_value (demo_set_by_value n d)) = Some d" for n d
    by (simp_all add: demo_set_by_value_def)
  show ?thesis
    unfolding dds_data_laws_def demo_sel
    apply (intro conjI allI impI)
    apply (simp_all only: demo_find_prop_def demo_set_by_string_def 2 4 simp_thms option.distinct)
    apply (erule 1)
    apply (erule 3)
    done
qed

lemma demo_kem_correct: "kem_correct demo"
  by (auto simp: kem_correct_def const_defs demo_generate_def demo_raw_def demo_encode_def
     demo_fromdata_def
     demo_encapsulate_def demo_decapsulate_def public_encoding_def import_public_key_def)
lemma demo_signature_correct: "signature_correct demo (=)"
  by (auto simp: signature_correct_def demo_digest_sign_def demo_digest_verify_def demo_sign_def)
lemma demo_tables: "hash_table_laws demo"
proof -
  have find: "case find eq xs of None \<Rightarrow> (\<forall>x \<in> set xs. \<not> eq x) | Some x \<Rightarrow> x \<in> set xs \<and> eq x"
    for eq and xs :: "addr list"
    by (induction xs) (auto split: option.splits)
  show ?thesis
    unfolding hash_table_laws_def demo_sel
    by (intro conjI allI impI)
      (auto simp: find demo_hh_add_def demo_hh_remove_def demo_hh_iter_def demo_malloc_def
        demo_timer_def Let_def list_ex_iff split: if_splits)
qed

section \<open>Algorithms, certificates, signatures, GUIDs\<close>

theorem pqsec_kem_roundtrip_witness:
  "\<exists>kp sent received.
     pqsec_kem_keypair_generate demo 8 AUTH_ALGO_KIND_ML_KEM_768 True = (True, Some kp) \<and>
     pqsec_kem_encapsulate demo 9 AUTH_ALGO_KIND_ML_KEM_768 (kp_public_key kp) True
       kem_buffers_empty = (True, sent) \<and>
     pqsec_kem_decapsulate demo 10 (Some kp) (kem_ct sent) True kem_buffers_empty
       = (True, received) \<and>
     kem_ss received = kem_ss sent \<and> kem_ss_len received = 2"
proof -
  let ?kp = "\<lparr>kp_kind = AUTH_ALGO_KIND_ML_KEM_768, kp_key = Some (EVP_PKEY 8),
    kp_public_key = Some (replicate 65 8), kp_public_key_size = 65\<rparr>"
  let ?sent = "\<lparr>kem_ct = Some (replicate 65 9), kem_ct_len = 65, kem_ss = Some [8, 9],
    kem_ss_len = 2\<rparr>"
  let ?received = "\<lparr>kem_ct = None, kem_ct_len = 0, kem_ss = Some [8, 9], kem_ss_len = 2\<rparr>"
  have g: "pqsec_kem_keypair_generate demo 8 AUTH_ALGO_KIND_ML_KEM_768 True = (True, Some ?kp)"
    by (simp add: eval cong: eval_congs)
  have e: "pqsec_kem_encapsulate demo 9 AUTH_ALGO_KIND_ML_KEM_768 (kp_public_key ?kp) True
      kem_buffers_empty = (True, ?sent)"
    by (simp add: eval kem_buffers_empty_def cong: eval_congs)
  have d: "pqsec_kem_decapsulate demo 10 (Some ?kp) (kem_ct ?sent) True kem_buffers_empty
      = (True, ?received)"
    by (simp add: eval kem_buffers_empty_def cong: eval_congs)
  have "kem_ss ?received = kem_ss ?sent \<and> kem_ss_len ?received = kem_ss_len ?sent"
    by (rule pqsec_kem_roundtrip [OF demo_kem_correct g e d])
  then show ?thesis
    by (intro exI [of _ ?kp] exI [of _ ?sent] exI [of _ ?received] conjI g e d) simp_all
qed

theorem get_certificate_expiry_exact_witness:
  "sint (get_certificate_expiry demo 7 (X509 65)) = 1000 + (10 + 1 * 86400) * 1000000000"
  using get_certificate_expiry_exact [of demo "X509 65" "ASN1_TIME 1" 7 1 10]
  by (simp add: const_defs)

theorem read_reads_terminates_witness:
  "\<exists>r. read_reads demo 7 (\<lambda>_. (replicate 512 0, False, False)) 4 0 False False [] 600 = Some r"
  using read_reads_terminates [of "\<lambda>_. (replicate 512 0, False, False)" demo 7 600]
  by (auto simp: fread_contract_def)

theorem signed_transcript_accepted_witness:
  "create_pq_signature demo 7 (Some (EVP_PKEY 66)) [demo_set_by_value ''challenge1'' [1, 2, 3]]
     = Inr [66, 1] \<and>
   validate_pq_signature demo 8 (Some (EVP_PKEY 66))
     [(demo_set_by_value ''challenge1'' [1, 2, 3])\<lparr>bp_propagate := False\<rparr>] (Some [66, 1]) = Inr ()"
proof
  show sig: "create_pq_signature demo 7 (Some (EVP_PKEY 66))
      [demo_set_by_value ''challenge1'' [1, 2, 3]] = Inr [66, 1]"
    by (simp add: eval create_pq_signature_def cong: eval_congs)
  show "validate_pq_signature demo 8 (Some (EVP_PKEY 66))
      [(demo_set_by_value ''challenge1'' [1, 2, 3])\<lparr>bp_propagate := False\<rparr>] (Some [66, 1]) = Inr ()"
    by (rule signed_transcript_accepted [OF demo_data_laws demo_signature_correct refl sig])
      (simp_all add: same_transcript_def demo_set_by_value_def oct_data_def const_defs)
qed

theorem adjusted_guid_spec_witness:
  "\<exists>g. get_adjusted_participant_guid demo (X509 65) demo_guid = Inr g \<and>
     be_nat (take 6 (guid_prefix g)) = 2 ^ 47 + be_nat [65, 0, 0, 0, 0, 0] div 2"
  using adjusted_guid_spec [OF demo_data_laws, of "X509 65" demo_guid]
  by (simp add: eval cong: eval_congs)

theorem roles_complementary_witness:
  "(handshake_role_of demo_guid (demo_guid\<lparr>entity_kind := 194\<rparr>) = PENDING_HANDSHAKE_REQUEST) \<noteq>
   (handshake_role_of (demo_guid\<lparr>entity_kind := 194\<rparr>) demo_guid = PENDING_HANDSHAKE_REQUEST)"
  using roles_complementary [of demo_guid "demo_guid\<lparr>entity_kind := 194\<rparr>"]
  by (simp add: guid_wf_def demo_guid_def)

theorem validate_pdata_binds_subject_witness:
  "validate_pdata demo 7 (octets_to_seq [160, 128, 0, 0, 0, 0, 9, 9, 9, 9, 9, 9]) (X509 65) = Inr ()"
  using validate_pdata_binds_subject [OF demo_data_laws, of 7
      "octets_to_seq [160, 128, 0, 0, 0, 0, 9, 9, 9, 9, 9, 9]" "X509 65" demo_guid]
  by (simp add: eval demo_guid_def cong: eval_congs)

section \<open>Handshake messages\<close>

text \<open>
  Participant A (certificate 65) has sent a request with challenge 5 and KEM key 8; participant
  B (certificate 66) answers with challenge 105 and ciphertext 9.
\<close>

definition demo_local :: "nat \<Rightarrow> LocalIdentityInfo" where
  "demo_local n =
     \<lparr>so_handle = 4096, so_kind = SECURITY_OBJECT_KIND_LOCAL_IDENTITY, li_domainId = 0,
      li_candidateGUID = demo_guid, li_adjustedGUID = demo_guid, li_identityCert = X509 n,
      li_identityCA = X509 67, li_privateKey = EVP_PKEY n, li_crl = None,
      li_pdata = \<lparr>oct_length = 0, oct_buffer = None\<rparr>,
      li_dsignAlgoKind = AUTH_ALGO_KIND_ML_DSA_65,
      li_kagreeAlgoKind = AUTH_ALGO_KIND_EC_PRIME256V1, li_permissionsDocument = None,
      li_timer = 0\<rparr>"

definition demo_remote :: "x509 option \<Rightarrow> RemoteIdentityInfo" where
  "demo_remote cert =
     \<lparr>so_handle = 4097, so_kind = SECURITY_OBJECT_KIND_REMOTE_IDENTITY, ri_guid = demo_guid,
      ri_identityCert = cert, ri_dsignAlgoKind = AUTH_ALGO_KIND_ML_DSA_65,
      ri_kagreeAlgoKind = AUTH_ALGO_KIND_EC_PRIME256V1, ri_remoteIdentityToken = token_nil,
      ri_pdata = \<lparr>oct_length = 0, oct_buffer = None\<rparr>, ri_permissionsDocument = None,
      ri_linkHash = [4098], ri_timer = 0\<rparr>"

definition demo_ctx :: "nat \<Rightarrow> x509 option \<Rightarrow> bytes option \<Rightarrow> bytes option \<Rightarrow>
    CreatedHandshakeStep_t \<Rightarrow> hs_ctx" where
  "demo_ctx n cert lchallenge rchallenge created =
     \<lparr>cx_handshake =
        \<lparr>so_handle = 4099, so_kind = SECURITY_OBJECT_KIND_HANDSHAKE, hs_relation = 4098,
         hs_hash_c1 = replicate 32 0, hs_hash_c2 = replicate 32 0, hs_kem_keypair = None,
         hs_kem = kem_buffers_empty, hs_secret = None,
         hs_created_in = created\<rparr>,
      cx_relation =
        \<lparr>so_handle = 4096, so_kind = SECURITY_OBJECT_KIND_IDENTITY_RELATION,
         ir_localIdentity = 4096, ir_remoteIdentity = 4097, ir_lchallenge = lchallenge,
         ir_rchallenge = rchallenge\<rparr>,
      cx_local = demo_local n, cx_remote = demo_remote cert\<rparr>"

definition demo_reply :: data_holder where
  "demo_reply =
     \<lparr>class_id = Some DDS_AUTHTOKEN_REPLY_CLASS_ID, dh_properties = [],
      dh_binary_properties =
        credential_properties demo [66] None
          (octets_to_seq [161, 0, 0, 0, 0, 0, 9, 9, 9, 9, 9, 9])
          AUTH_ALGO_KIND_ML_DSA_65 AUTH_ALGO_KIND_EC_PRIME256V1 @
        [demo_set_by_value DDS_AUTHTOKEN_PROP_KEM_CIPHERTEXT (replicate 65 9),
         demo_set_by_value DDS_AUTHTOKEN_PROP_KEM_PUBLIC (replicate 65 8),
         demo_set_by_value DDS_AUTHTOKEN_PROP_CHALLENGE1 (replicate 32 5),
         demo_set_by_value DDS_AUTHTOKEN_PROP_CHALLENGE2 (replicate 32 105),
         demo_set_by_value DDS_AUTHTOKEN_PROP_SIGNATURE [66, 127]]\<rparr>"

definition demo_final :: data_holder where
  "demo_final =
     \<lparr>class_id = Some DDS_AUTHTOKEN_FINAL_CLASS_ID, dh_properties = [],
      dh_binary_properties =
        [demo_set_by_value DDS_AUTHTOKEN_PROP_KEM_CIPHERTEXT (replicate 65 9),
         demo_set_by_value DDS_AUTHTOKEN_PROP_KEM_PUBLIC (replicate 65 8),
         demo_set_by_value DDS_AUTHTOKEN_PROP_CHALLENGE1 (replicate 32 5),
         demo_set_by_value DDS_AUTHTOKEN_PROP_CHALLENGE2 (replicate 32 105),
         demo_set_by_value DDS_AUTHTOKEN_PROP_SIGNATURE [65, 127]]\<rparr>"

definition demo_no_cas :: X509Seq where "demo_no_cas = \<lparr>xs_length = 0, xs_buffer = None\<rparr>"

lemmas demo_message_defs = demo_local_def demo_remote_def demo_ctx_def demo_reply_def
  demo_final_def demo_no_cas_def demo_guid_def kem_buffers_empty_def

lemma demo_final_accepted:
  "validate_handshake_token demo 7 False demo_no_cas demo_final HS_TOKEN_FINAL
     (demo_ctx 66 (Some (X509 65)) (Some (replicate 32 105)) (Some (replicate 32 5)) CREATEDREPLY)
   = Ret (Inr (),
       demo_ctx 66 (Some (X509 65)) (Some (replicate 32 105)) (Some (replicate 32 5)) CREATEDREPLY)"
  by (simp add: eval demo_message_defs cong: eval_congs)

lemma demo_reply_accepted:
  "\<exists>c. validate_handshake_token demo 7 False demo_no_cas demo_reply HS_TOKEN_REPLY
     (demo_ctx 65 None (Some (replicate 32 5)) None CREATEDREQUEST) = Ret (Inr (), c)"
  by (simp add: eval demo_message_defs cong: eval_congs)

theorem reply_acceptance_authenticates_witness:
  "\<exists>c' k. validate_handshake_token demo 7 False demo_no_cas demo_reply HS_TOKEN_REPLY
     (demo_ctx 65 None (Some (replicate 32 5)) None CREATEDREQUEST) = Ret (Inr (), c') \<and>
     claims_in_token demo demo_reply k \<and> ri_identityCert (cx_remote c') = Some (sc_cert k)"
proof -
  obtain c where c: "validate_handshake_token demo 7 False demo_no_cas demo_reply HS_TOKEN_REPLY
     (demo_ctx 65 None (Some (replicate 32 5)) None CREATEDREQUEST) = Ret (Inr (), c)"
    using demo_reply_accepted by blast
  show ?thesis using reply_acceptance_authenticates [OF c] c by blast
qed

theorem final_acceptance_authenticates_witness:
  "\<exists>sig. find_binary_property demo demo_final DDS_AUTHTOKEN_PROP_SIGNATURE = Some sig \<and>
     hash_matches demo demo_final DDS_AUTHTOKEN_PROP_HASH_C1 (replicate 32 0)"
  using final_acceptance_authenticates [OF demo_final_accepted]
  by (auto simp: demo_ctx_def)


section \<open>Instances\<close>

lemma reachable_call:
  assumes "plugin_reachable E s" and "perform E c s = Ret (r, s')"
  shows "plugin_reachable E s'"
  using assms by (auto simp: plugin_reachable_def intro: reachable.step plugin_step.call)

lemma demo_registration:
  assumes "demo_registered False = Some ((a, lA, rB), (b, lB, rA), gA, gB)"
  obtains a0 a1 lA' gA' a2 tokB role answer where
    "init_authentication demo False 1 = Some a0"
    "validate_local_identity demo True 0 (demo_config ''A'') demo_guid a0 = Ret (Inr (lA', gA'), a1)"
    "plugin_reachable demo a2"
    "validate_remote_identity demo True None lA tokB gB a2 = Ret (Inr (role, rB, answer), a)"
    "plugin_reachable demo a0" "plugin_reachable demo a" "plugin_reachable demo b"
proof -
  have start: "plugin_reachable demo s" if "init_authentication demo False now = Some s" for s now
    using that demo_tables unfolding plugin_reachable_def plugin_init_def
    by (blast intro: reachable.start)
  have local: "plugin_reachable demo s'"
    if "plugin_reachable demo s" "validate_local_identity demo nn d q g s = Ret (Inr x, s')"
    for s s' nn d q g x
    by (rule reachable_call [OF that(1), where c = "Validate_local_identity nn d q g"])
      (simp add: no_value_def bind_op_def ret_op_def that(2))
  have token: "plugin_reachable demo s'"
    if "plugin_reachable demo s" "get_identity_token demo nn p s = Ret (Inr x, s')" for s s' nn p x
    by (rule reachable_call [OF that(1), where c = "Get_identity_token nn p"])
      (simp add: no_value_def bind_op_def ret_op_def that(2))
  have remote: "plugin_reachable demo s'"
    if "plugin_reachable demo s" "validate_remote_identity demo nn q l t g s = Ret (Inr x, s')"
    for s s' nn q l t g x
    by (rule reachable_call [OF that(1), where c = "Validate_remote_identity nn q l t g"])
      (simp add: no_value_def bind_op_def ret_op_def that(2))
  show ?thesis
    using assms unfolding demo_registered_def
    by (auto elim!: opt_bind_SomeE dest!: run_SomeD split: if_split_asm intro!: that)
      (erule token [rotated], erule local [rotated], erule start, erule start,
        (erule remote [rotated], erule token [rotated], erule local [rotated], erule start)+)
qed


lemma demo_instances_reachable: "plugin_reachable demo demo_A" "plugin_reachable demo demo_B"
  using demo_registration [OF demo_registers] by metis+

lemma demo_A_requested_reachable: "plugin_reachable demo demo_A_requested"
  by (rule reachable_call [OF demo_instances_reachable(1), where
        c = "Begin_handshake_request True 4099 4102 (demo_pdata (demo_adjusted (160, 8320)))"])
    (simp add: no_value_def bind_op_def ret_op_def demo_requests)

lemma demo_B_replied_reachable: "plugin_reachable demo demo_B_replied"
  by (rule reachable_call [OF demo_instances_reachable(2), where
        c = "Begin_handshake_reply True demo_request_sent 4202 4199
          (demo_pdata (demo_adjusted (161, 8448)))"])
    (simp add: no_value_def bind_op_def ret_op_def demo_replies)

text \<open>Every challenge and hash of this message has its buffer.\<close>

lemma read_faults_empty_iff:
  "read_faults E m = {} \<longleftrightarrow>
     list_all (\<lambda>name. case find_binary_property E m name of
         None \<Rightarrow> True
       | Some p \<Rightarrow> oct_length (bp_value p) \<noteq> 32 \<or> buffer_fault (bp_value p) 32 = None)
       [DDS_AUTHTOKEN_PROP_CHALLENGE1, DDS_AUTHTOKEN_PROP_CHALLENGE2, DDS_AUTHTOKEN_PROP_HASH_C1,
        DDS_AUTHTOKEN_PROP_HASH_C2]"
proof -
  have "{f. \<exists>name p. name \<in> N \<and> find_binary_property E m name = Some p \<and> oct_length (bp_value p) = 32 \<and>
      buffer_fault (bp_value p) 32 = Some f} = {} \<longleftrightarrow>
    (\<forall>name \<in> N. case find_binary_property E m name of
         None \<Rightarrow> True
       | Some p \<Rightarrow> oct_length (bp_value p) \<noteq> 32 \<or> buffer_fault (bp_value p) 32 = None)" for N
    by (auto split: option.splits) (meson not_None_eq)
  then show ?thesis unfolding read_faults_def list_all_iff .
qed

lemma demo_reply_readable: "read_faults demo demo_reply_sent = {}"
  unfolding read_faults_empty_iff by (simp add: eval demo_meeting_defs demo_message_defs)


theorem reachable_instance_consistent_witness:
  "\<exists>obj. heap demo_A 4099 = Some obj \<and> obj_handle obj = 4099"
proof -
  have "4099 \<in> set (objectHash demo_A)"
    by (simp add: demo_run_defs)
  then show ?thesis using reachable_instance_consistent [OF demo_instances_reachable(1)] by metis
qed

theorem return_identity_handle_frees_witness:
  "\<exists>s'. return_identity_handle demo True 4102 demo_A_requested = Ret (Inr (), s') \<and>
     heap s' 4105 = None \<and> heap s' 4103 = None \<and> heap s' 4099 \<noteq> None"
proof -
  have "\<exists>s'. return_identity_handle demo True 4102 demo_A_requested = Ret (Inr (), s')"
    by (simp add: demo_run_defs demo_meeting_defs eval cong: eval_congs)
  then obtain s' where s': "return_identity_handle demo True 4102 demo_A_requested = Ret (Inr (), s')"
    by blast
  note freed = return_identity_handle_frees [OF demo_A_requested_reachable s', unfolded sum.case]
  show ?thesis
    using freed [THEN spec, of 4105] freed [THEN spec, of 4103] freed [THEN spec, of 4099] s'
    by (simp add: demo_run_defs demo_meeting_defs)
qed

theorem finalize_leaves_relations_witness:
  "\<exists>left s' rel. finalize_authentication demo demo_A = Ret (Inr left, s') \<and>
     left 4103 = Some (Relation rel)"
  using finalize_leaves_relations [OF demo_instances_reachable(1)]
  by (auto simp: demo_run_defs)

theorem validate_local_identity_sound_witness:
  "\<exists>s p g s'. validate_local_identity demo True 0 (demo_config ''A'') demo_guid s
       = Ret (Inr (p, g), s') \<and> heap s p = None"
  using demo_registration [OF demo_registers] validate_local_identity_sound by metis

theorem validate_remote_identity_registers_witness:
  "\<exists>s tok g role answer c. validate_remote_identity demo True None 4099 tok g s =
       Ret (Inr (role, 4102, answer), demo_A) \<and> answer = fill_auth_request_token c \<and>
     role = handshake_role_of (demo_adjusted (160, 8320)) (demo_adjusted (161, 8448))"
proof -
  obtain s tok g role answer where r: "plugin_reachable demo s"
    "validate_remote_identity demo True None 4099 tok g s = Ret (Inr (role, 4102, answer), demo_A)"
    by (rule demo_registration [OF demo_registers])
  obtain lm rm c where "heap demo_A 4099 = Some (LocalIdentity lm)"
    "heap demo_A 4102 = Some (RemoteIdentity rm)" "role = handshake_role_of (li_adjustedGUID lm) (ri_guid rm)"
    "answer = fill_auth_request_token c"
    using validate_remote_identity_registers [OF r] by auto
  moreover have "heap demo_A 4099 = Some (LocalIdentity l) \<Longrightarrow> li_adjustedGUID l = demo_adjusted (160, 8320)"
    "heap demo_A 4102 = Some (RemoteIdentity m) \<Longrightarrow> ri_guid m = demo_adjusted (161, 8448)" for l m
    by (auto simp: demo_run_defs)
  ultimately show ?thesis using r(2) by metis
qed

theorem handshake_agreement_witness:
  "\<exists>s hsA hsB implA implB secret.
     process_handshake demo True demo_final_sent 4204 demo_B_replied = Ret (Inr OK, s) \<and>
     heap demo_A_done 4105 = Some (Handshake hsA) \<and> hs_secret hsA = Some (implA, secret) \<and>
     heap s 4204 = Some (Handshake hsB) \<and> hs_secret hsB = Some (implB, secret)"
proof -
  obtain s where s: "process_handshake demo True demo_final_sent 4204 demo_B_replied = Ret (Inr OK, s)"
    using demo_processes_final by blast
  show ?thesis
    using handshake_agreement [OF demo_kem_correct demo_data_laws demo_instances_reachable demo_requests
        demo_replies demo_processes_reply s] s by blast
qed

end
