(* ===== verification/OpenDdsCrypto.thy ===== *)
theory OpenDdsCrypto
  imports PqKem
begin

text \<open>
  The cryptography of the OpenDDS adapter (\<open>adapters/opendds/src/Crypto.cpp\<close>): the fallback
  provider and the class \<open>Kem\<close> over OpenSSL EVP.  A method that returns \<open>bool\<close> with an error
  string gives \<open>Inl\<close> of that string or \<open>Inr\<close> of what it stored.  The EVP functions are the same
  parameters as for the CycloneDDS adapter.
\<close>

section \<open>The parameters\<close>

text \<open>
  The messages OpenSSL has queued at a point of time (what the calls of \<open>ERR_get_error\<close> give
  until it returns 0, as \<open>ERR_error_string_n\<close> prints them), and the loading of a provider.
\<close>

record openssl_provider = openssl_kem +
  ERR_queue :: "nat \<Rightarrow> string list"
  PROVIDER_try_load :: "nat \<Rightarrow> string \<Rightarrow> bool"

section \<open>Errors and providers\<close>

fun append_errors :: "string \<Rightarrow> string list \<Rightarrow> string" where
  "append_errors out [] = out"
| "append_errors out (text # queue) = append_errors (out @ '': '' @ text) queue"

definition openssl_errors :: "('a) openssl_provider_scheme \<Rightarrow> nat \<Rightarrow> string \<Rightarrow> string" where
  "openssl_errors E t prefix = append_errors prefix (ERR_queue E t)"

definition openssl_supports :: "('a) openssl_provider_scheme \<Rightarrow> nat \<Rightarrow> string \<Rightarrow> bool" where
  "openssl_supports E t algorithm \<longleftrightarrow> EVP_PKEY_CTX_new_from_name E t algorithm"

text \<open>
  \<open>ProviderFallback::ensure_algorithm\<close>: \<open>loaded\<close> is the member \<open>provider_\<close>, the provider already
  loaded; the result is the error or nothing, and the new \<open>provider_\<close>.  The second test for the algorithm comes after the
  provider has been loaded.
\<close>

definition ensure_algorithm ::
  "('a) openssl_provider_scheme \<Rightarrow> nat \<Rightarrow> string \<Rightarrow> string \<Rightarrow> string option \<Rightarrow>
   (string + unit) \<times> string option" where
  "ensure_algorithm E t algorithm provider loaded =
     (if openssl_supports E t algorithm then (Inr (), loaded)
      else if provider = [] then
        (Inl (''OpenSSL does not expose '' @ algorithm @ '' and no fallback provider is configured''),
         loaded)
      else
        (let now_loaded = (case loaded of
                Some p \<Rightarrow> Some p
              | None \<Rightarrow> if PROVIDER_try_load E t provider then Some provider else None) in
         case now_loaded of
           None \<Rightarrow> (Inl (openssl_errors E t (''Failed to load OpenSSL provider '' @ provider)), None)
         | Some p \<Rightarrow>
             if \<not> openssl_supports E (t + 1) algorithm
             then (Inl (''OpenSSL provider '' @ provider @ '' does not expose '' @ algorithm), Some p)
             else (Inr (), Some p)))"

section \<open>The class Kem\<close>

record Kem =
  km_algorithm :: string
  km_key :: "evp_pkey option"

definition new_Kem :: "string \<Rightarrow> Kem" where
  "new_Kem algorithm = \<lparr>km_algorithm = algorithm, km_key = None\<rparr>"

definition Kem_generate :: "('a) openssl_provider_scheme \<Rightarrow> nat \<Rightarrow> Kem \<Rightarrow> string + Kem" where
  "Kem_generate E t kem =
     (if \<not> EVP_PKEY_CTX_new_from_name E t (km_algorithm kem)
      then Inl (openssl_errors E t (''EVP_PKEY_CTX_new_from_name('' @ km_algorithm kem @ '')''))
      else
        (case EVP_PKEY_generate E t (km_algorithm kem) of
           (rc, generated) \<Rightarrow>
             if EVP_PKEY_keygen_init E t (km_algorithm kem) = 1 \<and> rc = 1
             then Inr (kem\<lparr>km_key := generated\<rparr>)
             else Inl (openssl_errors E t ''ML-KEM key generation failed'')))"

definition Kem_import_public ::
  "('a) openssl_provider_scheme \<Rightarrow> nat \<Rightarrow> bytes \<Rightarrow> Kem \<Rightarrow> string + Kem" where
  "Kem_import_public E t public_key kem =
     (if public_key = [] then Inl ''ML-KEM public key is empty''
      else
        (let algorithm = km_algorithm kem;
             from_data = EVP_PKEY_CTX_new_from_name E t algorithm \<and>
               EVP_PKEY_fromdata_init E t algorithm = 1 \<and>
               fst (EVP_PKEY_fromdata E t algorithm public_key) = 1;
             imported =
               (if from_data then snd (EVP_PKEY_fromdata E t algorithm public_key)
                else EVP_PKEY_new_raw_public_key_ex E t algorithm public_key) in
         case imported of
           None \<Rightarrow> Inl (openssl_errors E t ''ML-KEM public-key import failed'')
         | Some key \<Rightarrow> Inr (kem\<lparr>km_key := Some key\<rparr>)))"

definition Kem_public_key :: "('a) openssl_provider_scheme \<Rightarrow> nat \<Rightarrow> Kem \<Rightarrow> string + bytes" where
  "Kem_public_key E t kem =
     (case km_key kem of
        None \<Rightarrow> Inl ''ML-KEM key has not been initialized''
      | Some key \<Rightarrow>
          (let encoded = EVP_PKEY_get1_encoded_public_key E key in
           if length encoded \<noteq> 0 then Inr encoded
           else
             (case EVP_PKEY_raw_public_key_size E key of
                (rc, n) \<Rightarrow>
                  if rc \<noteq> 1 \<or> n = 0
                  then Inl (openssl_errors E t ''ML-KEM public-key size query failed'')
                  else
                    (case EVP_PKEY_get_raw_public_key E key of
                       (rc', raw) \<Rightarrow>
                         if rc' \<noteq> 1 then Inl (openssl_errors E t ''ML-KEM public-key export failed'')
                         else Inr raw))))"

definition Kem_encapsulate ::
  "('a) openssl_provider_scheme \<Rightarrow> nat \<Rightarrow> Kem \<Rightarrow> string + bytes \<times> bytes" where
  "Kem_encapsulate E t kem =
     (case km_key kem of
        None \<Rightarrow> Inl ''ML-KEM public key has not been initialized''
      | Some key \<Rightarrow>
          (case EVP_PKEY_encapsulate_sizes E t key of
             (rc, n, m) \<Rightarrow>
               let initialized = EVP_PKEY_CTX_new_from_pkey E t key \<and>
                     EVP_PKEY_encapsulate_init E t key = 1 \<and> rc = 1 in
               if \<not> initialized \<or> n = 0 \<or> m = 0
               then Inl (openssl_errors E t ''ML-KEM encapsulation size query failed'')
               else
                 (case EVP_PKEY_encapsulate E t key of
                    (rc', ciphertext, secret) \<Rightarrow>
                      if rc' \<noteq> 1 then Inl (openssl_errors E t ''ML-KEM encapsulation failed'')
                      else Inr (ciphertext, secret))))"

definition Kem_decapsulate ::
  "('a) openssl_provider_scheme \<Rightarrow> nat \<Rightarrow> bytes \<Rightarrow> Kem \<Rightarrow> string + bytes" where
  "Kem_decapsulate E t ciphertext kem =
     (case km_key kem of
        None \<Rightarrow> Inl ''ML-KEM private key or ciphertext is missing''
      | Some key \<Rightarrow>
          if ciphertext = [] then Inl ''ML-KEM private key or ciphertext is missing''
          else
            (case EVP_PKEY_decapsulate_size E t key ciphertext of
               (rc, n) \<Rightarrow>
                 let initialized = EVP_PKEY_CTX_new_from_pkey E t key \<and>
                       EVP_PKEY_decapsulate_init E t key = 1 \<and> rc = 1 in
                 if \<not> initialized \<or> n = 0
                 then Inl (openssl_errors E t ''ML-KEM decapsulation size query failed'')
                 else
                   (case EVP_PKEY_decapsulate E t key ciphertext of
                      (rc', secret) \<Rightarrow>
                        if rc' \<noteq> 1 then Inl (openssl_errors E t ''ML-KEM decapsulation failed'')
                        else Inr secret)))"

definition Kem_clear :: "Kem \<Rightarrow> Kem" where
  "Kem_clear kem = kem\<lparr>km_key := None\<rparr>"

section \<open>What a successful method did\<close>

lemma Kem_generate_ok:
  "Kem_generate E t kem = Inr kem' \<longleftrightarrow>
     EVP_PKEY_CTX_new_from_name E t (km_algorithm kem) \<and>
     EVP_PKEY_keygen_init E t (km_algorithm kem) = 1 \<and>
     (\<exists>key. EVP_PKEY_generate E t (km_algorithm kem) = (1, key) \<and> kem' = kem\<lparr>km_key := key\<rparr>)"
  by (auto simp: Kem_generate_def split: prod.splits)

lemma Kem_import_public_ok:
  "Kem_import_public E t pk kem = Inr kem' \<longleftrightarrow>
     pk \<noteq> [] \<and> (\<exists>key. import_public_key E t (km_algorithm kem) pk = Some key \<and>
       kem' = kem\<lparr>km_key := Some key\<rparr>)"
  by (auto simp: Kem_import_public_def import_public_key_def Let_def split: option.splits)

lemma Kem_public_key_ok:
  assumes "Kem_public_key E t kem = Inr pk"
  shows "\<exists>key. km_key kem = Some key \<and>
    (pk = EVP_PKEY_get1_encoded_public_key E key \<and> pk \<noteq> [] \<or>
     EVP_PKEY_get1_encoded_public_key E key = [] \<and> (\<exists>n. EVP_PKEY_raw_public_key_size E key = (1, n)) \<and>
     EVP_PKEY_get_raw_public_key E key = (1, pk))"
  using assms by (auto simp: Kem_public_key_def Let_def split: option.splits if_splits prod.splits)

lemma Kem_encapsulate_ok:
  assumes "Kem_encapsulate E t kem = Inr (ct, ss)"
  shows "\<exists>key. km_key kem = Some key \<and> EVP_PKEY_encapsulate E t key = (1, ct, ss)"
  using assms by (auto simp: Kem_encapsulate_def Let_def split: option.splits if_splits prod.splits)

lemma Kem_decapsulate_ok:
  assumes "Kem_decapsulate E t ct kem = Inr ss"
  shows "\<exists>key. km_key kem = Some key \<and> EVP_PKEY_decapsulate E t key ct = (1, ss)"
  using assms by (auto simp: Kem_decapsulate_def Let_def split: option.splits if_splits prod.splits)

text \<open>Where OpenSSL's KEM is correct, so is the class: the two sides hold the same secret.\<close>

lemma Kem_secrets_agree:
  assumes kem: "kem_correct E"
    and gen: "Kem_generate E t1 (new_Kem alg) = Inr own" and pub: "Kem_public_key E t1 own = Inr pk"
    and imp: "Kem_import_public E t2 pk (new_Kem alg) = Inr theirs"
    and enc: "Kem_encapsulate E t2 theirs = Inr (ct, ss)" and dec: "Kem_decapsulate E t3 ct own = Inr ss'"
  shows "ss' = ss"
proof -
  obtain key where key: "EVP_PKEY_generate E t1 alg = (1, key)" "own = (new_Kem alg)\<lparr>km_key := key\<rparr>"
    using gen by (auto simp: Kem_generate_ok new_Kem_def)
  obtain k where k: "key = Some k" "public_encoding E k pk"
    using Kem_public_key_ok [OF pub] key(2) by (auto simp: public_encoding_def)
  obtain rk where rk: "import_public_key E t2 alg pk = Some rk" "EVP_PKEY_encapsulate E t2 rk = (1, ct, ss)"
    using imp Kem_encapsulate_ok [OF enc] by (auto simp: Kem_import_public_ok new_Kem_def)
  have "EVP_PKEY_decapsulate E t3 k ct = (1, ss')"
    using Kem_decapsulate_ok [OF dec] key(2) k(1) by simp
  moreover have "EVP_PKEY_decapsulate E t3 k ct = (1, ss)"
    using kem key(1) k rk unfolding kem_correct_def by blast
  ultimately show ?thesis by simp
qed

section \<open>Properties\<close>

text \<open>
  The provider is a fallback: an algorithm OpenSSL already has needs no provider and loads
  none; success means the algorithm is available; at most one provider is ever loaded, the one
  asked for when none was, and a loaded one stays.
\<close>
lemma ensure_algorithm_fallback:
  "case ensure_algorithm E t algorithm provider loaded of
     (r, loaded') \<Rightarrow>
       (if openssl_supports E t algorithm then r = Inr () \<and> loaded' = loaded
        else (r = Inr () \<longleftrightarrow> provider \<noteq> [] \<and> loaded' \<noteq> None \<and> openssl_supports E (t + 1) algorithm) \<and>
          loaded' = (if loaded = None \<and> provider \<noteq> [] \<and> PROVIDER_try_load E t provider
                     then Some provider else loaded))"
  by (auto simp: ensure_algorithm_def Let_def split: option.splits)

text \<open>
  Once one provider is loaded, asking for another is refused without trying to load it, and the
  message says that the new provider does not have the algorithm.
\<close>
lemma ensure_algorithm_ignores_second_provider:
  assumes "\<not> openssl_supports E t algorithm" and "\<not> openssl_supports E (t + 1) algorithm"
    and "provider \<noteq> []"
  shows "ensure_algorithm E t algorithm provider (Some first) =
    (Inl (''OpenSSL provider '' @ provider @ '' does not expose '' @ algorithm), Some first)"
  using assms by (simp add: ensure_algorithm_def)

end
