(* ===== verification/OpenDdsTranscript.thy ===== *)
theory OpenDdsTranscript
  imports OpenDdsCrypto Tokens
begin

text \<open>
  The transcripts of the OpenDDS adapter (\<open>adapters/opendds/src/Transcript.cpp\<close>): the property lists
  that are hashed and signed.  A \<open>DDS::OctetSeq\<close> or \<open>std::vector\<close> of octets is a list of octets,
  so the two conversions between them keep the value; a vector of \<open>2 ^ 32\<close> octets or more, whose
  size \<open>octets\<close> would cut to a \<open>CORBA::ULong\<close>, is outside the model.
\<close>

definition PROTOCOL :: string where "PROTOCOL = ''pqsec-dds.auth:1.0''"
definition PROPERTY_PREFIX :: string where "PROPERTY_PREFIX = ''pqsec-dds.''"

definition octets :: "bytes \<Rightarrow> bytes" where "octets value = value"
definition bytes_of :: "bytes \<Rightarrow> bytes" where "bytes_of value = value"

definition equal_octets :: "bytes \<Rightarrow> bytes \<Rightarrow> bool" where
  "equal_octets lhs rhs \<longleftrightarrow>
     length lhs = length rhs \<and> (length lhs = 0 \<or> memcmp lhs rhs (length lhs) = 0)"

text \<open>The two overloads of \<open>append\<close>; a string is appended with its terminating NUL.\<close>

definition append_value :: "bin_property list \<Rightarrow> string \<Rightarrow> bytes \<Rightarrow> bin_property list" where
  "append_value properties name value =
     properties @ [\<lparr>bp_name = Some name, bp_value = octets_to_seq value, bp_propagate = True\<rparr>]"

definition append_string :: "bin_property list \<Rightarrow> string \<Rightarrow> string \<Rightarrow> bin_property list" where
  "append_string properties name value = append_value properties name (cstring_octets value)"

definition append_domain :: "bin_property list \<Rightarrow> string \<Rightarrow> bin_property list" where
  "append_domain properties role =
     append_string (append_string properties (PROPERTY_PREFIX @ ''protocol'') PROTOCOL)
       (PROPERTY_PREFIX @ ''role'') role"

definition credential_properties_OD ::
  "bytes \<Rightarrow> bytes \<Rightarrow> bytes \<Rightarrow> string \<Rightarrow> string \<Rightarrow> bin_property list" where
  "credential_properties_OD certificate permissions participant_data signature_algorithm kem_algorithm =
     append_string
       (append_string
         (append_value
           (append_value
             (append_value (append_domain [] ''credential-hash'') ''c.id'' certificate)
             ''c.perm'' permissions)
           ''c.pdata'' participant_data)
         ''c.dsign_algo'' signature_algorithm)
       ''c.kagree_algo'' kem_algorithm"

definition OD_reply_transcript ::
  "bytes \<Rightarrow> bytes \<Rightarrow> bytes \<Rightarrow> bytes \<Rightarrow> bytes \<Rightarrow> bytes \<Rightarrow> bin_property list" where
  "OD_reply_transcript hash2 challenge2 ciphertext challenge1 public_key hash1 =
     append_value
       (append_value
         (append_value
           (append_value
             (append_value
               (append_value (append_domain [] ''reply'') ''hash_c2'' hash2)
               ''challenge2'' challenge2)
             (PROPERTY_PREFIX @ ''kem_ciphertext'') ciphertext)
           ''challenge1'' challenge1)
         (PROPERTY_PREFIX @ ''kem_public'') public_key)
       ''hash_c1'' hash1"

definition OD_final_transcript ::
  "bytes \<Rightarrow> bytes \<Rightarrow> bytes \<Rightarrow> bytes \<Rightarrow> bytes \<Rightarrow> bytes \<Rightarrow> bin_property list" where
  "OD_final_transcript hash1 challenge1 public_key challenge2 ciphertext hash2 =
     append_value
       (append_value
         (append_value
           (append_value
             (append_value
               (append_value (append_domain [] ''final'') ''hash_c1'' hash1)
               ''challenge1'' challenge1)
             (PROPERTY_PREFIX @ ''kem_public'') public_key)
           ''challenge2'' challenge2)
         (PROPERTY_PREFIX @ ''kem_ciphertext'') ciphertext)
       ''hash_c2'' hash2"

lemmas OD_transcript_defs = OD_reply_transcript_def OD_final_transcript_def credential_properties_OD_def
  append_domain_def append_string_def append_value_def PROPERTY_PREFIX_def PROTOCOL_def

section \<open>What a transcript fixes\<close>

lemma equal_octets_iff [simp]: "equal_octets lhs rhs \<longleftrightarrow> lhs = rhs"
  by (auto simp: equal_octets_def memcmp_eq_0_iff)

lemma octets_to_seq_eq [simp]: "octets_to_seq a = octets_to_seq b \<longleftrightarrow> a = b"
  by (auto simp: octets_to_seq_def)

lemma cstring_octets_eq [simp]: "cstring_octets a = cstring_octets b \<longleftrightarrow> a = b"
proof -
  have "octets_of a = octets_of b \<longleftrightarrow> a = b"
    unfolding octets_of_def by (rule inj_map_eq_map) (auto simp: inj_on_def of_char_octet_inj)
  then show ?thesis by (simp add: cstring_octets_def)
qed

text \<open>
  C22: the signed and hashed lists of the OpenDDS adapter separate their purposes and bind
  everything in them: two equal lists of one kind have the same components, and no reply
  transcript is a final transcript or the list of a credential hash.
\<close>
theorem OD_transcripts_separate:
  "(OD_reply_transcript h2 c2 ct c1 pk h1 = OD_reply_transcript h2' c2' ct' c1' pk' h1' \<longleftrightarrow>
      (h2, c2, ct, c1, pk, h1) = (h2', c2', ct', c1', pk', h1')) \<and>
   (OD_final_transcript h1 c1 pk c2 ct h2 = OD_final_transcript h1' c1' pk' c2' ct' h2' \<longleftrightarrow>
      (h1, c1, pk, c2, ct, h2) = (h1', c1', pk', c2', ct', h2')) \<and>
   (credential_properties_OD cert perm pdata sig kem = credential_properties_OD cert' perm' pdata' sig' kem'
      \<longleftrightarrow> (cert, perm, pdata, sig, kem) = (cert', perm', pdata', sig', kem')) \<and>
   OD_reply_transcript h2 c2 ct c1 pk h1 \<noteq> OD_final_transcript h1' c1' pk' c2' ct' h2' \<and>
   credential_properties_OD cert perm pdata sig kem \<noteq> OD_reply_transcript h2' c2' ct' c1' pk' h1' \<and>
   credential_properties_OD cert perm pdata sig kem \<noteq> OD_final_transcript h1' c1' pk' c2' ct' h2'"
  by (auto simp: OD_transcript_defs)

end
