(* ===== verification/OpenDdsAuth.thy ===== *)
theory OpenDdsAuth
  imports OpenDdsTranscript
begin

text \<open>
  The OpenDDS adapter (\<open>adapters/opendds/src/Authentication.cpp\<close>): the class \<open>Authentication\<close>,
  its three maps, and every method of the DDS Security interface it implements.

  A method returns through a value and through the variables its reference parameters are bound
  to; the fields \<open>out_handle\<close>, \<open>out_token\<close> and \<open>out_guid\<close> of the state are those variables, so that
  what a failing method has stored in them is kept.  A \<open>shared_ptr\<close> to a local or remote
  identity is an index into a list of objects (handshakes keep such pointers after the maps have
  dropped them); a handshake is only ever owned by its map.  Every method that uses the maps holds
  the mutex, so a method is one step.  Exceptions of the C++ runtime (\<open>std::bad_alloc\<close>) are not
  modelled.
\<close>

section \<open>The functions of OpenDDS\<close>

record od_credentials =
  cr_cert :: x509
  cr_ca :: x509
  cr_key :: evp_pkey
  cr_permissions :: bytes

datatype rtps_parameter =
    Participant_guid bytes
  | Other_parameter nat

record opendds = openssl_provider +
  load_credentials :: "nat \<Rightarrow> (string \<times> string) list \<Rightarrow> bool \<times> od_credentials"
  credentials_validate :: "nat \<Rightarrow> od_credentials \<Rightarrow> bool"
  load_access_permissions :: "data_holder \<Rightarrow> od_credentials \<Rightarrow> unit vres \<times> od_credentials"
  cert_dsign_algo :: "x509 \<Rightarrow> string"
  cert_keypair_algo :: "x509 \<Rightarrow> string"
  cert_subject_name_to_str :: "x509 \<Rightarrow> string"
  cert_original_bytes :: "x509 \<Rightarrow> bytes"
  cert_deserialize :: "bytes \<Rightarrow> x509 option"
  cert_validate :: "nat \<Rightarrow> x509 \<Rightarrow> x509 \<Rightarrow> int"
  cert_subject_name_digest :: "x509 \<Rightarrow> int \<times> bytes"
  make_adjusted_guid :: "bytes \<Rightarrow> x509 \<Rightarrow> int \<times> bytes"
  make_nonce_256 :: "nat \<Rightarrow> int \<times> bytes"
  offset_1bit :: "bytes \<Rightarrow> nat \<Rightarrow> octet"
  guid_less :: "bytes \<Rightarrow> bytes \<Rightarrow> bool"
  hash_serialized :: "bin_property list \<Rightarrow> int \<times> bytes"
  sign_serialized :: "nat \<Rightarrow> bin_property list \<Rightarrow> evp_pkey \<Rightarrow> int \<times> bytes"
  verify_serialized :: "bin_property list \<Rightarrow> x509 \<Rightarrow> bytes \<Rightarrow> int"
  deserialize_parameters :: "bytes \<Rightarrow> rtps_parameter list option"
  TokenWriter :: "data_holder \<Rightarrow> string \<Rightarrow> data_holder"
  add_property :: "data_holder \<Rightarrow> string \<Rightarrow> string \<Rightarrow> data_holder"
  add_bin_property :: "data_holder \<Rightarrow> string \<Rightarrow> bytes \<Rightarrow> data_holder"
  add_bin_property_string :: "data_holder \<Rightarrow> string \<Rightarrow> string \<Rightarrow> data_holder"
  TokenReader_is_nil :: "data_holder \<Rightarrow> bool"
  get_bin_property_value :: "data_holder \<Rightarrow> string \<Rightarrow> bytes"
  getenv :: "string \<Rightarrow> string option"

section \<open>Names\<close>

definition BASE_CLASS_ID :: string where "BASE_CLASS_ID = ''pqsec-dds.auth:1.0''"
definition AUTH_REQUEST_CLASS_ID :: string where
  "AUTH_REQUEST_CLASS_ID = ''pqsec-dds.auth:1.0+AuthReq''"
definition REQUEST_CLASS_ID :: string where "REQUEST_CLASS_ID = ''pqsec-dds.auth:1.0+Req''"
definition REPLY_CLASS_ID :: string where "REPLY_CLASS_ID = ''pqsec-dds.auth:1.0+Reply''"
definition FINAL_CLASS_ID :: string where "FINAL_CLASS_ID = ''pqsec-dds.auth:1.0+Final''"
definition DEFAULT_KEM :: string where "DEFAULT_KEM = ''X25519MLKEM768''"
definition KEM_PROPERTY :: string where "KEM_PROPERTY = ''pqsec-dds.kem''"
definition PROVIDER_PROPERTY :: string where "PROVIDER_PROPERTY = ''pqsec-dds.provider''"
definition KEM_PUBLIC_PROPERTY :: string where "KEM_PUBLIC_PROPERTY = ''pqsec-dds.kem_public''"
definition KEM_CIPHERTEXT_PROPERTY :: string where
  "KEM_CIPHERTEXT_PROPERTY = ''pqsec-dds.kem_ciphertext''"

lemmas od_class_id_defs = BASE_CLASS_ID_def AUTH_REQUEST_CLASS_ID_def REQUEST_CLASS_ID_def
  REPLY_CLASS_ID_def FINAL_CLASS_ID_def

section \<open>Helper functions\<close>

definition class_is :: "data_holder \<Rightarrow> string \<Rightarrow> bool" where
  "class_is token expected \<longleftrightarrow> class_id token = Some expected"

text \<open>\<open>DDS::Security::Token()\<close>: an IDL string is never a null pointer.\<close>

definition empty_token :: data_holder where
  "empty_token = \<lparr>class_id = Some [], dh_properties = [], dh_binary_properties = []\<rparr>"

definition string_value :: "bytes \<Rightarrow> string" where
  "string_value value =
     (if length value = 0 \<or> value ! (length value - 1) \<noteq> 0 then []
      else map (\<lambda>b. char_of (unat b)) (takeWhile (\<lambda>b. b \<noteq> 0) value))"

definition mldsa_algorithm :: "string \<Rightarrow> bool" where
  "mldsa_algorithm value \<longleftrightarrow>
     value = ''ML-DSA-44'' \<or> value = ''ML-DSA-65'' \<or> value = ''ML-DSA-87''"

definition kem_algorithm :: "string \<Rightarrow> bool" where
  "kem_algorithm value \<longleftrightarrow>
     value = ''ML-KEM-512'' \<or> value = ''ML-KEM-768'' \<or> value = ''ML-KEM-1024'' \<or>
     value = ''X25519MLKEM768'' \<or> value = ''SecP256r1MLKEM768'' \<or> value = ''frodo640shake'' \<or>
     value = ''bikel1'' \<or> value = ''hqc128''"

definition initiator :: "('a) opendds_scheme \<Rightarrow> bytes \<Rightarrow> bytes \<Rightarrow> bool" where
  "initiator E local_guid remote_guid \<longleftrightarrow> guid_less E local_guid remote_guid"

text \<open>The loop of \<open>cert_matches_guid\<close>, from \<open>i\<close> to 5.\<close>

function guid_octets_match :: "('a) opendds_scheme \<Rightarrow> bytes \<Rightarrow> bytes \<Rightarrow> nat \<Rightarrow> bool" where
  "guid_octets_match E digest guid i =
     (if i \<ge> 6 then True
      else if guid ! i \<noteq> offset_1bit E digest i then False
      else guid_octets_match E digest guid (i + 1))"
  by pat_completeness auto
termination by (relation "measure (\<lambda>(E, digest, guid, i). 6 - i)") auto

definition cert_matches_guid :: "('a) opendds_scheme \<Rightarrow> x509 \<Rightarrow> bytes \<Rightarrow> bool" where
  "cert_matches_guid E certificate guid =
     (case cert_subject_name_digest E certificate of
        (rc, digest) \<Rightarrow>
          if rc \<noteq> 0 \<or> length digest < 6 then False
          else if and (guid ! 0) 0x80 \<noteq> 0x80 \<or> and (guid ! 0) 0x7f \<noteq> offset_1bit E digest 0
          then False
          else guid_octets_match E digest guid 1)"

fun first_guid_is :: "rtps_parameter list \<Rightarrow> bytes \<Rightarrow> bool" where
  "first_guid_is [] expected = False"
| "first_guid_is (Participant_guid g # parameters) expected = (g = expected)"
| "first_guid_is (Other_parameter pid # parameters) expected = first_guid_is parameters expected"

definition participant_data_has_guid :: "('a) opendds_scheme \<Rightarrow> bytes \<Rightarrow> bytes \<Rightarrow> bool" where
  "participant_data_has_guid E data expected =
     (case deserialize_parameters E data of
        None \<Rightarrow> False
      | Some parameters \<Rightarrow> first_guid_is parameters expected)"

definition credential_hash ::
  "('a) opendds_scheme \<Rightarrow> bytes \<Rightarrow> bytes \<Rightarrow> bytes \<Rightarrow> string \<Rightarrow> string \<Rightarrow> int \<times> bytes" where
  "credential_hash E certificate permissions participant_data signature_algorithm kem_alg =
     hash_serialized E (credential_properties_OD certificate permissions participant_data
       signature_algorithm kem_alg)"

section \<open>The state\<close>

datatype ValidationResult_OD =
    VALIDATION_OK
  | VALIDATION_FAILED
  | VALIDATION_PENDING_HANDSHAKE_REQUEST
  | VALIDATION_PENDING_HANDSHAKE_MESSAGE
  | VALIDATION_OK_FINAL_MESSAGE

definition X509_V_OK :: int where "X509_V_OK = 0"
definition HANDLE_NIL :: int where "HANDLE_NIL = 0"
definition LONG_MAX :: int where "LONG_MAX = 2147483647"  \<comment> \<open>of \<open>CORBA::Long\<close>, 32 bits\<close>

record LocalIdentity_OD =
  li_credentials :: od_credentials
  li_guid :: bytes
  li_kem_algorithm :: string

record RemoteIdentity_OD =
  ri_local_handle :: int
  ri_guid :: bytes
  ri_local_auth_request :: data_holder
  ri_remote_auth_request :: data_holder
  ri_local_challenge :: bytes
  ri_remote_challenge :: bytes
  ri_local_auth_request_sent :: bool

definition new_RemoteIdentity_OD :: RemoteIdentity_OD where
  "new_RemoteIdentity_OD =
     \<lparr>ri_local_handle = HANDLE_NIL, ri_guid = [], ri_local_auth_request = empty_token,
      ri_remote_auth_request = empty_token, ri_local_challenge = [], ri_remote_challenge = [],
      ri_local_auth_request_sent = False\<rparr>"

record Handshake_OD =
  hs_initiator :: bool
  hs_state :: ValidationResult_OD
  hs_local_handle :: int
  hs_remote_handle :: int
  hs_local :: nat
  hs_remote :: nat
  hs_kem :: Kem
  hs_request :: data_holder
  hs_reply :: data_holder
  hs_hash1 :: bytes
  hs_hash2 :: bytes
  hs_challenge1 :: bytes
  hs_challenge2 :: bytes
  hs_public_key :: bytes
  hs_ciphertext :: bytes
  hs_secret :: bytes
  hs_remote_certificate :: "x509 option"
  hs_remote_permissions :: bytes

text \<open>
  \<open>Handshake()\<close>, with the two handles and the two pointers every caller of the constructor sets
  right after it.
\<close>

definition new_Handshake_OD :: "int \<Rightarrow> int \<Rightarrow> nat \<Rightarrow> nat \<Rightarrow> Handshake_OD" where
  "new_Handshake_OD local_handle remote_handle local_ptr remote_ptr =
     \<lparr>hs_initiator = False, hs_state = VALIDATION_FAILED, hs_local_handle = local_handle,
      hs_remote_handle = remote_handle, hs_local = local_ptr, hs_remote = remote_ptr,
      hs_kem = new_Kem DEFAULT_KEM, hs_request = empty_token, hs_reply = empty_token,
      hs_hash1 = [], hs_hash2 = [], hs_challenge1 = [], hs_challenge2 = [], hs_public_key = [],
      hs_ciphertext = [], hs_secret = [], hs_remote_certificate = None, hs_remote_permissions = []\<rparr>"

record od_auth =
  od_provider :: "string option"
  od_next_handle :: int
  od_locals :: "int \<rightharpoonup> nat"
  od_remotes :: "int \<rightharpoonup> nat"
  od_handshakes :: "int \<rightharpoonup> Handshake_OD"
  od_listener :: "nat option"
  local_objects :: "LocalIdentity_OD list"
  remote_objects :: "RemoteIdentity_OD list"
  od_clock :: nat
  out_handle :: int
  out_token :: data_holder
  out_guid :: bytes

definition new_Authentication_OD :: "od_auth \<Rightarrow> bool" where
  "new_Authentication_OD s \<longleftrightarrow>
     od_provider s = None \<and> od_next_handle s = 1 \<and> od_locals s = Map.empty \<and>
     od_remotes s = Map.empty \<and> od_handshakes s = Map.empty \<and> od_listener s = None \<and>
     local_objects s = [] \<and> remote_objects s = []"

section \<open>Steps the methods share\<close>

definition fail_OD :: "string \<Rightarrow> ('s, 'a) op" where
  "fail_OD message = lift_op (Inl (Some (Exn OPENDDS_ERROR_CODE message)))"

definition check_OD :: "bool \<Rightarrow> string \<Rightarrow> ('s, unit) op" where
  "check_OD b message = (if b then ret_op () else fail_OD message)"

text \<open>A method of \<open>Kem\<close> or \<open>ProviderFallback\<close> whose error string is the exception's message.\<close>

definition or_fail :: "string \<Rightarrow> string + 'a \<Rightarrow> ('s, 'a) op" where
  "or_fail prefix r = (case r of Inl error \<Rightarrow> fail_OD (prefix @ error) | Inr x \<Rightarrow> ret_op x)"

text \<open>The time of a call of OpenDDS or OpenSSL that draws randomness or reads the clock.\<close>

definition tick_OD :: "(od_auth, nat) op" where
  "tick_OD s = Ret (Inr (od_clock s), s\<lparr>od_clock := Suc (od_clock s)\<rparr>)"

definition next_handle :: "(od_auth, int) op" where
  "next_handle s =
     (if od_next_handle s = LONG_MAX then Fault Signed_overflow
      else Ret (Inr (od_next_handle s), s\<lparr>od_next_handle := od_next_handle s + 1\<rparr>))"

definition local_OD :: "od_auth \<Rightarrow> int \<Rightarrow> nat option" where
  "local_OD s handle = od_locals s handle"

definition remote_OD :: "od_auth \<Rightarrow> int \<Rightarrow> nat option" where
  "remote_OD s handle = od_remotes s handle"

section \<open>Identities\<close>

text \<open>The loop over the participant's properties: the last occurrence of a name counts.\<close>

fun select_algorithms :: "(string \<times> string) list \<Rightarrow> string \<Rightarrow> string \<Rightarrow> string \<times> string" where
  "select_algorithms [] selected_kem selected_provider = (selected_kem, selected_provider)"
| "select_algorithms ((name, value) # properties) selected_kem selected_provider =
     (if name = KEM_PROPERTY then select_algorithms properties value selected_provider
      else if name = PROVIDER_PROPERTY then select_algorithms properties selected_kem value
      else select_algorithms properties selected_kem selected_provider)"

definition validate_local_identity_OD ::
  "('a) opendds_scheme \<Rightarrow> (string \<times> string) list \<Rightarrow> bytes \<Rightarrow> (od_auth, ValidationResult_OD) op"
where
  "validate_local_identity_OD E qos_properties candidate =
     bind_op tick_OD (\<lambda>t.
     let (loaded, credentials) = load_credentials E t qos_properties in
     bind_op (check_OD (loaded \<and> credentials_validate E t credentials)
       ''PQSec failed to load or validate local credentials'') (\<lambda>_.
     let signature_algorithm = cert_dsign_algo E (cr_cert credentials) in
     bind_op (check_OD (mldsa_algorithm signature_algorithm)
       ''PQSec requires an ML-DSA identity certificate'') (\<lambda>_.
     let default_provider =
           (case getenv E ''PQSEC_OPENSSL_PROVIDER'' of
              Some environment_provider \<Rightarrow> environment_provider
            | None \<Rightarrow> ''oqsprovider'');
         (selected_kem, selected_provider) =
           select_algorithms qos_properties DEFAULT_KEM default_provider in
     bind_op (check_OD (kem_algorithm selected_kem)
       (''PQSec requested an unsupported KEM algorithm: '' @ selected_kem)) (\<lambda>_.
     bind_op get_op (\<lambda>s.
     let (ensured, provider) = ensure_algorithm E t selected_kem selected_provider (od_provider s) in
     bind_op (modify_op (\<lambda>s. s\<lparr>od_provider := provider, od_clock := Suc (od_clock s)\<rparr>)) (\<lambda>_.
     bind_op (or_fail ''PQSec requested an unavailable KEM algorithm: '' ensured) (\<lambda>_.
     let (rc, adjusted) = make_adjusted_guid E candidate (cr_cert credentials) in
     bind_op (modify_op (\<lambda>s. s\<lparr>out_guid := adjusted\<rparr>)) (\<lambda>_.
     bind_op (check_OD (rc = 0) ''PQSec failed to derive the adjusted participant GUID'') (\<lambda>_.
     bind_op next_handle (\<lambda>handle.
     bind_op (modify_op (\<lambda>s. s
       \<lparr>out_handle := handle,
        local_objects := local_objects s @
          [\<lparr>li_credentials = credentials, li_guid = adjusted, li_kem_algorithm = selected_kem\<rparr>],
        od_locals := (od_locals s)(handle \<mapsto> length (local_objects s))\<rparr>)) (\<lambda>_.
     ret_op VALIDATION_OK)))))))))))"

definition get_identity_token_OD ::
  "('a) opendds_scheme \<Rightarrow> data_holder \<Rightarrow> int \<Rightarrow> (od_auth, unit) op" where
  "get_identity_token_OD E token handle =
     bind_op (modify_op (\<lambda>s. s\<lparr>out_token := token\<rparr>)) (\<lambda>_.
     bind_op get_op (\<lambda>s.
     case local_OD s handle of
       None \<Rightarrow> fail_OD ''Unknown local identity''
     | Some p \<Rightarrow>
         (let credentials = li_credentials (local_objects s ! p);
              subject = cert_subject_name_to_str E (cr_cert credentials);
              ca_subject = cert_subject_name_to_str E (cr_ca credentials);
              t0 = TokenWriter E token BASE_CLASS_ID;
              t1 = add_property E t0 ''dds.cert.sn'' subject;
              t2 = add_property E t1 ''dds.cert.algo'' (cert_keypair_algo E (cr_cert credentials));
              t3 = add_property E t2 ''dds.ca.sn'' ca_subject;
              t4 = add_property E t3 ''dds.ca.algo'' (cert_keypair_algo E (cr_ca credentials))
          in modify_op (\<lambda>s. s\<lparr>out_token := t4\<rparr>))))"

definition get_identity_status_token_OD :: "int \<Rightarrow> (od_auth, unit) op" where
  "get_identity_status_token_OD handle =
     bind_op get_op (\<lambda>s. check_OD (local_OD s handle \<noteq> None) ''Unknown local identity'')"

definition set_permissions_credential_and_token_OD ::
  "('a) opendds_scheme \<Rightarrow> int \<Rightarrow> data_holder \<Rightarrow> (od_auth, unit) op" where
  "set_permissions_credential_and_token_OD E handle credential =
     bind_op get_op (\<lambda>s.
     case local_OD s handle of
       None \<Rightarrow> fail_OD ''Unknown local identity''
     | Some p \<Rightarrow>
         (let identity = local_objects s ! p;
              (r, credentials) = load_access_permissions E credential (li_credentials identity) in
          bind_op (modify_op (\<lambda>s. s\<lparr>local_objects :=
            (local_objects s)[p := identity\<lparr>li_credentials := credentials\<rparr>]\<rparr>)) (\<lambda>_.
          lift_op r)))"

text \<open>
  \<open>validate_remote_identity\<close>: \<open>remote_handle\<close> is both read and written.  A new identity is
  registered before the remote request is checked, so a failure after that keeps it.
\<close>

definition find_or_new_remote ::
  "('a) opendds_scheme \<Rightarrow> int \<Rightarrow> int \<Rightarrow> bytes \<Rightarrow> (od_auth, nat) op" where
  "find_or_new_remote E remote_handle local_handle remote_guid =
     bind_op get_op (\<lambda>s.
     let identity = (if remote_handle \<noteq> HANDLE_NIL then remote_OD s remote_handle else None) in
     case identity of
       Some p \<Rightarrow>
         bind_op (check_OD (\<not> (ri_local_handle (remote_objects s ! p) \<noteq> local_handle \<or>
                               ri_guid (remote_objects s ! p) \<noteq> remote_guid))
           ''Remote identity handle does not match the supplied participants'') (\<lambda>_. ret_op p)
     | None \<Rightarrow>
         bind_op tick_OD (\<lambda>t.
         let (rc, challenge) = make_nonce_256 E t in
         bind_op (check_OD (rc = 0) ''Failed to generate PQSec AuthRequest challenge'') (\<lambda>_.
         let request = add_bin_property E (TokenWriter E empty_token AUTH_REQUEST_CLASS_ID)
               ''future_challenge'' challenge in
         bind_op next_handle (\<lambda>handle.
         bind_op (modify_op (\<lambda>s. s
           \<lparr>out_handle := handle,
            remote_objects := remote_objects s @
              [new_RemoteIdentity_OD\<lparr>ri_local_handle := local_handle, ri_guid := remote_guid,
                 ri_local_auth_request := request, ri_local_challenge := challenge\<rparr>],
            od_remotes := (od_remotes s)(handle \<mapsto> length (remote_objects s))\<rparr>)) (\<lambda>_.
         ret_op (length (remote_objects s)))))))"

definition update_remote_OD :: "nat \<Rightarrow> (RemoteIdentity_OD \<Rightarrow> RemoteIdentity_OD) \<Rightarrow> (od_auth, unit) op" where
  "update_remote_OD p f =
     modify_op (\<lambda>s. s\<lparr>remote_objects := (remote_objects s)[p := f (remote_objects s ! p)]\<rparr>)"

definition validate_remote_identity_OD ::
  "('a) opendds_scheme \<Rightarrow> int \<Rightarrow> data_holder \<Rightarrow> data_holder \<Rightarrow> int \<Rightarrow> data_holder \<Rightarrow> bytes \<Rightarrow>
   (od_auth, ValidationResult_OD) op" where
  "validate_remote_identity_OD E remote_handle local_request remote_request local_handle
       identity_token remote_guid =
     bind_op (modify_op (\<lambda>s. s\<lparr>out_handle := remote_handle, out_token := local_request\<rparr>)) (\<lambda>_.
     bind_op get_op (\<lambda>s.
     case local_OD s local_handle of
       None \<Rightarrow> fail_OD ''Unknown local identity or incompatible remote authentication plugin''
     | Some lp \<Rightarrow>
         bind_op (check_OD (class_is identity_token BASE_CLASS_ID)
           ''Unknown local identity or incompatible remote authentication plugin'') (\<lambda>_.
         bind_op (find_or_new_remote E remote_handle local_handle remote_guid) (\<lambda>rp.
         bind_op (update_remote_OD rp (\<lambda>r. r\<lparr>ri_remote_auth_request := remote_request\<rparr>)) (\<lambda>_.
         bind_op (check_OD (TokenReader_is_nil E remote_request \<or>
             class_is remote_request AUTH_REQUEST_CLASS_ID)
           ''Incompatible PQSec AuthRequest token'') (\<lambda>_.
         let remote_challenge = get_bin_property_value E remote_request ''future_challenge'' in
         bind_op (update_remote_OD rp (\<lambda>r. r\<lparr>ri_remote_challenge := remote_challenge\<rparr>)) (\<lambda>_.
         bind_op (check_OD (TokenReader_is_nil E remote_request \<or> length remote_challenge = 32)
           ''PQSec AuthRequest challenge must contain 256 bits'') (\<lambda>_.
         bind_op get_op (\<lambda>s.
         bind_op (if TokenReader_is_nil E remote_request
                  then bind_op (update_remote_OD rp (\<lambda>r. r\<lparr>ri_local_auth_request_sent := True\<rparr>)) (\<lambda>_.
                    modify_op (\<lambda>s. s\<lparr>out_token := ri_local_auth_request (remote_objects s ! rp)\<rparr>))
                  else modify_op (\<lambda>s. s\<lparr>out_token := empty_token\<rparr>)) (\<lambda>_.
         ret_op
           (if initiator E (li_guid (local_objects s ! lp)) remote_guid
            then VALIDATION_PENDING_HANDSHAKE_REQUEST
            else VALIDATION_PENDING_HANDSHAKE_MESSAGE)))))))))))"

section \<open>Handshakes\<close>

text \<open>The five credential properties a request and a reply start with.\<close>

definition add_credentials ::
  "('a) opendds_scheme \<Rightarrow> LocalIdentity_OD \<Rightarrow> bytes \<Rightarrow> data_holder \<Rightarrow> data_holder" where
  "add_credentials E identity participant_data token =
     (let certificate = cr_cert (li_credentials identity);
          t1 = add_bin_property E token ''c.id'' (cert_original_bytes E certificate);
          t2 = add_bin_property E t1 ''c.perm'' (cr_permissions (li_credentials identity));
          t3 = add_bin_property E t2 ''c.pdata'' participant_data;
          t4 = add_bin_property_string E t3 ''c.dsign_algo'' (cert_dsign_algo E certificate)
      in add_bin_property_string E t4 ''c.kagree_algo'' (li_kem_algorithm identity))"

definition own_credential_hash ::
  "('a) opendds_scheme \<Rightarrow> LocalIdentity_OD \<Rightarrow> bytes \<Rightarrow> int \<times> bytes" where
  "own_credential_hash E identity participant_data =
     credential_hash E (cert_original_bytes E (cr_cert (li_credentials identity)))
       (cr_permissions (li_credentials identity)) participant_data
       (cert_dsign_algo E (cr_cert (li_credentials identity))) (li_kem_algorithm identity)"

text \<open>
  The challenge a handshake uses: the one already announced in an AuthRequest, or a new one.
\<close>

definition choose_challenge ::
  "('a) opendds_scheme \<Rightarrow> nat \<Rightarrow> RemoteIdentity_OD \<Rightarrow> string \<Rightarrow> (od_auth, bytes) op" where
  "choose_challenge E t identity message =
     (if ri_local_auth_request_sent identity then ret_op (ri_local_challenge identity)
      else
        (let (rc, challenge) = make_nonce_256 E t in
         bind_op (check_OD (rc = 0) message) (\<lambda>_. ret_op challenge)))"

definition begin_handshake_request_OD ::
  "('a) opendds_scheme \<Rightarrow> int \<Rightarrow> data_holder \<Rightarrow> int \<Rightarrow> int \<Rightarrow> bytes \<Rightarrow>
   (od_auth, ValidationResult_OD) op" where
  "begin_handshake_request_OD E handle message initiator_handle replier_handle participant_data =
     bind_op (modify_op (\<lambda>s. s\<lparr>out_handle := handle, out_token := message\<rparr>)) (\<lambda>_.
     bind_op (check_OD (handle = HANDLE_NIL)
       ''PQSec handshake request requires a NIL output handle'') (\<lambda>_.
     bind_op get_op (\<lambda>s.
     case (local_OD s initiator_handle, remote_OD s replier_handle) of
       (Some lp, Some rp) \<Rightarrow>
         bind_op (check_OD (length participant_data \<noteq> 0)
           ''Invalid identities or participant data for PQSec handshake request'') (\<lambda>_.
         let local_identity = local_objects s ! lp; remote_identity = remote_objects s ! rp in
         bind_op tick_OD (\<lambda>t.
         bind_op (or_fail [] (Kem_generate E t (new_Kem (li_kem_algorithm local_identity)))) (\<lambda>kem.
         bind_op (or_fail [] (Kem_public_key E t kem)) (\<lambda>key.
         bind_op (choose_challenge E t remote_identity
           ''Failed to generate PQSec request challenge'') (\<lambda>challenge1.
         let (rc, hash1) = own_credential_hash E local_identity participant_data in
         bind_op (check_OD (rc = 0) ''Failed to hash PQSec request credentials'') (\<lambda>_.
         let t1 = add_credentials E local_identity participant_data
               (TokenWriter E message REQUEST_CLASS_ID);
             t2 = add_bin_property E t1 KEM_PUBLIC_PROPERTY (octets key);
             request = add_bin_property E t2 ''challenge1'' challenge1 in
         bind_op (modify_op (\<lambda>s. s\<lparr>out_token := request\<rparr>)) (\<lambda>_.
         bind_op next_handle (\<lambda>new_handle.
         bind_op (modify_op (\<lambda>s. s
           \<lparr>out_handle := new_handle,
            od_handshakes := (od_handshakes s)(new_handle \<mapsto>
              (new_Handshake_OD initiator_handle replier_handle lp rp)
                \<lparr>hs_initiator := True, hs_state := VALIDATION_PENDING_HANDSHAKE_MESSAGE,
                 hs_kem := kem, hs_request := request, hs_hash1 := hash1,
                 hs_challenge1 := challenge1, hs_public_key := octets key\<rparr>)\<rparr>)) (\<lambda>_.
         ret_op VALIDATION_PENDING_HANDSHAKE_MESSAGE)))))))))
     | _ \<Rightarrow> fail_OD ''Invalid identities or participant data for PQSec handshake request'')))"

text \<open>
  The operations on one handshake: the state is the object \<open>hs\<close>, \<open>local_identity\<close> and
  \<open>remote_identity\<close> are what its pointers point to, and \<open>set_hash\<close> says which member the
  reference parameter \<open>hash\<close> is bound to.
\<close>

definition validate_remote_credentials ::
  "('a) opendds_scheme \<Rightarrow> nat \<Rightarrow> LocalIdentity_OD \<Rightarrow> RemoteIdentity_OD \<Rightarrow> data_holder \<Rightarrow>
   (bytes \<Rightarrow> Handshake_OD \<Rightarrow> Handshake_OD) \<Rightarrow> (Handshake_OD, unit) op" where
  "validate_remote_credentials E t local_identity remote_identity token set_hash =
     (let certificate_data = get_bin_property_value E token ''c.id'';
          permissions = get_bin_property_value E token ''c.perm'';
          participant_data = get_bin_property_value E token ''c.pdata'';
          signature_algorithm = string_value (get_bin_property_value E token ''c.dsign_algo'');
          selected_kem = string_value (get_bin_property_value E token ''c.kagree_algo'') in
      bind_op (check_OD (mldsa_algorithm signature_algorithm \<and>
          selected_kem = li_kem_algorithm local_identity)
        ''Unsupported or mismatched PQSec algorithms'') (\<lambda>_.
      let invalid = ''Remote ML-DSA certificate, adjusted GUID, or participant data is invalid'' in
      case cert_deserialize E certificate_data of
        None \<Rightarrow> fail_OD invalid
      | Some certificate \<Rightarrow>
          bind_op (check_OD
            (cert_validate E t certificate (cr_ca (li_credentials local_identity)) = X509_V_OK \<and>
             cert_dsign_algo E certificate = signature_algorithm \<and>
             cert_matches_guid E certificate (ri_guid remote_identity) \<and>
             participant_data_has_guid E participant_data (ri_guid remote_identity)) invalid) (\<lambda>_.
          let (rc, hash) = credential_hash E certificate_data permissions participant_data
                signature_algorithm selected_kem in
          bind_op (modify_op (set_hash hash)) (\<lambda>_.
          bind_op (check_OD (rc = 0) ''Failed to hash remote PQSec credentials'') (\<lambda>_.
          modify_op (\<lambda>hs. hs\<lparr>hs_remote_certificate := Some certificate,
            hs_remote_permissions := permissions\<rparr>))))))"

text \<open>The part of \<open>begin_handshake_reply\<close> that fills the new handshake from the request.\<close>

definition accept_request ::
  "('a) opendds_scheme \<Rightarrow> nat \<Rightarrow> LocalIdentity_OD \<Rightarrow> RemoteIdentity_OD \<Rightarrow> data_holder \<Rightarrow>
   (Handshake_OD, unit) op" where
  "accept_request E t local_identity remote_identity request =
     bind_op (validate_remote_credentials E t local_identity remote_identity request
       (\<lambda>hash hs. hs\<lparr>hs_hash1 := hash\<rparr>)) (\<lambda>_.
     let challenge1 = get_bin_property_value E request ''challenge1'';
         public_key = get_bin_property_value E request KEM_PUBLIC_PROPERTY in
     bind_op (modify_op (\<lambda>hs. hs\<lparr>hs_challenge1 := challenge1, hs_public_key := public_key\<rparr>)) (\<lambda>_.
     bind_op (check_OD (length challenge1 = 32)
       ''PQSec request challenge must contain 256 bits'') (\<lambda>_.
     bind_op (check_OD (length (ri_remote_challenge remote_identity) = 0 \<or>
         equal_octets challenge1 (ri_remote_challenge remote_identity))
       ''PQSec request challenge does not match AuthRequest'') (\<lambda>_.
     bind_op get_op (\<lambda>hs.
     bind_op (or_fail [] (Kem_import_public E t (bytes_of public_key) (hs_kem hs))) (\<lambda>kem.
     bind_op (modify_op (\<lambda>hs. hs\<lparr>hs_kem := kem\<rparr>)) (\<lambda>_.
     bind_op (or_fail [] (Kem_encapsulate E t kem)) (\<lambda>(ciphertext, secret).
     modify_op (\<lambda>hs. hs\<lparr>hs_ciphertext := octets ciphertext, hs_secret := secret\<rparr>)))))))))"

text \<open>The parts of \<open>process_handshake\<close> for a reply and for a final message.\<close>

definition process_reply ::
  "('a) opendds_scheme \<Rightarrow> nat \<Rightarrow> LocalIdentity_OD \<Rightarrow> RemoteIdentity_OD \<Rightarrow> data_holder \<Rightarrow>
   (Handshake_OD, data_holder) op" where
  "process_reply E t local_identity remote_identity input =
     bind_op (validate_remote_credentials E t local_identity remote_identity input
       (\<lambda>hash hs. hs\<lparr>hs_hash2 := hash\<rparr>)) (\<lambda>_.
     let challenge2 = get_bin_property_value E input ''challenge2'';
         ciphertext = get_bin_property_value E input KEM_CIPHERTEXT_PROPERTY in
     bind_op (modify_op (\<lambda>hs. hs\<lparr>hs_challenge2 := challenge2, hs_ciphertext := ciphertext\<rparr>)) (\<lambda>_.
     bind_op get_op (\<lambda>hs.
     bind_op (check_OD (length challenge2 = 32 \<and>
         equal_octets (get_bin_property_value E input ''challenge1'') (hs_challenge1 hs) \<and>
         (length (ri_remote_challenge remote_identity) = 0 \<or>
          equal_octets challenge2 (ri_remote_challenge remote_identity)))
       ''PQSec reply challenge mismatch'') (\<lambda>_.
     let reply_data = OD_reply_transcript (hs_hash2 hs) challenge2 ciphertext (hs_challenge1 hs)
           (hs_public_key hs) (hs_hash1 hs) in
     bind_op
       (case hs_remote_certificate hs of
          None \<Rightarrow> fault_op Null_dereference
        | Some certificate \<Rightarrow>
            check_OD (verify_serialized E reply_data certificate
                (get_bin_property_value E input ''signature'') = 0)
              ''ML-DSA reply signature verification failed'') (\<lambda>_.
     let decapsulated = Kem_decapsulate E t (bytes_of ciphertext) (hs_kem hs) in
     bind_op (modify_op (\<lambda>hs. hs\<lparr>hs_kem := Kem_clear (hs_kem hs)\<rparr>)) (\<lambda>_.
     bind_op (or_fail [] decapsulated) (\<lambda>secret.
     bind_op (modify_op (\<lambda>hs. hs\<lparr>hs_secret := secret\<rparr>)) (\<lambda>_.
     let final_data = OD_final_transcript (hs_hash1 hs) (hs_challenge1 hs) (hs_public_key hs)
           challenge2 ciphertext (hs_hash2 hs);
         (rc, signature) = sign_serialized E t final_data (cr_key (li_credentials local_identity)) in
     bind_op (check_OD (rc = 0) ''ML-DSA final signature failed'') (\<lambda>_.
     bind_op (modify_op (\<lambda>hs. hs\<lparr>hs_reply := input, hs_state := VALIDATION_OK_FINAL_MESSAGE\<rparr>)) (\<lambda>_.
     ret_op (add_bin_property E (TokenWriter E empty_token FINAL_CLASS_ID) ''signature'' signature)))))))))))"

definition process_final :: "('a) opendds_scheme \<Rightarrow> data_holder \<Rightarrow> (Handshake_OD, unit) op" where
  "process_final E input =
     bind_op get_op (\<lambda>hs.
     let final_data = OD_final_transcript (hs_hash1 hs) (hs_challenge1 hs) (hs_public_key hs)
           (hs_challenge2 hs) (hs_ciphertext hs) (hs_hash2 hs) in
     bind_op (check_OD
       (case hs_remote_certificate hs of
          None \<Rightarrow> False
        | Some certificate \<Rightarrow>
            verify_serialized E final_data certificate (get_bin_property_value E input ''signature'') = 0)
       ''ML-DSA final signature verification failed'') (\<lambda>_.
     modify_op (\<lambda>hs. hs\<lparr>hs_state := VALIDATION_OK\<rparr>)))"

text \<open>A failing operation on a local object leaves the plugin as it is; a fault stays one.\<close>

definition run_local :: "('h, 'a) op \<Rightarrow> 'h \<Rightarrow> (od_auth, 'a \<times> 'h) op" where
  "run_local m h s =
     (case m h of
        Fault f \<Rightarrow> Fault f
      | Ret (r, h') \<Rightarrow> (case r of Inl e \<Rightarrow> Ret (Inl e, s) | Inr x \<Rightarrow> Ret (Inr (x, h'), s)))"

text \<open>An operation on the handshake object a handle of the map leads to.\<close>

definition on_handshake :: "int \<Rightarrow> Handshake_OD \<Rightarrow> (Handshake_OD, 'a) op \<Rightarrow> (od_auth, 'a) op" where
  "on_handshake handle hs m s =
     (case m hs of
        Fault f \<Rightarrow> Fault f
      | Ret (r, hs') \<Rightarrow> Ret (r, s\<lparr>od_handshakes := (od_handshakes s)(handle \<mapsto> hs')\<rparr>))"

definition begin_handshake_reply_OD ::
  "('a) opendds_scheme \<Rightarrow> int \<Rightarrow> data_holder \<Rightarrow> int \<Rightarrow> int \<Rightarrow> bytes \<Rightarrow>
   (od_auth, ValidationResult_OD) op" where
  "begin_handshake_reply_OD E handle message initiator_handle replier_handle participant_data =
     bind_op (modify_op (\<lambda>s. s\<lparr>out_handle := handle, out_token := message\<rparr>)) (\<lambda>_.
     bind_op (check_OD (handle = HANDLE_NIL)
       ''PQSec handshake reply requires a NIL output handle'') (\<lambda>_.
     let request = message in
     bind_op (modify_op (\<lambda>s. s\<lparr>out_token := empty_token\<rparr>)) (\<lambda>_.
     bind_op get_op (\<lambda>s.
     case (local_OD s replier_handle, remote_OD s initiator_handle) of
       (Some lp, Some rp) \<Rightarrow>
         bind_op (check_OD (class_is request REQUEST_CLASS_ID)
           ''Invalid PQSec handshake request'') (\<lambda>_.
         let local_identity = local_objects s ! lp; remote_identity = remote_objects s ! rp in
         bind_op tick_OD (\<lambda>t.
         bind_op (run_local (accept_request E t local_identity remote_identity request)
           ((new_Handshake_OD replier_handle initiator_handle lp rp)
              \<lparr>hs_kem := new_Kem (li_kem_algorithm local_identity), hs_request := request\<rparr>))
           (\<lambda>(_, hs).
         bind_op (choose_challenge E t remote_identity
           ''Failed to generate PQSec reply challenge'') (\<lambda>challenge2.
         let (rc, hash2) = own_credential_hash E local_identity participant_data in
         bind_op (check_OD (rc = 0) ''Failed to hash PQSec reply credentials'') (\<lambda>_.
         let transcript = OD_reply_transcript hash2 challenge2 (hs_ciphertext hs)
               (hs_challenge1 hs) (hs_public_key hs) (hs_hash1 hs);
             (rc, signature) =
               sign_serialized E t transcript (cr_key (li_credentials local_identity)) in
         bind_op (check_OD (rc = 0) ''ML-DSA reply signature failed'') (\<lambda>_.
         let t1 = add_credentials E local_identity participant_data
               (TokenWriter E empty_token REPLY_CLASS_ID);
             t2 = add_bin_property E t1 KEM_CIPHERTEXT_PROPERTY (hs_ciphertext hs);
             t3 = add_bin_property E t2 ''challenge1'' (hs_challenge1 hs);
             t4 = add_bin_property E t3 ''challenge2'' challenge2;
             reply = add_bin_property E t4 ''signature'' signature in
         bind_op (modify_op (\<lambda>s. s\<lparr>out_token := reply\<rparr>)) (\<lambda>_.
         bind_op next_handle (\<lambda>new_handle.
         bind_op (modify_op (\<lambda>s. s
           \<lparr>out_handle := new_handle,
            od_handshakes := (od_handshakes s)(new_handle \<mapsto>
              hs\<lparr>hs_challenge2 := challenge2, hs_hash2 := hash2, hs_reply := reply,
                 hs_state := VALIDATION_PENDING_HANDSHAKE_MESSAGE\<rparr>)\<rparr>)) (\<lambda>_.
         ret_op VALIDATION_PENDING_HANDSHAKE_MESSAGE)))))))))
     | _ \<Rightarrow> fail_OD ''Invalid PQSec handshake request''))))"

text \<open>
  \<open>process_handshake\<close>: every failure after the state check ends the handshake.  The value on
  success is the new state of the handshake, which the code returns.
\<close>

definition set_failed :: "(Handshake_OD, unit) op" where
  "set_failed = modify_op (\<lambda>hs. hs\<lparr>hs_state := VALIDATION_FAILED\<rparr>)"

definition process_handshake_OD ::
  "('a) opendds_scheme \<Rightarrow> data_holder \<Rightarrow> data_holder \<Rightarrow> int \<Rightarrow> (od_auth, ValidationResult_OD) op"
where
  "process_handshake_OD E output input handle =
     bind_op (modify_op (\<lambda>s. s\<lparr>out_token := output\<rparr>)) (\<lambda>_.
     bind_op get_op (\<lambda>s.
     case od_handshakes s handle of
       None \<Rightarrow> fail_OD ''Unknown PQSec handshake handle''
     | Some hs \<Rightarrow>
         bind_op (modify_op (\<lambda>s. s\<lparr>out_token := empty_token\<rparr>)) (\<lambda>_.
         bind_op (check_OD (hs_state hs = VALIDATION_PENDING_HANDSHAKE_MESSAGE)
           ''PQSec handshake is not awaiting a message'') (\<lambda>_.
         bind_op tick_OD (\<lambda>t.
         if hs_initiator hs \<and> class_is input REPLY_CLASS_ID then
           bind_op (on_handshake handle hs (on_fail
             (process_reply E t (local_objects s ! hs_local hs) (remote_objects s ! hs_remote hs) input)
             set_failed)) (\<lambda>final.
           bind_op (modify_op (\<lambda>s. s\<lparr>out_token := final\<rparr>)) (\<lambda>_.
           ret_op VALIDATION_OK_FINAL_MESSAGE))
         else if \<not> hs_initiator hs \<and> class_is input FINAL_CLASS_ID then
           bind_op (on_handshake handle hs (on_fail (process_final E input) set_failed)) (\<lambda>_.
           ret_op VALIDATION_OK)
         else
           on_handshake handle hs (on_fail
             (fail_OD ''Unexpected PQSec handshake message'') set_failed))))))"

section \<open>What the methods give out and take back\<close>

definition authenticated :: "Handshake_OD \<Rightarrow> bool" where
  "authenticated hs \<longleftrightarrow> hs_state hs = VALIDATION_OK \<or> hs_state hs = VALIDATION_OK_FINAL_MESSAGE"

text \<open>\<open>SharedSecret\<close>: the two challenges and the secret.\<close>

record SharedSecret_OD =
  ss_challenge1 :: bytes
  ss_challenge2 :: bytes
  ss_secret :: bytes

definition get_shared_secret_OD :: "int \<Rightarrow> (od_auth, SharedSecret_OD) op" where
  "get_shared_secret_OD handle =
     bind_op get_op (\<lambda>s.
     let refused = fail_OD ''PQSec shared secret requested before authentication completed'' in
     case od_handshakes s handle of
       None \<Rightarrow> refused
     | Some hs \<Rightarrow>
         if \<not> authenticated hs then refused
         else ret_op \<lparr>ss_challenge1 = hs_challenge1 hs, ss_challenge2 = hs_challenge2 hs,
                      ss_secret = hs_secret hs\<rparr>)"

definition get_authenticated_peer_credential_token_OD ::
  "('a) opendds_scheme \<Rightarrow> data_holder \<Rightarrow> int \<Rightarrow> (od_auth, unit) op" where
  "get_authenticated_peer_credential_token_OD E token handle =
     bind_op (modify_op (\<lambda>s. s\<lparr>out_token := token\<rparr>)) (\<lambda>_.
     bind_op get_op (\<lambda>s.
     let refused = fail_OD ''PQSec peer credentials are unavailable'' in
     case od_handshakes s handle of
       None \<Rightarrow> refused
     | Some hs \<Rightarrow>
         (case hs_remote_certificate hs of
            None \<Rightarrow> refused
          | Some certificate \<Rightarrow>
              if \<not> authenticated hs then refused
              else
                (let t1 = add_bin_property E (TokenWriter E token BASE_CLASS_ID) ''c.id''
                       (cert_original_bytes E certificate)
                 in modify_op (\<lambda>s. s\<lparr>out_token :=
                      add_bin_property E t1 ''c.perm'' (hs_remote_permissions hs)\<rparr>)))))"

definition set_listener_OD :: "nat option \<Rightarrow> (od_auth, unit) op" where
  "set_listener_OD listener =
     bind_op (check_OD (listener \<noteq> None) ''Null authentication listener'') (\<lambda>_.
     modify_op (\<lambda>s. s\<lparr>od_listener := listener\<rparr>))"

definition return_identity_token_OD :: "(od_auth, unit) op" where
  "return_identity_token_OD = ret_op ()"
definition return_identity_status_token_OD :: "(od_auth, unit) op" where
  "return_identity_status_token_OD = ret_op ()"
definition return_authenticated_peer_credential_token_OD :: "(od_auth, unit) op" where
  "return_authenticated_peer_credential_token_OD = ret_op ()"
definition return_sharedsecret_handle_OD :: "(od_auth, unit) op" where
  "return_sharedsecret_handle_OD = ret_op ()"

definition return_handshake_handle_OD :: "int \<Rightarrow> (od_auth, unit) op" where
  "return_handshake_handle_OD handle =
     bind_op get_op (\<lambda>s.
     bind_op (modify_op (\<lambda>s. s\<lparr>od_handshakes := (od_handshakes s)(handle := None)\<rparr>)) (\<lambda>_.
     check_OD (od_handshakes s handle \<noteq> None) ''Unknown PQSec handshake handle''))"

definition return_identity_handle_OD :: "int \<Rightarrow> (od_auth, unit) op" where
  "return_identity_handle_OD handle =
     bind_op get_op (\<lambda>s.
     if od_locals s handle \<noteq> None
     then modify_op (\<lambda>s. s\<lparr>od_locals := (od_locals s)(handle := None)\<rparr>)
     else if od_remotes s handle \<noteq> None
     then modify_op (\<lambda>s. s\<lparr>od_remotes := (od_remotes s)(handle := None)\<rparr>)
     else fail_OD ''Unknown PQSec identity handle'')"

end
