(* ===== verification/OpenDdsInv.thy ===== *)
theory OpenDdsInv
  imports OpenDdsAuth Systems
begin

text \<open>
  The invariant of an instance of the OpenDDS adapter: what its maps and objects satisfy, and what
  is known about the peer of every handshake.  The first part says which changes of the maps and
  objects keep it, the second that every method does.
\<close>

section \<open>What is known about a peer\<close>

text \<open>
  The credentials of a message were accepted for a participant: the certificate is valid under
  the local CA, its algorithm is an ML-DSA one, its subject gives the participant's GUID, the
  participant data carry the GUID, and \<open>hash\<close> is the hash over these credentials.
\<close>

definition credentials_accepted ::
  "('a) opendds_scheme \<Rightarrow> LocalIdentity_OD \<Rightarrow> bytes \<Rightarrow> x509 \<Rightarrow> bytes \<Rightarrow> bytes \<Rightarrow> bool" where
  "credentials_accepted E li guid cert permissions hash \<longleftrightarrow>
     (\<exists>t data pdata.
        cert_deserialize E data = Some cert \<and>
        cert_validate E t cert (cr_ca (li_credentials li)) = X509_V_OK \<and>
        mldsa_algorithm (cert_dsign_algo E cert) \<and> cert_matches_guid E cert guid \<and>
        participant_data_has_guid E pdata guid \<and>
        credential_hash E data permissions pdata (cert_dsign_algo E cert) (li_kem_algorithm li) = (0, hash))"

definition peer_known :: "('a) opendds_scheme \<Rightarrow> LocalIdentity_OD \<Rightarrow> bytes \<Rightarrow> Handshake_OD \<Rightarrow> bool" where
  "peer_known E li guid hs \<longleftrightarrow>
     (case hs_remote_certificate hs of
        None \<Rightarrow> False
      | Some cert \<Rightarrow> credentials_accepted E li guid cert (hs_remote_permissions hs)
          (if hs_initiator hs then hs_hash2 hs else hs_hash1 hs))"

text \<open>The peer's certificate verifies a signature over this handshake's transcript.\<close>

definition peer_signed :: "('a) opendds_scheme \<Rightarrow> Handshake_OD \<Rightarrow> bool" where
  "peer_signed E hs \<longleftrightarrow>
     (\<exists>cert signature. hs_remote_certificate hs = Some cert \<and>
        verify_serialized E
          (if hs_initiator hs
           then OD_reply_transcript (hs_hash2 hs) (hs_challenge2 hs) (hs_ciphertext hs)
                  (hs_challenge1 hs) (hs_public_key hs) (hs_hash1 hs)
           else OD_final_transcript (hs_hash1 hs) (hs_challenge1 hs) (hs_public_key hs)
                  (hs_challenge2 hs) (hs_ciphertext hs) (hs_hash2 hs)) cert signature = 0)"

definition peer_authenticated ::
  "('a) opendds_scheme \<Rightarrow> LocalIdentity_OD \<Rightarrow> bytes \<Rightarrow> Handshake_OD \<Rightarrow> bool" where
  "peer_authenticated E li guid hs \<longleftrightarrow>
     peer_known E li guid hs \<and> peer_signed E hs \<and>
     length (hs_challenge1 hs) = 32 \<and> length (hs_challenge2 hs) = 32"

section \<open>The invariant\<close>

definition handshake_wf ::
  "('a) opendds_scheme \<Rightarrow> LocalIdentity_OD \<Rightarrow> bytes \<Rightarrow> Handshake_OD \<Rightarrow> bool" where
  "handshake_wf E li guid hs \<longleftrightarrow>
     hs_state hs \<noteq> VALIDATION_PENDING_HANDSHAKE_REQUEST \<and>
     (hs_state hs = VALIDATION_OK \<longrightarrow> \<not> hs_initiator hs) \<and>
     (hs_state hs = VALIDATION_OK_FINAL_MESSAGE \<longrightarrow> hs_initiator hs) \<and>
     length (hs_challenge1 hs) = 32 \<and>
     (\<not> hs_initiator hs \<longrightarrow> peer_known E li guid hs \<and> length (hs_challenge2 hs) = 32) \<and>
     (authenticated hs \<longrightarrow> peer_authenticated E li guid hs)"

definition od_core ::
  "('a) opendds_scheme \<Rightarrow> int \<Rightarrow> (int \<rightharpoonup> nat) \<Rightarrow> (int \<rightharpoonup> nat) \<Rightarrow> (int \<rightharpoonup> Handshake_OD) \<Rightarrow>
   LocalIdentity_OD list \<Rightarrow> RemoteIdentity_OD list \<Rightarrow> bool" where
  "od_core E n locals remotes hss L R \<longleftrightarrow>
     1 \<le> n \<and> n \<le> LONG_MAX \<and>
     (\<forall>h p. locals h = Some p \<longrightarrow> 0 < h \<and> h < n \<and> p < length L \<and> remotes h = None \<and> hss h = None) \<and>
     (\<forall>h p. remotes h = Some p \<longrightarrow> 0 < h \<and> h < n \<and> p < length R \<and> hss h = None) \<and>
     (\<forall>h hs. hss h = Some hs \<longrightarrow> 0 < h \<and> h < n \<and> hs_local hs < length L \<and> hs_remote hs < length R \<and>
        handshake_wf E (L ! hs_local hs) (ri_guid (R ! hs_remote hs)) hs) \<and>
     (\<forall>r \<in> set R. length (ri_local_challenge r) = 32)"

definition od_inv :: "('a) opendds_scheme \<Rightarrow> od_auth \<Rightarrow> bool" where
  "od_inv E s \<longleftrightarrow> od_core E (od_next_handle s) (od_locals s) (od_remotes s) (od_handshakes s)
     (local_objects s) (remote_objects s)"

text \<open>
  What the adapter relies on: nonces of 256 bits, and loading permissions changes only those.
\<close>

definition opendds_laws :: "('a) opendds_scheme \<Rightarrow> bool" where
  "opendds_laws E \<longleftrightarrow>
     (\<forall>t c. make_nonce_256 E t = (0, c) \<longrightarrow> length c = 32) \<and>
     (\<forall>token cred. \<exists>permissions.
        snd (load_access_permissions E token cred) = cred\<lparr>cr_permissions := permissions\<rparr>)"

text \<open>
  A handshake that no longer waits for a message; its handle may also have been returned, and
  is never given out again.
\<close>

definition closed :: "int \<Rightarrow> od_auth \<Rightarrow> bool" where
  "closed h s \<longleftrightarrow> h < od_next_handle s \<and>
     (\<forall>hs. od_handshakes s h = Some hs \<longrightarrow> hs_state hs \<noteq> VALIDATION_PENDING_HANDSHAKE_MESSAGE)"

section \<open>Changes that keep the invariant\<close>

lemma credentials_accepted_cong:
  "cr_ca (li_credentials li') = cr_ca (li_credentials li) \<Longrightarrow> li_kem_algorithm li' = li_kem_algorithm li \<Longrightarrow>
     credentials_accepted E li' g c p h = credentials_accepted E li g c p h"
  by (simp add: credentials_accepted_def)

lemma handshake_wf_cong:
  assumes "cr_ca (li_credentials li') = cr_ca (li_credentials li)"
    and "li_kem_algorithm li' = li_kem_algorithm li"
  shows "handshake_wf E li' g hs = handshake_wf E li g hs"
  by (simp add: handshake_wf_def peer_authenticated_def peer_known_def
      credentials_accepted_cong [OF assms] cong: option.case_cong)

lemma od_coreD:
  assumes "od_core E n Lm Rm H L R"
  shows "1 \<le> n" "n \<le> LONG_MAX"
    and "Lm h = Some p \<Longrightarrow> 0 < h \<and> h < n \<and> p < length L \<and> Rm h = None \<and> H h = None"
    and "Rm h = Some p \<Longrightarrow> 0 < h \<and> h < n \<and> p < length R \<and> H h = None"
    and "H h = Some hs \<Longrightarrow> 0 < h \<and> h < n \<and> hs_local hs < length L \<and> hs_remote hs < length R \<and>
      handshake_wf E (L ! hs_local hs) (ri_guid (R ! hs_remote hs)) hs"
    and "p < length R \<Longrightarrow> length (ri_local_challenge (R ! p)) = 32"
  using assms unfolding od_core_def by (auto intro: nth_mem)

lemma od_core_fresh:
  assumes "od_core E n Lm Rm H L R"
  shows "Lm n = None" "Rm n = None" "H n = None"
  using od_coreD(3,4,5) [OF assms, of n] by (force intro: classical)+

lemma od_core_next:
  assumes "od_core E n Lm Rm H L R" and "n \<noteq> LONG_MAX"
  shows "od_core E (n + 1) Lm Rm H L R"
  using assms unfolding od_core_def by fastforce

lemma od_core_add_local:
  assumes "od_core E n Lm Rm H L R" and "n \<noteq> LONG_MAX"
  shows "od_core E (n + 1) (Lm(n \<mapsto> length L)) Rm H (L @ [li]) R"
  using assms od_core_fresh [OF assms(1)] unfolding od_core_def
  by (auto simp: nth_append less_Suc_eq) force+

lemma od_core_add_remote:
  assumes "od_core E n Lm Rm H L R" and "n \<noteq> LONG_MAX" and "length (ri_local_challenge ri) = 32"
  shows "od_core E (n + 1) Lm (Rm(n \<mapsto> length R)) H L (R @ [ri])"
  using assms od_core_fresh [OF assms(1)] unfolding od_core_def
  by (auto simp: nth_append less_Suc_eq) force+

lemma od_core_add_handshake:
  assumes "od_core E n Lm Rm H L R" and "n \<noteq> LONG_MAX" and "hs_local hs < length L"
    and "hs_remote hs < length R" and "handshake_wf E (L ! hs_local hs) (ri_guid (R ! hs_remote hs)) hs"
  shows "od_core E (n + 1) Lm Rm (H(n \<mapsto> hs)) L R"
  using assms od_core_fresh [OF assms(1)] unfolding od_core_def
  by (auto simp: less_Suc_eq) force+

lemma od_core_set_handshake:
  assumes "od_core E n Lm Rm H L R" and "H h = Some hs" and "hs_local hs' = hs_local hs"
    and "hs_remote hs' = hs_remote hs"
    and "handshake_wf E (L ! hs_local hs) (ri_guid (R ! hs_remote hs)) hs'"
  shows "od_core E n Lm Rm (H(h \<mapsto> hs')) L R"
proof -
  have none: "Lm h = None" "Rm h = None"
    using od_coreD(3,4) [OF assms(1), of h] assms(2) by (auto intro: classical)
  show ?thesis unfolding od_core_def
  proof (intro conjI)
    show "\<forall>k hs1. (H(h \<mapsto> hs')) k = Some hs1 \<longrightarrow> 0 < k \<and> k < n \<and> hs_local hs1 < length L \<and>
        hs_remote hs1 < length R \<and> handshake_wf E (L ! hs_local hs1) (ri_guid (R ! hs_remote hs1)) hs1"
      using od_coreD(5) [OF assms(1)] assms(2-5) by simp
  qed (use assms(1) none in \<open>auto simp: od_core_def\<close>)
qed

lemma od_core_set_local:
  assumes core: "od_core E n Lm Rm H L R" and p: "p < length L"
    and li: "cr_ca (li_credentials li) = cr_ca (li_credentials (L ! p))"
      "li_kem_algorithm li = li_kem_algorithm (L ! p)"
  shows "od_core E n Lm Rm H (L[p := li]) R"
proof -
  have "handshake_wf E (L[p := li] ! q) g hs = handshake_wf E (L ! q) g hs" for q g hs
    using p handshake_wf_cong [OF li] by (cases "q = p") simp_all
  then show ?thesis using core unfolding od_core_def by simp
qed

lemma od_core_set_remote:
  assumes core: "od_core E n Lm Rm H L R" and p: "p < length R"
    and ri: "ri_guid r = ri_guid (R ! p)" "ri_local_challenge r = ri_local_challenge (R ! p)"
  shows "od_core E n Lm Rm H L (R[p := r])"
proof -
  have "ri_guid (R[p := r] ! q) = ri_guid (R ! q)" for q
    using p ri(1) by (cases "q = p") simp_all
  moreover have "\<forall>x \<in> set (R[p := r]). length (ri_local_challenge x) = 32"
    using core p ri(2) set_update_subset_insert [of R p r] unfolding od_core_def by (auto dest: nth_mem)
  ultimately show ?thesis using core unfolding od_core_def by simp
qed

lemma od_core_drop:
  assumes "od_core E n Lm Rm H L R"
  shows "od_core E n (Lm(h := None)) Rm H L R" "od_core E n Lm (Rm(h := None)) H L R"
    "od_core E n Lm Rm (H(h := None)) L R"
  using assms unfolding od_core_def by auto

section \<open>The shared steps\<close>

lemma wp_check_OD [simp]: "wp (check_OD b msg) s Q X Z \<longleftrightarrow> (if b then Q () s else X s)"
  by (simp add: check_OD_def fail_OD_def)

lemma wp_fail_OD [simp]: "wp (fail_OD msg) s Q X Z \<longleftrightarrow> X s"
  by (simp add: fail_OD_def)

lemma wp_or_fail: "(\<And>x. r = Inr x \<Longrightarrow> Q x s) \<Longrightarrow> X s \<Longrightarrow> wp (or_fail prefix r) s Q X Z"
  by (cases r) (simp_all add: or_fail_def)

lemma wp_tick_OD [simp]: "wp tick_OD s Q X Z \<longleftrightarrow> Q (od_clock s) (s\<lparr>od_clock := Suc (od_clock s)\<rparr>)"
  by (simp add: wp_def tick_OD_def)

lemma wp_next_handle [simp]:
  "wp next_handle s Q X Z \<longleftrightarrow>
     (if od_next_handle s = LONG_MAX then Signed_overflow \<in> Z
      else Q (od_next_handle s) (s\<lparr>od_next_handle := od_next_handle s + 1\<rparr>))"
  by (simp add: wp_def next_handle_def)

lemma wp_run_local:
  "wp m h (\<lambda>x h'. Q (x, h') s) (\<lambda>_. X s) Z \<Longrightarrow> wp (run_local m h) s Q X Z"
  by (auto simp: wp_def run_local_def split: outcome.splits sum.splits)

lemma wp_on_handshake:
  "wp m hs (\<lambda>x hs'. Q x (s\<lparr>od_handshakes := (od_handshakes s)(h \<mapsto> hs')\<rparr>))
     (\<lambda>hs'. X (s\<lparr>od_handshakes := (od_handshakes s)(h \<mapsto> hs')\<rparr>)) Z \<Longrightarrow>
   wp (on_handshake h hs m) s Q X Z"
  by (auto simp: wp_def on_handshake_def split: outcome.splits sum.splits)

lemma wp_choose_challenge:
  assumes "opendds_laws E" and "length (ri_local_challenge ri) = 32"
    and "\<And>c. length c = 32 \<Longrightarrow> Q c s" and "X s"
  shows "wp (choose_challenge E t ri msg) s Q X Z"
proof (cases "make_nonce_256 E t")
  case (Pair rc c)
  then show ?thesis
    using assms by (auto simp: choose_challenge_def wp_bind_iff opendds_laws_def)
qed

section \<open>The operations on one handshake\<close>

text \<open>What the checks of \<open>validate_remote_credentials\<close> establish for the handshake.\<close>

lemma wp_validate_remote_credentials:
  assumes "\<And>hash cert permissions.
      credentials_accepted E li (ri_guid ri) cert permissions hash \<Longrightarrow>
      Q () ((set_hash hash hs)\<lparr>hs_remote_certificate := Some cert, hs_remote_permissions := permissions\<rparr>)"
    and "X hs" and "\<And>hash. X (set_hash hash hs)"
  shows "wp (validate_remote_credentials E t li ri token set_hash) hs Q X Z"
proof -
  let ?alg = "string_value (get_bin_property_value E token ''c.dsign_algo'')"
  let ?data = "get_bin_property_value E token ''c.id''"
  let ?pdata = "get_bin_property_value E token ''c.pdata''"
  let ?perm = "get_bin_property_value E token ''c.perm''"
  show ?thesis
  proof (cases "cert_deserialize E ?data")
    case None
    then show ?thesis using assms(2) by (simp add: validate_remote_credentials_def Let_def wp_bind_iff)
  next
    case (Some cert)
    obtain rc hash where h: "credential_hash E ?data ?perm ?pdata ?alg (li_kem_algorithm li) = (rc, hash)"
      by fastforce
    have "credentials_accepted E li (ri_guid ri) cert ?perm hash"
      if "mldsa_algorithm ?alg" "cert_validate E t cert (cr_ca (li_credentials li)) = X509_V_OK"
        "cert_dsign_algo E cert = ?alg" "cert_matches_guid E cert (ri_guid ri)"
        "participant_data_has_guid E ?pdata (ri_guid ri)" "rc = 0"
      unfolding credentials_accepted_def using Some h that by (intro exI conjI) simp_all
    then show ?thesis
      using assms Some h by (simp add: validate_remote_credentials_def Let_def wp_bind_iff)
  qed
qed

lemma wp_accept_request:
  assumes new: "\<not> hs_initiator hs"
    and Q: "\<And>hs'. hs_initiator hs' = hs_initiator hs \<Longrightarrow> hs_local hs' = hs_local hs \<Longrightarrow>
      hs_remote hs' = hs_remote hs \<Longrightarrow> length (hs_challenge1 hs') = 32 \<Longrightarrow>
      peer_known E li (ri_guid ri) hs' \<Longrightarrow> Q () hs'"
    and X: "\<And>hs'. X hs'"
  shows "wp (accept_request E t li ri request) hs Q X Z"
  unfolding accept_request_def
  apply (rule wp_bind, rule wp_validate_remote_credentials)
  subgoal for hash cert permissions
    using new
    by (auto simp: wp_bind_iff Let_def X peer_known_def split: prod.splits intro!: wp_or_fail Q)
  by (rule X)+

lemma wp_process_reply:
  assumes init: "hs_initiator hs" "length (hs_challenge1 hs) = 32"
    and Q: "\<And>hs' x. hs_initiator hs' = hs_initiator hs \<Longrightarrow> hs_local hs' = hs_local hs \<Longrightarrow>
      hs_remote hs' = hs_remote hs \<Longrightarrow> hs_state hs' = VALIDATION_OK_FINAL_MESSAGE \<Longrightarrow>
      peer_authenticated E li (ri_guid ri) hs' \<Longrightarrow> Q x hs'"
    and X: "\<And>hs'. hs_initiator hs' = hs_initiator hs \<Longrightarrow> hs_local hs' = hs_local hs \<Longrightarrow>
      hs_remote hs' = hs_remote hs \<Longrightarrow> hs_challenge1 hs' = hs_challenge1 hs \<Longrightarrow> X hs'"
  shows "wp (process_reply E t li ri input) hs Q X Z"
proof -
  have "wp (process_reply E t li ri input) hs
     (\<lambda>x hs'. hs_initiator hs' = hs_initiator hs \<and> hs_local hs' = hs_local hs \<and>
        hs_remote hs' = hs_remote hs \<and> hs_state hs' = VALIDATION_OK_FINAL_MESSAGE \<and>
        peer_authenticated E li (ri_guid ri) hs')
     (\<lambda>hs'. hs_initiator hs' = hs_initiator hs \<and> hs_local hs' = hs_local hs \<and>
        hs_remote hs' = hs_remote hs \<and> hs_challenge1 hs' = hs_challenge1 hs) Z"
    unfolding process_reply_def
    apply (rule wp_bind, rule wp_validate_remote_credentials)
    subgoal for hash cert permissions
      using init
      apply (simp add: wp_bind_iff Let_def split: prod.splits)
      apply (auto intro!: wp_or_fail simp: peer_authenticated_def peer_known_def peer_signed_def)
      done
    by simp_all
  then show ?thesis by (rule wp_mono) (auto intro: Q X)
qed

lemma wp_process_final:
  assumes "hs_remote_certificate hs \<noteq> None" and "\<not> hs_initiator hs"
    and "peer_signed E hs \<Longrightarrow> Q () (hs\<lparr>hs_state := VALIDATION_OK\<rparr>)" and "X hs"
  shows "wp (process_final E input) hs Q X Z"
proof -
  obtain cert where "hs_remote_certificate hs = Some cert" using assms(1) by blast
  then show ?thesis
    using assms(2-4) by (fastforce simp: process_final_def wp_bind_iff Let_def peer_signed_def)
qed

section \<open>The methods\<close>

text \<open>
  What every call leaves: the invariant, and every closed handshake closed.
\<close>

definition kept :: "('a) opendds_scheme \<Rightarrow> od_auth \<Rightarrow> od_auth \<Rightarrow> bool" where
  "kept E s s' \<longleftrightarrow> od_inv E s' \<and> od_next_handle s \<le> od_next_handle s' \<and> (\<forall>h. closed h s \<longrightarrow> closed h s')"

definition overflows :: "od_auth \<Rightarrow> fault set" where
  "overflows s = (if od_next_handle s = LONG_MAX then {Signed_overflow} else {})"

lemma kept_trans: "kept E s s' \<Longrightarrow> kept E s' s'' \<Longrightarrow> kept E s s''"
  unfolding kept_def by auto

text \<open>The changes a method makes at most, as conditional rewrite rules on the new state.\<close>

lemma kept_rules:
  assumes inv: "od_inv E s"
  shows "od_next_handle s' = od_next_handle s \<Longrightarrow> od_locals s' = od_locals s \<Longrightarrow>
      od_remotes s' = od_remotes s \<Longrightarrow> od_handshakes s' = od_handshakes s \<Longrightarrow>
      local_objects s' = local_objects s \<Longrightarrow> remote_objects s' = remote_objects s \<Longrightarrow> kept E s s'"
    and "od_next_handle s \<noteq> LONG_MAX \<Longrightarrow> od_next_handle s' = od_next_handle s + 1 \<Longrightarrow>
      od_locals s' = (od_locals s)(od_next_handle s \<mapsto> length (local_objects s)) \<Longrightarrow>
      od_remotes s' = od_remotes s \<Longrightarrow> od_handshakes s' = od_handshakes s \<Longrightarrow>
      local_objects s' = local_objects s @ [li] \<Longrightarrow> remote_objects s' = remote_objects s \<Longrightarrow> kept E s s'"
    and "od_next_handle s \<noteq> LONG_MAX \<Longrightarrow> length (ri_local_challenge ri) = 32 \<Longrightarrow>
      od_next_handle s' = od_next_handle s + 1 \<Longrightarrow> od_locals s' = od_locals s \<Longrightarrow>
      od_remotes s' = (od_remotes s)(od_next_handle s \<mapsto> length (remote_objects s)) \<Longrightarrow>
      od_handshakes s' = od_handshakes s \<Longrightarrow> local_objects s' = local_objects s \<Longrightarrow>
      remote_objects s' = remote_objects s @ [ri] \<Longrightarrow> kept E s s'"
    and "od_next_handle s \<noteq> LONG_MAX \<Longrightarrow> hs_local hs < length (local_objects s) \<Longrightarrow>
      hs_remote hs < length (remote_objects s) \<Longrightarrow>
      handshake_wf E (local_objects s ! hs_local hs) (ri_guid (remote_objects s ! hs_remote hs)) hs \<Longrightarrow>
      od_next_handle s' = od_next_handle s + 1 \<Longrightarrow> od_locals s' = od_locals s \<Longrightarrow>
      od_remotes s' = od_remotes s \<Longrightarrow>
      od_handshakes s' = (od_handshakes s)(od_next_handle s \<mapsto> hs) \<Longrightarrow>
      local_objects s' = local_objects s \<Longrightarrow> remote_objects s' = remote_objects s \<Longrightarrow> kept E s s'"
    and "p < length (remote_objects s) \<Longrightarrow> ri_guid r = ri_guid (remote_objects s ! p) \<Longrightarrow>
      ri_local_challenge r = ri_local_challenge (remote_objects s ! p) \<Longrightarrow>
      od_next_handle s' = od_next_handle s \<Longrightarrow> od_locals s' = od_locals s \<Longrightarrow>
      od_remotes s' = od_remotes s \<Longrightarrow> od_handshakes s' = od_handshakes s \<Longrightarrow>
      local_objects s' = local_objects s \<Longrightarrow> remote_objects s' = (remote_objects s)[p := r] \<Longrightarrow> kept E s s'"
    and "p < length (local_objects s) \<Longrightarrow>
      cr_ca (li_credentials li) = cr_ca (li_credentials (local_objects s ! p)) \<Longrightarrow>
      li_kem_algorithm li = li_kem_algorithm (local_objects s ! p) \<Longrightarrow>
      od_next_handle s' = od_next_handle s \<Longrightarrow> od_locals s' = od_locals s \<Longrightarrow>
      od_remotes s' = od_remotes s \<Longrightarrow> od_handshakes s' = od_handshakes s \<Longrightarrow>
      local_objects s' = (local_objects s)[p := li] \<Longrightarrow> remote_objects s' = remote_objects s \<Longrightarrow> kept E s s'"
    and "od_handshakes s h = Some hs \<Longrightarrow> hs_local hs' = hs_local hs \<Longrightarrow> hs_remote hs' = hs_remote hs \<Longrightarrow>
      hs_state hs' \<noteq> VALIDATION_PENDING_HANDSHAKE_MESSAGE \<Longrightarrow>
      handshake_wf E (local_objects s ! hs_local hs) (ri_guid (remote_objects s ! hs_remote hs)) hs' \<Longrightarrow>
      od_next_handle s' = od_next_handle s \<Longrightarrow> od_locals s' = od_locals s \<Longrightarrow>
      od_remotes s' = od_remotes s \<Longrightarrow> od_handshakes s' = (od_handshakes s)(h \<mapsto> hs') \<Longrightarrow>
      local_objects s' = local_objects s \<Longrightarrow> remote_objects s' = remote_objects s \<Longrightarrow> kept E s s'"
  using inv by (auto simp: kept_def od_inv_def closed_def intro: od_core_add_local od_core_add_remote
      od_core_add_handshake od_core_set_local od_core_set_remote od_core_set_handshake)

lemma wp_validate_local_identity_OD:
  assumes "od_inv E s"
  shows "wp (validate_local_identity_OD E props guid) s (\<lambda>_. kept E s) (kept E s) (overflows s)"
  unfolding validate_local_identity_OD_def
  by (auto simp: wp_bind_iff Let_def overflows_def kept_rules(1,2) [OF assms] split: prod.splits
      intro!: wp_or_fail)

lemma kept_refl: "od_inv E s \<Longrightarrow> kept E s s"
  by (rule kept_rules(1)) simp_all

text \<open>The methods that change nothing but the caller's variables.\<close>

lemma wp_passive_OD:
  assumes "od_inv E s"
  shows "wp (get_identity_token_OD E token h) s (\<lambda>_. kept E s) (kept E s) Z"
    and "wp (get_identity_status_token_OD h) s (\<lambda>_. kept E s) (kept E s) Z"
    and "wp (get_shared_secret_OD h) s (\<lambda>_. kept E s) (kept E s) Z"
    and "wp (get_authenticated_peer_credential_token_OD E token h) s (\<lambda>_. kept E s) (kept E s) Z"
    and "wp (set_listener_OD l) s (\<lambda>_. kept E s) (kept E s) Z"
  by (auto simp: get_identity_token_OD_def get_identity_status_token_OD_def get_shared_secret_OD_def
      get_authenticated_peer_credential_token_OD_def set_listener_OD_def wp_bind_iff Let_def
      kept_rules(1) [OF assms] kept_refl [OF assms] split: option.splits)

lemma wp_set_permissions_OD:
  assumes E: "opendds_laws E" and inv: "od_inv E s"
  shows "wp (set_permissions_credential_and_token_OD E h credential) s (\<lambda>_. kept E s) (kept E s) Z"
proof (cases "od_locals s h")
  case None
  then show ?thesis
    by (simp add: set_permissions_credential_and_token_OD_def local_OD_def wp_bind_iff kept_refl [OF inv])
next
  case (Some p)
  obtain r cr where l: "load_access_permissions E credential (li_credentials (local_objects s ! p)) = (r, cr)"
    by fastforce
  obtain perm where "cr = (li_credentials (local_objects s ! p))\<lparr>cr_permissions := perm\<rparr>"
    using E l unfolding opendds_laws_def by (metis snd_conv)
  moreover have "p < length (local_objects s)"
    using inv Some od_coreD(3) unfolding od_inv_def by blast
  ultimately have "kept E s (s\<lparr>local_objects := (local_objects s)
      [p := (local_objects s ! p)\<lparr>li_credentials := cr\<rparr>]\<rparr>)"
    by (intro kept_rules(6) [OF inv]) auto
  then show ?thesis
    using Some l by (cases r) (simp_all add: set_permissions_credential_and_token_OD_def local_OD_def
        wp_bind_iff Let_def)
qed

lemma kept_drop:
  assumes "od_inv E s"
  shows "kept E s (s\<lparr>od_locals := (od_locals s)(h := None)\<rparr>)"
    and "kept E s (s\<lparr>od_remotes := (od_remotes s)(h := None)\<rparr>)"
    and "kept E s (s\<lparr>od_handshakes := (od_handshakes s)(h := None)\<rparr>)"
  using assms by (simp_all add: kept_def od_inv_def closed_def od_core_drop)

lemma wp_return_handles_OD:
  assumes "od_inv E s"
  shows "wp (return_handshake_handle_OD h) s (\<lambda>_. kept E s) (kept E s) Z"
    and "wp (return_identity_handle_OD h) s (\<lambda>_. kept E s) (kept E s) Z"
  by (auto simp: return_handshake_handle_OD_def return_identity_handle_OD_def wp_bind_iff
      kept_drop [OF assms] kept_refl [OF assms])

lemma wp_find_or_new_remote:
  assumes E: "opendds_laws E" and inv: "od_inv E s"
  shows "wp (find_or_new_remote E rh lh g) s (\<lambda>p s'. kept E s s' \<and> p < length (remote_objects s'))
     (kept E s) (overflows s)"
proof -
  have p: "p < length (remote_objects s)" if "od_remotes s h = Some p" for h p
    using inv that od_coreD(4) unfolding od_inv_def by blast
  have c: "length c = 32" if "make_nonce_256 E t = (0, c)" for t c
    using E that unfolding opendds_laws_def by blast
  show ?thesis
    by (auto simp: find_or_new_remote_def wp_bind_iff Let_def remote_OD_def overflows_def
        kept_rules(1) [OF inv] kept_refl [OF inv] p new_RemoteIdentity_OD_def
        intro!: kept_rules(3) [OF inv] c split: prod.splits option.splits)
qed

lemma wp_update_remote:
  assumes s': "kept E s s'" "p < length (remote_objects s')"
    and f: "\<And>r. ri_guid (f r) = ri_guid r" "\<And>r. ri_local_challenge (f r) = ri_local_challenge r"
    and Q: "\<And>s''. kept E s s'' \<Longrightarrow> p < length (remote_objects s'') \<Longrightarrow> Q () s''"
  shows "wp (update_remote_OD p f) s' Q X Z"
proof -
  let ?s = "s'\<lparr>remote_objects := (remote_objects s')[p := f (remote_objects s' ! p)]\<rparr>"
  have "kept E s' ?s"
    by (rule kept_rules(5) [of E s' p "f (remote_objects s' ! p)"]) (use s' f in \<open>auto simp: kept_def\<close>)
  then have "kept E s ?s" by (rule kept_trans [OF s'(1)])
  then show ?thesis using s'(2) by (auto simp: update_remote_OD_def intro: Q)
qed

lemma kept_out:
  assumes "kept E s s'" and "od_next_handle s'' = od_next_handle s'" "od_locals s'' = od_locals s'"
    "od_remotes s'' = od_remotes s'" "od_handshakes s'' = od_handshakes s'"
    "local_objects s'' = local_objects s'" "remote_objects s'' = remote_objects s'"
  shows "kept E s s''"
  using assms by (simp add: kept_def od_inv_def closed_def)

lemma wp_validate_remote_identity_OD:
  assumes E: "opendds_laws E" and inv: "od_inv E s"
  shows "wp (validate_remote_identity_OD E rh lr rr lh token g) s (\<lambda>_. kept E s) (kept E s) (overflows s)"
proof -
  let ?s = "s\<lparr>out_handle := rh, out_token := lr\<rparr>"
  have s: "kept E s ?s" by (simp add: kept_rules(1) [OF inv])
  then have "od_inv E ?s" by (simp add: kept_def)
  then have find: "wp (find_or_new_remote E rh lh g) ?s
      (\<lambda>p s'. kept E s s' \<and> p < length (remote_objects s')) (kept E s) (overflows s)"
    by (rule wp_mono [OF wp_find_or_new_remote [OF E]]) (auto intro: kept_trans [OF s] simp: overflows_def)
  show ?thesis
  proof (cases "local_OD ?s lh")
    case None
    then show ?thesis using s by (simp add: validate_remote_identity_OD_def wp_bind_iff)
  next
    case (Some lp)
    show ?thesis
      unfolding validate_remote_identity_OD_def wp_bind_iff wp_modify wp_get Some option.case wp_check_OD
      apply (rule if_split [THEN iffD2], intro conjI impI)
       apply (rule wp_mono [OF find])
         apply (elim conjE)
         apply (rule wp_update_remote, assumption+, simp, simp)
         apply (auto simp: Let_def wp_bind_iff s intro!: wp_update_remote elim: kept_out)
      done
  qed
qed

lemma inv_pointers:
  assumes "od_inv E s"
  shows "od_locals s h = Some p \<Longrightarrow> p < length (local_objects s)"
    and "od_remotes s h = Some p \<Longrightarrow> p < length (remote_objects s)"
    and "p < length (remote_objects s) \<Longrightarrow> length (ri_local_challenge (remote_objects s ! p)) = 32"
    and "od_handshakes s h = Some hs \<Longrightarrow> h < od_next_handle s \<and> hs_local hs < length (local_objects s) \<and>
      hs_remote hs < length (remote_objects s) \<and>
      handshake_wf E (local_objects s ! hs_local hs) (ri_guid (remote_objects s ! hs_remote hs)) hs"
  using od_coreD(3-6) [OF assms [unfolded od_inv_def]] by blast+

lemma wp_begin_handshake_request_OD:
  assumes E: "opendds_laws E" and inv: "od_inv E s"
  shows "wp (begin_handshake_request_OD E h msg a b pdata) s (\<lambda>_. kept E s) (kept E s) (overflows s)"
proof -
  have c: "length (ri_local_challenge (remote_objects s ! p)) = 32" if "od_remotes s k = Some p" for k p
    using that inv_pointers(2,3) [OF inv] by blast
  have new: "kept E s s'" if "od_next_handle s \<noteq> LONG_MAX" "od_next_handle s' = od_next_handle s + 1"
      "od_locals s a = Some lp" "od_remotes s b = Some rp"
      "od_locals s' = od_locals s" "od_remotes s' = od_remotes s"
      "od_handshakes s' = (od_handshakes s)(od_next_handle s \<mapsto> (new_Handshake_OD a b lp rp)
         \<lparr>hs_initiator := True, hs_state := VALIDATION_PENDING_HANDSHAKE_MESSAGE, hs_kem := kem,
          hs_request := request, hs_hash1 := hash1, hs_challenge1 := ch, hs_public_key := key\<rparr>)"
      "local_objects s' = local_objects s" "remote_objects s' = remote_objects s" "length ch = 32"
    for s' lp rp kem request hash1 ch key
    by (rule kept_rules(4) [OF inv that(1)])
      (use that inv_pointers(1,2) [OF inv] in
        \<open>auto simp: new_Handshake_OD_def handshake_wf_def authenticated_def\<close>)
  show ?thesis
    unfolding begin_handshake_request_OD_def local_OD_def remote_OD_def
    by (auto simp: wp_bind_iff Let_def overflows_def kept_rules(1) [OF inv] kept_refl [OF inv] c new
        split: option.splits prod.splits intro!: wp_or_fail wp_choose_challenge [OF E])
qed

lemma wp_begin_handshake_reply_OD:
  assumes E: "opendds_laws E" and inv: "od_inv E s"
  shows "wp (begin_handshake_reply_OD E h msg a b pdata) s (\<lambda>_. kept E s) (kept E s) (overflows s)"
proof -
  have c: "length (ri_local_challenge (remote_objects s ! p)) = 32" if "od_remotes s k = Some p" for k p
    using that inv_pointers(2,3) [OF inv] by blast
  have new: "kept E s s'" if "od_next_handle s \<noteq> LONG_MAX" "od_next_handle s' = od_next_handle s + 1"
      "od_locals s b = Some lp" "od_remotes s a = Some rp"
      "od_locals s' = od_locals s" "od_remotes s' = od_remotes s"
      "od_handshakes s' = (od_handshakes s)(od_next_handle s \<mapsto> hs
         \<lparr>hs_challenge2 := ch, hs_hash2 := hash2, hs_reply := reply,
          hs_state := VALIDATION_PENDING_HANDSHAKE_MESSAGE\<rparr>)"
      "local_objects s' = local_objects s" "remote_objects s' = remote_objects s" "length ch = 32"
      "\<not> hs_initiator hs" "hs_local hs = lp" "hs_remote hs = rp" "length (hs_challenge1 hs) = 32"
      "peer_known E (local_objects s ! lp) (ri_guid (remote_objects s ! rp)) hs"
    for s' lp rp ch hash2 reply hs
    by (rule kept_rules(4) [OF inv that(1)])
      (use that inv_pointers(1,2) [OF inv] in
        \<open>auto simp: handshake_wf_def authenticated_def peer_known_def split: option.splits\<close>)
  show ?thesis
    unfolding begin_handshake_reply_OD_def local_OD_def remote_OD_def
    by (auto simp: wp_bind_iff Let_def overflows_def kept_rules(1) [OF inv] kept_refl [OF inv] c
        new_Handshake_OD_def new split: option.splits prod.splits
        intro!: wp_run_local wp_accept_request wp_choose_challenge [OF E])
qed

lemma wp_process_handshake_OD:
  assumes inv: "od_inv E s"
  shows "wp (process_handshake_OD E out input h) s (\<lambda>_ s'. kept E s s' \<and> closed h s')
     (\<lambda>s'. kept E s s' \<and> (od_handshakes s h = None \<or> closed h s')) {}"
proof (cases "od_handshakes s h")
  case None
  then show ?thesis
    by (simp add: process_handshake_OD_def wp_bind_iff kept_rules(1) [OF inv])
next
  case (Some hs)
  let ?li = "local_objects s ! hs_local hs" and ?ri = "remote_objects s ! hs_remote hs"
  have hs: "h < od_next_handle s" "handshake_wf E ?li (ri_guid ?ri) hs"
    using inv_pointers(4) [OF inv Some] by blast+
  have done_ok: "kept E s s' \<and> closed h s'"
    if "od_next_handle s' = od_next_handle s" "od_locals s' = od_locals s" "od_remotes s' = od_remotes s"
      "local_objects s' = local_objects s" "remote_objects s' = remote_objects s"
      "od_handshakes s' = (od_handshakes s)(h \<mapsto> hs')" "hs_local hs' = hs_local hs"
      "hs_remote hs' = hs_remote hs" "hs_state hs' \<noteq> VALIDATION_PENDING_HANDSHAKE_MESSAGE"
      "handshake_wf E ?li (ri_guid ?ri) hs'" for s' hs'
    using kept_rules(7) [OF inv Some that(7-10) that(1-3,6,4,5)] that hs by (simp add: closed_def)
  let ?ended = "\<lambda>hs'. hs_local hs' = hs_local hs \<and> hs_remote hs' = hs_remote hs \<and>
      hs_state hs' \<noteq> VALIDATION_PENDING_HANDSHAKE_MESSAGE \<and> handshake_wf E ?li (ri_guid ?ri) hs'"
  have failed: "?ended (hs\<lparr>hs_state := VALIDATION_FAILED\<rparr>)"
    using hs(2) by (auto simp: handshake_wf_def authenticated_def peer_known_def split: option.splits)
  have reply: "wp (on_fail (process_reply E t ?li ?ri input) set_failed) hs (\<lambda>_. ?ended) ?ended {}"
    if "hs_initiator hs" for t
    by (rule wp_on_fail, rule wp_process_reply)
      (use that hs in \<open>auto simp: set_failed_def handshake_wf_def authenticated_def peer_authenticated_def\<close>)
  have final: "wp (on_fail (process_final E input) set_failed) hs (\<lambda>_. ?ended) ?ended {}"
    if "\<not> hs_initiator hs"
    by (rule wp_on_fail, rule wp_process_final)
      (use that hs failed in \<open>auto simp: set_failed_def handshake_wf_def authenticated_def
        peer_authenticated_def peer_known_def peer_signed_def split: option.splits\<close>)
  have other: "wp (on_fail (fail_OD msg :: (Handshake_OD, ValidationResult_OD) op) set_failed) hs (\<lambda>_. ?ended) ?ended {}" for msg
    by (rule wp_on_fail) (use failed in \<open>simp add: set_failed_def\<close>)
  let ?s = "s\<lparr>out_token := empty_token, od_clock := Suc (od_clock s)\<rparr>"
  let ?good = "\<lambda>s'. kept E s s' \<and> closed h s'"
  have on: "wp (on_handshake h hs m) ?s (\<lambda>_. ?good) ?good {}" if "wp m hs (\<lambda>_. ?ended) ?ended {}"
    for m :: "(Handshake_OD, 'x) op"
    by (rule wp_on_handshake, rule wp_mono [OF that]) ((elim conjE, rule done_ok; simp)+, simp)
  have out: "?good (s'\<lparr>out_token := x\<rparr>)" if "?good s'" for s' x
    using that kept_out [of E s s' "s'\<lparr>out_token := x\<rparr>"] by (simp add: closed_def)
  have start: "?good (s\<lparr>out_token := x\<rparr>)" if "hs_state hs \<noteq> VALIDATION_PENDING_HANDSHAKE_MESSAGE" for x
    using that hs Some kept_rules(1) [OF inv, of "s\<lparr>out_token := x\<rparr>"] by (simp add: closed_def)
  have "wp (process_handshake_OD E out input h) s (\<lambda>_. ?good) ?good {}"
    unfolding process_handshake_OD_def
    using start out wp_mono [OF on [OF reply]] wp_mono [OF on [OF final]] on [OF other]
    by (simp add: wp_bind_iff Some)
  then show ?thesis by (rule wp_mono) auto
qed

section \<open>Calls and reachable instances\<close>

text \<open>
  The calls of the interface, with the caller's variables where the code reads them.  The
  mutex makes each of them one step.
\<close>

datatype od_call =
    Validate_local_identity "(string \<times> string) list" bytes
  | Get_identity_token data_holder int
  | Get_identity_status_token int
  | Set_permissions_credential_and_token int data_holder
  | Validate_remote_identity int data_holder data_holder int data_holder bytes
  | Begin_handshake_request int data_holder int int bytes
  | Begin_handshake_reply int data_holder int int bytes
  | Process_handshake data_holder data_holder int
  | Get_shared_secret int
  | Get_authenticated_peer_credential_token data_holder int
  | Set_listener "nat option"
  | Return_identity_token
  | Return_identity_status_token
  | Return_authenticated_peer_credential_token
  | Return_handshake_handle int
  | Return_identity_handle int
  | Return_sharedsecret_handle

fun perform_OD :: "('a) opendds_scheme \<Rightarrow> od_call \<Rightarrow> (od_auth, unit) op" where
  "perform_OD E (Validate_local_identity props g) = no_value (validate_local_identity_OD E props g)"
| "perform_OD E (Get_identity_token token h) = get_identity_token_OD E token h"
| "perform_OD E (Get_identity_status_token h) = get_identity_status_token_OD h"
| "perform_OD E (Set_permissions_credential_and_token h c) =
     set_permissions_credential_and_token_OD E h c"
| "perform_OD E (Validate_remote_identity rh lr rr lh token g) =
     no_value (validate_remote_identity_OD E rh lr rr lh token g)"
| "perform_OD E (Begin_handshake_request h m a b d) = no_value (begin_handshake_request_OD E h m a b d)"
| "perform_OD E (Begin_handshake_reply h m a b d) = no_value (begin_handshake_reply_OD E h m a b d)"
| "perform_OD E (Process_handshake out inp h) = no_value (process_handshake_OD E out inp h)"
| "perform_OD E (Get_shared_secret h) = no_value (get_shared_secret_OD h)"
| "perform_OD E (Get_authenticated_peer_credential_token token h) =
     get_authenticated_peer_credential_token_OD E token h"
| "perform_OD E (Set_listener l) = set_listener_OD l"
| "perform_OD E Return_identity_token = return_identity_token_OD"
| "perform_OD E Return_identity_status_token = return_identity_status_token_OD"
| "perform_OD E Return_authenticated_peer_credential_token =
     return_authenticated_peer_credential_token_OD"
| "perform_OD E (Return_handshake_handle h) = return_handshake_handle_OD h"
| "perform_OD E (Return_identity_handle h) = return_identity_handle_OD h"
| "perform_OD E Return_sharedsecret_handle = return_sharedsecret_handle_OD"

lemma wp_passive_returns_OD:
  assumes "od_inv E s"
  shows "wp return_identity_token_OD s (\<lambda>_. kept E s) (kept E s) Z"
    and "wp return_identity_status_token_OD s (\<lambda>_. kept E s) (kept E s) Z"
    and "wp return_authenticated_peer_credential_token_OD s (\<lambda>_. kept E s) (kept E s) Z"
    and "wp return_sharedsecret_handle_OD s (\<lambda>_. kept E s) (kept E s) Z"
  using kept_refl [OF assms] by (simp_all add: return_identity_token_OD_def
      return_identity_status_token_OD_def return_authenticated_peer_credential_token_OD_def
      return_sharedsecret_handle_OD_def)

lemmas wp_methods_OD = wp_passive_OD wp_passive_returns_OD wp_return_handles_OD

lemma wp_get_shared_secret_kept:
  "od_inv E s \<Longrightarrow> wp (no_value (get_shared_secret_OD h)) s (\<lambda>_. kept E s) (kept E s) Z"
  by (rule wp_no_value) (rule wp_passive_OD)

lemma wp_perform_OD:
  assumes E: "opendds_laws E" and inv: "od_inv E s"
  shows "wp (perform_OD E c) s (\<lambda>_. kept E s) (kept E s) (overflows s)"
proof (cases c)
  case (Process_handshake out inp h)
  show ?thesis unfolding Process_handshake perform_OD.simps
    by (rule wp_no_value, rule wp_mono [OF wp_process_handshake_OD [OF inv]]) auto
qed (simp_all add: wp_methods_OD [OF inv] wp_set_permissions_OD [OF E inv] wp_no_value
    wp_validate_local_identity_OD [OF inv] wp_validate_remote_identity_OD [OF E inv]
    wp_begin_handshake_request_OD [OF E inv] wp_begin_handshake_reply_OD [OF E inv])

inductive od_step :: "('a) opendds_scheme \<Rightarrow> od_auth \<Rightarrow> od_auth \<Rightarrow> bool"
  for E :: "('a) opendds_scheme" where
  call: "perform_OD E c s = Ret (r, s') \<Longrightarrow> od_step E s s'"

inductive_cases od_stepE: "od_step E s s'"

definition od_reachable :: "('a) opendds_scheme \<Rightarrow> od_auth \<Rightarrow> bool" where
  "od_reachable E s \<longleftrightarrow> reachable (\<lambda>s. opendds_laws E \<and> new_Authentication_OD s)
     (\<lambda>s s'. opendds_laws E \<and> od_step E s s') s"

lemma new_inv: "new_Authentication_OD s \<Longrightarrow> od_inv E s"
  by (simp add: new_Authentication_OD_def od_inv_def od_core_def LONG_MAX_def)

lemma od_step_kept:
  assumes E: "opendds_laws E" and inv: "od_inv E s" and step: "od_step E s s'"
  shows "kept E s s'"
  using step
proof (rule od_stepE)
  fix c r assume "perform_OD E c s = Ret (r, s')"
  then show ?thesis using wp_perform_OD [OF E inv, of c] by (simp add: wp_def split: sum.splits)
qed

interpretation od: state_invariant "\<lambda>s. opendds_laws E \<and> new_Authentication_OD s"
  "\<lambda>s s'. opendds_laws E \<and> od_step E s s'" "\<lambda>s. opendds_laws E \<and> od_inv E s"
  for E :: "('a) opendds_scheme"
  by unfold_locales (use od_step_kept in \<open>auto simp: new_inv kept_def\<close>)

lemma od_reachable_inv: "od_reachable E s \<Longrightarrow> opendds_laws E \<and> od_inv E s"
  unfolding od_reachable_def by (rule od.reachable_ok)

lemma od_reachable_step: "od_reachable E s \<Longrightarrow> od_step E s s' \<Longrightarrow> od_reachable E s'"
  using od_reachable_inv [of E s] unfolding od_reachable_def by (auto intro: reachable.step)

text \<open>Any number of further calls.\<close>

abbreviation od_steps :: "('a) opendds_scheme \<Rightarrow> od_auth \<Rightarrow> od_auth \<Rightarrow> bool" where
  "od_steps E \<equiv> rtranclp (od_step E)"

lemma od_steps_kept:
  assumes "od_steps E s s'" and "opendds_laws E" and "od_inv E s"
  shows "kept E s s'"
  using assms
proof (induction rule: rtranclp_induct)
  case (step y z)
  then have y: "kept E s y" by simp
  have "od_inv E y" using y by (simp add: kept_def)
  then have "kept E y z" using od_step_kept [OF step.prems(1) _ step.hyps(2)] by simp
  then show ?case by (rule kept_trans [OF y])
qed (rule kept_refl)

end
