(* ===== verification/OpenDdsProps.thy ===== *)
theory OpenDdsProps
  imports OpenDdsInv
begin

text \<open>
  The properties of the OpenDDS adapter: what its reachable instances guarantee, and that two
  correctly configured participants complete a handshake and share a secret.
\<close>

section \<open>Reachable instances\<close>

text \<open>
  C6: \<open>get_shared_secret\<close> gives out a secret only for a handshake whose peer is authenticated:
  the peer's certificate is valid under the local identity's CA, belongs to the participant the
  remote handle stands for, and verifies a signature over the transcript of exactly this
  handshake (its two credential hashes, both challenges, the KEM public key and ciphertext);
  the secret comes with the two 256-bit challenges that were signed.
\<close>
theorem od_secret_only_authenticated:
  assumes "od_reachable E s" and "get_shared_secret_OD h s = Ret (Inr ss, s')"
  shows "s' = s \<and> (\<exists>hs. od_handshakes s h = Some hs \<and>
    peer_authenticated E (local_objects s ! hs_local hs) (ri_guid (remote_objects s ! hs_remote hs)) hs \<and>
    ss_challenge1 ss = hs_challenge1 hs \<and> ss_challenge2 ss = hs_challenge2 hs \<and> ss_secret ss = hs_secret hs)"
proof -
  obtain hs where hs: "od_handshakes s h = Some hs" "authenticated hs" "s' = s"
      "ss_challenge1 ss = hs_challenge1 hs" "ss_challenge2 ss = hs_challenge2 hs" "ss_secret ss = hs_secret hs"
    using assms(2) by (auto simp: get_shared_secret_OD_def bind_op_def fail_OD_def Let_def
        split: option.splits if_splits)
  have "handshake_wf E (local_objects s ! hs_local hs) (ri_guid (remote_objects s ! hs_remote hs)) hs"
    using od_reachable_inv [OF assms(1)] inv_pointers(4) hs(1) by blast
  then show ?thesis using hs by (auto simp: handshake_wf_def)
qed

text \<open>
  C15: a handshake takes at most one message.  Once a message has been processed for a handshake,
  whether it was accepted or not, every later \<open>process_handshake\<close> with its handle, after any
  further calls, fails and leaves all handshakes as they are.
\<close>
theorem od_handshake_takes_one_message:
  assumes "od_reachable E s" and "od_handshakes s h \<noteq> None"
    and "process_handshake_OD E out msg h s = Ret (r, s1)" and "od_steps E s1 s2"
  shows "\<exists>e s3. process_handshake_OD E out' msg' h s2 = Ret (Inl e, s3) \<and>
    od_handshakes s3 = od_handshakes s2"
proof -
  have E: "opendds_laws E" and inv: "od_inv E s" using od_reachable_inv [OF assms(1)] by blast+
  have "kept E s s1 \<and> closed h s1"
    using wp_process_handshake_OD [OF inv, of out msg h] assms(2,3)
    by (auto simp: wp_def split: sum.splits)
  then have "closed h s2" using od_steps_kept [OF assms(4) E] by (auto simp: kept_def)
  then show ?thesis
    by (auto simp: closed_def process_handshake_OD_def bind_op_def check_OD_def fail_OD_def
        split: option.splits)
qed

text \<open>
  C8: in a reachable instance every call returns, follows no null pointer, and leaves a
  consistent instance (no handle names two things, every pointer of a map or a handshake is
  valid, handles are positive and never reused, a state that says authenticated has an
  authenticated peer).  The one exception: the counter of handles, a signed 32-bit integer,
  overflows when a call needs a handle after 2147483646 of them have been given out.
\<close>
theorem od_calls_safe:
  assumes "od_reachable E s"
  shows "case perform_OD E c s of
      Ret (r, s') \<Rightarrow> od_inv E s' \<and> od_next_handle s \<le> od_next_handle s' \<and> od_next_handle s' \<le> 2147483647
    | Fault f \<Rightarrow> f = Signed_overflow \<and> od_next_handle s = 2147483647"
proof -
  have "wp (perform_OD E c) s (\<lambda>_. kept E s) (kept E s) (overflows s)"
    using od_reachable_inv [OF assms] by (blast intro: wp_perform_OD)
  moreover have "od_next_handle s' \<le> LONG_MAX" if "od_inv E s'" for s'
    using that od_coreD(2) unfolding od_inv_def by blast
  ultimately show ?thesis
    by (auto simp: wp_def kept_def overflows_def LONG_MAX_def split: outcome.splits sum.splits if_splits)
qed

section \<open>Two participants\<close>

text \<open>
  What the OpenDDS helpers document: a writer sets the class id and appends properties, a string
  with its NUL; a reader gives the value of the first property of a name.
\<close>

definition token_laws :: "('a) opendds_scheme \<Rightarrow> bool" where
  "token_laws E \<longleftrightarrow>
     (\<forall>t c. class_id (TokenWriter E t c) = Some c \<and>
        dh_binary_properties (TokenWriter E t c) = dh_binary_properties t) \<and>
     (\<forall>t n v. class_id (add_bin_property E t n v) = class_id t \<and>
        dh_binary_properties (add_bin_property E t n v) = dh_binary_properties t @
          [\<lparr>bp_name = Some n, bp_value = octets_to_seq v, bp_propagate = True\<rparr>]) \<and>
     (\<forall>t n v. add_bin_property_string E t n v = add_bin_property E t n (cstring_octets v)) \<and>
     (\<forall>t n. get_bin_property_value E t n =
        (case find (\<lambda>p. bp_name p = Some n) (dh_binary_properties t) of
           None \<Rightarrow> [] | Some p \<Rightarrow> oct_data (bp_value p)))"

text \<open>The calls of OpenSSL and OpenDDS a handshake makes do not fail, and signatures verify.\<close>

definition kem_works :: "('a) opendds_scheme \<Rightarrow> string \<Rightarrow> bool" where
  "kem_works E alg \<longleftrightarrow>
     (\<forall>t. \<exists>own pk. Kem_generate E t (new_Kem alg) = Inr own \<and> Kem_public_key E t own = Inr pk) \<and>
     (\<forall>t own pk t'. Kem_generate E t (new_Kem alg) = Inr own \<longrightarrow> Kem_public_key E t own = Inr pk \<longrightarrow>
        (\<exists>theirs ct ss. Kem_import_public E t' pk (new_Kem alg) = Inr theirs \<and>
           Kem_encapsulate E t' theirs = Inr (ct, ss) \<and>
           (\<forall>t''. \<exists>ss'. Kem_decapsulate E t'' ct own = Inr ss')))"

definition signing_works :: "('a) opendds_scheme \<Rightarrow> LocalIdentity_OD \<Rightarrow> bool" where
  "signing_works E L \<longleftrightarrow>
     (\<forall>t ps. \<exists>sig. sign_serialized E t ps (cr_key (li_credentials L)) = (0, sig) \<and>
        verify_serialized E ps (cr_cert (li_credentials L)) sig = 0)"

definition library_works :: "('a) opendds_scheme \<Rightarrow> bool" where
  "library_works E \<longleftrightarrow> (\<forall>ps. fst (hash_serialized E ps) = 0) \<and> (\<forall>t. fst (make_nonce_256 E t) = 0)"

text \<open>\<open>M\<close> is configured to accept \<open>L\<close> with its participant data.\<close>

definition trusts :: "('a) opendds_scheme \<Rightarrow> LocalIdentity_OD \<Rightarrow> LocalIdentity_OD \<Rightarrow> bytes \<Rightarrow> bool" where
  "trusts E M L pdata \<longleftrightarrow>
     (let cert = cr_cert (li_credentials L) in
      cert_deserialize E (cert_original_bytes E cert) = Some cert \<and>
      (\<forall>t. cert_validate E t cert (cr_ca (li_credentials M)) = X509_V_OK) \<and>
      mldsa_algorithm (cert_dsign_algo E cert) \<and> cert_matches_guid E cert (li_guid L) \<and>
      participant_data_has_guid E pdata (li_guid L))"

text \<open>
  The AuthRequest challenge of \<open>A\<close>, if \<open>B\<close> has received one, is the one \<open>A\<close> has sent: \<open>RA\<close> is what
  \<open>A\<close> knows of \<open>B\<close> and \<open>RB\<close> what \<open>B\<close> knows of \<open>A\<close>.
\<close>

definition announced :: "RemoteIdentity_OD \<Rightarrow> RemoteIdentity_OD \<Rightarrow> bool" where
  "announced RA RB \<longleftrightarrow>
     (ri_remote_challenge RB = [] \<or>
      ri_local_auth_request_sent RA \<and> ri_remote_challenge RB = ri_local_challenge RA)"

text \<open>One participant of the run: an identity, what it knows of the peer, and handles for both.\<close>

definition participant ::
  "('a) opendds_scheme \<Rightarrow> od_auth \<Rightarrow> int \<Rightarrow> int \<Rightarrow> LocalIdentity_OD \<Rightarrow> RemoteIdentity_OD \<Rightarrow> bool" where
  "participant E s lh rh L R \<longleftrightarrow>
     od_reachable E s \<and> od_next_handle s < LONG_MAX \<and>
     (\<exists>lp rp. od_locals s lh = Some lp \<and> local_objects s ! lp = L \<and>
              od_remotes s rh = Some rp \<and> remote_objects s ! rp = R)"

named_theorems run_simps \<open>evaluation of an undisturbed run\<close>

lemma string_value_cstring [run_simps]:
  assumes "nul_free s"
  shows "string_value (cstring_octets s) = s"
proof -
  have "takeWhile (\<lambda>b. b \<noteq> 0) (octets_of s @ [0]) = octets_of s"
    using assms by (simp add: nul_free_def takeWhile_append)
  then show ?thesis
    by (simp add: string_value_def cstring_octets_def octets_of_def nth_append comp_def)
qed

lemma nul_free_algorithms [run_simps]:
  "mldsa_algorithm s \<Longrightarrow> nul_free s" "kem_algorithm s \<Longrightarrow> nul_free s"
  unfolding mldsa_algorithm_def kem_algorithm_def nul_free_def octets_of_def
  by (elim disjE, simp_all)+

lemma token_lawsD [run_simps]:
  assumes "token_laws E"
  shows "class_id (TokenWriter E t c) = Some c"
    and "dh_binary_properties (TokenWriter E t c) = dh_binary_properties t"
    and "class_id (add_bin_property E t n v) = class_id t"
    and "dh_binary_properties (add_bin_property E t n v) = dh_binary_properties t @
          [\<lparr>bp_name = Some n, bp_value = octets_to_seq v, bp_propagate = True\<rparr>]"
    and "add_bin_property_string E t n w = add_bin_property E t n (cstring_octets w)"
    and "get_bin_property_value E t n =
        (case find (\<lambda>p. bp_name p = Some n) (dh_binary_properties t) of
           None \<Rightarrow> [] | Some p \<Rightarrow> oct_data (bp_value p))"
  using assms unfolding token_laws_def by blast+

subsection \<open>The messages of the run\<close>

definition carries_credentials ::
  "('a) opendds_scheme \<Rightarrow> LocalIdentity_OD \<Rightarrow> bytes \<Rightarrow> data_holder \<Rightarrow> bool" where
  "carries_credentials E L pdata token \<longleftrightarrow>
     get_bin_property_value E token ''c.id'' = cert_original_bytes E (cr_cert (li_credentials L)) \<and>
     get_bin_property_value E token ''c.perm'' = cr_permissions (li_credentials L) \<and>
     get_bin_property_value E token ''c.pdata'' = pdata \<and>
     get_bin_property_value E token ''c.dsign_algo'' =
       cstring_octets (cert_dsign_algo E (cr_cert (li_credentials L))) \<and>
     get_bin_property_value E token ''c.kagree_algo'' = cstring_octets (li_kem_algorithm L)"

definition request_message ::
  "('a) opendds_scheme \<Rightarrow> LocalIdentity_OD \<Rightarrow> bytes \<Rightarrow> data_holder \<Rightarrow> bytes \<Rightarrow> bytes \<Rightarrow> data_holder" where
  "request_message E L pdata m key c1 =
     add_bin_property E (add_bin_property E (add_credentials E L pdata (TokenWriter E m REQUEST_CLASS_ID))
       KEM_PUBLIC_PROPERTY (octets key)) ''challenge1'' c1"

definition reply_message ::
  "('a) opendds_scheme \<Rightarrow> LocalIdentity_OD \<Rightarrow> bytes \<Rightarrow> bytes \<Rightarrow> bytes \<Rightarrow> bytes \<Rightarrow> bytes \<Rightarrow> data_holder" where
  "reply_message E L pdata ct c1 c2 sig =
     add_bin_property E (add_bin_property E (add_bin_property E (add_bin_property E
       (add_credentials E L pdata (TokenWriter E empty_token REPLY_CLASS_ID))
       KEM_CIPHERTEXT_PROPERTY ct) ''challenge1'' c1) ''challenge2'' c2) ''signature'' sig"

definition final_message :: "('a) opendds_scheme \<Rightarrow> bytes \<Rightarrow> data_holder" where
  "final_message E sig = add_bin_property E (TokenWriter E empty_token FINAL_CLASS_ID) ''signature'' sig"

lemma request_message_fields:
  assumes "token_laws E" and "dh_binary_properties m = []"
  shows "carries_credentials E L pdata (request_message E L pdata m key c1)"
    and "class_is (request_message E L pdata m key c1) REQUEST_CLASS_ID"
    and "get_bin_property_value E (request_message E L pdata m key c1) KEM_PUBLIC_PROPERTY = key"
    and "get_bin_property_value E (request_message E L pdata m key c1) ''challenge1'' = c1"
  by (simp_all add: token_lawsD [OF assms(1)] assms(2) carries_credentials_def request_message_def
      add_credentials_def Let_def class_is_def KEM_PUBLIC_PROPERTY_def octets_def)

lemma reply_message_fields:
  assumes "token_laws E"
  shows "carries_credentials E L pdata (reply_message E L pdata ct c1 c2 sig)"
    and "class_is (reply_message E L pdata ct c1 c2 sig) REPLY_CLASS_ID"
    and "get_bin_property_value E (reply_message E L pdata ct c1 c2 sig) KEM_CIPHERTEXT_PROPERTY = ct"
    and "get_bin_property_value E (reply_message E L pdata ct c1 c2 sig) ''challenge1'' = c1"
    and "get_bin_property_value E (reply_message E L pdata ct c1 c2 sig) ''challenge2'' = c2"
    and "get_bin_property_value E (reply_message E L pdata ct c1 c2 sig) ''signature'' = sig"
  by (simp_all add: token_lawsD [OF assms(1)] carries_credentials_def reply_message_def
      add_credentials_def Let_def class_is_def KEM_CIPHERTEXT_PROPERTY_def empty_token_def)

lemma final_message_fields:
  assumes "token_laws E"
  shows "class_is (final_message E sig) FINAL_CLASS_ID"
    and "get_bin_property_value E (final_message E sig) ''signature'' = sig"
  by (simp_all add: token_lawsD [OF assms(1)] final_message_def class_is_def empty_token_def)

definition credential_digest :: "('a) opendds_scheme \<Rightarrow> LocalIdentity_OD \<Rightarrow> bytes \<Rightarrow> bytes" where
  "credential_digest E L pdata = snd (own_credential_hash E L pdata)"

lemma own_credential_hash_works:
  "library_works E \<Longrightarrow> own_credential_hash E L pdata = (0, credential_digest E L pdata)"
  by (simp add: credential_digest_def library_works_def own_credential_hash_def credential_hash_def prod_eq_iff)

lemma validate_honest_credentials:
  assumes "library_works E" and "trusts E M L pdata" and "carries_credentials E L pdata token"
    and "li_kem_algorithm M = li_kem_algorithm L" and "kem_algorithm (li_kem_algorithm L)"
    and "ri_guid R = li_guid L"
  shows "validate_remote_credentials E t M R token set_hash hs =
    Ret (Inr (), (set_hash (credential_digest E L pdata) hs)
      \<lparr>hs_remote_certificate := Some (cr_cert (li_credentials L)),
       hs_remote_permissions := cr_permissions (li_credentials L)\<rparr>)"
  using assms own_credential_hash_works [OF assms(1), of L pdata]
  by (simp add: validate_remote_credentials_def carries_credentials_def trusts_def run_simps Let_def
      bind_op_def check_OD_def own_credential_hash_def)

definition challenge_of :: "('a) opendds_scheme \<Rightarrow> nat \<Rightarrow> RemoteIdentity_OD \<Rightarrow> bytes" where
  "challenge_of E t R =
     (if ri_local_auth_request_sent R then ri_local_challenge R else snd (make_nonce_256 E t))"

lemma choose_challenge_works:
  assumes "library_works E"
  shows "choose_challenge E t R msg s = Ret (Inr (challenge_of E t R), s)"
proof -
  have "make_nonce_256 E t = (0, snd (make_nonce_256 E t))"
    using assms by (simp add: library_works_def prod_eq_iff)
  then obtain c where "make_nonce_256 E t = (0, c)" ..
  then show ?thesis by (simp add: choose_challenge_def challenge_of_def bind_op_def check_OD_def)
qed

subsection \<open>The steps of the run\<close>

lemma request_step:
  assumes s: "od_locals s lh = Some lp" "od_remotes s rh = Some rp" "od_next_handle s < LONG_MAX"
    and works: "library_works E" and pdata: "pdata \<noteq> []"
    and gen: "Kem_generate E (od_clock s) (new_Kem (li_kem_algorithm (local_objects s ! lp))) = Inr own"
    and pub: "Kem_public_key E (od_clock s) own = Inr pk"
    and c: "c = challenge_of E (od_clock s) (remote_objects s ! rp)"
    and L: "L = local_objects s ! lp"
  shows "begin_handshake_request_OD E HANDLE_NIL m lh rh pdata s =
    Ret (Inr VALIDATION_PENDING_HANDSHAKE_MESSAGE,
      s\<lparr>out_handle := od_next_handle s, out_token := request_message E L pdata m pk c,
        od_clock := Suc (od_clock s), od_next_handle := od_next_handle s + 1,
        od_handshakes := (od_handshakes s)(od_next_handle s \<mapsto> (new_Handshake_OD lh rh lp rp)
          \<lparr>hs_initiator := True, hs_state := VALIDATION_PENDING_HANDSHAKE_MESSAGE, hs_kem := own,
           hs_request := request_message E L pdata m pk c, hs_hash1 := credential_digest E L pdata,
           hs_challenge1 := c, hs_public_key := pk\<rparr>)\<rparr>)"
  using assms(1-3) gen pub pdata
  by (simp add: begin_handshake_request_OD_def local_OD_def remote_OD_def bind_op_def check_OD_def
      or_fail_def tick_OD_def next_handle_def Let_def choose_challenge_works [OF works]
      own_credential_hash_works [OF works] request_message_def octets_def L c)

lemma reply_step:
  assumes s: "od_locals s lh = Some lp" "od_remotes s rh = Some rp" "od_next_handle s < LONG_MAX"
    and works: "library_works E" and tok: "token_laws E" and m: "dh_binary_properties m = []"
    and trusts: "trusts E (local_objects s ! lp) LA pdA" "ri_guid (remote_objects s ! rp) = li_guid LA"
      "li_kem_algorithm (local_objects s ! lp) = li_kem_algorithm LA" "kem_algorithm (li_kem_algorithm LA)"
    and c1: "length c1 = 32"
      "ri_remote_challenge (remote_objects s ! rp) = [] \<or> c1 = ri_remote_challenge (remote_objects s ! rp)"
    and kem: "Kem_import_public E (od_clock s) pk (new_Kem (li_kem_algorithm LA)) = Inr theirs"
      "Kem_encapsulate E (od_clock s) theirs = Inr (ct, ss)"
    and c2: "c2 = challenge_of E (od_clock s) (remote_objects s ! rp)"
    and sig: "sign_serialized E (od_clock s)
       (OD_reply_transcript (credential_digest E LB pdB) c2 ct c1 pk (credential_digest E LA pdA))
       (cr_key (li_credentials LB)) = (0, sig)"
    and LB: "LB = local_objects s ! lp"
  shows "begin_handshake_reply_OD E HANDLE_NIL (request_message E LA pdA m pk c1) rh lh pdB s =
    Ret (Inr VALIDATION_PENDING_HANDSHAKE_MESSAGE,
      s\<lparr>out_handle := od_next_handle s, out_token := reply_message E LB pdB ct c1 c2 sig,
        od_clock := Suc (od_clock s), od_next_handle := od_next_handle s + 1,
        od_handshakes := (od_handshakes s)(od_next_handle s \<mapsto> (new_Handshake_OD lh rh lp rp)
          \<lparr>hs_state := VALIDATION_PENDING_HANDSHAKE_MESSAGE, hs_kem := theirs,
           hs_request := request_message E LA pdA m pk c1, hs_reply := reply_message E LB pdB ct c1 c2 sig,
           hs_hash1 := credential_digest E LA pdA, hs_hash2 := credential_digest E LB pdB,
           hs_challenge1 := c1, hs_challenge2 := c2, hs_public_key := pk, hs_ciphertext := ct,
           hs_secret := ss, hs_remote_certificate := Some (cr_cert (li_credentials LA)),
           hs_remote_permissions := cr_permissions (li_credentials LA)\<rparr>)\<rparr>)"
proof -
  note req = request_message_fields [OF tok m, of LA pdA pk c1]
  note cred = validate_honest_credentials [OF works trusts(1) req(1) trusts(3,4,2)]
  show ?thesis
    using s kem c1 sig cred req(2-4) trusts(3)
    by (auto simp: begin_handshake_reply_OD_def local_OD_def remote_OD_def bind_op_def check_OD_def
        or_fail_def tick_OD_def next_handle_def Let_def choose_challenge_works [OF works]
        own_credential_hash_works [OF works] reply_message_def octets_def bytes_of_def LB c2
        run_local_def accept_request_def new_Handshake_OD_def)
qed

lemma reply_accepted_step:
  assumes hs: "od_handshakes s h = Some hs" "hs_state hs = VALIDATION_PENDING_HANDSHAKE_MESSAGE"
      "hs_initiator hs"
    and works: "library_works E" and tok: "token_laws E"
    and L: "LA = local_objects s ! hs_local hs" "R = remote_objects s ! hs_remote hs"
    and trusts: "trusts E LA LB pdB" "ri_guid R = li_guid LB" "li_kem_algorithm LA = li_kem_algorithm LB"
      "kem_algorithm (li_kem_algorithm LB)"
    and c2: "length c2 = 32" "ri_remote_challenge R = [] \<or> c2 = ri_remote_challenge R"
    and hash2: "hash2 = credential_digest E LB pdB"
    and ver: "verify_serialized E (OD_reply_transcript hash2 c2 ct (hs_challenge1 hs)
       (hs_public_key hs) (hs_hash1 hs)) (cr_cert (li_credentials LB)) sig = 0"
    and dec: "Kem_decapsulate E (od_clock s) ct (hs_kem hs) = Inr ss"
    and fin: "sign_serialized E (od_clock s) (OD_final_transcript (hs_hash1 hs) (hs_challenge1 hs)
       (hs_public_key hs) c2 ct hash2) (cr_key (li_credentials LA)) = (0, sig')"
  shows "process_handshake_OD E out (reply_message E LB pdB ct (hs_challenge1 hs) c2 sig) h s =
    Ret (Inr VALIDATION_OK_FINAL_MESSAGE,
      s\<lparr>out_token := final_message E sig', od_clock := Suc (od_clock s),
        od_handshakes := (od_handshakes s)(h \<mapsto> hs
          \<lparr>hs_hash2 := hash2, hs_remote_certificate := Some (cr_cert (li_credentials LB)),
           hs_remote_permissions := cr_permissions (li_credentials LB), hs_challenge2 := c2,
           hs_ciphertext := ct, hs_kem := Kem_clear (hs_kem hs), hs_secret := ss,
           hs_reply := reply_message E LB pdB ct (hs_challenge1 hs) c2 sig,
           hs_state := VALIDATION_OK_FINAL_MESSAGE\<rparr>)\<rparr>)"
proof -
  note rep = reply_message_fields [OF tok, of LB pdB ct "hs_challenge1 hs" c2 sig]
  note cred = validate_honest_credentials [OF works trusts(1) rep(1) trusts(3,4,2)]
  show ?thesis
    using hs c2 ver dec fin cred rep(2-6)
    by (auto simp: process_handshake_OD_def bind_op_def check_OD_def or_fail_def tick_OD_def Let_def
        on_handshake_def on_fail_def process_reply_def bytes_of_def L hash2 final_message_def)
qed

lemma final_accepted_step:
  assumes hs: "od_handshakes s h = Some hs" "hs_state hs = VALIDATION_PENDING_HANDSHAKE_MESSAGE"
      "\<not> hs_initiator hs" "hs_remote_certificate hs = Some cert"
    and tok: "token_laws E"
    and ver: "verify_serialized E (OD_final_transcript (hs_hash1 hs) (hs_challenge1 hs) (hs_public_key hs)
       (hs_challenge2 hs) (hs_ciphertext hs) (hs_hash2 hs)) cert sig = 0"
  shows "process_handshake_OD E out (final_message E sig) h s =
    Ret (Inr VALIDATION_OK, s\<lparr>out_token := empty_token, od_clock := Suc (od_clock s),
      od_handshakes := (od_handshakes s)(h \<mapsto> hs\<lparr>hs_state := VALIDATION_OK\<rparr>)\<rparr>)"
  using hs ver final_message_fields [OF tok, of sig]
  by (simp add: process_handshake_OD_def bind_op_def check_OD_def tick_OD_def Let_def
      on_handshake_def on_fail_def process_final_def)

lemma challenge_of_length:
  assumes "library_works E" and "od_reachable E s" and "p < length (remote_objects s)"
  shows "length (challenge_of E t (remote_objects s ! p)) = 32"
proof -
  have "opendds_laws E" "od_inv E s" using od_reachable_inv [OF assms(2)] by blast+
  moreover have "make_nonce_256 E t = (0, snd (make_nonce_256 E t))"
    using assms(1) by (simp add: library_works_def prod_eq_iff)
  ultimately show ?thesis
    using inv_pointers(3) assms(3) unfolding challenge_of_def opendds_laws_def by auto
qed

text \<open>
  C7: two participants that trust each other's certificates and use the same KEM complete the
  handshake.  Where the library calls do not fail, the initiator's request is accepted, the reply
  it gets back is accepted, the final message is accepted, and then both sides hold the same
  shared secret with the same challenges.
\<close>
theorem od_handshake_completes:
  assumes A: "participant E sA la rb LA RA" and B: "participant E sB lb ra LB RB"
    and peers: "ri_guid RA = li_guid LB" "ri_guid RB = li_guid LA" "announced RA RB" "announced RB RA"
    and alg: "li_kem_algorithm LA = li_kem_algorithm LB" "kem_algorithm (li_kem_algorithm LB)"
    and trust: "trusts E LB LA pdA" "trusts E LA LB pdB" "pdA \<noteq> []"
    and works: "library_works E" "signing_works E LA" "signing_works E LB"
      "kem_works E (li_kem_algorithm LB)" "kem_correct E" "token_laws E"
    and m: "dh_binary_properties m = []"
  shows "\<exists>sA1 sB1 sA2 sB2 ss.
    begin_handshake_request_OD E HANDLE_NIL m la rb pdA sA =
      Ret (Inr VALIDATION_PENDING_HANDSHAKE_MESSAGE, sA1) \<and>
    begin_handshake_reply_OD E HANDLE_NIL (out_token sA1) ra lb pdB sB =
      Ret (Inr VALIDATION_PENDING_HANDSHAKE_MESSAGE, sB1) \<and>
    process_handshake_OD E out (out_token sB1) (out_handle sA1) sA1 =
      Ret (Inr VALIDATION_OK_FINAL_MESSAGE, sA2) \<and>
    process_handshake_OD E out' (out_token sA2) (out_handle sB1) sB1 = Ret (Inr VALIDATION_OK, sB2) \<and>
    get_shared_secret_OD (out_handle sA1) sA2 = Ret (Inr ss, sA2) \<and>
    get_shared_secret_OD (out_handle sB1) sB2 = Ret (Inr ss, sB2)"
proof -
  obtain lpA rpA where a: "od_reachable E sA" "od_next_handle sA < LONG_MAX" "od_locals sA la = Some lpA"
      "local_objects sA ! lpA = LA" "od_remotes sA rb = Some rpA" "remote_objects sA ! rpA = RA"
    using A unfolding participant_def by blast
  obtain lpB rpB where b: "od_reachable E sB" "od_next_handle sB < LONG_MAX" "od_locals sB lb = Some lpB"
      "local_objects sB ! lpB = LB" "od_remotes sB ra = Some rpB" "remote_objects sB ! rpB = RB"
    using B unfolding participant_def by blast
  define c1 c2 where "c1 = challenge_of E (od_clock sA) RA" and "c2 = challenge_of E (od_clock sB) RB"
  have len: "length c1 = 32" "length c2 = 32"
    using challenge_of_length [OF works(1)] a b inv_pointers(2) od_reachable_inv
    unfolding c1_def c2_def by metis+
  have chal: "ri_remote_challenge RB = [] \<or> c1 = ri_remote_challenge RB"
      "ri_remote_challenge RA = [] \<or> c2 = ri_remote_challenge RA"
    using peers(3,4) by (auto simp: announced_def c1_def c2_def challenge_of_def)
  obtain own pk where gen: "Kem_generate E (od_clock sA) (new_Kem (li_kem_algorithm LB)) = Inr own"
      "Kem_public_key E (od_clock sA) own = Inr pk"
    using works(4) unfolding kem_works_def by blast
  obtain theirs ct ss where enc: "Kem_import_public E (od_clock sB) pk (new_Kem (li_kem_algorithm LB)) = Inr theirs"
      "Kem_encapsulate E (od_clock sB) theirs = Inr (ct, ss)"
      "\<And>t. \<exists>ss'. Kem_decapsulate E t ct own = Inr ss'"
    using works(4) gen unfolding kem_works_def by metis
  have dec: "Kem_decapsulate E t ct own = Inr ss" for t
    using enc(3) [of t] Kem_secrets_agree [OF works(5) gen enc(1,2)] by blast
  let ?h1 = "credential_digest E LA pdA" and ?h2 = "credential_digest E LB pdB"
  obtain sigB where sB: "sign_serialized E (od_clock sB) (OD_reply_transcript ?h2 c2 ct c1 pk ?h1)
      (cr_key (li_credentials LB)) = (0, sigB)"
      "verify_serialized E (OD_reply_transcript ?h2 c2 ct c1 pk ?h1) (cr_cert (li_credentials LB)) sigB = 0"
    using works(3) unfolding signing_works_def by blast
  obtain sigA where sA: "sign_serialized E (Suc (od_clock sA)) (OD_final_transcript ?h1 c1 pk c2 ct ?h2)
      (cr_key (li_credentials LA)) = (0, sigA)"
      "verify_serialized E (OD_final_transcript ?h1 c1 pk c2 ct ?h2) (cr_cert (li_credentials LA)) sigA = 0"
    using works(2) unfolding signing_works_def by blast
  define hsA where "hsA = (new_Handshake_OD la rb lpA rpA)
      \<lparr>hs_initiator := True, hs_state := VALIDATION_PENDING_HANDSHAKE_MESSAGE, hs_kem := own,
       hs_request := request_message E LA pdA m pk c1, hs_hash1 := ?h1, hs_challenge1 := c1,
       hs_public_key := pk\<rparr>"
  obtain sA1 where a1: "begin_handshake_request_OD E HANDLE_NIL m la rb pdA sA =
        Ret (Inr VALIDATION_PENDING_HANDSHAKE_MESSAGE, sA1)"
      "out_token sA1 = request_message E LA pdA m pk c1" "od_handshakes sA1 (out_handle sA1) = Some hsA"
      "od_clock sA1 = Suc (od_clock sA)" "local_objects sA1 = local_objects sA"
      "remote_objects sA1 = remote_objects sA"
  proof -
    have "Kem_generate E (od_clock sA) (new_Kem (li_kem_algorithm LA)) = Inr own" using gen(1) alg(1) by simp
    note st = request_step [OF a(3,5,2) works(1) trust(3), unfolded a(4,6), OF this gen(2) c1_def refl]
    show thesis by (rule that [OF st]) (simp_all add: hsA_def)
  qed
  define hsB where "hsB = (new_Handshake_OD lb ra lpB rpB)
      \<lparr>hs_state := VALIDATION_PENDING_HANDSHAKE_MESSAGE, hs_kem := theirs,
       hs_request := request_message E LA pdA m pk c1, hs_reply := reply_message E LB pdB ct c1 c2 sigB,
       hs_hash1 := ?h1, hs_hash2 := ?h2, hs_challenge1 := c1, hs_challenge2 := c2, hs_public_key := pk,
       hs_ciphertext := ct, hs_secret := ss, hs_remote_certificate := Some (cr_cert (li_credentials LA)),
       hs_remote_permissions := cr_permissions (li_credentials LA)\<rparr>"
  obtain sB1 where b1: "begin_handshake_reply_OD E HANDLE_NIL (out_token sA1) ra lb pdB sB =
        Ret (Inr VALIDATION_PENDING_HANDSHAKE_MESSAGE, sB1)"
      "out_token sB1 = reply_message E LB pdB ct c1 c2 sigB" "od_handshakes sB1 (out_handle sB1) = Some hsB"
  proof -
    have "kem_algorithm (li_kem_algorithm LA)"
        "Kem_import_public E (od_clock sB) pk (new_Kem (li_kem_algorithm LA)) = Inr theirs"
      using alg enc(1) by simp_all
    note st = reply_step [OF b(3,5,2) works(1,6) m, unfolded b(4,6), OF trust(1) peers(2) alg(1) [symmetric]
        this(1) len(1) chal(1) this(2) enc(2) c2_def sB(1) refl]
    show thesis by (rule that [OF st [folded a1(2)]]) (simp_all add: hsB_def a1(2))
  qed
  have hsA: "hs_state hsA = VALIDATION_PENDING_HANDSHAKE_MESSAGE" "hs_initiator hsA" "hs_local hsA = lpA"
      "hs_remote hsA = rpA" "hs_challenge1 hsA = c1" "hs_public_key hsA = pk" "hs_hash1 hsA = ?h1" "hs_kem hsA = own"
    by (simp_all add: hsA_def new_Handshake_OD_def)
  obtain sA2 ssA where a2: "process_handshake_OD E out (out_token sB1) (out_handle sA1) sA1 =
        Ret (Inr VALIDATION_OK_FINAL_MESSAGE, sA2)" "out_token sA2 = final_message E sigA"
      "get_shared_secret_OD (out_handle sA1) sA2 = Ret (Inr ssA, sA2)"
      "ssA = \<lparr>ss_challenge1 = c1, ss_challenge2 = c2, ss_secret = ss\<rparr>"
    using reply_accepted_step [OF a1(3) hsA(1,2) works(1,6) refl refl, unfolded hsA a1(4-6) a(4,6),
        OF trust(2) peers(1) alg len(2) chal(2) refl sB(2) dec sA(1), of out]
    by (simp add: b1(2) get_shared_secret_OD_def authenticated_def bind_op_def Let_def hsA)
  have hsB: "hs_state hsB = VALIDATION_PENDING_HANDSHAKE_MESSAGE" "\<not> hs_initiator hsB"
      "hs_remote_certificate hsB = Some (cr_cert (li_credentials LA))" "hs_hash1 hsB = ?h1" "hs_hash2 hsB = ?h2"
      "hs_challenge1 hsB = c1" "hs_challenge2 hsB = c2" "hs_public_key hsB = pk" "hs_ciphertext hsB = ct"
      "hs_secret hsB = ss"
    by (simp_all add: hsB_def new_Handshake_OD_def)
  obtain sB2 where b2: "process_handshake_OD E out' (out_token sA2) (out_handle sB1) sB1 =
        Ret (Inr VALIDATION_OK, sB2)"
      "get_shared_secret_OD (out_handle sB1) sB2 = Ret (Inr ssA, sB2)"
    using final_accepted_step [OF b1(3) hsB(1-3) works(6), unfolded hsB, OF sA(2), of out'] a2(4)
    by (simp add: a2(2) hsB get_shared_secret_OD_def authenticated_def bind_op_def Let_def)
  show ?thesis using a1(1) b1(1) a2(1,3) b2 by blast
qed

section \<open>Local identities\<close>

text \<open>What registering an identity means: its credentials, its KEM, its handle and its object.\<close>

definition identity_registered ::
  "('a) opendds_scheme \<Rightarrow> (string \<times> string) list \<Rightarrow> bytes \<Rightarrow> od_auth \<Rightarrow> od_auth \<Rightarrow> bool" where
  "identity_registered E props candidate s s' \<longleftrightarrow>
     (\<exists>cred alg.
        load_credentials E (od_clock s) props = (True, cred) \<and> credentials_validate E (od_clock s) cred \<and>
        mldsa_algorithm (cert_dsign_algo E (cr_cert cred)) \<and>
        kem_algorithm alg \<and> (\<exists>t. openssl_supports E t alg) \<and>
        make_adjusted_guid E candidate (cr_cert cred) = (0, out_guid s') \<and>
        od_locals s (out_handle s') = None \<and> od_remotes s (out_handle s') = None \<and>
        od_handshakes s (out_handle s') = None \<and>
        od_locals s' = (od_locals s)(out_handle s' \<mapsto> length (local_objects s)) \<and>
        local_objects s' = local_objects s @
          [\<lparr>li_credentials = cred, li_guid = out_guid s', li_kem_algorithm = alg\<rparr>])"

text \<open>
  C16: \<open>validate_local_identity\<close> registers an identity only for validated credentials with an ML-DSA
  certificate and a known KEM that OpenSSL offers (natively or after loading the provider), under
  a handle that was not in use, with the adjusted GUID it reports; a failure registers nothing.
\<close>
theorem od_validate_local_identity_sound:
  assumes "od_reachable E s"
  shows "case validate_local_identity_OD E props candidate s of
      Fault f \<Rightarrow> f = Signed_overflow
    | Ret (r, s') \<Rightarrow>
        (case r of
           Inl e \<Rightarrow> od_locals s' = od_locals s \<and> local_objects s' = local_objects s
         | Inr v \<Rightarrow> v = VALIDATION_OK \<and> identity_registered E props candidate s s')"
proof -
  have core: "od_core E (od_next_handle s) (od_locals s) (od_remotes s) (od_handshakes s)
      (local_objects s) (remote_objects s)"
    using od_reachable_inv [OF assms] by (simp add: od_inv_def)
  have avail: "\<exists>t. openssl_supports E t alg" if "ensure_algorithm E t0 alg prov loaded = (Inr (), l')"
    for t0 alg prov loaded l'
    using that by (auto simp: ensure_algorithm_def Let_def split: if_splits option.splits)
  have "wp (validate_local_identity_OD E props candidate) s
    (\<lambda>v s'. v = VALIDATION_OK \<and> identity_registered E props candidate s s')
    (\<lambda>s'. od_locals s' = od_locals s \<and> local_objects s' = local_objects s) {Signed_overflow}"
    unfolding validate_local_identity_OD_def identity_registered_def
    using od_core_fresh [OF core]
    by (auto simp: wp_bind_iff Let_def split: prod.splits intro!: wp_or_fail dest: avail)
  then show ?thesis by (cases "validate_local_identity_OD E props candidate s") (simp_all add: wp_def)
qed

end
