(* ===== verification/Interop.thy ===== *)
theory Interop
  imports HandshakeToken OpenDdsProps
begin

text \<open>
  The two adapters side by side.  They share the class ids, the property names, the adjusted GUID
  and the KEM layer, so keys, ciphertexts and participant GUIDs of one are usable by the other; their
  replies and final messages are not: CycloneDDS asks for properties OpenDDS does not send.
\<close>

section \<open>What OpenDDS sends\<close>

definition is_reply :: "('a) opendds_scheme \<Rightarrow> bytes \<Rightarrow> data_holder \<Rightarrow> bool" where
  "is_reply E pdata token \<longleftrightarrow> (\<exists>L ct c1 c2 sig. token = reply_message E L pdata ct c1 c2 sig)"

lemma is_reply_message [simp]: "is_reply E pdata (reply_message E L pdata ct c1 c2 sig)"
  unfolding is_reply_def by (intro exI, rule refl)

lemma reply_sent_OD:
  assumes "begin_handshake_reply_OD E h m a b pdata s = Ret (Inr r, s')"
  shows "is_reply E pdata (out_token s')"
proof -
  have "wp (begin_handshake_reply_OD E h m a b pdata) s
      (\<lambda>_ s'. is_reply E pdata (out_token s')) (\<lambda>_. True) UNIV"
    unfolding begin_handshake_reply_OD_def local_OD_def remote_OD_def choose_challenge_def
    by (auto simp: wp_bind_iff Let_def reply_message_def [symmetric] run_local_def wp_def [of "run_local _ _"]
        split: option.splits prod.splits outcome.splits sum.splits)
  then show ?thesis using assms by (simp add: wp_def)
qed

lemma final_sent_OD:
  assumes "process_handshake_OD E out msg h s = Ret (Inr VALIDATION_OK_FINAL_MESSAGE, s')"
  shows "\<exists>sig. out_token s' = final_message E sig"
  using assms
  by (auto simp: process_handshake_OD_def bind_op_def check_OD_def fail_OD_def or_fail_def tick_OD_def
      Let_def on_handshake_def on_fail_def set_failed_def process_reply_def final_message_def
      split: option.splits if_splits outcome.splits sum.splits prod.splits)

section \<open>Messages\<close>

lemma cyclone_no_property:
  assumes "dds_data_laws E" and "\<forall>p \<in> set (dh_binary_properties token). bp_name p \<noteq> Some n"
  shows "find_binary_property E token n = None"
  using assms(2) by (simp add: dds_data_lawsD(1) [OF assms(1)] find_None_iff)

lemma opendds_reply_names:
  assumes "token_laws E"
  shows "\<forall>p \<in> set (dh_binary_properties (reply_message E L pdata ct c1 c2 sig)).
    bp_name p \<noteq> Some DDS_AUTHTOKEN_PROP_KEM_PUBLIC"
  by (simp add: reply_message_def add_credentials_def Let_def token_lawsD [OF assms] empty_token_def
      KEM_CIPHERTEXT_PROPERTY_def DDS_AUTHTOKEN_PROP_KEM_PUBLIC_def)

lemma opendds_final_names:
  assumes "token_laws E"
  shows "\<forall>p \<in> set (dh_binary_properties (final_message E sig)).
    bp_name p \<noteq> Some DDS_AUTHTOKEN_PROP_KEM_PUBLIC"
  by (simp add: final_message_def token_lawsD [OF assms] empty_token_def DDS_AUTHTOKEN_PROP_KEM_PUBLIC_def)

text \<open>Without a KEM public key the message is rejected before its challenges are read.\<close>

lemma cyclone_no_fault_without_kem_public:
  assumes "find_binary_property E token DDS_AUTHTOKEN_PROP_KEM_PUBLIC = None"
  shows "validate_handshake_token_impl E t optional trusted token ty c \<noteq> Fault f"
proof -
  have kem: "keeps c {} (validate_kem_public E token pc) (\<lambda>_. False)" for pc
    using assms by (cases "find_required_nonempty_binprop E token DDS_AUTHTOKEN_PROP_KEM_PUBLIC")
      (auto simp: keeps_def triple_def validate_kem_public_def bind_op_def find_nonempty_ok)
  have "keeps c {} (validate_handshake_token_impl E t optional trusted token ty) (\<lambda>_. True)"
    unfolding validate_handshake_token_impl_def
    by (rule keeps_bind [OF keeps_basic(3)], rule keeps_bind [OF keeps_credentials], rule keeps_bind [OF kem]) simp
  then show ?thesis
    using tripleD [of "ctx_frame c" "validate_handshake_token_impl E t optional trusted token ty" _ _ "{}" c]
    by (auto simp: keeps_def split: outcome.splits)
qed

lemma cyclone_rejects_without_kem_public:
  assumes "find_binary_property E token DDS_AUTHTOKEN_PROP_KEM_PUBLIC = None"
    and "ty = HS_TOKEN_REPLY \<or> ty = HS_TOKEN_FINAL"
  shows "\<exists>e c'. validate_handshake_token E t optional trusted token ty c = Ret (Inl e, c')"
proof (cases "validate_handshake_token E t optional trusted token ty c")
  case (Ret p)
  obtain r c' where p: "p = (r, c')" by fastforce
  show ?thesis
  proof (cases r)
    case (Inr u)
    then have "validate_handshake_token_impl E t optional trusted token ty c = Ret (Inr u, c')"
      using Ret p by (auto intro: validate_handshake_token_okD)
    then obtain pc c1 dh1 c2 where "validate_kem_public E token pc c1 = Ret (Inr dh1, c2)"
      by (auto simp: validate_handshake_token_impl_def op_ok simp del: op_eval(7) split: prod.splits)
    then show ?thesis
      using assms(1) by (simp add: validate_kem_public_ok find_nonempty_ok)
  qed (use Ret p in auto)
next
  case (Fault f)
  then show ?thesis
    using cyclone_no_fault_without_kem_public [OF assms(1)]
    by (auto simp: validate_handshake_token_def on_fail_def set_remote_def split: outcome.splits sum.splits if_splits)
qed

lemma cyclone_rejects_messages:
  assumes E: "dds_data_laws E" and EO: "token_laws EO"
  shows "begin_handshake_reply_OD EO h m a b pdata s = Ret (Inr r, s') \<Longrightarrow>
      \<exists>e c'. validate_handshake_token E t optional trusted (out_token s') HS_TOKEN_REPLY c = Ret (Inl e, c')"
    and "process_handshake_OD EO out msg h s = Ret (Inr VALIDATION_OK_FINAL_MESSAGE, s') \<Longrightarrow>
      \<exists>e c'. validate_handshake_token E t optional trusted (out_token s') HS_TOKEN_FINAL c = Ret (Inl e, c')"
proof -
  assume "begin_handshake_reply_OD EO h m a b pdata s = Ret (Inr r, s')"
  then obtain L ct c1 c2 sig where "out_token s' = reply_message EO L pdata ct c1 c2 sig"
    by (auto simp: is_reply_def dest!: reply_sent_OD)
  then show "\<exists>e c'. validate_handshake_token E t optional trusted (out_token s') HS_TOKEN_REPLY c = Ret (Inl e, c')"
    by (simp add: cyclone_rejects_without_kem_public cyclone_no_property [OF E opendds_reply_names [OF EO]])
next
  assume "process_handshake_OD EO out msg h s = Ret (Inr VALIDATION_OK_FINAL_MESSAGE, s')"
  then obtain sig where "out_token s' = final_message EO sig"
    by (blast dest: final_sent_OD)
  then show "\<exists>e c'. validate_handshake_token E t optional trusted (out_token s') HS_TOKEN_FINAL c = Ret (Inl e, c')"
    by (simp add: cyclone_rejects_without_kem_public cyclone_no_property [OF E opendds_final_names [OF EO]])
qed

text \<open>
  C9: the two adapters do not complete a handshake with each other as they are: a CycloneDDS
  initiator rejects every reply an OpenDDS replier sends, and a CycloneDDS replier rejects every
  final message an OpenDDS initiator sends, whatever the state of the handshake (CycloneDDS
  requires the KEM public key to be repeated in both, the protocol does not send it).
\<close>
theorem cyclone_rejects_opendds:
  assumes "dds_data_laws E" and "token_laws EO"
  shows "(begin_handshake_reply_OD EO h m a b pdata s = Ret (Inr r, s') \<longrightarrow>
      (\<exists>e c'. validate_handshake_token E t optional trusted (out_token s') HS_TOKEN_REPLY c = Ret (Inl e, c'))) \<and>
    (process_handshake_OD EO out msg h s = Ret (Inr VALIDATION_OK_FINAL_MESSAGE, s') \<longrightarrow>
      (\<exists>e c'. validate_handshake_token E t optional trusted (out_token s') HS_TOKEN_FINAL c = Ret (Inl e, c')))"
  by (intro conjI impI; rule cyclone_rejects_messages [OF assms]; assumption)

section \<open>Participant GUIDs\<close>

text \<open>
  What OpenDDS documents of the two functions \<open>cert_matches_guid\<close> uses: octet \<open>i\<close> of a digest
  shifted right by one bit, and the SHA-256 digest of the subject's DER encoding.
\<close>

definition offset_law :: "('a) opendds_scheme \<Rightarrow> bool" where
  "offset_law E \<longleftrightarrow> (\<forall>d i. offset_1bit E d i =
     (if i = 0 then drop_bit 1 (d ! 0) else push_bit 7 (d ! (i - 1)) OR drop_bit 1 (d ! i)))"

lemma shift_hash_nth:
  "i < length d \<Longrightarrow> shift_hash hb d ! i =
     (if i = 0 then hb OR drop_bit 1 (d ! 0) else push_bit 7 (d ! (i - 1)) OR drop_bit 1 (d ! i))"
proof (induction d arbitrary: hb i)
  case (Cons x d)
  then show ?case by (cases i) (auto simp: nth_Cons split: nat.splits)
qed simp

lemma guid_octets_match_iff:
  "guid_octets_match E d g i \<longleftrightarrow> (\<forall>k. i \<le> k \<longrightarrow> k < 6 \<longrightarrow> g ! k = offset_1bit E d k)"
proof (induction E d g i rule: guid_octets_match.induct)
  case (1 E d g i)
  show ?case
  proof (cases "i < 6 \<and> g ! i = offset_1bit E d i")
    case True
    then have "guid_octets_match E d g i \<longleftrightarrow> guid_octets_match E d g (i + 1)" by simp
    also have "\<dots> \<longleftrightarrow> (\<forall>k. i + 1 \<le> k \<longrightarrow> k < 6 \<longrightarrow> g ! k = offset_1bit E d k)" using True 1 by simp
    also have "\<dots> \<longleftrightarrow> (\<forall>k. i \<le> k \<longrightarrow> k < 6 \<longrightarrow> g ! k = offset_1bit E d k)"
      using True by (metis Suc_eq_plus1 Suc_leI le_less le_Suc_eq not_less)
    finally show ?thesis .
  next
    case False
    then show ?thesis by (cases "i < 6") auto
  qed
qed

lemma flagged_octet:
  fixes x :: octet
  shows "and (0x80 OR drop_bit 1 x) 0x80 = 0x80" and "and (0x80 OR drop_bit 1 x) 0x7f = drop_bit 1 x"
proof -
  have *: "bit (0x80 :: octet) n \<longleftrightarrow> n = 7" "bit (0x7f :: octet) n \<longleftrightarrow> n < 7" for n
  proof -
    consider "n = 0" | "n = 1" | "n = 2" | "n = 3" | "n = 4" | "n = 5" | "n = 6" | "n = 7" | "8 \<le> n"
      by linarith
    then show "bit (0x80 :: octet) n \<longleftrightarrow> n = 7" "bit (0x7f :: octet) n \<longleftrightarrow> n < 7"
      by (cases; auto dest: bit_imp_le_length)+
  qed
  show "and (0x80 OR drop_bit 1 x) 0x80 = 0x80" "and (0x80 OR drop_bit 1 x) 0x7f = drop_bit 1 x"
    by (rule bit_word_eqI; simp only: bit_and_iff bit_or_iff bit_drop_bit_eq *;
      auto dest: bit_imp_le_length)+
qed

text \<open>
  C21: the GUIDs of the two adapters agree: the adjusted GUID CycloneDDS gives a participant is
  one the OpenDDS adapter accepts for the participant's certificate.
\<close>
theorem opendds_accepts_cyclone_guid:
  assumes E: "dds_data_laws E" and EO: "offset_law EO" and candidate: "guid_wf candidate"
    and digest: "\<And>subject. get_subject_name_DER_encoded E cert = Inr subject \<Longrightarrow>
      cert_subject_name_digest EO cert = (0, SHA256 E subject)"
    and guid: "get_adjusted_participant_guid E cert candidate = Inr g"
  shows "cert_matches_guid EO cert (guid_octets g)"
proof -
  obtain subject where s: "get_subject_name_DER_encoded E cert = Inr subject"
      "g = candidate\<lparr>guid_prefix := shift_hash ADJUSTED_GUID_PREFIX_FLAG (take 6 (SHA256 E subject)) @
         take 6 (SHA256 E (guid_prefix candidate))\<rparr>"
    using guid by (auto simp: get_adjusted_participant_guid_def Let_def)
  let ?d = "SHA256 E subject"
  have len: "length ?d = 32" using dds_data_lawsD(7) [OF E] by (simp add: SHA256_DIGEST_LENGTH_def)
  have oct: "guid_octets g ! i = (if i = 0 then 0x80 OR drop_bit 1 (?d ! 0)
      else push_bit 7 (?d ! (i - 1)) OR drop_bit 1 (?d ! i))" if "i < 6" for i
    using that len shift_hash_nth [of i "take 6 ?d" "0x80"]
    by (simp add: s(2) guid_octets_def nth_append ADJUSTED_GUID_PREFIX_FLAG_def)
  have "guid_octets_match EO ?d (guid_octets g) 1"
    using oct EO by (simp add: guid_octets_match_iff offset_law_def del: guid_octets_match.simps)
  then show ?thesis
    using digest [OF s(1)] oct [of 0] len EO flagged_octet [of "?d ! 0"]
    by (simp add: cert_matches_guid_def offset_law_def del: guid_octets_match.simps)
qed

section \<open>Keys, ciphertexts and secrets\<close>

lemma kem_layers_agree:
  assumes kem: "kem_correct E" and name: "get_kem_openssl_name_by_kind kind = Some alg"
  shows "pqsec_kem_keypair_generate E t1 kind o1 = (True, Some kp) \<Longrightarrow> kp_public_key kp = Some pk \<Longrightarrow>
      Kem_import_public E t2 pk (new_Kem alg) = Inr theirs \<Longrightarrow>
      Kem_encapsulate E t2 theirs = Inr (ct, ss) \<Longrightarrow>
      pqsec_kem_decapsulate E t3 (Some kp) (Some ct) o3 bufs = (True, received) \<Longrightarrow>
      kem_ss received = Some ss"
    and "Kem_generate E t1 (new_Kem alg) = Inr own \<Longrightarrow> Kem_public_key E t1 own = Inr pk \<Longrightarrow>
      pqsec_kem_encapsulate E t2 kind (Some pk) o2 bufs = (True, sent) \<Longrightarrow>
      kem_ct sent = Some ct \<Longrightarrow> Kem_decapsulate E t3 ct own = Inr ss \<Longrightarrow> kem_ss sent = Some ss"
proof -
  assume gen: "pqsec_kem_keypair_generate E t1 kind o1 = (True, Some kp)" "kp_public_key kp = Some pk"
    and imp: "Kem_import_public E t2 pk (new_Kem alg) = Inr theirs"
    and enc: "Kem_encapsulate E t2 theirs = Inr (ct, ss)"
    and dec: "pqsec_kem_decapsulate E t3 (Some kp) (Some ct) o3 bufs = (True, received)"
  obtain key where key: "EVP_PKEY_generate E t1 alg = (1, Some key)" "kp_key kp = Some key"
      "public_encoding E key pk"
    using gen name by (elim kem_generate_SomeE) (auto dest: export_public_encoding)
  obtain rk where rk: "import_public_key E t2 alg pk = Some rk" "EVP_PKEY_encapsulate E t2 rk = (1, ct, ss)"
    using imp Kem_encapsulate_ok [OF enc] by (auto simp: Kem_import_public_ok new_Kem_def)
  have "EVP_PKEY_decapsulate E t3 key ct = (1, ss)"
    using kem key(1,3) rk unfolding kem_correct_def by blast
  then show "kem_ss received = Some ss"
    using dec key(2) by (elim kem_decapsulate_TrueE) auto
next
  assume gen: "Kem_generate E t1 (new_Kem alg) = Inr own" and pub: "Kem_public_key E t1 own = Inr pk"
    and enc: "pqsec_kem_encapsulate E t2 kind (Some pk) o2 bufs = (True, sent)" "kem_ct sent = Some ct"
    and dec: "Kem_decapsulate E t3 ct own = Inr ss"
  obtain key where key: "EVP_PKEY_generate E t1 alg = (1, Some key)" "km_key own = Some key"
      "public_encoding E key pk"
    using gen Kem_public_key_ok [OF pub] by (auto simp: Kem_generate_ok new_Kem_def public_encoding_def)
  obtain rk s where rk: "import_public_key E t2 alg pk = Some rk" "EVP_PKEY_encapsulate E t2 rk = (1, ct, s)"
      "kem_ss sent = Some s"
    using enc name by (elim kem_encapsulate_TrueE) auto
  have "EVP_PKEY_decapsulate E t3 key ct = (1, s)"
    using kem key(1,3) rk(1,2) unfolding kem_correct_def by blast
  then show "kem_ss sent = Some ss" using Kem_decapsulate_ok [OF dec] key(2) rk(3) by simp
qed

text \<open>
  C20: the KEM layers interoperate: where OpenSSL's KEM is correct, a secret that one adapter
  encapsulates to a public key of the other is the secret the other decapsulates, in both
  directions, for every KEM kind of the CycloneDDS tables under its OpenSSL name.
\<close>
theorem kem_layers_interoperate:
  assumes "kem_correct E" and "get_kem_openssl_name_by_kind kind = Some alg"
  shows "(pqsec_kem_keypair_generate E t1 kind o1 = (True, Some kp) \<and> kp_public_key kp = Some pk \<and>
      Kem_import_public E t2 pk (new_Kem alg) = Inr theirs \<and>
      Kem_encapsulate E t2 theirs = Inr (ct, ss) \<and>
      pqsec_kem_decapsulate E t3 (Some kp) (Some ct) o3 bufs = (True, received) \<longrightarrow>
      kem_ss received = Some ss) \<and>
    (Kem_generate E t1 (new_Kem alg) = Inr own \<and> Kem_public_key E t1 own = Inr pk \<and>
      pqsec_kem_encapsulate E t2 kind (Some pk) o2 bufs = (True, sent) \<and>
      kem_ct sent = Some ct \<and> Kem_decapsulate E t3 ct own = Inr ss \<longrightarrow> kem_ss sent = Some ss)"
  by (intro conjI impI; elim conjE; rule kem_layers_agree [OF assms]; assumption)

section \<open>Which side starts\<close>

text \<open>OpenDDS orders GUIDs strictly and totally; the role decision of both adapters is one interface.\<close>

definition guid_order :: "('a) opendds_scheme \<Rightarrow> bool" where
  "guid_order E \<longleftrightarrow> (\<forall>g h. guid_less E g h \<longrightarrow> \<not> guid_less E h g) \<and>
     (\<forall>g h. g \<noteq> h \<longrightarrow> guid_less E g h \<or> guid_less E h g)"

interpretation od_roles: role_order "\<lambda>g. guid_order E" "\<lambda>g h. guid_order E \<and> initiator E g h"
  for E :: "('a) opendds_scheme"
  by unfold_locales (auto simp: guid_order_def initiator_def)

lemma validate_remote_identity_role:
  assumes "od_locals s l = Some p"
    and "validate_remote_identity_OD E rh lr rr l token g s = Ret (Inr r, s')"
  shows "r = (if initiator E (li_guid (local_objects s ! p)) g then VALIDATION_PENDING_HANDSHAKE_REQUEST
    else VALIDATION_PENDING_HANDSHAKE_MESSAGE)"
proof -
  let ?s = "s\<lparr>out_handle := rh, out_token := lr\<rparr>"
  have keep: "local_objects s1 = local_objects s" if "find_or_new_remote E rh l g ?s = Ret (Inr q, s1)" for q s1
    using that by (auto simp: find_or_new_remote_def bind_op_def check_OD_def fail_OD_def tick_OD_def
        next_handle_def Let_def split: option.splits if_splits prod.splits)
  obtain q s1 where find: "find_or_new_remote E rh l g ?s = Ret (Inr q, s1)"
    using assms by (auto simp: validate_remote_identity_OD_def local_OD_def op_ok check_OD_def fail_OD_def
        split: if_splits)
  show ?thesis
    using assms keep [OF find] find
    by (auto simp: validate_remote_identity_OD_def local_OD_def bind_op_def check_OD_def fail_OD_def
        update_remote_OD_def Let_def split: if_splits)
qed

text \<open>
  C34: of two OpenDDS participants that discover each other, exactly one is told to send the
  handshake request and the other to wait for it.
\<close>
theorem od_roles_complementary:
  assumes order: "guid_order E" and differ: "li_guid (local_objects sA ! pA) \<noteq> li_guid (local_objects sB ! pB)"
    and A: "od_locals sA la = Some pA" "validate_remote_identity_OD E rhA lrA rrA la tokenA
      (li_guid (local_objects sB ! pB)) sA = Ret (Inr rA, sA')"
    and B: "od_locals sB lb = Some pB" "validate_remote_identity_OD E rhB lrB rrB lb tokenB
      (li_guid (local_objects sA ! pA)) sB = Ret (Inr rB, sB')"
  shows "rA = VALIDATION_PENDING_HANDSHAKE_REQUEST \<and> rB = VALIDATION_PENDING_HANDSHAKE_MESSAGE \<or>
    rA = VALIDATION_PENDING_HANDSHAKE_MESSAGE \<and> rB = VALIDATION_PENDING_HANDSHAKE_REQUEST"
  using od_roles.exactly_one_starts [OF order order differ] order
    validate_remote_identity_role [OF A] validate_remote_identity_role [OF B] by auto

end
