(* ===== verification/OpenDdsDemo.thy ===== *)
theory OpenDdsDemo
  imports OpenDdsProps Interop
begin

text \<open>
  A concrete library for the OpenDDS adapter, two participants that discover each other in it, and
  with them instances of the properties of the OpenDDS adapter and of the interoperation of the
  adapters at concrete inputs.
\<close>

section \<open>A small library\<close>

definition demo_guid_OD :: "nat \<Rightarrow> bytes" where
  "demo_guid_OD n = 0x80 # replicate 14 0 @ [of_nat n]"

definition demo_credentials_OD :: "nat \<Rightarrow> od_credentials" where
  "demo_credentials_OD n = \<lparr>cr_cert = X509 n, cr_ca = X509 0, cr_key = EVP_PKEY n, cr_permissions = []\<rparr>"

fun x509_num :: "x509 \<Rightarrow> nat" where "x509_num (X509 n) = n"

definition demo_bin :: "data_holder \<Rightarrow> string \<Rightarrow> bytes \<Rightarrow> data_holder" where
  "demo_bin t n v = t\<lparr>dh_binary_properties := dh_binary_properties t @
     [\<lparr>bp_name = Some n, bp_value = octets_to_seq v, bp_propagate = True\<rparr>]\<rparr>"

definition demo_OD :: opendds where
  "demo_OD =
     \<lparr>X509_get_pubkey = (\<lambda>_. None), EVP_PKEY_is_a = (\<lambda>_ _. False), EVP_PKEY_get_bits = (\<lambda>_. 0),
      EVP_PKEY_id = (\<lambda>_. EVP_PKEY_OTHER 0), EVP_PKEY_can_sign = (\<lambda>_. True),
      EVP_PKEY_CTX_new_from_name = (\<lambda>_ _. True), EVP_PKEY_keygen_init = (\<lambda>_ _. 1),
      EVP_PKEY_generate = (\<lambda>_ _. (1, Some (EVP_PKEY 7))), EVP_PKEY_get1_encoded_public_key = (\<lambda>_. [7]),
      EVP_PKEY_raw_public_key_size = (\<lambda>_. (1, 1)), EVP_PKEY_get_raw_public_key = (\<lambda>_. (1, [7])),
      OPENSSL_malloc = (\<lambda>_ _. True), calloc = (\<lambda>_. True), EVP_PKEY_fromdata_init = (\<lambda>_ _. 1),
      EVP_PKEY_fromdata = (\<lambda>_ _ _. (1, Some (EVP_PKEY 8))),
      EVP_PKEY_new_raw_public_key_ex = (\<lambda>_ _ _. None), EVP_PKEY_CTX_new_from_pkey = (\<lambda>_ _. True),
      EVP_PKEY_encapsulate_init = (\<lambda>_ _. 1), EVP_PKEY_encapsulate_sizes = (\<lambda>_ _. (1, 1, 1)),
      EVP_PKEY_encapsulate = (\<lambda>_ _. (1, [9], [42])), EVP_PKEY_decapsulate_init = (\<lambda>_ _. 1),
      EVP_PKEY_decapsulate_size = (\<lambda>_ _ _. (1, 1)), EVP_PKEY_decapsulate = (\<lambda>_ _ _. (1, [42])),
      ERR_queue = (\<lambda>_. []), PROVIDER_try_load = (\<lambda>_ _. True),
      load_credentials = (\<lambda>_ props. (True, demo_credentials_OD (length props))),
      credentials_validate = (\<lambda>_ _. True),
      load_access_permissions = (\<lambda>_ c. (Inr (), c\<lparr>cr_permissions := [1]\<rparr>)),
      cert_dsign_algo = (\<lambda>_. ''ML-DSA-44''), cert_keypair_algo = (\<lambda>_. ''ML-DSA-44''),
      cert_subject_name_to_str = (\<lambda>_. ''CN''), cert_original_bytes = (\<lambda>c. [of_nat (x509_num c)]),
      cert_deserialize = (\<lambda>b. Some (X509 (unat (hd b)))), cert_validate = (\<lambda>_ _ _. 0),
      cert_subject_name_digest = (\<lambda>_. (0, replicate 32 0)),
      make_adjusted_guid = (\<lambda>_ c. (0, demo_guid_OD (x509_num c))),
      make_nonce_256 = (\<lambda>t. (0, replicate 32 (of_nat t))),
      offset_1bit = (\<lambda>d i. if i = 0 then drop_bit 1 (d ! 0)
        else or (push_bit 7 (d ! (i - 1))) (drop_bit 1 (d ! i))),
      guid_less = (\<lambda>g h. g < h), hash_serialized = (\<lambda>_. (0, [5])),
      sign_serialized = (\<lambda>_ _ _. (0, [3])), verify_serialized = (\<lambda>_ _ s. if s = [3] then 0 else 1),
      deserialize_parameters = (\<lambda>b. Some [Other_parameter 1, Participant_guid b]),
      TokenWriter = (\<lambda>t c. t\<lparr>class_id := Some c\<rparr>),
      add_property = (\<lambda>t n v. t\<lparr>dh_properties := dh_properties t @
        [\<lparr>tp_name = Some n, tp_value = Some v, tp_propagate = True\<rparr>]\<rparr>),
      add_bin_property = demo_bin, add_bin_property_string = (\<lambda>t n s. demo_bin t n (cstring_octets s)),
      TokenReader_is_nil = (\<lambda>t. class_id t = Some []),
      get_bin_property_value = (\<lambda>t n. case find (\<lambda>p. bp_name p = Some n) (dh_binary_properties t) of
        None \<Rightarrow> [] | Some p \<Rightarrow> oct_data (bp_value p)),
      getenv = (\<lambda>_. None)\<rparr>"

lemma demo_OD_laws:
  "opendds_laws demo_OD" "token_laws demo_OD" "library_works demo_OD" "kem_correct demo_OD"
  "offset_law demo_OD" "guid_order demo_OD"
  by (auto simp: demo_OD_def opendds_laws_def token_laws_def library_works_def kem_correct_def offset_law_def
      guid_order_def demo_bin_def intro: exI [of _ "[1]"])

lemma demo_kem_works: "kem_works demo_OD alg"
  by (simp add: demo_OD_def kem_works_def Kem_generate_def Kem_public_key_def Kem_import_public_def
      Kem_encapsulate_def Kem_decapsulate_def new_Kem_def Let_def)

lemma demo_signing_works: "signing_works demo_OD L"
  by (simp add: demo_OD_def signing_works_def)

section \<open>Two participants\<close>

definition start_OD :: od_auth where
  "start_OD = \<lparr>od_provider = None, od_next_handle = 1, od_locals = Map.empty, od_remotes = Map.empty,
     od_handshakes = Map.empty, od_listener = None, local_objects = [], remote_objects = [], od_clock = 0,
     out_handle = 0, out_token = empty_token, out_guid = []\<rparr>"

definition demo_identity_OD :: "nat \<Rightarrow> LocalIdentity_OD" where
  "demo_identity_OD n = \<lparr>li_credentials = demo_credentials_OD n, li_guid = demo_guid_OD n,
     li_kem_algorithm = ''X25519MLKEM768''\<rparr>"

definition demo_remote_OD :: "nat \<Rightarrow> RemoteIdentity_OD" where
  "demo_remote_OD n = \<lparr>ri_local_handle = 1, ri_guid = demo_guid_OD n,
     ri_local_auth_request = demo_bin \<lparr>class_id = Some AUTH_REQUEST_CLASS_ID, dh_properties = [],
       dh_binary_properties = []\<rparr> ''future_challenge'' (replicate 32 2),
     ri_remote_auth_request = empty_token, ri_local_challenge = replicate 32 2, ri_remote_challenge = [],
     ri_local_auth_request_sent = True\<rparr>"

text \<open>Participant \<open>n\<close> after registering itself and discovering participant \<open>m\<close>.\<close>

definition demo_registered_OD :: "nat \<Rightarrow> od_auth" where
  "demo_registered_OD n = start_OD\<lparr>od_clock := 2, out_handle := 1, out_guid := demo_guid_OD n, od_next_handle := 2,
     od_locals := [1 \<mapsto> 0], local_objects := [demo_identity_OD n]\<rparr>"

definition demo_discovered :: "nat \<Rightarrow> nat \<Rightarrow> od_auth" where
  "demo_discovered n m = (demo_registered_OD n)\<lparr>od_clock := 3, out_handle := 2, od_next_handle := 3,
     out_token := ri_local_auth_request (demo_remote_OD m), od_remotes := [2 \<mapsto> 0],
     remote_objects := [demo_remote_OD m]\<rparr>"

definition base_token :: data_holder where
  "base_token = \<lparr>class_id = Some BASE_CLASS_ID, dh_properties = [], dh_binary_properties = []\<rparr>"

lemmas op_run = bind_op_def check_OD_def fail_OD_def or_fail_def tick_OD_def next_handle_def Let_def

lemma demo_register:
  "validate_local_identity_OD demo_OD (replicate n (''a'', ''b'')) g start_OD =
     Ret (Inr VALIDATION_OK, demo_registered_OD n)"
proof -
  have "select_algorithms (replicate n (''a'', ''b'')) k p = (k, p)" for k p
    by (induction n) (simp_all add: KEM_PROPERTY_def PROVIDER_PROPERTY_def)
  then show ?thesis
    by (simp add: validate_local_identity_OD_def op_run demo_OD_def start_OD_def demo_registered_OD_def
        demo_credentials_OD_def demo_identity_OD_def mldsa_algorithm_def kem_algorithm_def DEFAULT_KEM_def
        ensure_algorithm_def openssl_supports_def LONG_MAX_def)
qed

lemma demo_discover:
  "validate_remote_identity_OD demo_OD 0 empty_token empty_token 1 base_token (demo_guid_OD m) (demo_registered_OD n) =
     Ret (Inr (if demo_guid_OD n < demo_guid_OD m then VALIDATION_PENDING_HANDSHAKE_REQUEST
               else VALIDATION_PENDING_HANDSHAKE_MESSAGE), demo_discovered n m)"
  by (simp add: validate_remote_identity_OD_def op_run demo_OD_def start_OD_def demo_registered_OD_def
      demo_discovered_def local_OD_def remote_OD_def class_is_def base_token_def find_or_new_remote_def
      HANDLE_NIL_def LONG_MAX_def update_remote_OD_def new_RemoteIdentity_OD_def demo_bin_def empty_token_def
      demo_remote_OD_def initiator_def demo_identity_OD_def numeral_eq_Suc)

lemma demo_fields [simp]:
  "od_locals (demo_discovered n m) = [1 \<mapsto> 0]" "od_remotes (demo_discovered n m) = [2 \<mapsto> 0]"
  "local_objects (demo_discovered n m) = [demo_identity_OD n]"
  "remote_objects (demo_discovered n m) = [demo_remote_OD m]" "od_next_handle (demo_discovered n m) = 3"
  "od_clock (demo_discovered n m) = 3" "od_handshakes (demo_discovered n m) = Map.empty"
  "od_locals (demo_registered_OD n) = [1 \<mapsto> 0]" "local_objects (demo_registered_OD n) = [demo_identity_OD n]"
  "li_kem_algorithm (demo_identity_OD n) = ''X25519MLKEM768''" "li_guid (demo_identity_OD n) = demo_guid_OD n"
  "ri_guid (demo_remote_OD n) = demo_guid_OD n" "ri_remote_challenge (demo_remote_OD n) = []"
  by (simp_all add: demo_discovered_def demo_registered_OD_def start_OD_def demo_identity_OD_def demo_remote_OD_def)

lemma demo_reachable:
  "od_reachable demo_OD start_OD" "od_reachable demo_OD (demo_registered_OD n)"
  "od_reachable demo_OD (demo_discovered n m)"
proof -
  show start: "od_reachable demo_OD start_OD"
    unfolding od_reachable_def
    by (rule reachable.start) (simp add: demo_OD_laws new_Authentication_OD_def start_OD_def)
  have "od_step demo_OD start_OD (demo_registered_OD n)"
    by (rule od_step.call [of _ "Validate_local_identity (replicate n (''a'', ''b'')) []" _ "Inr ()"])
      (simp add: no_value_def bind_op_def demo_register)
  with start show reg: "od_reachable demo_OD (demo_registered_OD n)" by (rule od_reachable_step)
  have "od_step demo_OD (demo_registered_OD n) (demo_discovered n m)"
    by (rule od_step.call [of _ "Validate_remote_identity 0 empty_token empty_token 1 base_token (demo_guid_OD m)" _ "Inr ()"])
      (simp add: no_value_def bind_op_def demo_discover)
  with reg show "od_reachable demo_OD (demo_discovered n m)" by (rule od_reachable_step)
qed

lemma demo_participant:
  "participant demo_OD (demo_discovered n m) 1 2 (demo_identity_OD n) (demo_remote_OD m)"
  by (simp add: participant_def demo_reachable LONG_MAX_def)

lemma demo_matches: "cert_matches_guid demo_OD c (demo_guid_OD n)"
proof -
  have "demo_guid_OD n ! i = 0" if "0 < i" "i < 6" for i
    using that by (cases i) (simp_all add: demo_guid_OD_def nth_append)
  then have "guid_octets_match demo_OD (replicate 32 0) (demo_guid_OD n) 1"
    unfolding guid_octets_match_iff by (simp add: demo_OD_def)
  moreover have "demo_guid_OD n ! 0 = 0x80" by (simp add: demo_guid_OD_def)
  ultimately show ?thesis by (simp add: cert_matches_guid_def demo_OD_def del: guid_octets_match.simps)
qed

lemma demo_trusts:
  assumes "n < 256"
  shows "trusts demo_OD (demo_identity_OD m) (demo_identity_OD n) (demo_guid_OD n)"
proof -
  have "participant_data_has_guid demo_OD (demo_guid_OD n) (demo_guid_OD n)"
    by (simp add: participant_data_has_guid_def demo_OD_def)
  moreover have "unat (of_nat n :: octet) = n" using assms by (simp add: unat_of_nat)
  ultimately show ?thesis
    unfolding trusts_def Let_def
    by (intro conjI) (simp_all add: demo_matches demo_identity_OD_def demo_credentials_OD_def mldsa_algorithm_def
        X509_V_OK_def, simp_all add: demo_OD_def)
qed

section \<open>The handshake of participants 2 and 3\<close>

abbreviation own_key :: Kem where
  "own_key \<equiv> \<lparr>km_algorithm = ''X25519MLKEM768'', km_key = Some (EVP_PKEY 7)\<rparr>"

abbreviation their_key :: Kem where
  "their_key \<equiv> \<lparr>km_algorithm = ''X25519MLKEM768'', km_key = Some (EVP_PKEY 8)\<rparr>"

definition demo_challenge :: bytes where "demo_challenge = replicate 32 2"

definition demo_request_OD :: data_holder where
  "demo_request_OD = request_message demo_OD (demo_identity_OD 2) (demo_guid_OD 2) empty_token [7] demo_challenge"

definition demo_reply_OD :: data_holder where
  "demo_reply_OD = reply_message demo_OD (demo_identity_OD 3) (demo_guid_OD 3) [9] demo_challenge demo_challenge [3]"

definition demo_hs_A :: Handshake_OD where
  "demo_hs_A = (new_Handshake_OD 1 2 0 0)
     \<lparr>hs_initiator := True, hs_state := VALIDATION_PENDING_HANDSHAKE_MESSAGE, hs_kem := own_key,
      hs_request := demo_request_OD, hs_hash1 := [5], hs_challenge1 := demo_challenge, hs_public_key := [7]\<rparr>"

definition demo_requested :: od_auth where
  "demo_requested = (demo_discovered 2 3)\<lparr>out_handle := 3, out_token := demo_request_OD, od_clock := 4,
     od_next_handle := 4, od_handshakes := [3 \<mapsto> demo_hs_A]\<rparr>"

lemma demo_kem:
  "Kem_generate demo_OD t (new_Kem ''X25519MLKEM768'') = Inr own_key" "Kem_public_key demo_OD t own_key = Inr [7]"
  "Kem_import_public demo_OD t [7] (new_Kem ''X25519MLKEM768'') = Inr their_key"
  "Kem_encapsulate demo_OD t their_key = Inr ([9], [42])" "Kem_decapsulate demo_OD t [9] own_key = Inr [42]"
  by (simp_all add: demo_OD_def Kem_generate_def Kem_public_key_def Kem_import_public_def
      Kem_encapsulate_def Kem_decapsulate_def new_Kem_def Let_def)

lemma demo_misc:
  "challenge_of demo_OD t (demo_remote_OD m) = demo_challenge" "credential_digest demo_OD L d = [5]"
  "sign_serialized demo_OD t ps k = (0, [3])" "verify_serialized demo_OD ps c [3] = 0" "demo_guid_OD n \<noteq> []"
  "length demo_challenge = 32"
  by (simp_all add: demo_OD_def challenge_of_def demo_remote_OD_def demo_challenge_def credential_digest_def
      own_credential_hash_def credential_hash_def demo_guid_OD_def)

lemma demo_request_step:
  "begin_handshake_request_OD demo_OD HANDLE_NIL empty_token 1 2 (demo_guid_OD 2) (demo_discovered 2 3) =
     Ret (Inr VALIDATION_PENDING_HANDSHAKE_MESSAGE, demo_requested)"
  by (subst request_step [where lp = 0 and rp = 0 and own = own_key and pk = "[7]"])
    (simp_all add: demo_kem demo_misc demo_OD_laws LONG_MAX_def demo_requested_def demo_request_OD_def demo_hs_A_def)

definition demo_hs_B :: Handshake_OD where
  "demo_hs_B = (new_Handshake_OD 1 2 0 0)
     \<lparr>hs_state := VALIDATION_PENDING_HANDSHAKE_MESSAGE, hs_kem := their_key, hs_request := demo_request_OD,
      hs_reply := demo_reply_OD, hs_hash1 := [5], hs_hash2 := [5], hs_challenge1 := demo_challenge,
      hs_challenge2 := demo_challenge, hs_public_key := [7], hs_ciphertext := [9], hs_secret := [42],
      hs_remote_certificate := Some (X509 2), hs_remote_permissions := []\<rparr>"

definition demo_replied :: od_auth where
  "demo_replied = (demo_discovered 3 2)\<lparr>out_handle := 3, out_token := demo_reply_OD, od_clock := 4,
     od_next_handle := 4, od_handshakes := [3 \<mapsto> demo_hs_B]\<rparr>"

lemma demo_identity_fields:
  "cr_cert (li_credentials (demo_identity_OD n)) = X509 n"
  "cr_permissions (li_credentials (demo_identity_OD n)) = []"
  by (simp_all add: demo_identity_OD_def demo_credentials_OD_def)

lemma demo_reply_step:
  "begin_handshake_reply_OD demo_OD HANDLE_NIL demo_request_OD 2 1 (demo_guid_OD 3) (demo_discovered 3 2) =
     Ret (Inr VALIDATION_PENDING_HANDSHAKE_MESSAGE, demo_replied)"
  unfolding demo_request_OD_def
  by (subst reply_step [where lp = 0 and rp = 0 and theirs = their_key and ct = "[9]" and ss = "[42]"
        and LB = "demo_identity_OD 3" and sig = "[3]"])
    (simp_all add: demo_kem demo_misc demo_OD_laws LONG_MAX_def demo_replied_def demo_request_OD_def
      demo_reply_OD_def demo_hs_B_def empty_token_def demo_trusts kem_algorithm_def demo_identity_fields)

definition demo_hs_A_done :: Handshake_OD where
  "demo_hs_A_done = demo_hs_A
     \<lparr>hs_hash2 := [5], hs_remote_certificate := Some (X509 3), hs_remote_permissions := [],
      hs_challenge2 := demo_challenge, hs_ciphertext := [9], hs_kem := Kem_clear own_key, hs_secret := [42],
      hs_reply := demo_reply_OD, hs_state := VALIDATION_OK_FINAL_MESSAGE\<rparr>"

definition demo_accepted :: od_auth where
  "demo_accepted = demo_requested\<lparr>out_token := final_message demo_OD [3], od_clock := 5,
     od_handshakes := [3 \<mapsto> demo_hs_A_done]\<rparr>"

lemma demo_hs_fields [simp]:
  "hs_state demo_hs_A = VALIDATION_PENDING_HANDSHAKE_MESSAGE" "hs_initiator demo_hs_A" "hs_local demo_hs_A = 0"
  "hs_remote demo_hs_A = 0" "hs_challenge1 demo_hs_A = demo_challenge" "hs_kem demo_hs_A = own_key"
  "od_handshakes demo_requested = [3 \<mapsto> demo_hs_A]" "od_clock demo_requested = 4"
  "local_objects demo_requested = [demo_identity_OD 2]" "remote_objects demo_requested = [demo_remote_OD 3]"
  by (simp_all add: demo_hs_A_def demo_requested_def new_Handshake_OD_def)

lemma demo_accept_step:
  "process_handshake_OD demo_OD empty_token demo_reply_OD 3 demo_requested =
     Ret (Inr VALIDATION_OK_FINAL_MESSAGE, demo_accepted)"
  unfolding demo_reply_OD_def demo_hs_fields(5) [symmetric]
  by (subst reply_accepted_step [where hs = demo_hs_A and LA = "demo_identity_OD 2" and R = "demo_remote_OD 3"
        and ss = "[42]" and sig' = "[3]"])
    (simp_all add: demo_kem demo_misc demo_OD_laws demo_trusts kem_algorithm_def demo_accepted_def
      demo_hs_A_done_def demo_reply_OD_def demo_identity_fields)

lemma demo_requested_reachable: "od_reachable demo_OD demo_requested"
proof (rule od_reachable_step)
  show "od_step demo_OD (demo_discovered 2 3) demo_requested"
    by (rule od_step.call [of _ "Begin_handshake_request HANDLE_NIL empty_token 1 2 (demo_guid_OD 2)" _ "Inr ()"])
      (simp add: no_value_def bind_op_def demo_request_step)
qed (rule demo_reachable)

lemma demo_accepted_reachable: "od_reachable demo_OD demo_accepted"
proof (rule od_reachable_step)
  show "od_step demo_OD demo_requested demo_accepted"
    by (rule od_step.call [of _ "Process_handshake empty_token demo_reply_OD 3" _ "Inr ()"])
      (simp add: no_value_def bind_op_def demo_accept_step)
qed (rule demo_requested_reachable)

section \<open>Instances of the properties\<close>

lemma demo_secret_OD:
  "get_shared_secret_OD 3 demo_accepted =
     Ret (Inr \<lparr>ss_challenge1 = demo_challenge, ss_challenge2 = demo_challenge, ss_secret = [42]\<rparr>, demo_accepted)"
  by (simp add: get_shared_secret_OD_def bind_op_def demo_accepted_def demo_hs_A_done_def authenticated_def
      Let_def demo_hs_A_def new_Handshake_OD_def)

theorem od_secret_only_authenticated_witness:
  "peer_authenticated demo_OD (demo_identity_OD 2) (demo_guid_OD 3) demo_hs_A_done"
  using od_secret_only_authenticated [OF demo_accepted_reachable demo_secret_OD]
  by (simp add: demo_accepted_def demo_hs_A_done_def)

theorem od_handshake_takes_one_message_witness:
  "\<exists>e s3. process_handshake_OD demo_OD empty_token demo_reply_OD 3 demo_accepted = Ret (Inl e, s3) \<and>
     od_handshakes s3 = od_handshakes demo_accepted"
  by (rule od_handshake_takes_one_message [OF demo_requested_reachable _ demo_accept_step rtranclp.rtrancl_refl])
    simp

theorem od_calls_safe_witness:
  "case perform_OD demo_OD (Get_shared_secret 3) demo_accepted of
      Ret (r, s') \<Rightarrow> od_inv demo_OD s' \<and> od_next_handle demo_accepted \<le> od_next_handle s' \<and>
        od_next_handle s' \<le> 2147483647
    | Fault f \<Rightarrow> f = Signed_overflow \<and> od_next_handle demo_accepted = 2147483647"
  by (rule od_calls_safe [OF demo_accepted_reachable])

theorem od_handshake_completes_witness:
  "\<exists>sA1 sB1 sA2 sB2 ss.
    begin_handshake_request_OD demo_OD HANDLE_NIL empty_token 1 2 (demo_guid_OD 2) (demo_discovered 2 3) =
      Ret (Inr VALIDATION_PENDING_HANDSHAKE_MESSAGE, sA1) \<and>
    begin_handshake_reply_OD demo_OD HANDLE_NIL (out_token sA1) 2 1 (demo_guid_OD 3) (demo_discovered 3 2) =
      Ret (Inr VALIDATION_PENDING_HANDSHAKE_MESSAGE, sB1) \<and>
    process_handshake_OD demo_OD empty_token (out_token sB1) (out_handle sA1) sA1 =
      Ret (Inr VALIDATION_OK_FINAL_MESSAGE, sA2) \<and>
    process_handshake_OD demo_OD empty_token (out_token sA2) (out_handle sB1) sB1 = Ret (Inr VALIDATION_OK, sB2) \<and>
    get_shared_secret_OD (out_handle sA1) sA2 = Ret (Inr ss, sA2) \<and>
    get_shared_secret_OD (out_handle sB1) sB2 = Ret (Inr ss, sB2)"
  by (rule od_handshake_completes [OF demo_participant demo_participant])
    (simp_all add: demo_OD_laws demo_signing_works demo_kem_works demo_trusts announced_def kem_algorithm_def
      empty_token_def demo_misc)

theorem od_validate_local_identity_sound_witness:
  "identity_registered demo_OD [(''a'', ''b''), (''a'', ''b'')] [] start_OD (demo_registered_OD 2)"
  using od_validate_local_identity_sound [OF demo_reachable(1), of "[(''a'', ''b''), (''a'', ''b'')]" "[]"]
    demo_register [of 2 "[]"] by (simp add: numeral_2_eq_2)

end
