(* ===== verification/Instances.thy ===== *)
theory Instances
  imports Witnesses OpenDdsDemo
begin

text \<open>
  Instances of the properties that relate the two adapters, in the concrete environments \<open>demo\<close> of
  the CycloneDDS plugin and \<open>demo_OD\<close> of the OpenDDS adapter.
\<close>

theorem cyclone_rejects_opendds_witness:
  "\<exists>e c'. validate_handshake_token demo 7 False demo_no_cas (out_token demo_replied) HS_TOKEN_REPLY
     (demo_ctx 65 None (Some (replicate 32 5)) None CREATEDREQUEST) = Ret (Inl e, c')"
  using cyclone_rejects_opendds [OF demo_data_laws demo_OD_laws(2), THEN conjunct1, rule_format,
      OF demo_reply_step] .

theorem opendds_accepts_cyclone_guid_witness:
  "\<exists>g. get_adjusted_participant_guid demo (X509 65) demo_guid = Inr g \<and>
     cert_matches_guid (demo_OD\<lparr>cert_subject_name_digest := \<lambda>c. (0, demo_sha [octet_of_nat (cert_id c)])\<rparr>)
       (X509 65) (guid_octets g)"
proof -
  let ?EO = "demo_OD\<lparr>cert_subject_name_digest := \<lambda>c. (0, demo_sha [octet_of_nat (cert_id c)])\<rparr>"
  have "\<exists>g. get_adjusted_participant_guid demo (X509 65) demo_guid = Inr g"
    by (simp add: eval cong: eval_congs)
  then obtain g where g: "get_adjusted_participant_guid demo (X509 65) demo_guid = Inr g" by blast
  have laws: "offset_law ?EO" using demo_OD_laws(5) by (simp add: offset_law_def)
  have wf: "guid_wf demo_guid" by (simp add: guid_wf_def demo_guid_def)
  have subject: "cert_subject_name_digest ?EO (X509 65) = (0, SHA256 demo subject)"
    if "get_subject_name_DER_encoded demo (X509 65) = Inr subject" for subject
    using that by (auto simp: eval cong: eval_congs)
  show ?thesis
    using opendds_accepts_cyclone_guid [OF demo_data_laws laws wf subject g] g by blast
qed

text \<open>The KEM of \<open>demo\<close>, for both adapters.\<close>

definition demo_both :: opendds where
  "demo_both = demo_OD\<lparr>EVP_PKEY_generate := demo_generate, EVP_PKEY_get1_encoded_public_key := demo_encode,
     EVP_PKEY_raw_public_key_size := const1 (1, 65), EVP_PKEY_get_raw_public_key := demo_raw,
     EVP_PKEY_fromdata := demo_fromdata, EVP_PKEY_encapsulate_sizes := const2 (1, 65, 2),
     EVP_PKEY_encapsulate := demo_encapsulate, EVP_PKEY_decapsulate_size := const3 (1, 2),
     EVP_PKEY_decapsulate := demo_decapsulate\<rparr>"

lemma demo_both_sel:
  "EVP_PKEY_CTX_new_from_name demo_both = const2 True" "EVP_PKEY_keygen_init demo_both = const2 1"
  "EVP_PKEY_generate demo_both = demo_generate" "EVP_PKEY_get1_encoded_public_key demo_both = demo_encode"
  "EVP_PKEY_raw_public_key_size demo_both = const1 (1, 65)" "EVP_PKEY_get_raw_public_key demo_both = demo_raw"
  "OPENSSL_malloc demo_both = const2 True" "calloc demo_both = const1 True"
  "EVP_PKEY_fromdata_init demo_both = const2 1" "EVP_PKEY_fromdata demo_both = demo_fromdata"
  "EVP_PKEY_new_raw_public_key_ex demo_both = const3 None" "EVP_PKEY_CTX_new_from_pkey demo_both = const2 True"
  "EVP_PKEY_encapsulate_init demo_both = const2 1" "EVP_PKEY_encapsulate_sizes demo_both = const2 (1, 65, 2)"
  "EVP_PKEY_encapsulate demo_both = demo_encapsulate" "EVP_PKEY_decapsulate_init demo_both = const2 1"
  "EVP_PKEY_decapsulate_size demo_both = const3 (1, 2)" "EVP_PKEY_decapsulate demo_both = demo_decapsulate"
  by (simp_all add: demo_both_def demo_OD_def const_defs fun_eq_iff)

lemma hd_replicate_num: "hd (replicate 65 x) = x"
  by (simp add: hd_replicate)

lemma demo_both_correct: "kem_correct demo_both"
  by (auto simp: demo_both_sel kem_correct_def const_defs demo_generate_def demo_raw_def demo_encode_def
     demo_fromdata_def demo_encapsulate_def demo_decapsulate_def public_encoding_def import_public_key_def)

theorem kem_layers_interoperate_witness:
  "\<exists>kp theirs received.
     pqsec_kem_keypair_generate demo_both 8 AUTH_ALGO_KIND_ML_KEM_768 True = (True, Some kp) \<and>
     Kem_import_public demo_both 9 (replicate 65 8) (new_Kem ''ML-KEM-768'') = Inr theirs \<and>
     Kem_encapsulate demo_both 9 theirs = Inr (replicate 65 9, [8, 9]) \<and>
     pqsec_kem_decapsulate demo_both 11 (Some kp) (Some (replicate 65 9)) True kem_buffers_empty = (True, received) \<and>
     kem_ss received = Some [8, 9]"
proof -
  let ?kp = "\<lparr>kp_kind = AUTH_ALGO_KIND_ML_KEM_768, kp_key = Some (EVP_PKEY 8),
    kp_public_key = Some (replicate 65 8), kp_public_key_size = 65\<rparr>"
  let ?theirs = "\<lparr>km_algorithm = ''ML-KEM-768'', km_key = Some (EVP_PKEY 8)\<rparr>"
  have g: "pqsec_kem_keypair_generate demo_both 8 AUTH_ALGO_KIND_ML_KEM_768 True = (True, Some ?kp)"
    by (simp add: eval demo_both_sel cong: eval_congs)
  have d: "\<exists>received. pqsec_kem_decapsulate demo_both 11 (Some ?kp) (Some (replicate 65 9)) True kem_buffers_empty
      = (True, received)"
    by (simp add: eval demo_both_sel kem_buffers_empty_def cong: eval_congs)
  have i: "Kem_import_public demo_both 9 (replicate 65 8) (new_Kem ''ML-KEM-768'') = Inr ?theirs"
    by (simp add: demo_both_sel Kem_import_public_def new_Kem_def const_defs demo_fromdata_def Let_def hd_replicate_num)
  have e: "Kem_encapsulate demo_both 9 ?theirs = Inr (replicate 65 9, [8, 9])"
    by (simp add: demo_both_sel Kem_encapsulate_def const_defs demo_encapsulate_def octet_of_nat_def octet_of_int_def Let_def)
  have name: "get_kem_openssl_name_by_kind AUTH_ALGO_KIND_ML_KEM_768 = Some ''ML-KEM-768''"
    by code_simp
  have "kem_ss received = Some [8, 9]"
    if "pqsec_kem_decapsulate demo_both 11 (Some ?kp) (Some (replicate 65 9)) True kem_buffers_empty = (True, received)"
    for received
    by (rule kem_layers_interoperate [OF demo_both_correct name,
        THEN conjunct1, rule_format, of 8 True ?kp _ 9 _ _ _ 11]) (use g i e that in simp_all)
  then show ?thesis using g d i e by blast
qed

theorem od_roles_complementary_witness:
  "\<exists>rA rB sA sB.
     validate_remote_identity_OD demo_OD 0 empty_token empty_token 1 base_token (demo_guid_OD 3) (demo_registered_OD 2) =
       Ret (Inr rA, sA) \<and>
     validate_remote_identity_OD demo_OD 0 empty_token empty_token 1 base_token (demo_guid_OD 2) (demo_registered_OD 3) =
       Ret (Inr rB, sB) \<and>
     (rA = VALIDATION_PENDING_HANDSHAKE_REQUEST) \<noteq> (rB = VALIDATION_PENDING_HANDSHAKE_REQUEST)"
proof -
  have differ: "li_guid (local_objects (demo_registered_OD 2) ! 0) \<noteq> li_guid (local_objects (demo_registered_OD 3) ! 0)"
    by (simp add: demo_guid_OD_def)
  note rule = od_roles_complementary [OF demo_OD_laws(6) differ, where la = 1 and lb = 1, simplified]
  show ?thesis
    using rule [OF demo_discover demo_discover] demo_discover [of 3 2] demo_discover [of 2 3] by auto
qed

end
