(* ===== verification/Debug.thy ===== *)
theory Debug
  imports Prelude
begin

text \<open>
  Debug logging (\<open>debug.c\<close>, \<open>debug.h\<close>) of a build with \<open>PQ_LOGGING_ENABLED\<close>: the levels and the
  level names, the configuration from the environment, the log line, and the hex dump.  The text
  written to \<open>stderr\<close> is part of the state; the message of a log call is the text \<open>vfprintf\<close> makes
  of the format and its arguments.
\<close>

section \<open>Levels\<close>

datatype pq_log_level_t =
    PQ_LOG_NONE
  | PQ_LOG_ERROR
  | PQ_LOG_WARN
  | PQ_LOG_INFO
  | PQ_LOG_TRACE
  | PQ_LOG_DATA

primrec level_num :: "pq_log_level_t \<Rightarrow> nat" where
  "level_num PQ_LOG_NONE = 0"
| "level_num PQ_LOG_ERROR = 1"
| "level_num PQ_LOG_WARN = 2"
| "level_num PQ_LOG_INFO = 3"
| "level_num PQ_LOG_TRACE = 4"
| "level_num PQ_LOG_DATA = 5"

text \<open>The enumeration is ordered by its numbers, as C compares it.\<close>

lemma level_num_inj [simp]: "level_num a = level_num b \<longleftrightarrow> a = b"
  by (cases a; cases b) simp_all

instantiation pq_log_level_t :: linorder
begin

definition less_eq_level: "a \<le> b \<longleftrightarrow> level_num a \<le> level_num b"
definition less_level: "a < b \<longleftrightarrow> level_num a < level_num b"

instance
  by standard (auto simp: less_eq_level less_level)

end

text \<open>The cast of a number in range.\<close>

definition level_of_num :: "nat \<Rightarrow> pq_log_level_t" where
  "level_of_num n =
     (if n = 0 then PQ_LOG_NONE else if n = 1 then PQ_LOG_ERROR else if n = 2 then PQ_LOG_WARN
      else if n = 3 then PQ_LOG_INFO else if n = 4 then PQ_LOG_TRACE else PQ_LOG_DATA)"

definition PQ_DEFAULT_LOG_LEVEL :: pq_log_level_t where "PQ_DEFAULT_LOG_LEVEL = PQ_LOG_INFO"

primrec PQ_LEVEL_NAMES :: "pq_log_level_t \<Rightarrow> string" where
  "PQ_LEVEL_NAMES PQ_LOG_NONE = ''NONE''"
| "PQ_LEVEL_NAMES PQ_LOG_ERROR = ''ERROR''"
| "PQ_LEVEL_NAMES PQ_LOG_WARN = ''WARN''"
| "PQ_LEVEL_NAMES PQ_LOG_INFO = ''INFO''"
| "PQ_LEVEL_NAMES PQ_LOG_TRACE = ''TRACE''"
| "PQ_LEVEL_NAMES PQ_LOG_DATA = ''DATA''"

definition escape :: "string \<Rightarrow> string" where
  "escape code = char_of (27 :: nat) # ''['' @ code @ ''m''"

primrec PQ_COLORS :: "pq_log_level_t \<Rightarrow> string" where
  "PQ_COLORS PQ_LOG_NONE = []"
| "PQ_COLORS PQ_LOG_ERROR = escape ''31''"
| "PQ_COLORS PQ_LOG_WARN = escape ''33''"
| "PQ_COLORS PQ_LOG_INFO = escape ''32''"
| "PQ_COLORS PQ_LOG_TRACE = escape ''34''"
| "PQ_COLORS PQ_LOG_DATA = escape ''35''"

definition pq_log_level_str :: "nat \<Rightarrow> string" where
  "pq_log_level_str level =
     (if level \<le> level_num PQ_LOG_DATA then PQ_LEVEL_NAMES (level_of_num level) else ''UNKNOWN'')"

section \<open>The C library\<close>

definition isspace :: "char \<Rightarrow> bool" where
  "isspace c \<longleftrightarrow> (of_char c :: nat) = 32 \<or> (9 \<le> (of_char c :: nat) \<and> (of_char c :: nat) \<le> 13)"

definition isdigit :: "char \<Rightarrow> bool" where
  "isdigit c \<longleftrightarrow> 48 \<le> (of_char c :: nat) \<and> (of_char c :: nat) \<le> 57"

fun digits_value :: "int \<Rightarrow> string \<Rightarrow> int" where
  "digits_value acc [] = acc"
| "digits_value acc (c # cs) =
     (if isdigit c then digits_value (acc * 10 + of_char c - 48) cs else acc)"

text \<open>\<open>atoi\<close>: undefined (here \<open>None\<close>) when the value is not an \<open>int\<close>.\<close>

definition atoi :: "string \<Rightarrow> int option" where
  "atoi s =
     (let rest = dropWhile isspace s;
          n = (case rest of
                 c # cs \<Rightarrow> if c = CHR ''-'' then - digits_value 0 cs
                           else if c = CHR ''+'' then digits_value 0 cs else digits_value 0 rest
               | [] \<Rightarrow> 0)
      in if -2147483648 \<le> n \<and> n \<le> 2147483647 then Some n else None)"

definition tolower :: "char \<Rightarrow> char" where
  "tolower c = (if 65 \<le> (of_char c :: nat) \<and> (of_char c :: nat) \<le> 90
                then char_of ((of_char c :: nat) + 32) else c)"

definition strcasecmp_eq :: "string \<Rightarrow> string \<Rightarrow> bool" where
  \<comment> \<open>\<open>strcasecmp(s, t) == 0\<close>\<close>
  "strcasecmp_eq s t \<longleftrightarrow> map tolower s = map tolower t"

text \<open>Numbers as \<open>printf\<close> writes them, with a minimal width filled with zeros or blanks.\<close>

fun in_base :: "nat \<Rightarrow> nat \<Rightarrow> string" where
  "in_base b n = (if n < b \<or> b \<le> 1 then [''0123456789abcdef'' ! (n mod 16)]
                  else in_base b (n div b) @ [''0123456789abcdef'' ! (n mod b)])"

definition zero_fill :: "nat \<Rightarrow> string \<Rightarrow> string" where
  "zero_fill w s = replicate (w - length s) (CHR ''0'') @ s"

definition left_justify :: "nat \<Rightarrow> string \<Rightarrow> string" where
  "left_justify w s = s @ replicate (w - length s) (CHR '' '')"

definition newline :: string where "newline = [char_of (10 :: nat)]"

section \<open>Configuration\<close>

text \<open>What the process sees: its environment, whether \<open>stderr\<close> is a terminal, the time of day.\<close>

record debug_env =
  env :: "string \<Rightarrow> string option"
  isatty_stderr :: bool
  time_of_day :: "nat \<Rightarrow> nat \<times> nat \<times> nat \<times> nat"

record debug_state =
  g_pq_log_level :: pq_log_level_t
  g_pq_log_colors :: bool
  stderr_text :: string
  debug_clock :: nat

definition debug_start :: debug_state where
  "debug_start = \<lparr>g_pq_log_level = PQ_DEFAULT_LOG_LEVEL, g_pq_log_colors = True,
     stderr_text = [], debug_clock = 0\<rparr>"

definition eputs :: "string \<Rightarrow> debug_state \<Rightarrow> debug_state" where
  "eputs text s = s\<lparr>stderr_text := stderr_text s @ text\<rparr>"

definition get_timestamp :: "debug_env \<Rightarrow> nat \<Rightarrow> string" where
  "get_timestamp E t =
     (case time_of_day E t of
        (hour, minute, second, nsec) \<Rightarrow>
          take 31 (zero_fill 2 (in_base 10 hour) @ '':'' @ zero_fill 2 (in_base 10 minute) @ '':'' @
            zero_fill 2 (in_base 10 second) @ ''.'' @ zero_fill 3 (in_base 10 (nsec div 1000000))))"

definition pq_log_internal ::
  "debug_env \<Rightarrow> pq_log_level_t \<Rightarrow> string \<Rightarrow> string \<Rightarrow> debug_state \<Rightarrow> debug_state" where
  "pq_log_internal E level func message s =
     (if level > g_pq_log_level s then s
      else
        (let timestamp = get_timestamp E (debug_clock s);
             color = (if g_pq_log_colors s then PQ_COLORS level else []);
             reset = (if g_pq_log_colors s then escape ''0'' else []);
             level_name = PQ_LEVEL_NAMES level
         in eputs message
              (eputs (''['' @ timestamp @ ''] '' @ color @ left_justify 5 level_name @ reset @
                 '' PQ-DDS '' @ func @ ''(): '') (s\<lparr>debug_clock := Suc (debug_clock s)\<rparr>))))"

text \<open>The logging macros, with the level test they make before the call.\<close>

definition DBG_ERR :: "debug_env \<Rightarrow> string \<Rightarrow> string \<Rightarrow> debug_state \<Rightarrow> debug_state" where
  "DBG_ERR E func message s =
     (if g_pq_log_level s \<ge> PQ_LOG_ERROR then pq_log_internal E PQ_LOG_ERROR func message s else s)"
definition DBG_WARN :: "debug_env \<Rightarrow> string \<Rightarrow> string \<Rightarrow> debug_state \<Rightarrow> debug_state" where
  "DBG_WARN E func message s =
     (if g_pq_log_level s \<ge> PQ_LOG_WARN then pq_log_internal E PQ_LOG_WARN func message s else s)"
definition DBG_INFO :: "debug_env \<Rightarrow> string \<Rightarrow> string \<Rightarrow> debug_state \<Rightarrow> debug_state" where
  "DBG_INFO E func message s =
     (if g_pq_log_level s \<ge> PQ_LOG_INFO then pq_log_internal E PQ_LOG_INFO func message s else s)"
definition DBG_TRACE :: "debug_env \<Rightarrow> string \<Rightarrow> string \<Rightarrow> debug_state \<Rightarrow> debug_state" where
  "DBG_TRACE E func message s =
     (if g_pq_log_level s \<ge> PQ_LOG_TRACE then pq_log_internal E PQ_LOG_TRACE func message s else s)"
definition DBG_DATA :: "debug_env \<Rightarrow> string \<Rightarrow> string \<Rightarrow> debug_state \<Rightarrow> debug_state" where
  "DBG_DATA E func message s =
     (if g_pq_log_level s \<ge> PQ_LOG_DATA then pq_log_internal E PQ_LOG_DATA func message s else s)"

definition DBG_CRYPTO :: "debug_env \<Rightarrow> string \<Rightarrow> string \<Rightarrow> debug_state \<Rightarrow> debug_state" where
  "DBG_CRYPTO E func message = DBG_TRACE E func (''CRYPTO: '' @ message)"
definition DBG_KEM :: "debug_env \<Rightarrow> string \<Rightarrow> string \<Rightarrow> debug_state \<Rightarrow> debug_state" where
  "DBG_KEM E func message = DBG_TRACE E func (''KEM: '' @ message)"
definition DBG_SIG :: "debug_env \<Rightarrow> string \<Rightarrow> string \<Rightarrow> debug_state \<Rightarrow> debug_state" where
  "DBG_SIG E func message = DBG_TRACE E func (''SIG: '' @ message)"
definition DBG_HANDSHAKE :: "debug_env \<Rightarrow> string \<Rightarrow> string \<Rightarrow> debug_state \<Rightarrow> debug_state" where
  "DBG_HANDSHAKE E func message = DBG_INFO E func (''HANDSHAKE: '' @ message)"

text \<open>The loop over the level names, from \<open>i\<close> to \<open>PQ_LOG_DATA\<close>.\<close>

function find_level :: "string \<Rightarrow> nat \<Rightarrow> pq_log_level_t option" where
  "find_level text i =
     (if i > level_num PQ_LOG_DATA then None
      else if strcasecmp_eq text (PQ_LEVEL_NAMES (level_of_num i)) then Some (level_of_num i)
      else find_level text (i + 1))"
  by pat_completeness auto
termination by (relation "measure (\<lambda>(text, i). 6 - i)") auto

definition pq_debug_init :: "debug_env \<Rightarrow> debug_state \<Rightarrow> debug_state outcome" where
  "pq_debug_init E s =
     bind_outcome
       (case env E ''PQ_DEBUG_LEVEL'' of
          None \<Rightarrow> Ret s
        | Some env_level \<Rightarrow>
            (case atoi env_level of
               None \<Rightarrow> Fault Signed_overflow
             | Some level \<Rightarrow>
                 if 0 \<le> level \<and> level \<le> int (level_num PQ_LOG_DATA)
                 then Ret (s\<lparr>g_pq_log_level := level_of_num (nat level)\<rparr>)
                 else
                   (case find_level env_level 0 of
                      None \<Rightarrow> Ret s
                    | Some level \<Rightarrow> Ret (s\<lparr>g_pq_log_level := level\<rparr>)))) (\<lambda>s1.
     let s2 = s1\<lparr>g_pq_log_colors := isatty_stderr E\<rparr>;
         s3 = (case env E ''PQ_DEBUG_COLORS'' of
                 None \<Rightarrow> s2
               | Some env_colors \<Rightarrow>
                   s2\<lparr>g_pq_log_colors :=
                     (\<not> strcasecmp_eq env_colors ''off'' \<and> \<not> strcasecmp_eq env_colors ''0'')\<rparr>)
     in Ret (DBG_INFO E ''pq_debug_init''
          (''PQ-DDS debug initialized (level: '' @ PQ_LEVEL_NAMES (g_pq_log_level s3) @ '')'' @ newline) s3))"

section \<open>The hex dump\<close>

definition byte_text :: "octet \<Rightarrow> string" where
  "byte_text b = zero_fill 2 (in_base 16 (unat b)) @ '' ''"

definition ascii_char :: "octet \<Rightarrow> char" where
  "ascii_char b = (if b \<ge> 32 \<and> b \<le> 126 then char_of (unat b) else CHR ''.'')"

text \<open>The inner loop that fills the last line, from column \<open>j\<close>.\<close>

function pad_line :: "nat \<Rightarrow> string" where
  "pad_line j = (if j mod 16 = 0 then [] else ''   '' @ pad_line (j + 1))"
  by pat_completeness auto
termination
proof (relation "measure (\<lambda>j. (16 - j mod 16) mod 16)")
  fix j :: nat
  assume "j mod 16 \<noteq> 0"
  moreover have "(j + 1) mod 16 = (if j mod 16 = 15 then 0 else j mod 16 + 1)"
    by (simp add: mod_Suc)
  ultimately show "(j + 1, j) \<in> measure (\<lambda>j. (16 - j mod 16) mod 16)"
    by (auto simp: mod_less_divisor split: if_splits)
qed simp

text \<open>One iteration of the loop over the octets, and the loop from \<open>i\<close>.\<close>

definition dump_octet :: "bytes \<Rightarrow> nat \<Rightarrow> debug_state \<Rightarrow> debug_state" where
  "dump_octet data i s =
     (let s1 = (if i mod 16 = 0 then eputs (''  '' @ zero_fill 4 (in_base 16 i) @ '': '') s else s);
          s2 = eputs (byte_text (data ! i)) s1
      in if i mod 16 = 15 \<or> i = length data - 1
         then
           (let s3 = eputs (pad_line (i + 1)) s2;
                start = (i div 16) * 16
            in eputs ('' |'' @ map ascii_char (map ((!) data) [start..<i + 1]) @ ''|'' @ newline) s3)
         else s2)"

function dump_octets :: "bytes \<Rightarrow> nat \<Rightarrow> debug_state \<Rightarrow> debug_state" where
  "dump_octets data i s =
     (if i < length data then dump_octets data (i + 1) (dump_octet data i s) else s)"
  by pat_completeness auto
termination by (relation "measure (\<lambda>(data, i, s). length data - i)") auto

text \<open>The caller's buffer \<open>data\<close>, if any, holds at least \<open>len\<close> octets.\<close>

definition pq_dump_hex ::
  "debug_env \<Rightarrow> bytes option \<Rightarrow> nat \<Rightarrow> string \<Rightarrow> debug_state \<Rightarrow> debug_state" where
  "pq_dump_hex E data len description s =
     (case data of
        None \<Rightarrow> DBG_DATA E ''pq_dump_hex'' (description @ '': (null or empty)'' @ newline) s
      | Some d \<Rightarrow>
          if len = 0
          then DBG_DATA E ''pq_dump_hex'' (description @ '': (null or empty)'' @ newline) s
          else dump_octets (take len d) 0
            (DBG_DATA E ''pq_dump_hex''
               (description @ '' ('' @ in_base 10 len @ '' bytes):'' @ newline) s))"

definition DBG_DUMP_HEX ::
  "debug_env \<Rightarrow> bytes option \<Rightarrow> nat \<Rightarrow> string \<Rightarrow> debug_state \<Rightarrow> debug_state" where
  "DBG_DUMP_HEX E data len desc s =
     (if g_pq_log_level s \<ge> PQ_LOG_DATA then pq_dump_hex E data len desc s else s)"

section \<open>The dump, line by line\<close>

definition dump_line :: "nat \<Rightarrow> bytes \<Rightarrow> string" where
  "dump_line offset chunk =
     ''  '' @ zero_fill 4 (in_base 16 offset) @ '': '' @ concat (map byte_text chunk) @
     concat (replicate (16 - length chunk) ''   '') @ '' |'' @ map ascii_char chunk @ ''|'' @ newline"

function dump_lines :: "nat \<Rightarrow> bytes \<Rightarrow> string" where
  "dump_lines offset data =
     (if data = [] then [] else dump_line offset (take 16 data) @ dump_lines (offset + 16) (drop 16 data))"
  by pat_completeness auto
termination by (relation "measure (\<lambda>(offset, data). length data)") auto

declare in_base.simps [simp del] find_level.simps [simp del] pad_line.simps [simp del] dump_octets.simps [simp del]
  dump_lines.simps [simp del]

lemma eputs_simps [simp]: "eputs b (eputs a s) = eputs (a @ b) s" "eputs [] s = s"
  by (simp_all add: eputs_def)

lemma pad_line_eq:
  assumes "off mod 16 = 0" and "0 < k" and "k \<le> 16"
  shows "pad_line (off + k) = concat (replicate (16 - k) ''   '')"
  using assms(2,3)
proof (induction "16 - k" arbitrary: k)
  case 0
  then have "(off + k) mod 16 = 0" using assms(1) by (simp add: mod_add_eq [symmetric])
  then show ?case using 0 by (simp add: pad_line.simps)
next
  case (Suc n)
  then have "(off + k) mod 16 \<noteq> 0" using assms(1) by (auto simp: mod_add_eq [symmetric])
  then have "pad_line (off + k) = ''   '' @ pad_line (off + Suc k)" by (simp add: pad_line.simps [of "off + k"])
  also have "pad_line (off + Suc k) = concat (replicate (16 - Suc k) ''   '')"
    using Suc by (intro Suc.hyps(1)) simp_all
  also have "''   '' @ \<dots> = concat (replicate (Suc (16 - Suc k)) ''   '')" by simp
  also have "Suc (16 - Suc k) = 16 - k" using Suc.hyps(2) by simp
  finally show ?case .
qed

lemma dump_octets_chunk:
  assumes off: "off = 16 * m" and e: "e = min (off + 16) (length data)"
    and i: "off \<le> i" "i < e"
  shows "dump_octets data i s = dump_octets data e (eputs
    ((if i = off then ''  '' @ zero_fill 4 (in_base 16 off) @ '': '' else []) @
     concat (map (\<lambda>j. byte_text (data ! j)) [i..<e]) @ pad_line e @
     '' |'' @ map ascii_char (map ((!) data) [off..<e]) @ ''|'' @ newline) s)"
  using i
proof (induction "e - i" arbitrary: i s)
  case (Suc n)
  obtain r where r: "i = off + r" "r < 16" using Suc.prems e by (auto simp: le_iff_add)
  have len: "i < length data" using Suc.prems e by simp
  have col: "i mod 16 = r" "(i div 16) * 16 = off" using r off by simp_all
  have last: "i mod 16 = 15 \<or> i = length data - 1 \<longleftrightarrow> i + 1 = e"
    using r col len e Suc.prems by (auto simp: min_def split: if_splits)
  have first: "i mod 16 = 0 \<longleftrightarrow> i = off" using r col by simp
  have step: "dump_octets data i s = dump_octets data (i + 1) (dump_octet data i s)"
    using len by (simp add: dump_octets.simps [of data i])
  show ?case
  proof (cases "i + 1 = e")
    case True
    have upt: "[i..<e] = [i]" by (simp add: True [symmetric])
    have oct: "dump_octet data i s =
        eputs ((if i = off then ''  '' @ zero_fill 4 (in_base 16 off) @ '': '' else []) @ byte_text (data ! i) @
          pad_line e @ '' |'' @ map ascii_char (map ((!) data) [off..<e]) @ ''|'' @ newline) s"
      unfolding dump_octet_def Let_def last first col(2) using True by (simp only: refl if_True) simp
    show ?thesis unfolding step oct True upt by simp
  next
    case False
    have "n = e - (i + 1)" "off \<le> i + 1" "i + 1 < e" "i + 1 \<noteq> off"
      using Suc.hyps(2) Suc.prems False by auto
    then have rec: "dump_octets data (i + 1) (dump_octet data i s) = dump_octets data e (eputs
      (concat (map (\<lambda>j. byte_text (data ! j)) [i + 1..<e]) @ pad_line e @
       '' |'' @ map ascii_char (map ((!) data) [off..<e]) @ ''|'' @ newline) (dump_octet data i s))"
      using Suc.hyps(1) [of "i + 1" "dump_octet data i s"] by simp
    have oct: "dump_octet data i s =
        eputs ((if i = off then ''  '' @ zero_fill 4 (in_base 16 off) @ '': '' else []) @ byte_text (data ! i)) s"
      unfolding dump_octet_def Let_def last first using False by auto
    have upt: "[i..<e] = i # [i + 1..<e]" using Suc.prems by (simp add: upt_conv_Cons)
    show ?thesis
      unfolding step rec unfolding oct upt by simp
  qed
qed simp

lemma dump_octets_lines:
  "off = 16 * m \<Longrightarrow> off \<le> length data \<Longrightarrow>
   dump_octets data off s = eputs (dump_lines off (drop off data)) s"
proof (induction "length data - off" arbitrary: off m s rule: less_induct)
  case less
  show ?case
  proof (cases "off = length data")
    case True
    then show ?thesis
      by (simp add: dump_octets.simps [of data "length data"] dump_lines.simps [of "length data" "[]"])
  next
    case False
    define e where "e = min (off + 16) (length data)"
    let ?chunk = "take 16 (drop off data)"
    have e: "off < e" "e \<le> length data" using False less.prems by (simp_all add: e_def)
    have chunk: "map ((!) data) [off..<e] = ?chunk"
      using less.prems by (intro nth_equalityI) (auto simp: e_def min_def split: if_splits)
    then have bytes: "map (\<lambda>j. byte_text (data ! j)) [off..<e] = map byte_text ?chunk"
      by (metis (no_types) map_map comp_apply map_eq_conv)
    have pad: "pad_line e = concat (replicate (16 - length ?chunk) ''   '')"
    proof -
      have "length ?chunk = e - off" "e - off \<le> 16" "off + (e - off) = e"
        using e less.prems by (auto simp: e_def min_def split: if_splits)
      moreover have "off mod 16 = 0" "0 < e - off" using less.prems e by simp_all
      ultimately show ?thesis using pad_line_eq [of off "e - off"] by simp
    qed
    have rest: "dump_octets data e s' = eputs (dump_lines (off + 16) (drop 16 (drop off data))) s'" for s'
    proof (cases "off + 16 \<le> length data")
      case True
      then show ?thesis using less.hyps [of e "m + 1"] less.prems e by (simp add: e_def add.commute)
    next
      case False
      then show ?thesis
        by (simp add: e_def dump_octets.simps [of data "length data"] dump_lines.simps [of "off + 16"])
    qed
    have "drop off data \<noteq> []" using False less.prems by simp
    then show ?thesis
      using dump_octets_chunk [OF less.prems(1) e_def order_refl e(1), of s]
      by (simp add: rest bytes pad chunk dump_lines.simps [of off "drop off data"] dump_line_def)
  qed
qed

section \<open>Properties\<close>

text \<open>
  C39: the hex dump of a buffer is the dump of its lines: one line for every 16 octets and one for
  the rest, each with its offset, its octets in hexadecimal, blanks up to column 16, and the
  printable characters; an empty or missing buffer only gives the header.  The loops end on
  every input.
\<close>
theorem pq_dump_hex_lines:
  "pq_dump_hex E data len description s =
     (if data = None \<or> len = 0
      then DBG_DATA E ''pq_dump_hex'' (description @ '': (null or empty)'' @ newline) s
      else eputs (dump_lines 0 (take len (the data)))
        (DBG_DATA E ''pq_dump_hex'' (description @ '' ('' @ in_base 10 len @ '' bytes):'' @ newline) s))"
  using dump_octets_lines [of 0 0 "take len (the data)"]
  by (auto simp: pq_dump_hex_def split: option.splits)

lemma tolower_letter:
  assumes "tolower c = tolower d" and "65 \<le> (of_char d :: nat)" "(of_char d :: nat) \<le> 90"
  shows "57 < (of_char c :: nat)"
proof (rule ccontr)
  assume small: "\<not> 57 < (of_char c :: nat)"
  then have "(of_char c :: nat) = of_char (char_of ((of_char d :: nat) + 32) :: char)"
    using assms by (simp add: tolower_def)
  then show False using assms small by simp
qed

lemma atoi_of_word:
  assumes "57 < (of_char c :: nat)"
  shows "atoi (c # cs) = Some 0"
proof -
  have "\<not> isspace c" "\<not> isdigit c" "c \<noteq> CHR ''-''" "c \<noteq> CHR ''+''"
    using assms by (auto simp: isspace_def isdigit_def)
  then show ?thesis by (simp add: atoi_def)
qed

text \<open>
  C40: the level names in \<open>PQ_DEBUG_LEVEL\<close> are never looked up: since \<open>atoi\<close> gives 0 for a text that
  is no number, naming any level, in upper or lower case, turns logging off.
\<close>
theorem pq_debug_init_level_names_disable:
  assumes "env E ''PQ_DEBUG_LEVEL'' = Some env_level" and "strcasecmp_eq env_level (PQ_LEVEL_NAMES level)"
  shows "\<exists>s'. pq_debug_init E s = Ret s' \<and> g_pq_log_level s' = PQ_LOG_NONE"
proof -
  obtain c cs where word: "env_level = c # cs"
    using assms(2) by (cases env_level; cases level) (auto simp: strcasecmp_eq_def)
  have "57 < (of_char c :: nat)"
    by (rule tolower_letter [of c "hd (PQ_LEVEL_NAMES level)"])
      (use assms(2) word in \<open>cases level; auto simp: strcasecmp_eq_def\<close>)+
  then have "atoi env_level = Some 0" using word atoi_of_word by simp
  then show ?thesis
    using assms(1)
    by (auto simp: pq_debug_init_def Let_def DBG_INFO_def level_of_num_def less_eq_level split: option.splits)
qed

text \<open>
  A log call writes exactly when its level is at most the configured one; then the line
  starts with the time stamp and ends with the message, and the level is never changed.  A
  level macro adds no test of its own.
\<close>
lemma pq_log_internal_gated:
  "(stderr_text (pq_log_internal E level func message s) = stderr_text s \<longleftrightarrow> level > g_pq_log_level s) \<and>
   (level \<le> g_pq_log_level s \<longrightarrow>
      (\<exists>line. stderr_text (pq_log_internal E level func message s) =
         stderr_text s @ ''['' @ get_timestamp E (debug_clock s) @ ''] '' @ line @ message)) \<and>
   g_pq_log_level (pq_log_internal E level func message s) = g_pq_log_level s \<and>
   DBG_ERR E func message s = pq_log_internal E PQ_LOG_ERROR func message s \<and>
   DBG_WARN E func message s = pq_log_internal E PQ_LOG_WARN func message s \<and>
   DBG_INFO E func message s = pq_log_internal E PQ_LOG_INFO func message s \<and>
   DBG_TRACE E func message s = pq_log_internal E PQ_LOG_TRACE func message s \<and>
   DBG_DATA E func message s = pq_log_internal E PQ_LOG_DATA func message s"
  by (auto simp: pq_log_internal_def eputs_def Let_def DBG_ERR_def DBG_WARN_def DBG_INFO_def DBG_TRACE_def
      DBG_DATA_def)


section \<open>Instances\<close>

definition demo_debug :: debug_env where
  "demo_debug = \<lparr>env = (\<lambda>n. if n = ''PQ_DEBUG_LEVEL'' then Some ''Trace'' else None), isatty_stderr = False,
     time_of_day = (\<lambda>_. (12, 34, 56, 789000000))\<rparr>"

theorem pq_debug_init_level_names_disable_witness:
  "\<exists>s'. pq_debug_init demo_debug debug_start = Ret s' \<and> g_pq_log_level s' = PQ_LOG_NONE"
proof (rule pq_debug_init_level_names_disable [where env_level = "''Trace''" and level = PQ_LOG_TRACE])
  show "strcasecmp_eq ''Trace'' (PQ_LEVEL_NAMES PQ_LOG_TRACE)" by code_simp
qed (simp add: demo_debug_def)

end
