(* ===== verification/OpensslSupport.thy ===== *)
theory OpensslSupport
  imports Prelude
begin

text \<open>
  \<open>openssl/src/openssl_support.c\<close>: the exception made from OpenSSL's error queue.  The message is
  assembled in a block of memory, so the block is modelled octet by octet; \<open>dds_openssl_init\<close> does
  nothing for OpenSSL 1.1.0 and later, which the plugin needs for its KEM functions.
\<close>

text \<open>
  The functions used: whether the memory BIO is created, the octets \<open>ERR_print_errors\<close> writes to
  it, the fresh block \<open>ddsrt_malloc\<close> gives, \<open>ddsrt_strlcpy(block, s, n)\<close>, and the exception setter of
  the DDS Security library.
\<close>

record exception_value =
  ex_message :: bytes
  ex_code :: int
  ex_minor_code :: int

record error_env =
  BIO_new_mem :: bool
  ERR_print_errors :: bytes
  ddsrt_malloc :: "nat \<Rightarrow> bytes"
  ddsrt_strlcpy :: "bytes \<Rightarrow> string \<Rightarrow> nat \<Rightarrow> bytes"
  DDS_Security_Exception_set :: "string \<Rightarrow> int \<Rightarrow> int \<Rightarrow> string \<Rightarrow> exception_value"

text \<open>
  \<open>memcpy(block + at, data, n)\<close>; a write that would leave the block is a fault (its pointer
  points to no object).
\<close>

definition write_at :: "nat \<Rightarrow> bytes \<Rightarrow> bytes \<Rightarrow> bytes outcome" where
  "write_at at data block =
     (if at + length data \<le> length block
      then Ret (take at block @ data @ drop (at + length data) block)
      else Fault Dangling_pointer)"

definition DDS_Security_Exception_set_with_openssl_error ::
  "error_env \<Rightarrow> bool \<Rightarrow> string option \<Rightarrow> int \<Rightarrow> int \<Rightarrow> string option \<Rightarrow> exception_value outcome" where
  "DDS_Security_Exception_set_with_openssl_error E ex context code minor_code error_area =
     (case (context, error_area) of
        (Some ctx, Some area) \<Rightarrow>
          if \<not> ex then Fault Assertion_failed
          else if BIO_new_mem E then
            (let buf = ERR_print_errors E;
                 len = length buf;
                 exception_msg_len = len + length area + 1;
                 str = ddsrt_strlcpy E (ddsrt_malloc E exception_msg_len) area exception_msg_len in
             bind_outcome (if len > 0 then write_at (length area) buf str else Ret str) (\<lambda>str1.
             bind_outcome (write_at (exception_msg_len - 1) [0] str1) (\<lambda>str2.
             Ret \<lparr>ex_message = str2, ex_code = code, ex_minor_code = minor_code\<rparr>)))
          else Ret (DDS_Security_Exception_set E ctx code minor_code ''BIO_new failed'')
      | _ \<Rightarrow> Fault Assertion_failed)"

text \<open>What the two library functions document.\<close>

definition error_env_laws :: "error_env \<Rightarrow> bool" where
  "error_env_laws E \<longleftrightarrow>
     (\<forall>n. length (ddsrt_malloc E n) = n) \<and>
     (\<forall>block s n. length block = n \<longrightarrow> length s < n \<longrightarrow>
        ddsrt_strlcpy E block s n = octets_of s @ [0] @ drop (length s + 1) block)"

text \<open>
  C38: the exception's message is the caller's text followed by everything in OpenSSL's error
  queue, as one terminated string; building it never writes outside the allocated block.
\<close>
theorem exception_message_complete:
  assumes "error_env_laws E" and "BIO_new_mem E"
  shows "DDS_Security_Exception_set_with_openssl_error E True (Some context) code minor_code (Some area) =
    Ret \<lparr>ex_message = octets_of area @ ERR_print_errors E @ [0], ex_code = code, ex_minor_code = minor_code\<rparr>"
proof -
  define n where "n = length (ERR_print_errors E) + length area + 1"
  define rest where "rest = drop (length area + 1) (ddsrt_malloc E n)"
  have block: "length (ddsrt_malloc E n) = n"
    using assms(1) unfolding error_env_laws_def by blast
  have law: "\<forall>block s n. length block = n \<longrightarrow> length s < n \<longrightarrow>
      ddsrt_strlcpy E block s n = octets_of s @ [0] @ drop (length s + 1) block"
    using assms(1) unfolding error_env_laws_def by blast
  have copy: "ddsrt_strlcpy E (ddsrt_malloc E n) area n = octets_of area @ [0] @ rest"
    unfolding rest_def by (rule law [rule_format, OF block]) (simp add: n_def)
  have rest: "length rest = length (ERR_print_errors E)" using block by (simp add: rest_def n_def)
  show ?thesis
    unfolding DDS_Security_Exception_set_with_openssl_error_def Let_def prod.case option.case
    unfolding n_def [symmetric] unfolding copy
    using assms(2) rest by (auto simp: write_at_def n_def)
qed


section \<open>An instance\<close>

definition demo_errors :: error_env where
  "demo_errors =
     \<lparr>BIO_new_mem = True, ERR_print_errors = [69, 58, 49], ddsrt_malloc = (\<lambda>n. replicate n 255),
      ddsrt_strlcpy = (\<lambda>block s n. octets_of s @ [0] @ drop (length s + 1) block),
      DDS_Security_Exception_set = (\<lambda>ctx c m text.
        \<lparr>ex_message = cstring_octets text, ex_code = c, ex_minor_code = m\<rparr>)\<rparr>"

theorem exception_message_complete_witness:
  "DDS_Security_Exception_set_with_openssl_error demo_errors True (Some ''Authentication'') 110 0 (Some ''Bad: '') =
    Ret \<lparr>ex_message = octets_of ''Bad: '' @ [69, 58, 49, 0], ex_code = 110, ex_minor_code = 0\<rparr>"
  using exception_message_complete [of demo_errors "''Authentication''" 110 0 "''Bad: ''"]
  by (simp add: error_env_laws_def demo_errors_def)

end
