(* ===== verification/ClassicalDh.thy ===== *)
theory ClassicalDh
  imports AuthAlgs Systems "HOL-Library.Multiset"
begin

text \<open>
  The classical Diffie-Hellman helpers of \<open>auth_utils.c\<close> (finite field and elliptic curve): key
  generation and the conversions of a public key to and from octets.  They are mostly about
  OpenSSL objects that must be released on every path, so the state of an operation is the
  multiset of the kinds of objects that are live; freeing an object that is not live is a fault.
\<close>

section \<open>Objects and the OpenSSL functions used\<close>

datatype dh_object = PKEY_object | DH_object | BN_object | ASN1_object | CTX_object
  | EC_KEY_object | EC_GROUP_object | EC_POINT_object | MD_CTX_object | Buffer_object

type_synonym live = "dh_object multiset"

datatype bignum = BIGNUM nat
datatype asn1_integer = ASN1_INTEGER nat
datatype ec_point = EC_POINT nat
datatype ec_key = EC_KEY nat

text \<open>
  A \<open>DH\<close> object is its public key, if it has one; the group is always that of
  \<open>DH_get_2048_256\<close>.  Functions that allocate take the time of the call.
\<close>

record openssl_dh =
  EVP_PKEY_new :: "nat \<Rightarrow> bool"
  DH_get_2048_256 :: "nat \<Rightarrow> bool"
  EVP_PKEY_set1_DH :: "nat \<Rightarrow> bignum option \<Rightarrow> int \<times> evp_pkey"
  EVP_PKEY_CTX_new_id :: "nat \<Rightarrow> bool"
  EVP_PKEY_paramgen_init :: "nat \<Rightarrow> int"
  EVP_PKEY_CTX_set_curve :: "nat \<Rightarrow> int"
  EVP_PKEY_paramgen :: "nat \<Rightarrow> int \<times> evp_pkey"
  EVP_PKEY_CTX_new :: "nat \<Rightarrow> evp_pkey \<Rightarrow> bool"
  EVP_PKEY_keygen_init_dh :: "nat \<Rightarrow> evp_pkey \<Rightarrow> int"
  EVP_PKEY_keygen :: "nat \<Rightarrow> evp_pkey \<Rightarrow> int \<times> evp_pkey"
  EVP_PKEY_get1_DH :: "evp_pkey \<Rightarrow> bignum option option"
  BN_to_ASN1_INTEGER :: "nat \<Rightarrow> bignum \<Rightarrow> asn1_integer option"
  i2d_ASN1_INTEGER_length :: "asn1_integer \<Rightarrow> int"
  i2d_ASN1_INTEGER :: "asn1_integer \<Rightarrow> bytes"
  d2i_ASN1_INTEGER :: "nat \<Rightarrow> bytes \<Rightarrow> asn1_integer option"
  ASN1_INTEGER_to_BN :: "nat \<Rightarrow> asn1_integer \<Rightarrow> bignum option"
  DH_set0_key :: "bignum \<Rightarrow> int"
  EVP_PKEY_get1_EC_KEY :: "evp_pkey \<Rightarrow> ec_key option"
  EC_KEY_get0_public_key :: "ec_key \<Rightarrow> ec_point option"
  EC_KEY_get0_group :: "ec_key \<Rightarrow> bool"
  EC_POINT_point2oct_size :: "ec_point \<Rightarrow> nat"
  EC_POINT_point2oct :: "ec_point \<Rightarrow> nat \<times> bytes"
  EC_GROUP_new_by_curve_name :: "nat \<Rightarrow> bool"
  EC_POINT_new :: "nat \<Rightarrow> bool"
  EC_POINT_oct2point :: "bytes \<Rightarrow> int \<times> ec_point"
  EC_KEY_new :: "nat \<Rightarrow> bool"
  EC_KEY_set_group :: "nat \<Rightarrow> int"
  EC_KEY_set_public_key :: "ec_point \<Rightarrow> int"
  EVP_PKEY_set1_EC_KEY :: "nat \<Rightarrow> ec_point \<Rightarrow> int \<times> evp_pkey"
  malloc_buffer :: "nat \<Rightarrow> nat \<Rightarrow> bool"

text \<open>An allocation that may fail with an exception, and a release.\<close>

definition new_object :: "dh_object \<Rightarrow> bool \<Rightarrow> string \<Rightarrow> (live, unit) op" where
  "new_object x ok msg = bind_op (check_op ok msg) (\<lambda>_. modify_op (add_mset x))"

definition free_object :: "dh_object \<Rightarrow> (live, unit) op" where
  "free_object x s = (if x \<in># s then Ret (Inr (), s - {#x#}) else Fault Dangling_pointer)"

definition free_two :: "dh_object \<Rightarrow> dh_object \<Rightarrow> (live, unit) op" where
  "free_two x y = bind_op (free_object x) (\<lambda>_. free_object y)"

section \<open>Key generation\<close>

definition get_rsa_dh_parameters :: "('a) openssl_dh_scheme \<Rightarrow> nat \<Rightarrow> (live, evp_pkey) op" where
  "get_rsa_dh_parameters E t =
     bind_op (new_object PKEY_object (EVP_PKEY_new E t)
       ''Failed to allocate DH generation parameters: '') (\<lambda>_.
     bind_op (on_fail (new_object DH_object (DH_get_2048_256 E t)
         ''Failed to allocate DH parameter using DH_get_2048_256: '') (free_object PKEY_object)) (\<lambda>_.
     let (rc, params) = EVP_PKEY_set1_DH E t None in
     bind_op (on_fail (check_op (\<not> rc \<le> 0)
         ''Failed to set DH generation parameters using EVP_PKEY_set1_DH: '')
       (free_two PKEY_object DH_object)) (\<lambda>_.
     bind_op (free_object DH_object) (\<lambda>_. ret_op params))))"

definition get_ec_dh_parameters :: "('a) openssl_dh_scheme \<Rightarrow> nat \<Rightarrow> (live, evp_pkey) op" where
  "get_ec_dh_parameters E t =
     bind_op (new_object CTX_object (EVP_PKEY_CTX_new_id E t)
       ''Failed to allocate DH parameter context: '') (\<lambda>_.
     bind_op (on_fail (check_op (\<not> EVP_PKEY_paramgen_init E t \<le> 0)
         ''Failed to initialize DH generation context: '') (free_object CTX_object)) (\<lambda>_.
     bind_op (on_fail (check_op (\<not> EVP_PKEY_CTX_set_curve E t \<le> 0)
         ''Failed to set DH generation parameter generation method: '') (free_object CTX_object)) (\<lambda>_.
     let (rc, params) = EVP_PKEY_paramgen E t in
     bind_op (on_fail (new_object PKEY_object (\<not> rc \<le> 0)
         ''Failed to generate DH parameters: '') (free_object CTX_object)) (\<lambda>_.
     bind_op (free_object CTX_object) (\<lambda>_. ret_op params)))))"

definition generate_dh_keys ::
  "('a) openssl_dh_scheme \<Rightarrow> nat \<Rightarrow> AuthenticationAlgoKind_t \<Rightarrow> (live, evp_pkey) op" where
  "generate_dh_keys E t authKind =
     bind_op
       (case authKind of
          AUTH_ALGO_KIND_RSA_2048 \<Rightarrow> get_rsa_dh_parameters E t
        | AUTH_ALGO_KIND_EC_PRIME256V1 \<Rightarrow> get_ec_dh_parameters E t
        | _ \<Rightarrow> fault_op Assertion_failed) (\<lambda>params.
     bind_op (on_fail (new_object CTX_object (EVP_PKEY_CTX_new E t params)
         ''Failed to allocate DH generation context: '') (free_object PKEY_object)) (\<lambda>_.
     bind_op (on_fail (check_op (\<not> EVP_PKEY_keygen_init_dh E t params \<le> 0)
         ''Failed to initialize DH generation context: '') (free_two CTX_object PKEY_object)) (\<lambda>_.
     let (rc, dhkey) = EVP_PKEY_keygen E t params in
     bind_op (on_fail (new_object PKEY_object (\<not> rc \<le> 0)
         ''Failed to generate DH key pair: '') (free_two CTX_object PKEY_object)) (\<lambda>_.
     bind_op (free_two CTX_object PKEY_object) (\<lambda>_. ret_op dhkey)))))"

section \<open>From a key to octets\<close>

text \<open>\<open>dh_get_public_key\<close> and \<open>dh_set_public_key\<close> with the accessors of OpenSSL 1.1.\<close>

definition dh_get_public_key :: "bignum option \<Rightarrow> bignum option" where
  "dh_get_public_key dhkey = dhkey"

definition dh_set_public_key :: "('a) openssl_dh_scheme \<Rightarrow> bool \<Rightarrow> bignum \<Rightarrow> (live, int) op" where
  "dh_set_public_key E dhkey pubkey =
     (if \<not> dhkey then fault_op Null_dereference else ret_op (DH_set0_key E pubkey))"

definition dh_public_key_to_oct_modp ::
  "('a) openssl_dh_scheme \<Rightarrow> nat \<Rightarrow> evp_pkey \<Rightarrow> (live, bytes \<times> nat) op" where
  "dh_public_key_to_oct_modp E t pkey =
     (case EVP_PKEY_get1_DH E pkey of
        None \<Rightarrow> lift_op (failed ''Failed to get DH key from PKEY: '')
      | Some dhkey \<Rightarrow>
          bind_op (modify_op (add_mset DH_object)) (\<lambda>_.
          case dh_get_public_key dhkey of
            None \<Rightarrow> fault_op Null_dereference
          | Some pub \<Rightarrow>
              (case BN_to_ASN1_INTEGER E t pub of
                 None \<Rightarrow> on_fail (lift_op (failed ''Failed to convert DH key to ASN1 integer: ''))
                           (free_object DH_object)
               | Some asn1int \<Rightarrow>
                   bind_op (modify_op (add_mset ASN1_object)) (\<lambda>_.
                   let i2dlen = i2d_ASN1_INTEGER_length E asn1int in
                   bind_op (on_fail (check_op (\<not> i2dlen \<le> 0)
                       ''Failed to convert DH key to ASN1 integer: '') (free_two DH_object ASN1_object)) (\<lambda>_.
                   bind_op (on_fail (new_object Buffer_object (malloc_buffer E t (nat i2dlen))
                       ''Failed to convert DH key to ASN1 integer: '') (free_two DH_object ASN1_object)) (\<lambda>_.
                   bind_op (free_two ASN1_object DH_object) (\<lambda>_.
                   ret_op (i2d_ASN1_INTEGER E asn1int, nat i2dlen))))))))"

definition dh_public_key_to_oct_ecdh ::
  "('a) openssl_dh_scheme \<Rightarrow> nat \<Rightarrow> evp_pkey \<Rightarrow> (live, bytes \<times> nat) op" where
  "dh_public_key_to_oct_ecdh E t pkey =
     (case EVP_PKEY_get1_EC_KEY E pkey of
        None \<Rightarrow> lift_op (failed ''Failed to get EC key from PKEY: '')
      | Some eckey \<Rightarrow>
          bind_op (modify_op (add_mset EC_KEY_object)) (\<lambda>_.
          case (EC_KEY_get0_public_key E eckey, EC_KEY_get0_group E eckey) of
            (Some point, True) \<Rightarrow>
              (let sz = EC_POINT_point2oct_size E point in
               bind_op (on_fail (check_op (sz \<noteq> 0) ''Failed to serialize public EC key: '')
                 (free_object EC_KEY_object)) (\<lambda>_.
               bind_op (if malloc_buffer E t sz then modify_op (add_mset Buffer_object)
                        else on_fail (lift_op failed_silent) (free_object EC_KEY_object)) (\<lambda>_.
               let (n, octets) = EC_POINT_point2oct E point in
               bind_op (on_fail (check_op (n \<noteq> 0) ''Failed to serialize public EC key: '')
                 (free_two Buffer_object EC_KEY_object)) (\<lambda>_.
               bind_op (free_object EC_KEY_object) (\<lambda>_. ret_op (octets, n))))))
          | _ \<Rightarrow> on_fail (lift_op (failed ''Failed to get public key from ECKEY: ''))
                   (free_object EC_KEY_object)))"

definition dh_public_key_to_oct ::
  "('a) openssl_dh_scheme \<Rightarrow> nat \<Rightarrow> evp_pkey option \<Rightarrow> AuthenticationAlgoKind_t \<Rightarrow> (live, bytes \<times> nat) op" where
  "dh_public_key_to_oct E t pkey algo =
     (case pkey of
        None \<Rightarrow> fault_op Assertion_failed
      | Some k \<Rightarrow>
          (case algo of
             AUTH_ALGO_KIND_RSA_2048 \<Rightarrow> dh_public_key_to_oct_modp E t k
           | AUTH_ALGO_KIND_EC_PRIME256V1 \<Rightarrow> dh_public_key_to_oct_ecdh E t k
           | _ \<Rightarrow> fault_op Assertion_failed))"

section \<open>From octets to a key\<close>

text \<open>
  \<open>DH_set0_key\<close> takes the number over on success: the \<open>DH\<close> object then owns it, and it is released
  with it.  The two clean-up labels of the function are \<open>free_two\<close> and \<open>free_object\<close> here.
\<close>

definition dh_oct_to_public_key_modp :: "('a) openssl_dh_scheme \<Rightarrow> nat \<Rightarrow> bytes \<Rightarrow> (live, evp_pkey) op" where
  "dh_oct_to_public_key_modp E t keystr =
     bind_op (new_object PKEY_object (EVP_PKEY_new E t)
       ''Failed to convert octet sequence to ASN1 integer: '') (\<lambda>_.
     case d2i_ASN1_INTEGER E t keystr of
       None \<Rightarrow> on_fail (lift_op (failed ''Failed to convert octet sequence to ASN1 integer: ''))
                 (free_object PKEY_object)
     | Some asn1int \<Rightarrow>
         bind_op (modify_op (add_mset ASN1_object)) (\<lambda>_.
         case ASN1_INTEGER_to_BN E t asn1int of
           None \<Rightarrow> on_fail (lift_op (failed ''Failed to convert ASN1 integer to BIGNUM: ''))
                     (free_two ASN1_object PKEY_object)
         | Some pubkey \<Rightarrow>
             bind_op (modify_op (add_mset BN_object)) (\<lambda>_.
             bind_op (if DH_get_2048_256 E t then modify_op (add_mset DH_object) else ret_op ()) (\<lambda>_.
             bind_op (dh_set_public_key E (DH_get_2048_256 E t) pubkey) (\<lambda>set.
             bind_op (on_fail (check_op (set \<noteq> 0) ''Failed to set DH public key: '')
               (free_two ASN1_object PKEY_object)) (\<lambda>_.
             bind_op (modify_op (\<lambda>s. s - {#BN_object#})) (\<lambda>_.
             let (rc, pkey) = EVP_PKEY_set1_DH E t (Some pubkey) in
             bind_op (on_fail (check_op (rc \<noteq> 0) ''Failed to convert DH to PKEY: '')
               (bind_op (free_object DH_object) (\<lambda>_. free_two ASN1_object PKEY_object))) (\<lambda>_.
             bind_op (free_two ASN1_object DH_object) (\<lambda>_. ret_op pkey)))))))))"

text \<open>The part of \<open>dh_oct_to_public_key_ecdh\<close> between the allocation of the point and its release.\<close>

definition ecdh_key_from_octets :: "('a) openssl_dh_scheme \<Rightarrow> nat \<Rightarrow> bytes \<Rightarrow> (live, evp_pkey) op" where
  "ecdh_key_from_octets E t keystr =
     (let (rc, point) = EC_POINT_oct2point E keystr in
      bind_op (check_op (rc = 1) ''Failed to deserialize EC public key to EC point: '') (\<lambda>_.
      bind_op (new_object EC_KEY_object (EC_KEY_new E t) ''Failed to allocate EC KEY: '') (\<lambda>_.
      on_fail
        (bind_op (check_op (EC_KEY_set_group E t = 1) ''Failed to set EC group: '') (\<lambda>_.
         bind_op (check_op (EC_KEY_set_public_key E point = 1) ''Failed to set EC public key: '') (\<lambda>_.
         bind_op (new_object PKEY_object (EVP_PKEY_new E t) ''Failed to allocate EVP key: '') (\<lambda>_.
         let (rc, pkey) = EVP_PKEY_set1_EC_KEY E t point in
         bind_op (on_fail (check_op (rc = 1) ''Failed to set EVP key to EC public key: '')
           (free_object PKEY_object)) (\<lambda>_. ret_op pkey)))))
        (free_object EC_KEY_object))))"

definition dh_oct_to_public_key_ecdh :: "('a) openssl_dh_scheme \<Rightarrow> nat \<Rightarrow> bytes \<Rightarrow> (live, evp_pkey) op" where
  "dh_oct_to_public_key_ecdh E t keystr =
     bind_op (new_object EC_GROUP_object (EC_GROUP_new_by_curve_name E t)
       ''Failed to allocate EC group: '') (\<lambda>_.
     bind_op (on_fail
       (bind_op (new_object EC_POINT_object (EC_POINT_new E t) ''Failed to allocate EC point: '') (\<lambda>_.
        bind_op (on_fail (ecdh_key_from_octets E t keystr) (free_object EC_POINT_object)) (\<lambda>pkey.
        bind_op (free_two EC_KEY_object EC_POINT_object) (\<lambda>_. ret_op pkey))))
       (free_object EC_GROUP_object)) (\<lambda>pkey.
     bind_op (free_object EC_GROUP_object) (\<lambda>_. ret_op pkey)))"

definition dh_oct_to_public_key ::
  "('a) openssl_dh_scheme \<Rightarrow> nat \<Rightarrow> AuthenticationAlgoKind_t \<Rightarrow> bytes option \<Rightarrow> (live, evp_pkey) op" where
  "dh_oct_to_public_key E t algo str =
     (case str of
        None \<Rightarrow> fault_op Assertion_failed
      | Some octets \<Rightarrow>
          (case algo of
             AUTH_ALGO_KIND_RSA_2048 \<Rightarrow> dh_oct_to_public_key_modp E t octets
           | AUTH_ALGO_KIND_EC_PRIME256V1 \<Rightarrow> dh_oct_to_public_key_ecdh E t octets
           | _ \<Rightarrow> fault_op Assertion_failed))"

section \<open>Objects on every path\<close>

lemma wp_new_object [simp]:
  "wp (new_object x ok msg) s Q X Z \<longleftrightarrow> (if ok then Q () (add_mset x s) else X s)"
  by (simp add: new_object_def wp_bind_iff)

lemma wp_free_object [simp]:
  "wp (free_object x) s Q X Z \<longleftrightarrow> (if x \<in># s then Q () (s - {#x#}) else Dangling_pointer \<in> Z)"
  by (simp add: wp_def free_object_def)

lemma live_ok:
  "new_object x ok msg s = Ret (Inr u, s') \<longleftrightarrow> ok \<and> s' = add_mset x s"
  "free_object x s = Ret (Inr u, s') \<longleftrightarrow> x \<in># s \<and> s' = s - {#x#}"
  by (auto simp: new_object_def free_object_def bind_op_def check_vres_def failed_def)

lemma wp_free_two [simp]:
  "wp (free_two x y) s Q X Z \<longleftrightarrow> wp (free_object x) s (\<lambda>_ s'. wp (free_object y) s' Q X Z) X Z"
  unfolding free_two_def wp_bind_iff ..

lemma wp_on_fail_iff:
  "wp (on_fail m c) s Q X Z \<longleftrightarrow> wp m s Q (\<lambda>s'. wp c s' (\<lambda>_. X) X Z) Z"
  by (auto simp: wp_def on_fail_def split: outcome.splits sum.splits prod.splits)

lemma wp_case_prod:
  "wp (case p of (a, b) \<Rightarrow> f a b) s Q X Z \<longleftrightarrow> wp (f (fst p) (snd p)) s Q X Z"
  by (cases p) simp

lemmas dh_wp = wp_bind_iff wp_on_fail_iff wp_case_prod Let_def

lemma wp_dh_parameters:
  "wp (get_rsa_dh_parameters E t) s (\<lambda>_ s'. s' = add_mset PKEY_object s) (\<lambda>s'. s' = s) {}"
  "wp (get_ec_dh_parameters E t) s (\<lambda>_ s'. s' = add_mset PKEY_object s) (\<lambda>s'. s' = s) {}"
  by (simp_all add: get_rsa_dh_parameters_def get_ec_dh_parameters_def dh_wp add_mset_commute)

definition dh_kind :: "AuthenticationAlgoKind_t \<Rightarrow> bool" where
  "dh_kind algo \<longleftrightarrow> algo = AUTH_ALGO_KIND_RSA_2048 \<or> algo = AUTH_ALGO_KIND_EC_PRIME256V1"

lemma wp_generate_dh_keys:
  assumes "dh_kind kind"
  shows "wp (generate_dh_keys E t kind) s (\<lambda>_ s'. s' = add_mset PKEY_object s) (\<lambda>s'. s' = s) {}"
  using assms unfolding generate_dh_keys_def dh_kind_def
  by (elim disjE; simp; intro wp_bind wp_mono [OF wp_dh_parameters(1)] wp_mono [OF wp_dh_parameters(2)];
      simp add: dh_wp add_mset_commute)

text \<open>
  The number that \<open>dh_oct_to_public_key_modp\<close> has read when it calls \<open>DH_get_2048_256\<close>, if it
  gets that far.
\<close>

definition decoded_number :: "('a) openssl_dh_scheme \<Rightarrow> nat \<Rightarrow> bytes \<Rightarrow> bignum option" where
  "decoded_number E t str =
     (if EVP_PKEY_new E t
      then (case d2i_ASN1_INTEGER E t str of None \<Rightarrow> None | Some a \<Rightarrow> ASN1_INTEGER_to_BN E t a)
      else None)"

definition number_refused :: "('a) openssl_dh_scheme \<Rightarrow> nat \<Rightarrow> bytes \<Rightarrow> bool" where
  "number_refused E t str \<longleftrightarrow>
     (case decoded_number E t str of None \<Rightarrow> False | Some n \<Rightarrow> DH_set0_key E n = 0)"

lemma wp_dh_public_key_to_oct:
  assumes "dh_kind algo" and "algo = AUTH_ALGO_KIND_EC_PRIME256V1 \<or> EVP_PKEY_get1_DH E k \<noteq> Some None"
  shows "wp (dh_public_key_to_oct E t (Some k) algo) s
    (\<lambda>_ s'. s' = add_mset Buffer_object s) (\<lambda>s'. s' = s) {}"
  using assms
  by (auto simp: dh_public_key_to_oct_def dh_kind_def dh_public_key_to_oct_modp_def dh_get_public_key_def
      dh_public_key_to_oct_ecdh_def dh_wp add_mset_commute split: option.splits bool.splits)

lemma wp_oct_to_key_ecdh:
  "wp (dh_oct_to_public_key_ecdh E t str) s (\<lambda>_ s'. s' = add_mset PKEY_object s) (\<lambda>s'. s' = s) {}"
  by (auto simp: dh_oct_to_public_key_ecdh_def ecdh_key_from_octets_def dh_wp add_mset_commute)

lemma wp_oct_to_key_modp:
  assumes "DH_get_2048_256 E t \<or> decoded_number E t str = None"
  shows "wp (dh_oct_to_public_key_modp E t str) s (\<lambda>_ s'. s' = add_mset PKEY_object s)
    (\<lambda>s'. s' = (if number_refused E t str then {#DH_object, BN_object#} + s else s)) {}"
  using assms
  by (auto simp: dh_oct_to_public_key_modp_def dh_set_public_key_def decoded_number_def number_refused_def
      dh_wp add_mset_commute split: option.splits if_splits)

section \<open>Properties\<close>

text \<open>What is live after a call that succeeds (\<open>a\<close>) and after one that fails (\<open>b\<close>); no fault.\<close>

definition leaves :: "('a vres \<times> live) outcome \<Rightarrow> live \<Rightarrow> live \<Rightarrow> bool" where
  "leaves out a b \<longleftrightarrow>
     (case out of Ret (r, s') \<Rightarrow> s' = (if is_ok r then a else b) | Fault f \<Rightarrow> False)"

lemma leaves_wp: "wp m s (\<lambda>_ s'. s' = a) (\<lambda>s'. s' = b) {} \<Longrightarrow> leaves (m s) a b"
proof (cases "m s")
  case (Ret p)
  assume "wp m s (\<lambda>_ s'. s' = a) (\<lambda>s'. s' = b) {}"
  then show ?thesis using Ret by (cases p; cases "fst p") (auto simp: wp_def leaves_def is_ok_def)
qed (simp add: wp_def)

text \<open>
  The two places where a NULL pointer is followed: a key that holds no public number, and the
  result of \<open>DH_get_2048_256\<close>, which is used unchecked once the octets have been decoded.
\<close>

lemma dh_missing_number_dereferenced:
  assumes "EVP_PKEY_get1_DH E k = Some None"
  shows "dh_public_key_to_oct E t (Some k) AUTH_ALGO_KIND_RSA_2048 s = Fault Null_dereference"
  using assms by (simp add: dh_public_key_to_oct_def dh_public_key_to_oct_modp_def dh_get_public_key_def bind_op_def)

lemma dh_missing_group_dereferenced:
  assumes "decoded_number E t str = Some n" and "\<not> DH_get_2048_256 E t"
  shows "dh_oct_to_public_key E t AUTH_ALGO_KIND_RSA_2048 (Some str) s = Fault Null_dereference"
  using assms
  by (auto simp: dh_oct_to_public_key_def dh_oct_to_public_key_modp_def dh_set_public_key_def decoded_number_def
      bind_op_def new_object_def check_vres_def split: option.splits if_splits)

text \<open>
  C37: the objects that the three Diffie-Hellman helpers leave live, on every path and whatever
  OpenSSL answers.  \<open>generate_dh_keys\<close> leaves its key when it succeeds and nothing when it fails, and
  follows no bad pointer.  \<open>dh_public_key_to_oct\<close> does the same with its buffer, except that it follows
  a NULL pointer when a finite-field key holds no public number.  \<open>dh_oct_to_public_key\<close> does
  the same with its key, with two exceptions for finite-field keys: once the octets have been
  decoded it follows a NULL pointer when \<open>DH_get_2048_256\<close> has no memory, and it loses the \<open>DH\<close>
  object and the number when \<open>DH_set0_key\<close> refuses it.  Nothing is freed twice.
\<close>
theorem dh_objects_released:
  assumes "dh_kind algo"
  shows "leaves (generate_dh_keys E t algo s) (add_mset PKEY_object s) s \<and>
    (if algo = AUTH_ALGO_KIND_RSA_2048 \<and> EVP_PKEY_get1_DH E k = Some None
     then dh_public_key_to_oct E t (Some k) algo s = Fault Null_dereference
     else leaves (dh_public_key_to_oct E t (Some k) algo s) (add_mset Buffer_object s) s) \<and>
    (if algo = AUTH_ALGO_KIND_RSA_2048 \<and> decoded_number E t str \<noteq> None \<and> \<not> DH_get_2048_256 E t
     then dh_oct_to_public_key E t algo (Some str) s = Fault Null_dereference
     else leaves (dh_oct_to_public_key E t algo (Some str) s) (add_mset PKEY_object s)
       (if algo = AUTH_ALGO_KIND_RSA_2048 \<and> number_refused E t str then {#DH_object, BN_object#} + s else s))"
proof (intro conjI)
  show "leaves (generate_dh_keys E t algo s) (add_mset PKEY_object s) s"
    by (rule leaves_wp [OF wp_generate_dh_keys [OF assms]])
  show "if algo = AUTH_ALGO_KIND_RSA_2048 \<and> EVP_PKEY_get1_DH E k = Some None
     then dh_public_key_to_oct E t (Some k) algo s = Fault Null_dereference
     else leaves (dh_public_key_to_oct E t (Some k) algo s) (add_mset Buffer_object s) s"
    using assms dh_missing_number_dereferenced leaves_wp [OF wp_dh_public_key_to_oct [OF assms]]
    by (auto simp: dh_kind_def)
  show "if algo = AUTH_ALGO_KIND_RSA_2048 \<and> decoded_number E t str \<noteq> None \<and> \<not> DH_get_2048_256 E t
     then dh_oct_to_public_key E t algo (Some str) s = Fault Null_dereference
     else leaves (dh_oct_to_public_key E t algo (Some str) s) (add_mset PKEY_object s)
       (if algo = AUTH_ALGO_KIND_RSA_2048 \<and> number_refused E t str then {#DH_object, BN_object#} + s else s)"
    using assms leaves_wp [OF wp_oct_to_key_ecdh] leaves_wp [OF wp_oct_to_key_modp [of E t str s]]
    by (auto simp: dh_kind_def dh_oct_to_public_key_def dh_missing_group_dereferenced
        dh_missing_group_dereferenced [unfolded dh_oct_to_public_key_def, simplified])
qed

text \<open>
  What OpenSSL documents of its encoders and containers, for public keys.
\<close>

definition dh_codec_laws :: "('a) openssl_dh_scheme \<Rightarrow> bool" where
  "dh_codec_laws E \<longleftrightarrow>
     (\<forall>t a b. d2i_ASN1_INTEGER E t (i2d_ASN1_INTEGER E a) = Some b \<longrightarrow> b = a) \<and>
     (\<forall>t t' n a m. BN_to_ASN1_INTEGER E t n = Some a \<longrightarrow> ASN1_INTEGER_to_BN E t' a = Some m \<longrightarrow> m = n) \<and>
     (\<forall>t n rc k. EVP_PKEY_set1_DH E t (Some n) = (rc, k) \<longrightarrow> rc \<noteq> 0 \<longrightarrow>
        EVP_PKEY_get1_DH E k = Some (Some n)) \<and>
     (\<forall>p n octets q. EC_POINT_point2oct E p = (n, octets) \<longrightarrow> EC_POINT_oct2point E octets = (1, q) \<longrightarrow> q = p) \<and>
     (\<forall>t p k. EVP_PKEY_set1_EC_KEY E t p = (1, k) \<longrightarrow>
        (\<exists>ec. EVP_PKEY_get1_EC_KEY E k = Some ec \<and> EC_KEY_get0_public_key E ec = Some p))"

definition same_dh_public :: "('a) openssl_dh_scheme \<Rightarrow> AuthenticationAlgoKind_t \<Rightarrow> evp_pkey \<Rightarrow> evp_pkey \<Rightarrow> bool" where
  "same_dh_public E algo k k' \<longleftrightarrow>
     (if algo = AUTH_ALGO_KIND_RSA_2048
      then EVP_PKEY_get1_DH E k' = EVP_PKEY_get1_DH E k
      else \<exists>ec ec' p. EVP_PKEY_get1_EC_KEY E k = Some ec \<and> EVP_PKEY_get1_EC_KEY E k' = Some ec' \<and>
        EC_KEY_get0_public_key E ec = Some p \<and> EC_KEY_get0_public_key E ec' = Some p)"

lemma free_two_ok: "free_two x y s = Ret (Inr u, s') \<longleftrightarrow>
    x \<in># s \<and> y \<in># s - {#x#} \<and> s' = s - {#x#} - {#y#}"
  by (auto simp: free_two_def bind_op_def free_object_def)

lemma dh_octets_same_public:
  assumes laws: "dh_codec_laws E"
    and to: "dh_public_key_to_oct E t (Some k) algo s = Ret (Inr (octets, n), s1)"
    and dec: "dh_oct_to_public_key E t' algo (Some octets) s2 = Ret (Inr k', s3)"
  shows "same_dh_public E algo k k'"
proof -
  consider "algo = AUTH_ALGO_KIND_RSA_2048" | "algo = AUTH_ALGO_KIND_EC_PRIME256V1"
    using to by (auto simp: dh_public_key_to_oct_def split: AuthenticationAlgoKind_t.splits)
  then show ?thesis
  proof cases
    case 1
    obtain m a where "EVP_PKEY_get1_DH E k = Some (Some m)" "BN_to_ASN1_INTEGER E t m = Some a"
        "octets = i2d_ASN1_INTEGER E a"
      using to 1 by (auto simp: dh_public_key_to_oct_def dh_public_key_to_oct_modp_def dh_get_public_key_def
          Let_def op_ok split: option.splits)
    moreover obtain b m' rc where "d2i_ASN1_INTEGER E t' octets = Some b" "ASN1_INTEGER_to_BN E t' b = Some m'"
        "EVP_PKEY_set1_DH E t' (Some m') = (rc, k')" "rc \<noteq> 0"
      using dec 1 by (auto simp: dh_oct_to_public_key_def dh_oct_to_public_key_modp_def Let_def op_ok
          split: option.splits prod.splits)
    ultimately have "EVP_PKEY_get1_DH E k' = EVP_PKEY_get1_DH E k"
      using laws unfolding dh_codec_laws_def by metis
    then show ?thesis using 1 by (simp add: same_dh_public_def)
  next
    case 2
    obtain ec p where "EVP_PKEY_get1_EC_KEY E k = Some ec" "EC_KEY_get0_public_key E ec = Some p"
        "EC_POINT_point2oct E p = (n, octets)"
      using to 2 by (auto simp: dh_public_key_to_oct_def dh_public_key_to_oct_ecdh_def Let_def op_ok
          split: option.splits bool.splits prod.splits)
    moreover obtain q where "EC_POINT_oct2point E octets = (1, q)" "EVP_PKEY_set1_EC_KEY E t' q = (1, k')"
      using dec 2 by (auto simp: dh_oct_to_public_key_def dh_oct_to_public_key_ecdh_def ecdh_key_from_octets_def
          Let_def op_ok split: option.splits prod.splits)
    ultimately show ?thesis
      using laws 2 unfolding dh_codec_laws_def same_dh_public_def by (metis AuthenticationAlgoKind_t.distinct)
  qed
qed


text \<open>
  C36: a Diffie-Hellman public key survives the wire: the octets made of a key, converted back by
  the peer, give a key with the same public value, for both kinds.
\<close>
theorem dh_public_key_roundtrip:
  assumes laws: "dh_codec_laws E"
    and to: "dh_public_key_to_oct E t (Some k) algo s = Ret (Inr (octets, n), s1)"
    and dec: "dh_oct_to_public_key E t' algo (Some octets) s2 = Ret (Inr k', s3)"
  shows "same_dh_public E algo k k'"
  using assms by (rule dh_octets_same_public)

section \<open>Instances\<close>

text \<open>Keys are numbers; the key of number \<open>n\<close> has the public number, or the point, \<open>n\<close>.\<close>

fun key_num :: "evp_pkey \<Rightarrow> nat" where "key_num (EVP_PKEY n) = n"
fun bignum_num :: "bignum \<Rightarrow> nat" where "bignum_num (BIGNUM n) = n"
fun asn1_num :: "asn1_integer \<Rightarrow> nat" where "asn1_num (ASN1_INTEGER n) = n"
fun point_num :: "ec_point \<Rightarrow> nat" where "point_num (EC_POINT n) = n"
fun ec_key_num :: "ec_key \<Rightarrow> nat" where "ec_key_num (EC_KEY n) = n"

definition demo_dh :: openssl_dh where
  "demo_dh =
     \<lparr>EVP_PKEY_new = (\<lambda>_. True), DH_get_2048_256 = (\<lambda>t. t \<noteq> 9),
      EVP_PKEY_set1_DH = (\<lambda>_ d. (1, EVP_PKEY (case d of None \<Rightarrow> 0 | Some n \<Rightarrow> bignum_num n))),
      EVP_PKEY_CTX_new_id = (\<lambda>_. True), EVP_PKEY_paramgen_init = (\<lambda>_. 1), EVP_PKEY_CTX_set_curve = (\<lambda>_. 1),
      EVP_PKEY_paramgen = (\<lambda>_. (1, EVP_PKEY 0)), EVP_PKEY_CTX_new = (\<lambda>_ _. True),
      EVP_PKEY_keygen_init_dh = (\<lambda>_ _. 1), EVP_PKEY_keygen = (\<lambda>t _. (1, EVP_PKEY t)),
      EVP_PKEY_get1_DH = (\<lambda>k. Some (Some (BIGNUM (key_num k)))),
      BN_to_ASN1_INTEGER = (\<lambda>_ n. Some (ASN1_INTEGER (bignum_num n))), i2d_ASN1_INTEGER_length = int \<circ> asn1_num,
      i2d_ASN1_INTEGER = (\<lambda>a. replicate (asn1_num a) 1),
      d2i_ASN1_INTEGER = (\<lambda>_ b. Some (ASN1_INTEGER (length b))),
      ASN1_INTEGER_to_BN = (\<lambda>_ a. Some (BIGNUM (asn1_num a))), DH_set0_key = (\<lambda>_. 1),
      EVP_PKEY_get1_EC_KEY = (\<lambda>k. Some (EC_KEY (key_num k))),
      EC_KEY_get0_public_key = (\<lambda>e. Some (EC_POINT (ec_key_num e))), EC_KEY_get0_group = (\<lambda>_. True),
      EC_POINT_point2oct_size = point_num, EC_POINT_point2oct = (\<lambda>p. (point_num p, replicate (point_num p) 1)),
      EC_GROUP_new_by_curve_name = (\<lambda>_. True), EC_POINT_new = (\<lambda>_. True),
      EC_POINT_oct2point = (\<lambda>b. (1, EC_POINT (length b))), EC_KEY_new = (\<lambda>_. True), EC_KEY_set_group = (\<lambda>_. 1),
      EC_KEY_set_public_key = (\<lambda>_. 1), EVP_PKEY_set1_EC_KEY = (\<lambda>_ p. (1, EVP_PKEY (point_num p))),
      malloc_buffer = (\<lambda>_ _. True)\<rparr>"

lemma num_inject [simp]:
  "BIGNUM (bignum_num n) = n" "ASN1_INTEGER (asn1_num a) = a" "EC_POINT (point_num p) = p"
  by (cases n, simp, cases a, simp, cases p, simp)

lemmas dh_run = new_object_def free_object_def free_two_def on_fail_def bind_op_def check_vres_def
  Let_def

theorem dh_objects_released_witness:
  "leaves (generate_dh_keys demo_dh 5 AUTH_ALGO_KIND_EC_PRIME256V1 {#}) {#PKEY_object#} {#} \<and>
   leaves (generate_dh_keys demo_dh 9 AUTH_ALGO_KIND_RSA_2048 {#}) {#PKEY_object#} {#} \<and>
   leaves (dh_public_key_to_oct demo_dh 6 (Some (EVP_PKEY 5)) AUTH_ALGO_KIND_RSA_2048 {#}) {#Buffer_object#} {#} \<and>
   leaves (dh_oct_to_public_key demo_dh 7 AUTH_ALGO_KIND_RSA_2048 (Some [1, 1]) {#}) {#PKEY_object#} {#} \<and>
   dh_oct_to_public_key demo_dh 9 AUTH_ALGO_KIND_RSA_2048 (Some [1, 1]) {#} = Fault Null_dereference"
proof -
  have kinds: "dh_kind AUTH_ALGO_KIND_EC_PRIME256V1" "dh_kind AUTH_ALGO_KIND_RSA_2048"
    by (simp_all add: dh_kind_def)
  have run: "EVP_PKEY_get1_DH demo_dh (EVP_PKEY 5) \<noteq> Some None" "\<not> number_refused demo_dh 7 [1, 1]"
    "DH_get_2048_256 demo_dh 7" "\<not> DH_get_2048_256 demo_dh 9" "decoded_number demo_dh 9 [1, 1] \<noteq> None"
    by (simp_all add: demo_dh_def number_refused_def decoded_number_def)
  show ?thesis
    using run dh_objects_released [OF kinds(1), of demo_dh 5 "{#}" "EVP_PKEY 5" "[1, 1]"]
      dh_objects_released [OF kinds(2), of demo_dh 6 "{#}" "EVP_PKEY 5" "[1, 1]"]
      dh_objects_released [OF kinds(2), of demo_dh 7 "{#}" "EVP_PKEY 5" "[1, 1]"]
      dh_objects_released [OF kinds(2), of demo_dh 9 "{#}" "EVP_PKEY 5" "[1, 1]"]
    by (simp split: if_splits)
qed

theorem dh_public_key_roundtrip_witness:
  "\<exists>octets n s1 k' s3.
     dh_public_key_to_oct demo_dh 5 (Some (EVP_PKEY 3)) AUTH_ALGO_KIND_RSA_2048 {#} = Ret (Inr (octets, n), s1) \<and>
     dh_oct_to_public_key demo_dh 6 AUTH_ALGO_KIND_RSA_2048 (Some octets) {#} = Ret (Inr k', s3) \<and>
     same_dh_public demo_dh AUTH_ALGO_KIND_RSA_2048 (EVP_PKEY 3) k'"
proof -
  have laws: "dh_codec_laws demo_dh"
    by (auto simp: dh_codec_laws_def demo_dh_def)
  have "\<exists>s1. dh_public_key_to_oct demo_dh 5 (Some (EVP_PKEY 3)) AUTH_ALGO_KIND_RSA_2048 {#} =
      Ret (Inr ([1, 1, 1], 3), s1)"
    by (simp add: demo_dh_def dh_public_key_to_oct_def dh_public_key_to_oct_modp_def dh_get_public_key_def
        dh_run numeral_eq_Suc)
  moreover have "\<exists>k' s3. dh_oct_to_public_key demo_dh 6 AUTH_ALGO_KIND_RSA_2048 (Some [1, 1, 1]) {#} = Ret (Inr k', s3)"
    by (simp add: demo_dh_def dh_oct_to_public_key_def dh_oct_to_public_key_modp_def dh_set_public_key_def dh_run)
  ultimately show ?thesis using dh_public_key_roundtrip [OF laws] by blast
qed

end
