(* ===== verification/ClassicalExchange.thy ===== *)
theory ClassicalExchange
  imports ClassicalDh HandshakeToken
begin

text \<open>
  The key exchange and the signatures of the build without PQ_CRYPTO (\<open>authentication.c\<close>, the
  classical branches): each side of a handshake makes a Diffie-Hellman key, sends its public
  octets, takes the other's, and derives the secret.  The state is the pair of keys of a
  \<open>HandshakeInfo\<close> with the OpenSSL objects that are live.
\<close>

section \<open>State and the functions used\<close>

record openssl_derive = openssl_dh +
  EVP_PKEY_copy_parameters :: "evp_pkey \<Rightarrow> evp_pkey \<Rightarrow> evp_pkey"
  EVP_PKEY_CTX_new_derive :: "nat \<Rightarrow> evp_pkey option \<Rightarrow> bool"
  EVP_PKEY_derive_init :: "nat \<Rightarrow> evp_pkey option \<Rightarrow> int"
  EVP_PKEY_derive_set_peer :: "nat \<Rightarrow> evp_pkey option \<Rightarrow> evp_pkey option \<Rightarrow> int"
  EVP_PKEY_derive_size :: "nat \<Rightarrow> evp_pkey option \<Rightarrow> evp_pkey option \<Rightarrow> int \<times> nat"
  EVP_PKEY_derive :: "nat \<Rightarrow> evp_pkey option \<Rightarrow> evp_pkey option \<Rightarrow> int \<times> bytes"
  BinaryProperty_equal :: "bin_property \<Rightarrow> bin_property \<Rightarrow> bool"
  BinaryProperty_alloc :: "nat \<Rightarrow> bool"
  digest_sha256 :: "bytes \<Rightarrow> bytes"

record dh_handshake =
  dx_ldh :: "evp_pkey option"
  dx_rdh :: "evp_pkey option"
  dx_live :: live

definition on_live :: "(live, 'a) op \<Rightarrow> (dh_handshake, 'a) op" where
  "on_live m h =
     (case m (dx_live h) of
        Fault f \<Rightarrow> Fault f
      | Ret (r, l) \<Rightarrow> Ret (r, h\<lparr>dx_live := l\<rparr>))"

definition DDS_AUTHTOKEN_PROP_DH1 :: string where "DDS_AUTHTOKEN_PROP_DH1 = ''dh1''"
definition DDS_AUTHTOKEN_PROP_DH2 :: string where "DDS_AUTHTOKEN_PROP_DH2 = ''dh2''"

section \<open>Exchanging the keys\<close>

text \<open>The part of \<open>begin_handshake_request\<close>: the local key, made once, and its octets.\<close>

definition request_dh_key ::
  "('a) openssl_derive_scheme \<Rightarrow> nat \<Rightarrow> AuthenticationAlgoKind_t \<Rightarrow> (dh_handshake, bytes \<times> nat) op" where
  "request_dh_key E t kagree =
     bind_op get_op (\<lambda>h.
     bind_op
       (case dx_ldh h of
          Some ldh \<Rightarrow> ret_op ldh
        | None \<Rightarrow>
            bind_op (on_live (generate_dh_keys E t kagree)) (\<lambda>dhkey.
            bind_op (modify_op (\<lambda>h. h\<lparr>dx_ldh := Some dhkey\<rparr>)) (\<lambda>_. ret_op dhkey))) (\<lambda>ldh.
     on_live (dh_public_key_to_oct E t (Some ldh) kagree)))"

definition copy_parameters :: "('a) openssl_derive_scheme \<Rightarrow> (dh_handshake, unit) op" where
  "copy_parameters E =
     bind_op get_op (\<lambda>h.
     case (dx_rdh h, dx_ldh h) of
       (Some rdh, Some ldh) \<Rightarrow> modify_op (\<lambda>h. h\<lparr>dx_rdh := Some (EVP_PKEY_copy_parameters E rdh ldh)\<rparr>)
     | _ \<Rightarrow> fault_op Null_dereference)"

text \<open>The part of \<open>begin_handshake_reply\<close>.\<close>

definition reply_dh_key ::
  "('a) openssl_derive_scheme \<Rightarrow> nat \<Rightarrow> AuthenticationAlgoKind_t \<Rightarrow> (dh_handshake, bytes \<times> nat) op" where
  "reply_dh_key E t kagree =
     bind_op get_op (\<lambda>h.
     bind_op
       (case dx_ldh h of
          Some ldh \<Rightarrow> ret_op ldh
        | None \<Rightarrow>
            bind_op (on_live (generate_dh_keys E t kagree)) (\<lambda>dhkeyLocal.
            bind_op (modify_op (\<lambda>h. h\<lparr>dx_ldh := Some dhkeyLocal\<rparr>)) (\<lambda>_.
            bind_op (copy_parameters E) (\<lambda>_. ret_op dhkeyLocal)))) (\<lambda>ldh.
     on_live (dh_public_key_to_oct E t (Some ldh) kagree)))"

text \<open>
  The peer's key in a token: DH1 of a request, DH2 of a reply.  A key held from an earlier message
  is released.
\<close>

definition receive_dh_key ::
  "('a) openssl_derive_scheme \<Rightarrow> ('b) dds_data_scheme \<Rightarrow> nat \<Rightarrow> data_holder \<Rightarrow> string \<Rightarrow>
   AuthenticationAlgoKind_t \<Rightarrow> (dh_handshake, bin_property) op" where
  "receive_dh_key E D t token name kagree =
     bind_op (lift_op (find_required_nonempty_binprop D token name)) (\<lambda>dh.
     bind_op (on_live (dh_oct_to_public_key E t kagree (Some (oct_data (bp_value dh)))))
       (\<lambda>pdhkey.
     bind_op get_op (\<lambda>h.
     bind_op (if dx_rdh h = None then ret_op () else on_live (free_object PKEY_object)) (\<lambda>_.
     bind_op (modify_op (\<lambda>h. h\<lparr>dx_rdh := Some pdhkey\<rparr>)) (\<lambda>_. ret_op dh)))))"

text \<open>A key repeated in a reply or final message must be the one it refers to, which is then used.\<close>

definition check_dh_reference ::
  "('a) openssl_derive_scheme \<Rightarrow> ('b) dds_data_scheme \<Rightarrow> data_holder \<Rightarrow> string \<Rightarrow> bin_property option \<Rightarrow>
   bin_property option vres" where
  "check_dh_reference E D token name dh_ref =
     (case (find_binary_property D token name, dh_ref) of
        (Some dh, Some r) \<Rightarrow>
          if \<not> BinaryProperty_equal E r dh
          then failed (if name = DDS_AUTHTOKEN_PROP_DH1
            then ''process_handshake: %s token property %s not correct''
            else ''process_handshake: Final token property %s not correct'')
          else Inr dh_ref
      | _ \<Rightarrow> Inr dh_ref)"

definition create_dhkey_property ::
  "('a) openssl_derive_scheme \<Rightarrow> ('b) dds_data_scheme \<Rightarrow> nat \<Rightarrow> string \<Rightarrow> evp_pkey option \<Rightarrow>
   AuthenticationAlgoKind_t \<Rightarrow> (live, bin_property) op" where
  "create_dhkey_property E D t name pkey kagree =
     bind_op (dh_public_key_to_oct E t pkey kagree) (\<lambda>(data, len).
     if \<not> BinaryProperty_alloc E t then on_fail (lift_op failed_silent) (free_object Buffer_object)
     else ret_op (BinaryProperty_set_by_value D name (take len data)))"

section \<open>The secret\<close>

definition generate_shared_secret_classical ::
  "('a) openssl_derive_scheme \<Rightarrow> nat \<Rightarrow> evp_pkey option \<Rightarrow> evp_pkey option \<Rightarrow> (live, bytes) op" where
  "generate_shared_secret_classical E t ldh rdh =
     bind_op (new_object CTX_object (EVP_PKEY_CTX_new_derive E t ldh)
       ''process_handshake: Shared secret failed to create context: '') (\<lambda>_.
     bind_op (on_fail
       (bind_op (check_op (\<not> EVP_PKEY_derive_init E t ldh \<le> 0)
          ''process_handshake: Shared secret failed to initialize context: '') (\<lambda>_.
        bind_op (check_op (\<not> EVP_PKEY_derive_set_peer E t ldh rdh \<le> 0)
          ''process_handshake: Shared secret failed to set peer key: '') (\<lambda>_.
        let (rc, skeylen) = EVP_PKEY_derive_size E t ldh rdh in
        bind_op (check_op (\<not> rc \<le> 0)
          ''process_handshake: Shared secret failed to determine key length: '') (\<lambda>_.
        bind_op (if malloc_buffer E t skeylen then modify_op (add_mset Buffer_object)
                 else lift_op failed_silent) (\<lambda>_.
        let (rc, secret) = EVP_PKEY_derive E t ldh rdh in
        bind_op (on_fail (check_op (\<not> rc \<le> 0)
          ''process_handshake: Could not compute the shared secret: '') (free_object Buffer_object))
          (\<lambda>_. ret_op secret))))))
       (free_object CTX_object)) (\<lambda>secret.
     bind_op (if malloc_buffer E (Suc t) SHA256_DIGEST_LENGTH then modify_op (add_mset Buffer_object)
              else on_fail (lift_op failed_silent) (free_two Buffer_object CTX_object)) (\<lambda>_.
     bind_op (free_two Buffer_object CTX_object) (\<lambda>_. ret_op (digest_sha256 E secret)))))"

section \<open>Signatures\<close>

text \<open>
  A signature of octets: made in a new buffer when \<open>create\<close>, else checked.  The digest context is
  destroyed on every path (it owns the \<open>EVP_PKEY_CTX\<close>), the buffer when the last step fails.
\<close>

definition create_validate_asymmetrical_signature ::
  "('a) openssl_sig_scheme \<Rightarrow> nat \<Rightarrow> bool \<Rightarrow> evp_pkey \<Rightarrow> bytes \<Rightarrow> bytes \<Rightarrow> (live, bytes) op" where
  "create_validate_asymmetrical_signature E t create pkey data signature =
     bind_op (new_object MD_CTX_object (EVP_MD_CTX_new E t) ''Failed to create digest context: '') (\<lambda>_.
     bind_op (on_fail
       (bind_op (check_op (EVP_DigestSignVerifyInit E t create pkey = 1)
          ''Failed to initialize digest context: '') (\<lambda>_.
        bind_op (check_op (\<not> (EVP_PKEY_id E pkey = EVP_PKEY_RSA \<and> EVP_PKEY_CTX_set_rsa_pss E t pkey < 1))
          ''Failed to initialize digest context: '') (\<lambda>_.
        bind_op (check_op (EVP_DigestSignVerifyUpdate E t create pkey data = 1)
          ''Failed to update digest context: '') (\<lambda>_.
        if create then
          (let (rc, n) = EVP_DigestSignFinal_size E t pkey data in
           bind_op (check_op (rc = 1) ''Failed to finalize digest context: '') (\<lambda>_.
           bind_op (new_object Buffer_object (malloc_ok E t n) ''Failed to allocate signature buffer'') (\<lambda>_.
           let (rc', sig) = EVP_DigestSignFinal E t pkey data in
           bind_op (on_fail (check_op (rc' = 1) ''Failed to finalize digest context: '')
             (free_object Buffer_object)) (\<lambda>_. ret_op sig))))
        else
          bind_op (check_op (EVP_DigestVerifyFinal E t pkey signature data = 1)
            ''Failed to finalize digest context: '') (\<lambda>_. ret_op signature)))))
       (free_object MD_CTX_object)) (\<lambda>sig.
     bind_op (free_object MD_CTX_object) (\<lambda>_. ret_op sig)))"

text \<open>A serializer that was not created is used all the same.\<close>

definition create_validate_signature_impl ::
  "('a) openssl_sig_scheme \<Rightarrow> nat \<Rightarrow> bool \<Rightarrow> evp_pkey \<Rightarrow> bin_property list \<Rightarrow> bytes \<Rightarrow> (live, bytes) op" where
  "create_validate_signature_impl E t create pkey bprops signature =
     (if \<not> Serializer_new E t then fault_op Null_dereference
      else create_validate_asymmetrical_signature E t create pkey
             (Serialize_BinaryPropertyArray E bprops) signature)"

definition create_signature ::
  "('a) openssl_sig_scheme \<Rightarrow> nat \<Rightarrow> evp_pkey \<Rightarrow> bin_property list \<Rightarrow> (live, bytes) op" where
  "create_signature E t pkey bprops = create_validate_signature_impl E t True pkey bprops []"

definition validate_signature_classical ::
  "('a) openssl_sig_scheme \<Rightarrow> nat \<Rightarrow> evp_pkey \<Rightarrow> bin_property list \<Rightarrow> bytes \<Rightarrow> (live, unit) op" where
  "validate_signature_classical E t pkey bprops signature =
     bind_op (create_validate_signature_impl E t False pkey bprops signature) (\<lambda>_. ret_op ())"

definition classical_reply_transcript ::
  "bin_property \<Rightarrow> bin_property \<Rightarrow> bin_property \<Rightarrow> bin_property \<Rightarrow> bin_property \<Rightarrow> bin_property \<Rightarrow> bin_property list"
where
  "classical_reply_transcript hash_c2 challenge2 dh2 challenge1 dh1 hash_c1 =
     [hash_c2, challenge2, dh2, challenge1, dh1, hash_c1]"

definition classical_final_transcript ::
  "bin_property \<Rightarrow> bin_property \<Rightarrow> bin_property \<Rightarrow> bin_property \<Rightarrow> bin_property \<Rightarrow> bin_property \<Rightarrow> bin_property list"
where
  "classical_final_transcript hash_c1 challenge1 dh1 challenge2 dh2 hash_c2 =
     [hash_c1, challenge1, dh1, challenge2, dh2, hash_c2]"

text \<open>The signature of a message, from the local hashes and the properties of the message.\<close>

record dh_message =
  dm_challenge1 :: bin_property
  dm_challenge2 :: bin_property
  dm_dh1 :: bin_property
  dm_dh2 :: bin_property

definition classical_transcript ::
  "handshake_token_type \<Rightarrow> bin_property \<Rightarrow> bin_property \<Rightarrow> dh_message \<Rightarrow> bin_property list" where
  "classical_transcript ty hash_c1 hash_c2 m =
     (if ty = HS_TOKEN_REPLY
      then classical_reply_transcript hash_c2 (dm_challenge2 m) (dm_dh2 m) (dm_challenge1 m) (dm_dh1 m) hash_c1
      else classical_final_transcript hash_c1 (dm_challenge1 m) (dm_dh1 m) (dm_challenge2 m) (dm_dh2 m) hash_c2)"

definition sign_classical ::
  "('a) openssl_sig_scheme \<Rightarrow> nat \<Rightarrow> evp_pkey \<Rightarrow> handshake_token_type \<Rightarrow> bytes \<Rightarrow> bytes \<Rightarrow> dh_message \<Rightarrow>
   (live, bin_property) op" where
  "sign_classical E t privateKey ty hash_c1 hash_c2 m =
     bind_op (create_signature E t privateKey (classical_transcript ty
         (hash_value_to_binary_property E DDS_AUTHTOKEN_PROP_HASH_C1 hash_c1)
         (hash_value_to_binary_property E DDS_AUTHTOKEN_PROP_HASH_C2 hash_c2) m))
       (\<lambda>sign. ret_op (BinaryProperty_set_by_value E DDS_AUTHTOKEN_PROP_SIGNATURE sign))"

text \<open>Something made before \<open>m\<close> that is released after it, whether it failed or not.\<close>

definition releasing :: "('s, unit) op \<Rightarrow> ('s, 'a) op \<Rightarrow> ('s, 'a) op" where
  "releasing clean m = bind_op (on_fail m clean) (\<lambda>x. bind_op clean (\<lambda>_. ret_op x))"

text \<open>
  The end of \<open>validate_handshake_token_impl\<close>.  \<open>X509_get_pubkey\<close> gives a reference to the key, which
  is released after the check.
\<close>

definition validate_classical_signature ::
  "('a) openssl_sig_scheme \<Rightarrow> nat \<Rightarrow> x509 \<Rightarrow> handshake_token_type \<Rightarrow> bytes \<Rightarrow> bytes \<Rightarrow> dh_message \<Rightarrow>
   bin_property \<Rightarrow> (live, unit) op" where
  "validate_classical_signature E t identityCert ty hash_c1 hash_c2 m signature =
     (case X509_get_pubkey E identityCert of
        None \<Rightarrow> lift_op (failed ''X509_get_pubkey failed'')
      | Some public_key \<Rightarrow>
          bind_op (modify_op (add_mset PKEY_object)) (\<lambda>_.
          releasing (free_object PKEY_object)
            (validate_signature_classical E t public_key (classical_transcript ty
                (hash_val DDS_AUTHTOKEN_PROP_HASH_C1 hash_c1) (hash_val DDS_AUTHTOKEN_PROP_HASH_C2 hash_c2) m)
              (oct_data (bp_value signature)))))"

section \<open>Both sides derive the same secret\<close>

text \<open>What OpenSSL documents of Diffie-Hellman.\<close>

definition dh_agreement_law :: "('a) openssl_derive_scheme \<Rightarrow> bool" where
  "dh_agreement_law E \<longleftrightarrow>
     (\<forall>algo a a' b b' t t' rc rc' x y. same_dh_public E algo a a' \<longrightarrow> same_dh_public E algo b b' \<longrightarrow>
        EVP_PKEY_derive E t (Some a) (Some b') = (rc, x) \<longrightarrow> 0 < rc \<longrightarrow>
        EVP_PKEY_derive E t' (Some b) (Some a') = (rc', y) \<longrightarrow> 0 < rc' \<longrightarrow> x = y) \<and>
     (\<forall>algo k r l. same_dh_public E algo k r \<longrightarrow> same_dh_public E algo k (EVP_PKEY_copy_parameters E r l))"

lemma on_live_ok [op_ok]:
  "on_live m h = Ret (Inr x, h') \<longleftrightarrow> (\<exists>l. m (dx_live h) = Ret (Inr x, l) \<and> h' = h\<lparr>dx_live := l\<rparr>)"
  by (auto simp: on_live_def split: outcome.splits)

lemma request_dh_key_ok:
  assumes "request_dh_key E t kagree h = Ret (Inr (d, n), h')"
  shows "\<exists>k s s'. dx_ldh h' = Some k \<and> dh_public_key_to_oct E t (Some k) kagree s = Ret (Inr (d, n), s')"
  using assms unfolding request_dh_key_def by (auto simp: op_ok split: option.splits) fastforce+

lemma copy_parameters_ok:
  "copy_parameters E h = Ret (Inr u, h') \<longleftrightarrow>
     (\<exists>r l. dx_rdh h = Some r \<and> dx_ldh h = Some l \<and>
        h' = h\<lparr>dx_rdh := Some (EVP_PKEY_copy_parameters E r l)\<rparr>)"
  by (auto simp: copy_parameters_def bind_op_def split: option.splits)

lemma reply_dh_key_ok:
  assumes "reply_dh_key E t kagree h = Ret (Inr (d, n), h')" and "dx_rdh h = Some r"
  shows "\<exists>k s s'. dx_ldh h' = Some k \<and> dh_public_key_to_oct E t (Some k) kagree s = Ret (Inr (d, n), s') \<and>
    (dx_rdh h' = Some r \<or> (\<exists>l. dx_rdh h' = Some (EVP_PKEY_copy_parameters E r l)))"
  using assms unfolding reply_dh_key_def
  by (auto simp: op_ok copy_parameters_ok split: option.splits) fastforce+

lemma receive_dh_key_ok:
  assumes "receive_dh_key E D t token name kagree h = Ret (Inr p, h')"
  shows "find_binary_property D token name = Some p \<and> dx_ldh h' = dx_ldh h \<and>
    (\<exists>k s s'. dx_rdh h' = Some k \<and>
       dh_oct_to_public_key E t kagree (Some (oct_data (bp_value p))) s = Ret (Inr k, s'))"
  using assms unfolding receive_dh_key_def
  by (auto simp: op_ok find_nonempty_ok split: if_splits) fastforce+

lemma generate_shared_secret_classical_ok:
  assumes "generate_shared_secret_classical E t ldh rdh s = Ret (Inr x, s')"
  shows "\<exists>rc secret. EVP_PKEY_derive E t ldh rdh = (rc, secret) \<and> 0 < rc \<and> x = digest_sha256 E secret"
  using assms unfolding generate_shared_secret_classical_def
  by (auto simp: op_ok Let_def split: prod.splits if_splits)


section \<open>Signatures are accepted\<close>

definition classical_signature_correct ::
  "('a) openssl_sig_scheme \<Rightarrow> (evp_pkey \<Rightarrow> evp_pkey \<Rightarrow> bool) \<Rightarrow> bool" where
  "classical_signature_correct E matches \<longleftrightarrow>
     (\<forall>t t' priv pub msg sig. matches priv pub \<longrightarrow> EVP_DigestSignFinal E t priv msg = (1, sig) \<longrightarrow>
        EVP_DigestVerifyFinal E t' pub sig msg = 1)"

text \<open>What the two functions leave live: a signature that was made, or nothing.\<close>

lemma wp_asymmetrical_signature:
  "wp (create_validate_asymmetrical_signature E t create pkey data signature) l
     (\<lambda>_ l'. l' = (if create then add_mset Buffer_object l else l)) (\<lambda>l'. l' = l) {}"
  by (auto simp: create_validate_asymmetrical_signature_def dh_wp add_mset_commute)

lemma wp_signature_impl:
  "wp (create_validate_signature_impl E t create k ps sig) l
     (\<lambda>_ l'. l' = (if create then add_mset Buffer_object l else l)) (\<lambda>l'. l' = l) {Null_dereference}"
proof (cases "Serializer_new E t")
  case True
  show ?thesis
    unfolding create_validate_signature_impl_def
    by (simp only: True if_False simp_thms) (rule wp_mono [OF wp_asymmetrical_signature], simp_all)
qed (simp add: create_validate_signature_impl_def)

lemma wp_sign_classical:
  "wp (sign_classical E t k ty h1 h2 m) l (\<lambda>_ l'. l' = add_mset Buffer_object l) (\<lambda>l'. l' = l) {Null_dereference}"
  unfolding sign_classical_def create_signature_def wp_bind_iff wp_ret
  by (rule wp_mono [OF wp_signature_impl]) simp_all

lemma wp_validate_signature_classical:
  "wp (validate_signature_classical E t k ps sig) l (\<lambda>_ l'. l' = l) (\<lambda>l'. l' = l) {Null_dereference}"
  unfolding validate_signature_classical_def wp_bind_iff wp_ret
  by (rule wp_mono [OF wp_signature_impl]) simp_all

lemma wp_validate_classical_signature:
  "wp (validate_classical_signature E t cert ty h1 h2 m sig) l (\<lambda>_ l'. l' = l) (\<lambda>l'. l' = l) {Null_dereference}"
proof (cases "X509_get_pubkey E cert")
  case (Some k)
  show ?thesis
    unfolding validate_classical_signature_def releasing_def Some option.case wp_bind_iff wp_on_fail_iff wp_modify
    by (rule wp_mono [OF wp_validate_signature_classical]) simp_all
qed (simp add: validate_classical_signature_def)

definition classical_sign ::
  "('a) openssl_sig_scheme \<Rightarrow> nat \<Rightarrow> evp_pkey \<Rightarrow> bin_property list \<Rightarrow> bytes option" where
  "classical_sign E t priv ps = (case create_signature E t priv ps {#} of Ret (Inr sig, l) \<Rightarrow> Some sig | _ \<Rightarrow> None)"

definition classical_accepts ::
  "('a) openssl_sig_scheme \<Rightarrow> nat \<Rightarrow> evp_pkey \<Rightarrow> bin_property list \<Rightarrow> bytes \<Rightarrow> bool" where
  "classical_accepts E t pub ps sig \<longleftrightarrow> (\<forall>l. validate_signature_classical E t pub ps sig l = Ret (Inr (), l))"

text \<open>A matching key pair, and a verifier whose OpenSSL can set the check up.\<close>

definition verifier_ready :: "('a) openssl_sig_scheme \<Rightarrow> nat \<Rightarrow> evp_pkey \<Rightarrow> bool" where
  "verifier_ready E t pub \<longleftrightarrow>
     Serializer_new E t \<and> EVP_MD_CTX_new E t \<and> EVP_DigestSignVerifyInit E t False pub = 1 \<and>
     \<not> (EVP_PKEY_id E pub = EVP_PKEY_RSA \<and> EVP_PKEY_CTX_set_rsa_pss E t pub < 1) \<and>
     (\<forall>msg. EVP_DigestSignVerifyUpdate E t False pub msg = 1)"

definition classical_matches ::
  "('a) openssl_sig_scheme \<Rightarrow> nat \<Rightarrow> (evp_pkey \<Rightarrow> evp_pkey \<Rightarrow> bool) \<Rightarrow> evp_pkey \<Rightarrow> evp_pkey \<Rightarrow> bool" where
  "classical_matches E t matches priv pub \<longleftrightarrow>
     classical_signature_correct E matches \<and> matches priv pub \<and> verifier_ready E t pub"

lemma create_signature_ok:
  "create_signature E t priv ps l = Ret (Inr sig, l') \<longleftrightarrow>
    l' = add_mset Buffer_object l \<and> classical_sign E t priv ps = Some sig"
  "classical_sign E t priv ps = Some sig \<Longrightarrow>
    EVP_DigestSignFinal E t priv (Serialize_BinaryPropertyArray E ps) = (1, sig)"
proof -
  have run: "create_signature E t priv ps l = Ret (Inr sig, l') \<longleftrightarrow>
      l' = add_mset Buffer_object l \<and> Serializer_new E t \<and> EVP_MD_CTX_new E t \<and>
      EVP_DigestSignVerifyInit E t True priv = 1 \<and>
      \<not> (EVP_PKEY_id E priv = EVP_PKEY_RSA \<and> EVP_PKEY_CTX_set_rsa_pss E t priv < 1) \<and>
      EVP_DigestSignVerifyUpdate E t True priv (Serialize_BinaryPropertyArray E ps) = 1 \<and>
      (\<exists>n. EVP_DigestSignFinal_size E t priv (Serialize_BinaryPropertyArray E ps) = (1, n) \<and> malloc_ok E t n) \<and>
      EVP_DigestSignFinal E t priv (Serialize_BinaryPropertyArray E ps) = (1, sig)" for l l'
    unfolding create_signature_def create_validate_signature_impl_def create_validate_asymmetrical_signature_def
    by (auto simp: op_ok live_ok Let_def add_mset_commute simp del: op_eval(7) split: prod.splits)
  have sign: "classical_sign E t priv ps = Some sig \<longleftrightarrow> (\<exists>l. create_signature E t priv ps {#} = Ret (Inr sig, l))"
    by (auto simp: classical_sign_def split: outcome.splits sum.splits)
  show "create_signature E t priv ps l = Ret (Inr sig, l') \<longleftrightarrow>
      l' = add_mset Buffer_object l \<and> classical_sign E t priv ps = Some sig"
    unfolding sign run by blast
  show "classical_sign E t priv ps = Some sig \<Longrightarrow>
      EVP_DigestSignFinal E t priv (Serialize_BinaryPropertyArray E ps) = (1, sig)"
    unfolding sign run by blast
qed

lemma validate_signature_run:
  "validate_signature_classical E t pub ps sig l = Ret (Inr u, l') \<longleftrightarrow>
    l' = l \<and> Serializer_new E t \<and> EVP_MD_CTX_new E t \<and> EVP_DigestSignVerifyInit E t False pub = 1 \<and>
    \<not> (EVP_PKEY_id E pub = EVP_PKEY_RSA \<and> EVP_PKEY_CTX_set_rsa_pss E t pub < 1) \<and>
    EVP_DigestSignVerifyUpdate E t False pub (Serialize_BinaryPropertyArray E ps) = 1 \<and>
    EVP_DigestVerifyFinal E t pub sig (Serialize_BinaryPropertyArray E ps) = 1"
  unfolding validate_signature_classical_def create_validate_signature_impl_def
    create_validate_asymmetrical_signature_def
  by (auto simp: op_ok live_ok simp del: op_eval(7))

lemma validate_signature_accepts:
  "validate_signature_classical E t pub ps sig l = Ret (Inr u, l') \<longleftrightarrow> l' = l \<and> classical_accepts E t pub ps sig"
  unfolding classical_accepts_def validate_signature_run by blast

lemma validate_signature_classical_ok:
  assumes "verifier_ready E t pub"
  shows "classical_accepts E t pub ps sig \<longleftrightarrow>
    EVP_DigestVerifyFinal E t pub sig (Serialize_BinaryPropertyArray E ps) = 1"
  using assms by (simp add: classical_accepts_def validate_signature_run verifier_ready_def)

lemma validate_classical_signature_ok:
  "validate_classical_signature E t cert ty h1 h2 m sig l = Ret (Inr u, l') \<longleftrightarrow>
    l' = l \<and> (\<exists>pub. X509_get_pubkey E cert = Some pub \<and>
      classical_accepts E t pub (classical_transcript ty (hash_val DDS_AUTHTOKEN_PROP_HASH_C1 h1)
        (hash_val DDS_AUTHTOKEN_PROP_HASH_C2 h2) m) (oct_data (bp_value sig)))"
  unfolding validate_classical_signature_def releasing_def
  by (auto simp: op_ok live_ok validate_signature_accepts split: option.splits)

interpretation classical_signing:
  transcript_signing "classical_sign E t" "\<lambda>pub ps sig. verifier_ready E t' pub \<and> classical_accepts E t' pub ps sig"
    "classical_matches E t' m" "pq_same E"
  for E t t' m
proof
  fix priv pub ps sig
  assume match: "classical_matches E t' m priv pub" and "classical_sign E t priv ps = Some sig"
  then show "verifier_ready E t' pub \<and> classical_accepts E t' pub ps sig"
    using match create_signature_ok(2) unfolding classical_matches_def classical_signature_correct_def
    by (metis validate_signature_classical_ok)
next
  fix ps qs pub sig
  assume same: "pq_same E ps qs" and acc: "verifier_ready E t' pub \<and> classical_accepts E t' pub ps sig"
  have "Serialize_BinaryPropertyArray E ps = Serialize_BinaryPropertyArray E qs"
    using same Serialize_array_cong unfolding pq_same_def same_transcript_def by blast
  then show "verifier_ready E t' pub \<and> classical_accepts E t' pub qs sig"
    using acc by (auto simp: validate_signature_classical_ok)
qed

text \<open>Two messages with the same contents.\<close>

definition same_message :: "dh_message \<Rightarrow> dh_message \<Rightarrow> bool" where
  "same_message m m' \<longleftrightarrow>
     same_transcript [dm_challenge1 m, dm_challenge2 m, dm_dh1 m, dm_dh2 m]
       [dm_challenge1 m', dm_challenge2 m', dm_dh1 m', dm_dh2 m']"

text \<open>
  A signature that one side of a classical handshake puts into a reply or a final message is
  accepted by the other, which rebuilds the signed list from its own hashes and keys, whenever
  its certificate holds the matching public key and both sides have the same values.
\<close>
lemma classical_signature_accepted:
  assumes "dds_data_laws E" and "classical_signature_correct E matches"
    and "sign_classical E t privateKey ty hash_c1 hash_c2 m l = Ret (Inr signature, l')"
    and "X509_get_pubkey E cert = Some pub" and "matches privateKey pub" and "verifier_ready E t' pub"
    and "same_message m m'"
  shows "validate_classical_signature E t' cert ty hash_c1 hash_c2 m' signature s = Ret (Inr (), s)"
proof -
  let ?own = "classical_transcript ty (hash_value_to_binary_property E DDS_AUTHTOKEN_PROP_HASH_C1 hash_c1)
    (hash_value_to_binary_property E DDS_AUTHTOKEN_PROP_HASH_C2 hash_c2) m"
  let ?peer = "classical_transcript ty (hash_val DDS_AUTHTOKEN_PROP_HASH_C1 hash_c1)
    (hash_val DDS_AUTHTOKEN_PROP_HASH_C2 hash_c2) m'"
  obtain sig where sig: "classical_sign E t privateKey ?own = Some sig"
    "signature = BinaryProperty_set_by_value E DDS_AUTHTOKEN_PROP_SIGNATURE sig"
    using assms(3) unfolding sign_classical_def by (auto simp: op_ok create_signature_ok(1))
  have "same_transcript ?own ?peer"
    using assms(7) dds_data_lawsD(2,4) [OF assms(1)]
    by (simp add: same_message_def same_transcript_def classical_transcript_def classical_reply_transcript_def
        classical_final_transcript_def hash_value_to_binary_property_def hash_val_def)
  then have "pq_same E ?own ?peer" using assms(1) by (simp add: pq_same_def)
  then have "verifier_ready E t' pub \<and> classical_accepts E t' pub ?peer sig"
    using assms sig(1) classical_signing.accepts_peer_signature [of E t' matches privateKey pub t ?own sig ?peer]
    by (simp add: classical_matches_def)
  then show ?thesis
    using assms(4) sig(2) dds_data_lawsD(4) [OF assms(1)]
    by (simp add: validate_classical_signature_ok)
qed

end
