(* ===== verification/ClassicalHandshake.thy ===== *)
theory ClassicalHandshake
  imports ClassicalExchange HandshakeOps
begin

text \<open>
  The handshake of the build without PQ_CRYPTO: validation of its messages and the four handlers,
  between the lookup of the handshake object and its registration, which both builds share
  (\<open>HandshakeOps\<close>).  The state joins the objects a handshake points to with the classical fields
  of the handshake.
\<close>

record classical_ctx =
  cc_hs :: hs_ctx
  cc_dh :: dh_handshake

definition on_hs :: "(hs_ctx, 'a) op \<Rightarrow> (classical_ctx, 'a) op" where
  "on_hs m s =
     (case m (cc_hs s) of
        Fault f \<Rightarrow> Fault f
      | Ret (r, c) \<Rightarrow> Ret (r, s\<lparr>cc_hs := c\<rparr>))"

definition on_dh :: "(dh_handshake, 'a) op \<Rightarrow> (classical_ctx, 'a) op" where
  "on_dh m s =
     (case m (cc_dh s) of
        Fault f \<Rightarrow> Fault f
      | Ret (r, h) \<Rightarrow> Ret (r, s\<lparr>cc_dh := h\<rparr>))"

lemma on_hs_ok [op_ok]:
  "on_hs m s = Ret (Inr x, s') \<longleftrightarrow> (\<exists>c. m (cc_hs s) = Ret (Inr x, c) \<and> s' = s\<lparr>cc_hs := c\<rparr>)"
  by (auto simp: on_hs_def split: outcome.splits)

lemma on_dh_ok [op_ok]:
  "on_dh m s = Ret (Inr x, s') \<longleftrightarrow> (\<exists>h. m (cc_dh s) = Ret (Inr x, h) \<and> s' = s\<lparr>cc_dh := h\<rparr>)"
  by (auto simp: on_dh_def split: outcome.splits)

section \<open>Validation of a message\<close>

text \<open>The algorithm the function parsed: none for a FINAL message.\<close>

definition negotiated :: "peer_credentials option \<Rightarrow> AuthenticationAlgoKind_t" where
  "negotiated pc = (case pc of None \<Rightarrow> AUTH_ALGO_KIND_UNKNOWN | Some c \<Rightarrow> pc_kagree c)"

definition validate_dh1 ::
  "('a) openssl_derive_scheme \<Rightarrow> ('b) dds_data_scheme \<Rightarrow> nat \<Rightarrow> data_holder \<Rightarrow> handshake_token_type \<Rightarrow>
   peer_credentials option \<Rightarrow> bin_property option \<Rightarrow> (classical_ctx, bin_property option) op" where
  "validate_dh1 E H t token ty pc dh1_ref =
     (if ty = HS_TOKEN_REQ
      then bind_op (on_dh (receive_dh_key E H t token DDS_AUTHTOKEN_PROP_DH1 (negotiated pc)))
             (\<lambda>dh1. ret_op (Some dh1))
      else lift_op (check_dh_reference E H token DDS_AUTHTOKEN_PROP_DH1 dh1_ref))"

text \<open>The field \<open>rp_ciphertext\<close> of the properties of a reply holds DH2 in this build.\<close>

definition find_classical_properties ::
  "('a) openssl_derive_scheme \<Rightarrow> ('b) dds_data_scheme \<Rightarrow> nat \<Rightarrow> data_holder \<Rightarrow> handshake_token_type \<Rightarrow>
   peer_credentials option \<Rightarrow> bin_property option \<Rightarrow> (classical_ctx, bin_property \<times> reply_properties option) op"
where
  "find_classical_properties E H t token ty pc dh2_ref =
     bind_op (lift_op (find_required_binprop_exactsize H token DDS_AUTHTOKEN_PROP_CHALLENGE1
       AUTHENTICATION_CHALLENGE_SIZE)) (\<lambda>challenge1.
     if ty = HS_TOKEN_REQ then ret_op (challenge1, None)
     else
       bind_op (lift_op (find_required_binprop_exactsize H token DDS_AUTHTOKEN_PROP_CHALLENGE2
         AUTHENTICATION_CHALLENGE_SIZE)) (\<lambda>challenge2.
       bind_op (lift_op (find_required_nonempty_binprop H token DDS_AUTHTOKEN_PROP_SIGNATURE)) (\<lambda>signature.
       bind_op
         (if ty = HS_TOKEN_REPLY
          then bind_op (on_dh (receive_dh_key E H t token DDS_AUTHTOKEN_PROP_DH2 (negotiated pc)))
                 (\<lambda>dh2. ret_op (Some dh2))
          else lift_op (check_dh_reference E H token DDS_AUTHTOKEN_PROP_DH2 dh2_ref)) (\<lambda>dh2.
       case dh2 of
         None \<Rightarrow> fault_op Null_dereference
       | Some dh2 \<Rightarrow>
           ret_op (challenge1, Some \<lparr>rp_challenge2 = challenge2, rp_ciphertext = dh2, rp_signature = signature\<rparr>)))))"

text \<open>The signature is checked with the values just taken from the message.\<close>

definition check_classical_signature ::
  "('q, 'b) cyclone_scheme \<Rightarrow> nat \<Rightarrow> handshake_token_type \<Rightarrow> bin_property option \<Rightarrow> bin_property \<Rightarrow>
   reply_properties \<Rightarrow> (classical_ctx, unit) op" where
  "check_classical_signature H t ty dh1 challenge1 rp =
     bind_op get_op (\<lambda>s.
       case ri_identityCert (cx_remote (cc_hs s)) of
         None \<Rightarrow> lift_op (failed ''X509_get_pubkey failed'')
       | Some cert \<Rightarrow>
           (case dh1 of
              None \<Rightarrow> fault_op Null_dereference
            | Some dh1 \<Rightarrow>
                on_dh (on_live (validate_classical_signature H t cert ty
                  (hs_hash_c1 (cx_handshake (cc_hs s))) (hs_hash_c2 (cx_handshake (cc_hs s)))
                  \<lparr>dm_challenge1 = challenge1, dm_challenge2 = rp_challenge2 rp, dm_dh1 = dh1,
                   dm_dh2 = rp_ciphertext rp\<rparr> (rp_signature rp)))))"

definition validate_handshake_token_impl_classical ::
  "('a) openssl_derive_scheme \<Rightarrow> ('q, 'b) cyclone_scheme \<Rightarrow> nat \<Rightarrow> X509Seq \<Rightarrow> data_holder \<Rightarrow>
   handshake_token_type \<Rightarrow> bin_property option \<Rightarrow> bin_property option \<Rightarrow> (classical_ctx, unit) op" where
  "validate_handshake_token_impl_classical E H t trusted token ty dh1_ref dh2_ref =
     bind_op (assert_op (dh1_ref \<noteq> None \<or> ty = HS_TOKEN_REQ)) (\<lambda>_.
     bind_op (assert_op (dh2_ref \<noteq> None \<or> ty = HS_TOKEN_REQ \<or> ty = HS_TOKEN_REPLY)) (\<lambda>_.
     bind_op (check_op (class_id token = Some (token_class_id ty))
       ''process_handshake: HandshakeMessageToken incorrect class_id: %s (expected %s)'') (\<lambda>_.
     bind_op (on_hs (validate_peer_credentials H t trusted token ty)) (\<lambda>pc.
     bind_op (validate_dh1 E H t token ty pc dh1_ref) (\<lambda>dh1.
     bind_op (find_classical_properties E H t token ty pc dh2_ref) (\<lambda>(challenge1, rp).
     bind_op (on_hs (validate_rchallenge ty
       (case (ty, rp) of (HS_TOKEN_REPLY, Some p) \<Rightarrow> rp_challenge2 p | _ \<Rightarrow> challenge1))) (\<lambda>_.
     bind_op (on_hs (validate_hashes_and_lchallenge H token ty challenge1 rp)) (\<lambda>_.
     bind_op (on_hs (update_remote pc)) (\<lambda>_.
       case rp of
         None \<Rightarrow> ret_op ()
       | Some p \<Rightarrow> check_classical_signature H t ty dh1 challenge1 p)))))))))"

definition drop_rdh :: "(dh_handshake, unit) op" where
  "drop_rdh =
     bind_op get_op (\<lambda>h.
     if dx_rdh h = None then ret_op ()
     else bind_op (on_live (free_object PKEY_object)) (\<lambda>_. modify_op (\<lambda>h. h\<lparr>dx_rdh := None\<rparr>)))"

definition validate_handshake_token_classical ::
  "('a) openssl_derive_scheme \<Rightarrow> ('q, 'b) cyclone_scheme \<Rightarrow> nat \<Rightarrow> X509Seq \<Rightarrow> data_holder \<Rightarrow>
   handshake_token_type \<Rightarrow> bin_property option \<Rightarrow> bin_property option \<Rightarrow> (classical_ctx, unit) op" where
  "validate_handshake_token_classical E H t trusted token ty dh1_ref dh2_ref =
     on_fail (validate_handshake_token_impl_classical E H t trusted token ty dh1_ref dh2_ref)
       (if ty = HS_TOKEN_FINAL then ret_op ()
        else bind_op (on_hs (set_remote (\<lambda>r. r\<lparr>ri_identityCert := None\<rparr>))) (\<lambda>_. on_dh drop_rdh))"

section \<open>Request and reply\<close>

text \<open>\<open>begin_handshake_request\<close>, once the certificate and the handshake are at hand.\<close>

definition begin_handshake_request_classical ::
  "('a) openssl_derive_scheme \<Rightarrow> ('q, 'b) cyclone_scheme \<Rightarrow> nat \<Rightarrow> bool \<Rightarrow> bytes \<Rightarrow> octseq \<Rightarrow>
   (classical_ctx, bin_property list) op" where
  "begin_handshake_request_classical E H t optional certData pdata =
     bind_op get_op (\<lambda>s.
     let loc = cx_local (cc_hs s) in
     bind_op (on_dh (request_dh_key E t (li_kagreeAlgoKind loc))) (\<lambda>(dhPubKeyData, dhPubKeyDataSize).
     bind_op (on_hs (save_pdata pdata)) (\<lambda>_.
     let cred = credential_properties H certData (li_permissionsDocument loc) pdata
                  (li_dsignAlgoKind loc) (li_kagreeAlgoKind loc);
         hash_c1 = get_hash_binary_property_seq H cred in
     bind_op (on_hs (set_handshake (\<lambda>hs. hs\<lparr>hs_hash_c1 := hash_c1\<rparr>))) (\<lambda>_.
     bind_op (assert_op (dhPubKeyDataSize < 1200)) (\<lambda>_.
     bind_op (on_hs (challenge_value (ir_lchallenge (cx_relation (cc_hs s))))) (\<lambda>lchallenge.
     let tokens = cred @
           (if optional then [BinaryProperty_set_by_value H DDS_AUTHTOKEN_PROP_HASH_C1 hash_c1] else []) @
           [BinaryProperty_set_by_value H DDS_AUTHTOKEN_PROP_DH1 (take dhPubKeyDataSize dhPubKeyData),
            BinaryProperty_set_by_value H DDS_AUTHTOKEN_PROP_CHALLENGE1 lchallenge] in
     bind_op (assert_op (length tokens = (if optional then 8 else 7))) (\<lambda>_. ret_op tokens)))))))"

text \<open>
  The properties of the reply, with its signature, which is one more buffer: the message holds it
  by reference.
\<close>

definition reply_tokens_classical ::
  "('q, 'b) cyclone_scheme \<Rightarrow> nat \<Rightarrow> bool \<Rightarrow> bytes \<Rightarrow> data_holder \<Rightarrow> octseq \<Rightarrow> bytes \<Rightarrow>
   (classical_ctx, bin_property list) op" where
  "reply_tokens_classical H t optional certData message_in pdata dhPubKeyData =
     bind_op (on_hs (save_pdata pdata)) (\<lambda>_.
     bind_op get_op (\<lambda>s.
     let c = cc_hs s; loc = cx_local c; rel = cx_relation c;
         cred = credential_properties H certData (li_permissionsDocument loc) pdata
                  (li_dsignAlgoKind loc) (ri_kagreeAlgoKind (cx_remote c));
         hash_c1 = hs_hash_c1 (cx_handshake c);
         hash_c2 = get_hash_binary_property_seq H cred;
         dh2 = BinaryProperty_set_by_value H DDS_AUTHTOKEN_PROP_DH2 dhPubKeyData in
     bind_op (on_hs (set_handshake (\<lambda>hs. hs\<lparr>hs_hash_c2 := hash_c2\<rparr>))) (\<lambda>_.
     case find_binary_property H message_in DDS_AUTHTOKEN_PROP_DH1 of
       None \<Rightarrow> fault_op Assertion_failed
     | Some dh1 \<Rightarrow>
         bind_op (assert_op (ir_rchallenge rel \<noteq> None)) (\<lambda>_.
         bind_op (assert_op (ir_lchallenge rel \<noteq> None)) (\<lambda>_.
         let challenge1 = BinaryProperty_set_by_value H DDS_AUTHTOKEN_PROP_CHALLENGE1 (the (ir_rchallenge rel));
             challenge2 = BinaryProperty_set_by_value H DDS_AUTHTOKEN_PROP_CHALLENGE2 (the (ir_lchallenge rel)) in
         bind_op (on_dh (on_live (sign_classical H t (li_privateKey loc) HS_TOKEN_REPLY hash_c1 hash_c2
           \<lparr>dm_challenge1 = challenge1, dm_challenge2 = challenge2, dm_dh1 = dh1, dm_dh2 = dh2\<rparr>))) (\<lambda>signature.
         let tokens = cred @ [dh2, challenge1, challenge2] @
               (if optional
                then [BinaryProperty_set_by_value H DDS_AUTHTOKEN_PROP_DH1 (oct_data (bp_value dh1)),
                      BinaryProperty_set_by_value H DDS_AUTHTOKEN_PROP_HASH_C2 hash_c2,
                      BinaryProperty_set_by_value H DDS_AUTHTOKEN_PROP_HASH_C1 hash_c1]
                else []) @ [signature] in
         bind_op (assert_op (length tokens = (if optional then 12 else 9))) (\<lambda>_. ret_op tokens)))))))"

text \<open>
  \<open>begin_handshake_reply\<close>, once the handshake is at hand.  When signing fails the properties are
  freed, and with them the octets of the key.
\<close>

definition begin_handshake_reply_classical ::
  "('a) openssl_derive_scheme \<Rightarrow> ('q, 'b) cyclone_scheme \<Rightarrow> nat \<Rightarrow> bool \<Rightarrow> X509Seq \<Rightarrow> data_holder \<Rightarrow> octseq \<Rightarrow>
   (classical_ctx, bin_property list) op" where
  "begin_handshake_reply_classical E H t optional trusted message_in pdata =
     bind_op (validate_handshake_token_classical E H t trusted message_in HS_TOKEN_REQ None None) (\<lambda>_.
     bind_op get_op (\<lambda>s.
     bind_op (lift_op (get_certificate_contents H t (li_identityCert (cx_local (cc_hs s))))) (\<lambda>certData.
     bind_op (on_dh (reply_dh_key E t (ri_kagreeAlgoKind (cx_remote (cc_hs s)))))
       (\<lambda>(dhPubKeyData, dhPubKeyDataSize).
       on_fail (reply_tokens_classical H t optional certData message_in pdata
           (take dhPubKeyDataSize dhPubKeyData))
         (on_dh (on_live (free_object Buffer_object)))))))"

section \<open>Processing the peer's answer\<close>

definition final_tokens_classical ::
  "('q, 'b) cyclone_scheme \<Rightarrow> nat \<Rightarrow> bool \<Rightarrow> bin_property \<Rightarrow> bin_property \<Rightarrow>
   (classical_ctx, bin_property list) op" where
  "final_tokens_classical H t optional dh1_gen dh2 =
     bind_op get_op (\<lambda>s.
     let c = cc_hs s; hs = cx_handshake c; rel = cx_relation c in
     bind_op (assert_op (ir_lchallenge rel \<noteq> None)) (\<lambda>_.
     bind_op (assert_op (ir_rchallenge rel \<noteq> None)) (\<lambda>_.
     let challenge1 = BinaryProperty_set_by_value H DDS_AUTHTOKEN_PROP_CHALLENGE1 (the (ir_lchallenge rel));
         challenge2 = BinaryProperty_set_by_value H DDS_AUTHTOKEN_PROP_CHALLENGE2 (the (ir_rchallenge rel)) in
     bind_op (on_dh (on_live (sign_classical H t (li_privateKey (cx_local c)) HS_TOKEN_FINAL
       (hs_hash_c1 hs) (hs_hash_c2 hs)
       \<lparr>dm_challenge1 = challenge1, dm_challenge2 = challenge2, dm_dh1 = dh1_gen, dm_dh2 = dh2\<rparr>)))
       (\<lambda>signature.
       ret_op
         ([challenge1, challenge2] @
          (if optional
           then [BinaryProperty_set_by_value H DDS_AUTHTOKEN_PROP_DH1 (oct_data (bp_value dh1_gen)),
                 BinaryProperty_set_by_value H DDS_AUTHTOKEN_PROP_DH2 (oct_data (bp_value dh2)),
                 BinaryProperty_set_by_value H DDS_AUTHTOKEN_PROP_HASH_C2 (hs_hash_c2 hs),
                 BinaryProperty_set_by_value H DDS_AUTHTOKEN_PROP_HASH_C1 (hs_hash_c1 hs)]
           else []) @ [signature])))))"

text \<open>
  The secret and the validity timer: an invalid date frees the secret.  \<open>impl\<close> is the address of
  the new secret handle.
\<close>

definition store_secret_classical ::
  "('a) openssl_derive_scheme \<Rightarrow> ('q, 'b) cyclone_scheme \<Rightarrow> nat \<Rightarrow> addr \<Rightarrow>
   (classical_ctx, (addr \<times> 64 word) option) op" where
  "store_secret_classical E H t impl =
     bind_op get_op (\<lambda>s.
     bind_op (on_dh (on_live (generate_shared_secret_classical E t (dx_ldh (cc_dh s)) (dx_rdh (cc_dh s)))))
       (\<lambda>secret.
     bind_op (on_hs (make_shared_secret impl secret)) (\<lambda>_.
       on_fail (on_hs (setup_expiry H t)) (on_dh (on_live (free_object Buffer_object))))))"

text \<open>
  The two properties made of the handshake's own keys are freed on every path (\<open>releasing\<close>).
\<close>

definition dh_property ::
  "('a) openssl_derive_scheme \<Rightarrow> ('q, 'b) cyclone_scheme \<Rightarrow> nat \<Rightarrow> string \<Rightarrow> evp_pkey option \<Rightarrow>
   AuthenticationAlgoKind_t \<Rightarrow> (classical_ctx, bin_property) op" where
  "dh_property E H t name pkey kagree = on_dh (on_live (create_dhkey_property E H t name pkey kagree))"

definition free_dh_property :: "(classical_ctx, unit) op" where
  "free_dh_property = on_dh (on_live (free_object Buffer_object))"

text \<open>\<open>DDS_Security_DataHolder_deinit\<close> of the message on a failure frees the signature it holds.\<close>

definition free_message_signature :: "(classical_ctx, unit) op" where
  "free_message_signature = on_dh (on_live (free_object Buffer_object))"

definition process_reply_classical ::
  "('a) openssl_derive_scheme \<Rightarrow> ('q, 'b) cyclone_scheme \<Rightarrow> nat \<Rightarrow> addr \<Rightarrow> bool \<Rightarrow> X509Seq \<Rightarrow> data_holder \<Rightarrow>
   (classical_ctx, handshake_result \<times> (addr \<times> 64 word) option) op" where
  "process_reply_classical E H t impl optional trusted message_in =
     bind_op get_op (\<lambda>s.
     bind_op (dh_property E H t DDS_AUTHTOKEN_PROP_DH1 (dx_ldh (cc_dh s)) (li_kagreeAlgoKind (cx_local (cc_hs s))))
       (\<lambda>dh1_gen.
     releasing free_dh_property
       (bind_op (validate_handshake_token_classical E H t trusted message_in HS_TOKEN_REPLY (Some dh1_gen) None)
          (\<lambda>_.
        bind_op (on_dh (copy_parameters E)) (\<lambda>_.
        case find_binary_property H message_in DDS_AUTHTOKEN_PROP_DH2 of
          None \<Rightarrow> fault_op Assertion_failed
        | Some dh2 \<Rightarrow>
            bind_op (final_tokens_classical H t optional dh1_gen dh2) (\<lambda>tokens.
            bind_op (on_fail (store_secret_classical E H t impl) free_message_signature) (\<lambda>expiry.
            ret_op (OK_FINAL_MESSAGE (handshake_message DDS_AUTHTOKEN_FINAL_CLASS_ID tokens), expiry))))))))"

definition process_final_classical ::
  "('a) openssl_derive_scheme \<Rightarrow> ('q, 'b) cyclone_scheme \<Rightarrow> nat \<Rightarrow> addr \<Rightarrow> X509Seq \<Rightarrow> data_holder \<Rightarrow>
   (classical_ctx, handshake_result \<times> (addr \<times> 64 word) option) op" where
  "process_final_classical E H t impl trusted message_in =
     bind_op get_op (\<lambda>s.
     let kagree = ri_kagreeAlgoKind (cx_remote (cc_hs s)) in
     bind_op (dh_property E H t DDS_AUTHTOKEN_PROP_DH1 (dx_rdh (cc_dh s)) kagree) (\<lambda>dh1_gen.
     releasing free_dh_property
       (bind_op (dh_property E H (Suc t) DDS_AUTHTOKEN_PROP_DH2 (dx_ldh (cc_dh s)) kagree) (\<lambda>dh2_gen.
        releasing free_dh_property
          (bind_op (validate_handshake_token_classical E H t trusted message_in HS_TOKEN_FINAL
             (Some dh1_gen) (Some dh2_gen)) (\<lambda>_.
           bind_op (store_secret_classical E H t impl) (\<lambda>expiry. ret_op (OK, expiry))))))))"

text \<open>\<open>process_handshake\<close>, once the handshake is found.\<close>

definition process_handshake_classical ::
  "('a) openssl_derive_scheme \<Rightarrow> ('q, 'b) cyclone_scheme \<Rightarrow> nat \<Rightarrow> addr \<Rightarrow> bool \<Rightarrow> X509Seq \<Rightarrow> data_holder \<Rightarrow>
   (classical_ctx, handshake_result \<times> (addr \<times> 64 word) option) op" where
  "process_handshake_classical E H t impl optional trusted message_in =
     bind_op get_op (\<lambda>s.
       case hs_created_in (cx_handshake (cc_hs s)) of
         CREATEDREQUEST \<Rightarrow> process_reply_classical E H t impl optional trusted message_in
       | CREATEDREPLY \<Rightarrow> process_final_classical E H t impl trusted message_in)"

section \<open>What an accepted message says\<close>

lemma check_dh_reference_ok:
  "check_dh_reference E H token name r = Inr x \<Longrightarrow> x = r"
  by (auto simp: check_dh_reference_def split: option.splits if_splits)

lemma negotiated_credentials: "negotiated (Some (credentials_of H loc k)) = li_kagreeAlgoKind loc"
  by (simp add: negotiated_def credentials_of_def)

lemma validate_token_classical_ok [op_ok]:
  "validate_handshake_token_classical E H t trusted token ty dh1_ref dh2_ref s = Ret (Inr u, s') \<longleftrightarrow>
   validate_handshake_token_impl_classical E H t trusted token ty dh1_ref dh2_ref s = Ret (Inr u, s')"
  by (simp add: validate_handshake_token_classical_def op_ok)

lemma assert_op_ok [op_ok]: "assert_op b s = Ret (Inr u, s') \<longleftrightarrow> b \<and> s' = s"
  by (auto simp: assert_op_def)

lemma option_fault_ok:
  "(case x of None \<Rightarrow> fault_op f | Some d \<Rightarrow> g d) s = Ret (Inr y, s') \<longleftrightarrow> (\<exists>d. x = Some d \<and> g d s = Ret (Inr y, s'))"
  by (cases x) simp_all

lemma validate_dh1_ok:
  "validate_dh1 E H t token ty pc r s = Ret (Inr dh1, s') \<longleftrightarrow>
     (if ty = HS_TOKEN_REQ
      then \<exists>d h. dh1 = Some d \<and> s' = s\<lparr>cc_dh := h\<rparr> \<and>
        receive_dh_key E H t token DDS_AUTHTOKEN_PROP_DH1 (negotiated pc) (cc_dh s) = Ret (Inr d, h)
      else s' = s \<and> check_dh_reference E H token DDS_AUTHTOKEN_PROP_DH1 r = Inr dh1)"
  by (auto simp: validate_dh1_def op_ok)

lemma find_classical_ok:
  "find_classical_properties E H t token ty pc r s = Ret (Inr (ch1, rp), s') \<longleftrightarrow>
     find_required_binprop_exactsize H token DDS_AUTHTOKEN_PROP_CHALLENGE1 AUTHENTICATION_CHALLENGE_SIZE = Inr ch1 \<and>
     (if ty = HS_TOKEN_REQ then rp = None \<and> s' = s
      else \<exists>ch2 dh2 sig h. rp = Some \<lparr>rp_challenge2 = ch2, rp_ciphertext = dh2, rp_signature = sig\<rparr> \<and>
        find_required_binprop_exactsize H token DDS_AUTHTOKEN_PROP_CHALLENGE2 AUTHENTICATION_CHALLENGE_SIZE = Inr ch2 \<and>
        find_required_nonempty_binprop H token DDS_AUTHTOKEN_PROP_SIGNATURE = Inr sig \<and>
        s' = s\<lparr>cc_dh := h\<rparr> \<and>
        (if ty = HS_TOKEN_REPLY
         then receive_dh_key E H t token DDS_AUTHTOKEN_PROP_DH2 (negotiated pc) (cc_dh s) = Ret (Inr dh2, h)
         else h = cc_dh s \<and> check_dh_reference E H token DDS_AUTHTOKEN_PROP_DH2 r = Inr (Some dh2)))"
  by (cases s) (auto simp: find_classical_properties_def op_ok option_fault_ok)

lemma check_classical_signature_ok:
  "check_classical_signature H t ty dh1 ch1 rp s = Ret (Inr u, s') \<longleftrightarrow>
     s' = s \<and>
     (\<exists>cert d pub. ri_identityCert (cx_remote (cc_hs s)) = Some cert \<and> dh1 = Some d \<and>
        X509_get_pubkey H cert = Some pub \<and>
        classical_accepts H t pub (classical_transcript ty
          (hash_val DDS_AUTHTOKEN_PROP_HASH_C1 (hs_hash_c1 (cx_handshake (cc_hs s))))
          (hash_val DDS_AUTHTOKEN_PROP_HASH_C2 (hs_hash_c2 (cx_handshake (cc_hs s))))
          \<lparr>dm_challenge1 = ch1, dm_challenge2 = rp_challenge2 rp, dm_dh1 = d, dm_dh2 = rp_ciphertext rp\<rparr>)
          (oct_data (bp_value (rp_signature rp))))"
proof (cases "ri_identityCert (cx_remote (cc_hs s))"; cases dh1)
  fix cert d
  assume some: "ri_identityCert (cx_remote (cc_hs s)) = Some cert" "dh1 = Some d"
  show ?thesis using some by (auto simp: check_classical_signature_def op_ok validate_classical_signature_ok)
qed (simp_all add: check_classical_signature_def op_ok)

lemma validate_classical_stages:
  assumes "validate_handshake_token_impl_classical E H t trusted token ty r1 r2 s = Ret (Inr u, s')"
  obtains pc c1 dh1 h1 ch1 rp h2 c2 c3 where
    "validate_peer_credentials H t trusted token ty (cc_hs s) = Ret (Inr pc, c1)"
    "validate_dh1 E H t token ty pc r1 \<lparr>cc_hs = c1, cc_dh = cc_dh s\<rparr> = Ret (Inr dh1, \<lparr>cc_hs = c1, cc_dh = h1\<rparr>)"
    "find_classical_properties E H t token ty pc r2 \<lparr>cc_hs = c1, cc_dh = h1\<rparr> =
       Ret (Inr (ch1, rp), \<lparr>cc_hs = c1, cc_dh = h2\<rparr>)"
    "validate_rchallenge ty (case (ty, rp) of (HS_TOKEN_REPLY, Some p) \<Rightarrow> rp_challenge2 p | _ \<Rightarrow> ch1) c1 =
       Ret (Inr (), c2)"
    "validate_hashes_and_lchallenge H token ty ch1 rp c2 = Ret (Inr (), c2)"
    "update_remote pc c2 = Ret (Inr (), c3)" "s' = \<lparr>cc_hs = c3, cc_dh = h2\<rparr>"
    "\<And>p. rp = Some p \<Longrightarrow> check_classical_signature H t ty dh1 ch1 p s' = Ret (Inr u, s')"
proof -
  obtain s1 s2 pc dh1 ch1 rp c1 c2 c2' c3 where st:
    "validate_peer_credentials H t trusted token ty (cc_hs s) = Ret (Inr pc, c1)"
    "validate_dh1 E H t token ty pc r1 (s\<lparr>cc_hs := c1\<rparr>) = Ret (Inr dh1, s1)"
    "find_classical_properties E H t token ty pc r2 s1 = Ret (Inr (ch1, rp), s2)"
    "validate_rchallenge ty (case (ty, rp) of (HS_TOKEN_REPLY, Some p) \<Rightarrow> rp_challenge2 p | _ \<Rightarrow> ch1) (cc_hs s2) =
       Ret (Inr (), c2)"
    "validate_hashes_and_lchallenge H token ty ch1 rp c2 = Ret (Inr (), c2')"
    "update_remote pc c2' = Ret (Inr (), c3)"
    "(case rp of None \<Rightarrow> ret_op () | Some p \<Rightarrow> check_classical_signature H t ty dh1 ch1 p) (s2\<lparr>cc_hs := c3\<rparr>) =
       Ret (Inr u, s')"
    using assms unfolding validate_handshake_token_impl_classical_def
    by (auto simp: op_ok simp del: op_eval(6,7) split: prod.splits)
  have c2': "c2' = c2" using st(5) by (simp add: validate_hashes_ok)
  have s1: "s1 = \<lparr>cc_hs = c1, cc_dh = cc_dh s1\<rparr>" using st(2) by (cases s; auto simp: validate_dh1_ok split: if_splits)
  have s2: "s2 = \<lparr>cc_hs = c1, cc_dh = cc_dh s2\<rparr>"
    using st(3) by (subst (asm) s1) (auto simp: find_classical_ok split: if_splits)
  have s': "s' = s2\<lparr>cc_hs := c3\<rparr>"
    using st(7) by (auto simp: check_classical_signature_ok split: option.splits)
  have s: "s\<lparr>cc_hs := c1\<rparr> = \<lparr>cc_hs = c1, cc_dh = cc_dh s\<rparr>" by (cases s) simp
  have s'': "s' = \<lparr>cc_hs = c3, cc_dh = cc_dh s2\<rparr>" using s' by (subst (asm) s2) simp
  have hs2: "cc_hs s2 = c1" by (subst s2) simp
  show thesis
  proof (rule that)
    show "validate_dh1 E H t token ty pc r1 \<lparr>cc_hs = c1, cc_dh = cc_dh s\<rparr> =
        Ret (Inr dh1, \<lparr>cc_hs = c1, cc_dh = cc_dh s1\<rparr>)"
      using st(2) s s1 by simp
    show "find_classical_properties E H t token ty pc r2 \<lparr>cc_hs = c1, cc_dh = cc_dh s1\<rparr> =
        Ret (Inr (ch1, rp), \<lparr>cc_hs = c1, cc_dh = cc_dh s2\<rparr>)"
      using st(3) s1 s2 by simp
    show "check_classical_signature H t ty dh1 ch1 p s' = Ret (Inr u, s')" if "rp = Some p" for p
      using st(7) that s' by simp
  qed (use st(1,4-6) c2' s'' hs2 in simp_all)
qed

lemma validate_rchallenge_frame:
  "validate_rchallenge ty rc c = Ret (Inr u, c') \<Longrightarrow> cx_handshake c' = cx_handshake c \<and> cx_local c' = cx_local c \<and>
     cx_remote c' = cx_remote c \<and> ir_lchallenge (cx_relation c') = ir_lchallenge (cx_relation c)"
  by (auto simp: validate_rchallenge_ok split: option.splits if_splits)

text \<open>The peer's key held after a REQUEST or REPLY is the one in the message.\<close>

lemma validate_classical_key:
  assumes "validate_handshake_token_impl_classical E H t trusted token ty r1 r2 s = Ret (Inr u, s')"
    and "ty \<noteq> HS_TOKEN_FINAL"
  obtains p key z z' where
    "find_binary_property H token (if ty = HS_TOKEN_REQ then DDS_AUTHTOKEN_PROP_DH1 else DDS_AUTHTOKEN_PROP_DH2) = Some p"
    "dx_rdh (cc_dh s') = Some key"
    "dh_oct_to_public_key E t (li_kagreeAlgoKind (cx_local (cc_hs s))) (Some (oct_data (bp_value p))) z = Ret (Inr key, z')"
    "dx_ldh (cc_dh s') = dx_ldh (cc_dh s)"
    "ri_kagreeAlgoKind (cx_remote (cc_hs s')) = li_kagreeAlgoKind (cx_local (cc_hs s))"
    "hs_created_in (cx_handshake (cc_hs s')) = hs_created_in (cx_handshake (cc_hs s))"
proof (rule validate_classical_stages [OF assms(1)], goal_cases)
  case (1 pc c1 dh1 h1 ch1 rp h2 c2 c3)
  obtain k where k: "pc = Some (credentials_of H (cx_local (cc_hs s)) k)"
    "c1 = (cc_hs s)\<lparr>cx_remote := with_identity (sc_cert k) (sc_perm k) (cx_remote (cc_hs s)),
            cx_handshake := with_hash ty (compute_hash_value H (claims_list k)) (cx_handshake (cc_hs s))\<rparr>"
    using validate_peer_credentials_ok [OF 1(2) assms(2)] by metis
  have neg: "negotiated pc = li_kagreeAlgoKind (cx_local (cc_hs s))" using k(1) by (simp add: negotiated_credentials)
  have "\<exists>p. receive_dh_key E H t token (if ty = HS_TOKEN_REQ then DDS_AUTHTOKEN_PROP_DH1 else DDS_AUTHTOKEN_PROP_DH2)
      (li_kagreeAlgoKind (cx_local (cc_hs s))) (cc_dh s) = Ret (Inr p, h2)"
    using 1(3,4) assms(2) neg
    by (cases ty) (auto simp: validate_dh1_ok find_classical_ok)
  then obtain p where p: "receive_dh_key E H t token
      (if ty = HS_TOKEN_REQ then DDS_AUTHTOKEN_PROP_DH1 else DDS_AUTHTOKEN_PROP_DH2)
      (li_kagreeAlgoKind (cx_local (cc_hs s))) (cc_dh s) = Ret (Inr p, h2)" by blast
  have c3: "c3 = c2\<lparr>cx_remote := with_credentials (credentials_of H (cx_local (cc_hs s)) k) (cx_remote c2)\<rparr>"
    using 1(7) k(1) by (simp add: update_remote_ok)
  have "hs_created_in (cx_handshake c3) = hs_created_in (cx_handshake (cc_hs s))"
    using validate_rchallenge_frame [OF 1(5)] c3 k(2) by (simp add: with_hash_def)
  moreover have "ri_kagreeAlgoKind (cx_remote c3) = li_kagreeAlgoKind (cx_local (cc_hs s))"
    using c3 by (simp add: with_credentials_def credentials_of_def)
  ultimately show thesis
    using receive_dh_key_ok [OF p] 1(8) by (auto intro: 1(1))
qed

lemma validate_classical_final_ok:
  assumes "validate_handshake_token_impl_classical E H t trusted token HS_TOKEN_FINAL r1 r2 s = Ret (Inr u, s')"
  shows "cc_dh s' = cc_dh s"
  by (rule validate_classical_stages [OF assms]) (simp add: validate_dh1_ok find_classical_ok, auto)

text \<open>
  C17: an accepted REPLY of a classical handshake is authenticated: its certificate is trusted, and
  the public key of that certificate signed the challenge this side sent, this side's key and the
  very key of the peer that is now held for deriving the secret.
\<close>
theorem classical_reply_authenticates:
  assumes "validate_handshake_token_classical E H t trusted token HS_TOKEN_REPLY (Some dh1_ref) dh2_ref s =
    Ret (Inr u, s')"
  shows "\<exists>k ch1 ch2 dh2 sig own pub key z z'.
     claims_in_token H token k \<and> claims_accepted H t trusted (cx_local (cc_hs s)) k \<and>
     find_binary_property H token DDS_AUTHTOKEN_PROP_CHALLENGE1 = Some ch1 \<and>
     find_binary_property H token DDS_AUTHTOKEN_PROP_CHALLENGE2 = Some ch2 \<and>
     find_binary_property H token DDS_AUTHTOKEN_PROP_DH2 = Some dh2 \<and>
     find_binary_property H token DDS_AUTHTOKEN_PROP_SIGNATURE = Some sig \<and>
     ir_lchallenge (cx_relation (cc_hs s)) = Some own \<and> same_challenge own ch1 \<and>
     X509_get_pubkey H (sc_cert k) = Some pub \<and>
     (\<forall>live. validate_signature_classical H t pub
       (classical_reply_transcript
          (hash_val DDS_AUTHTOKEN_PROP_HASH_C2 (compute_hash_value H (claims_list k))) ch2 dh2 ch1 dh1_ref
          (hash_val DDS_AUTHTOKEN_PROP_HASH_C1 (hs_hash_c1 (cx_handshake (cc_hs s)))))
       (oct_data (bp_value sig)) live = Ret (Inr (), live)) \<and>
     dx_rdh (cc_dh s') = Some key \<and>
     dh_oct_to_public_key E t (li_kagreeAlgoKind (cx_local (cc_hs s))) (Some (oct_data (bp_value dh2))) z =
       Ret (Inr key, z')"
proof (rule validate_classical_stages [OF assms [unfolded validate_token_classical_ok]], goal_cases)
  case (1 pc c1 dh1 h1 ch1 rp h2 c2 c3)
  obtain k where k: "claims_in_token H token k" "claims_accepted H t trusted (cx_local (cc_hs s)) k"
    "pc = Some (credentials_of H (cx_local (cc_hs s)) k)"
    "c1 = (cc_hs s)\<lparr>cx_remote := with_identity (sc_cert k) (sc_perm k) (cx_remote (cc_hs s)),
            cx_handshake := with_hash HS_TOKEN_REPLY (compute_hash_value H (claims_list k)) (cx_handshake (cc_hs s))\<rparr>"
    using validate_peer_credentials_ok [OF 1(1)] by (metis handshake_token_type.distinct(6))
  have dh1: "dh1 = Some dh1_ref" using 1(2) check_dh_reference_ok by (auto simp: validate_dh1_ok)
  obtain ch2 dh2 sig where f: "rp = Some \<lparr>rp_challenge2 = ch2, rp_ciphertext = dh2, rp_signature = sig\<rparr>"
    "find_required_binprop_exactsize H token DDS_AUTHTOKEN_PROP_CHALLENGE1 AUTHENTICATION_CHALLENGE_SIZE = Inr ch1"
    "find_required_binprop_exactsize H token DDS_AUTHTOKEN_PROP_CHALLENGE2 AUTHENTICATION_CHALLENGE_SIZE = Inr ch2"
    "find_required_nonempty_binprop H token DDS_AUTHTOKEN_PROP_SIGNATURE = Inr sig"
    "receive_dh_key E H t token DDS_AUTHTOKEN_PROP_DH2 (negotiated pc) h1 = Ret (Inr dh2, h2)"
    using 1(3) by (auto simp: find_classical_ok)
  have c3: "c3 = c2\<lparr>cx_remote := with_credentials (credentials_of H (cx_local (cc_hs s)) k) (cx_remote c2)\<rparr>"
    using 1(6) k(3) by (simp add: update_remote_ok)
  note frame = validate_rchallenge_frame [OF 1(4)]
  have sig: "check_classical_signature H t HS_TOKEN_REPLY dh1 ch1
      \<lparr>rp_challenge2 = ch2, rp_ciphertext = dh2, rp_signature = sig\<rparr> s' = Ret (Inr u, s')"
    using 1(8) f(1) by blast
  obtain pub where pub: "X509_get_pubkey H (sc_cert k) = Some pub"
    "\<forall>live. validate_signature_classical H t pub
       (classical_reply_transcript
          (hash_val DDS_AUTHTOKEN_PROP_HASH_C2 (compute_hash_value H (claims_list k))) ch2 dh2 ch1 dh1_ref
          (hash_val DDS_AUTHTOKEN_PROP_HASH_C1 (hs_hash_c1 (cx_handshake (cc_hs s)))))
       (oct_data (bp_value sig)) live = Ret (Inr (), live)"
    using sig dh1 1(7) c3 frame k(4)
    by (auto simp: check_classical_signature_ok classical_accepts_def classical_transcript_def
        with_credentials_def with_identity_def with_hash_def)
  obtain own where own: "ir_lchallenge (cx_relation (cc_hs s)) = Some own" "same_challenge own ch1"
    using 1(5) f(1) frame k(4) by (auto simp: validate_hashes_ok)
  obtain key z z' where key: "dx_rdh h2 = Some key" "find_binary_property H token DDS_AUTHTOKEN_PROP_DH2 = Some dh2"
    "dh_oct_to_public_key E t (li_kagreeAlgoKind (cx_local (cc_hs s))) (Some (oct_data (bp_value dh2))) z =
       Ret (Inr key, z')"
    using receive_dh_key_ok [OF f(5)] k(3) by (auto simp: negotiated_credentials)
  show ?case
    using k(1,2) pub own key f(2-4) 1(7) unfolding find_nonempty_ok find_exactsize_ok by auto
qed

section \<open>Both sides store the same secret\<close>

text \<open>The lengths OpenSSL reports are those of the octets it writes.\<close>

definition dh_length_law :: "('a) openssl_dh_scheme \<Rightarrow> bool" where
  "dh_length_law E \<longleftrightarrow>
     (\<forall>a. i2d_ASN1_INTEGER_length E a = int (length (i2d_ASN1_INTEGER E a))) \<and>
     (\<forall>p n octets. EC_POINT_point2oct E p = (n, octets) \<longrightarrow> length octets = n)"

lemma dh_octets_length:
  assumes "dh_length_law E" and "dh_public_key_to_oct E t k algo s = Ret (Inr (octets, n), s')"
  shows "length octets = n"
proof (cases "algo = AUTH_ALGO_KIND_RSA_2048")
  case True
  then show ?thesis
    using assms by (auto simp: dh_public_key_to_oct_def dh_public_key_to_oct_modp_def Let_def op_ok dh_length_law_def
        split: option.splits)
next
  case False
  then show ?thesis
    using assms by (auto simp: dh_public_key_to_oct_def dh_public_key_to_oct_ecdh_def Let_def op_ok dh_length_law_def
        split: option.splits bool.splits prod.splits AuthenticationAlgoKind_t.splits)
qed

lemma dh_property_found:
  assumes "dds_data_laws H"
  shows "find_binary_property H (handshake_message cls (credential_properties H cert perm pdata dsign kagree @
      (if optional then [BinaryProperty_set_by_value H DDS_AUTHTOKEN_PROP_HASH_C1 h] else []) @
      BinaryProperty_set_by_value H DDS_AUTHTOKEN_PROP_DH1 octets # rest)) DDS_AUTHTOKEN_PROP_DH1 =
      Some (BinaryProperty_set_by_value H DDS_AUTHTOKEN_PROP_DH1 octets)"
    "find_binary_property H (handshake_message cls (credential_properties H cert perm pdata dsign kagree @
      BinaryProperty_set_by_value H DDS_AUTHTOKEN_PROP_DH2 octets # rest)) DDS_AUTHTOKEN_PROP_DH2 =
      Some (BinaryProperty_set_by_value H DDS_AUTHTOKEN_PROP_DH2 octets)"
  by (simp_all add: dds_data_lawsD(1,2,6) [OF assms] handshake_message_def credential_properties_def prop_name_defs
      DDS_AUTHTOKEN_PROP_DH1_def DDS_AUTHTOKEN_PROP_DH2_def)

lemma frame_ok [op_ok]:
  "save_pdata p c = Ret (Inr u, c') \<longleftrightarrow>
     c' = (if oct_length (li_pdata (cx_local c)) = 0 then c\<lparr>cx_local := (cx_local c)\<lparr>li_pdata := p\<rparr>\<rparr> else c)"
  "challenge_value ch c = Ret (Inr v, c') \<longleftrightarrow> ch = Some v \<and> c' = c"
  by (auto simp: save_pdata_def challenge_value_def split: option.splits)

lemma request_classical_ok:
  assumes "dds_data_laws H" "dh_length_law E"
    and "begin_handshake_request_classical E H t optional certData pdata s = Ret (Inr tokens, s')"
  obtains p d n k z z' where
    "find_binary_property H (handshake_message cls tokens) DDS_AUTHTOKEN_PROP_DH1 = Some p" "oct_data (bp_value p) = d"
    "dx_ldh (cc_dh s') = Some k"
    "dh_public_key_to_oct E t (Some k) (li_kagreeAlgoKind (cx_local (cc_hs s))) z = Ret (Inr (d, n), z')"
    "li_kagreeAlgoKind (cx_local (cc_hs s')) = li_kagreeAlgoKind (cx_local (cc_hs s))"
    "hs_created_in (cx_handshake (cc_hs s')) = hs_created_in (cx_handshake (cc_hs s))"
proof -
  let ?loc = "cx_local (cc_hs s)"
  obtain d n h lc hash where 1: "request_dh_key E t (li_kagreeAlgoKind ?loc) (cc_dh s) = Ret (Inr (d, n), h)"
    "cc_dh s' = h" "li_kagreeAlgoKind (cx_local (cc_hs s')) = li_kagreeAlgoKind ?loc"
    "hs_created_in (cx_handshake (cc_hs s')) = hs_created_in (cx_handshake (cc_hs s))"
    "tokens = credential_properties H certData (li_permissionsDocument ?loc) pdata
        (li_dsignAlgoKind ?loc) (li_kagreeAlgoKind ?loc) @
      (if optional then [BinaryProperty_set_by_value H DDS_AUTHTOKEN_PROP_HASH_C1 hash] else []) @
      [BinaryProperty_set_by_value H DDS_AUTHTOKEN_PROP_DH1 (take n d),
       BinaryProperty_set_by_value H DDS_AUTHTOKEN_PROP_CHALLENGE1 lc]"
    using assms(3) unfolding begin_handshake_request_classical_def Let_def
    by (auto simp: op_ok simp del: op_eval(6) split: prod.splits)
  obtain k z z' where k: "dx_ldh h = Some k"
    "dh_public_key_to_oct E t (Some k) (li_kagreeAlgoKind ?loc) z = Ret (Inr (d, n), z')"
    using request_dh_key_ok [OF 1(1)] by blast
  have "take n d = d" using dh_octets_length [OF assms(2) k(2)] by simp
  then show thesis
    using that [of "BinaryProperty_set_by_value H DDS_AUTHTOKEN_PROP_DH1 d" d k z n z'] k 1(2-4)
      dh_property_found(1) [OF assms(1)] dds_data_lawsD(4) [OF assms(1)]
    unfolding 1(5) by simp
qed

lemma reply_tokens_classical_ok:
  assumes "reply_tokens_classical H t optional certData message_in pdata data c = Ret (Inr tokens, c')"
  shows "hs_created_in (cx_handshake (cc_hs c')) = hs_created_in (cx_handshake (cc_hs c)) \<and>
    dx_ldh (cc_dh c') = dx_ldh (cc_dh c) \<and> dx_rdh (cc_dh c') = dx_rdh (cc_dh c) \<and>
    (\<exists>cert perm pd dsign kagree rest. tokens = credential_properties H cert perm pd dsign kagree @
       BinaryProperty_set_by_value H DDS_AUTHTOKEN_PROP_DH2 data # rest)"
  using assms unfolding reply_tokens_classical_def Let_def
  by (auto simp: op_ok option_fault_ok simp del: op_eval(6) split: if_splits) ((intro exI, rule refl)+)?

lemma final_tokens_classical_ok:
  assumes "final_tokens_classical H t optional dh1 dh2 s = Ret (Inr tokens, s')"
  shows "cc_hs s' = cc_hs s \<and> dx_ldh (cc_dh s') = dx_ldh (cc_dh s) \<and> dx_rdh (cc_dh s') = dx_rdh (cc_dh s)"
  using assms unfolding final_tokens_classical_def Let_def
  by (auto simp: op_ok simp del: op_eval(6))

lemma reply_classical_ok:
  assumes "dds_data_laws H" "dh_length_law E"
    and "begin_handshake_reply_classical E H t optional trusted message_in pdata s = Ret (Inr tokens, s')"
  obtains q key y y' p d n k z z' r where
    "find_binary_property H message_in DDS_AUTHTOKEN_PROP_DH1 = Some q"
    "dh_oct_to_public_key E t (li_kagreeAlgoKind (cx_local (cc_hs s))) (Some (oct_data (bp_value q))) y = Ret (Inr key, y')"
    "dx_rdh (cc_dh s') = Some r" "r = key \<or> (\<exists>l. r = EVP_PKEY_copy_parameters E key l)"
    "find_binary_property H (handshake_message cls tokens) DDS_AUTHTOKEN_PROP_DH2 = Some p" "oct_data (bp_value p) = d"
    "dx_ldh (cc_dh s') = Some k"
    "dh_public_key_to_oct E t (Some k) (li_kagreeAlgoKind (cx_local (cc_hs s))) z = Ret (Inr (d, n), z')"
    "hs_created_in (cx_handshake (cc_hs s')) = hs_created_in (cx_handshake (cc_hs s))"
proof -
  let ?kind = "li_kagreeAlgoKind (cx_local (cc_hs s))"
  obtain s1 certData d n h where 1:
    "validate_handshake_token_impl_classical E H t trusted message_in HS_TOKEN_REQ None None s = Ret (Inr (), s1)"
    "reply_dh_key E t (ri_kagreeAlgoKind (cx_remote (cc_hs s1))) (cc_dh s1) = Ret (Inr (d, n), h)"
    "reply_tokens_classical H t optional certData message_in pdata (take n d) (s1\<lparr>cc_dh := h\<rparr>) = Ret (Inr tokens, s')"
    using assms(3) unfolding begin_handshake_reply_classical_def
    by (auto simp: op_ok split: prod.splits)
  show thesis
  proof (rule validate_classical_key [OF 1(1)], simp, goal_cases)
    case (1 q key y y')
    note v = this
    obtain k z z' r where k: "dx_ldh h = Some k" "dh_public_key_to_oct E t (Some k) ?kind z = Ret (Inr (d, n), z')"
      "dx_rdh h = Some r" "r = key \<or> (\<exists>l. r = EVP_PKEY_copy_parameters E key l)"
      using reply_dh_key_ok [OF \<open>reply_dh_key E t _ _ = _\<close> v(2)] unfolding v(5) by blast
    have "take n d = d" using dh_octets_length [OF assms(2) k(2)] by simp
    then have "find_binary_property H (handshake_message cls tokens) DDS_AUTHTOKEN_PROP_DH2 =
        Some (BinaryProperty_set_by_value H DDS_AUTHTOKEN_PROP_DH2 d)"
      using reply_tokens_classical_ok [OF \<open>reply_tokens_classical H t _ _ _ _ _ _ = _\<close>]
        dh_property_found(2) [OF assms(1)] by auto
    then show thesis
      using that [of q y key y' r "BinaryProperty_set_by_value H DDS_AUTHTOKEN_PROP_DH2 d" d k z n z'] v k
        reply_tokens_classical_ok [OF \<open>reply_tokens_classical H t _ _ _ _ _ _ = _\<close>]
        dds_data_lawsD(4) [OF assms(1)] by simp
  qed
qed

lemma store_secret_classical_ok:
  assumes "store_secret_classical E H t impl s = Ret (Inr e, s')"
  obtains secret ss z z' where
    "generate_shared_secret_classical E t (dx_ldh (cc_dh s)) (dx_rdh (cc_dh s)) z = Ret (Inr secret, z')"
    "hs_secret (cx_handshake (cc_hs s')) = Some (impl, ss)" "ss_shared_secret ss = secret"
  using assms unfolding store_secret_classical_def make_shared_secret_def setup_expiry_def
  by (auto simp: op_ok Let_def split: option.splits if_splits)

lemma process_reply_classical_ok:
  assumes "process_reply_classical E H t impl optional trusted message_in s = Ret (Inr (r, e), s')"
  obtains p key y y' l secret ss z z' where
    "find_binary_property H message_in DDS_AUTHTOKEN_PROP_DH2 = Some p"
    "dh_oct_to_public_key E t (li_kagreeAlgoKind (cx_local (cc_hs s))) (Some (oct_data (bp_value p))) y = Ret (Inr key, y')"
    "generate_shared_secret_classical E t (dx_ldh (cc_dh s)) (Some (EVP_PKEY_copy_parameters E key l)) z =
       Ret (Inr secret, z')"
    "hs_secret (cx_handshake (cc_hs s')) = Some (impl, ss)" "ss_shared_secret ss = secret"
proof -
  obtain dh1 live s1 h dh2 tokens s3 s2 where 1:
    "validate_handshake_token_impl_classical E H t trusted message_in HS_TOKEN_REPLY (Some dh1) None
       (s\<lparr>cc_dh := (cc_dh s)\<lparr>dx_live := live\<rparr>\<rparr>) = Ret (Inr (), s1)"
    "copy_parameters E (cc_dh s1) = Ret (Inr (), h)" "find_binary_property H message_in DDS_AUTHTOKEN_PROP_DH2 = Some dh2"
    "final_tokens_classical H t optional dh1 dh2 (s1\<lparr>cc_dh := h\<rparr>) = Ret (Inr tokens, s3)"
    "store_secret_classical E H t impl s3 = Ret (Inr e, s2)" "cc_hs s' = cc_hs s2"
    using assms unfolding process_reply_classical_def releasing_def dh_property_def free_dh_property_def
    by (auto simp: op_ok option_fault_ok)
  show thesis
  proof (rule validate_classical_key [OF 1(1)], simp, goal_cases)
    case (1 p key y y')
    obtain l where h: "h = (cc_dh s1)\<lparr>dx_rdh := Some (EVP_PKEY_copy_parameters E key l)\<rparr>"
      using \<open>copy_parameters E (cc_dh s1) = _\<close> 1(2) by (auto simp: copy_parameters_ok)
    show thesis
      by (rule store_secret_classical_ok [OF \<open>store_secret_classical E H t impl _ = _\<close>])
        (use 1 h that final_tokens_classical_ok [OF \<open>final_tokens_classical H t _ _ _ _ = _\<close>]
          \<open>cc_hs s' = cc_hs s2\<close> in simp)
  qed
qed

lemma process_final_classical_ok:
  assumes "process_final_classical E H t impl trusted message_in s = Ret (Inr (r, e), s')"
  obtains secret ss z z' where
    "generate_shared_secret_classical E t (dx_ldh (cc_dh s)) (dx_rdh (cc_dh s)) z = Ret (Inr secret, z')"
    "hs_secret (cx_handshake (cc_hs s')) = Some (impl, ss)" "ss_shared_secret ss = secret"
proof -
  obtain dh1 dh2 live s1 s2 where 1:
    "validate_handshake_token_impl_classical E H t trusted message_in HS_TOKEN_FINAL (Some dh1) (Some dh2)
       (s\<lparr>cc_dh := (cc_dh s)\<lparr>dx_live := live\<rparr>\<rparr>) = Ret (Inr (), s1)"
    "store_secret_classical E H t impl s1 = Ret (Inr e, s2)" "cc_hs s' = cc_hs s2"
    using assms unfolding process_final_classical_def releasing_def dh_property_def free_dh_property_def Let_def
    by (auto simp: op_ok)
  show thesis
    by (rule store_secret_classical_ok [OF 1(2)])
      (use that validate_classical_final_ok [OF 1(1)] 1(3) in simp)
qed


end
