(* ===== verification/ClassicalResources.thy ===== *)
theory ClassicalResources
  imports ClassicalHandshake
begin

text \<open>
  The OpenSSL objects of a classical handshake: keys (also the public key taken from a
  certificate to check a signature), the contexts of key generation, derivation and digests, the
  big numbers, groups and points of the conversions, and the buffers of public keys, signatures
  and secrets.  A handshake owns its two keys: every operation leaves live exactly the keys it then
  holds, the objects of others, and on success what it hands out; nothing is released twice.  The
  certificates themselves, and what loading and checking one makes and frees, are not tracked.
\<close>

section \<open>The keys a handshake holds\<close>

definition held_keys :: "dh_handshake \<Rightarrow> live" where
  "held_keys h =
     (if dx_ldh h = None then {#} else {#PKEY_object#}) + (if dx_rdh h = None then {#} else {#PKEY_object#})"

definition balanced :: "live \<Rightarrow> dh_handshake \<Rightarrow> bool" where
  "balanced b h \<longleftrightarrow> dx_live h = held_keys h + b"

text \<open>Destroying the handshake (\<open>handshake_info_free\<close>) releases them.\<close>

definition free_dh_keys :: "(dh_handshake, unit) op" where
  "free_dh_keys =
     bind_op get_op (\<lambda>h.
     bind_op (if dx_ldh h = None then ret_op () else on_live (free_object PKEY_object)) (\<lambda>_.
     if dx_rdh h = None then ret_op () else on_live (free_object PKEY_object)))"

section \<open>Operations on the keys\<close>

abbreviation not_dangling :: "fault set" where "not_dangling \<equiv> - {Dangling_pointer}"

lemma wp_on_live: "wp (on_live m) h Q X Z \<longleftrightarrow>
    wp m (dx_live h) (\<lambda>x l. Q x (h\<lparr>dx_live := l\<rparr>)) (\<lambda>l. X (h\<lparr>dx_live := l\<rparr>)) Z"
  by (auto simp: wp_def on_live_def split: outcome.splits sum.splits prod.splits)

lemma wp_generate_ec:
  "wp (generate_dh_keys E t AUTH_ALGO_KIND_EC_PRIME256V1) s (\<lambda>_ s'. s' = add_mset PKEY_object s) (\<lambda>s'. s' = s) Z"
  by (rule wp_mono [OF wp_generate_dh_keys]) (simp_all add: dh_kind_def)

lemma wp_to_oct_ec:
  "wp (dh_public_key_to_oct E t k AUTH_ALGO_KIND_EC_PRIME256V1) s
    (\<lambda>_ s'. s' = add_mset Buffer_object s) (\<lambda>s'. s' = s) not_dangling"
  by (auto simp: dh_public_key_to_oct_def dh_public_key_to_oct_ecdh_def dh_wp add_mset_commute
      split: option.splits bool.splits)

lemma wp_from_oct_ec:
  "wp (dh_oct_to_public_key E t AUTH_ALGO_KIND_EC_PRIME256V1 (Some str)) s (\<lambda>_ s'. s' = add_mset PKEY_object s)
    (\<lambda>s'. s' = s) not_dangling"
  by (auto simp: dh_oct_to_public_key_def dh_oct_to_public_key_ecdh_def ecdh_key_from_octets_def dh_wp
      add_mset_commute split: option.splits)

lemma wp_request_dh_key:
  assumes "balanced b h"
  shows "wp (request_dh_key E t AUTH_ALGO_KIND_EC_PRIME256V1) h (\<lambda>_. balanced (add_mset Buffer_object b)) (balanced b)
    not_dangling"
  using assms unfolding request_dh_key_def
  by (auto simp: wp_bind_iff wp_on_live balanced_def held_keys_def split: option.splits
      intro!: wp_mono [OF wp_generate_ec] wp_mono [OF wp_to_oct_ec])

lemma wp_copy_parameters: "balanced b h \<Longrightarrow> wp (copy_parameters E) h (\<lambda>_. balanced b) (balanced b) not_dangling"
  by (auto simp: copy_parameters_def wp_bind_iff balanced_def held_keys_def split: option.splits)

lemma wp_reply_dh_key:
  assumes "balanced b h"
  shows "wp (reply_dh_key E t AUTH_ALGO_KIND_EC_PRIME256V1) h (\<lambda>_. balanced (add_mset Buffer_object b)) (balanced b)
    not_dangling"
  using assms unfolding reply_dh_key_def
  by (auto simp: wp_bind_iff wp_on_live balanced_def held_keys_def copy_parameters_def split: option.splits
      intro!: wp_mono [OF wp_generate_ec] wp_mono [OF wp_to_oct_ec])

lemma wp_receive_dh_key:
  assumes "balanced b h"
  shows "wp (receive_dh_key E D t token name AUTH_ALGO_KIND_EC_PRIME256V1) h (\<lambda>_. balanced b) (balanced b) not_dangling"
  using assms unfolding receive_dh_key_def
  by (auto simp: wp_bind_iff wp_on_live balanced_def held_keys_def
      intro!: wp_lift wp_mono [OF wp_from_oct_ec])

lemma wp_drop_rdh: "balanced b h \<Longrightarrow> wp drop_rdh h (\<lambda>_. balanced b) (balanced b) not_dangling"
  by (auto simp: drop_rdh_def wp_bind_iff wp_on_live balanced_def held_keys_def)

lemma wp_shared_secret:
  "wp (generate_shared_secret_classical E t ldh rdh) s (\<lambda>_ s'. s' = add_mset Buffer_object s) (\<lambda>s'. s' = s) not_dangling"
  by (auto simp: generate_shared_secret_classical_def dh_wp add_mset_commute)

lemma wp_dhkey_property:
  "wp (create_dhkey_property E D t name k AUTH_ALGO_KIND_EC_PRIME256V1) s
    (\<lambda>_ s'. s' = add_mset Buffer_object s) (\<lambda>s'. s' = s) not_dangling"
  unfolding create_dhkey_property_def
  by (auto simp: dh_wp intro!: wp_mono [OF wp_to_oct_ec])

section \<open>Operations on the other objects\<close>

text \<open>Code that works on the objects only: it follows no dangling pointer and leaves the keys alone.\<close>

definition no_dangling :: "('s, 'a) op \<Rightarrow> bool" where
  "no_dangling m \<longleftrightarrow> (\<forall>s. m s \<noteq> Fault Dangling_pointer)"

named_theorems dangling_rules \<open>operations that follow no dangling pointer\<close>

lemma no_dangling_basic [dangling_rules]:
  "no_dangling (ret_op x)" "no_dangling (lift_op r)" "no_dangling get_op" "no_dangling (modify_op g)"
  "no_dangling (assert_op b)" "no_dangling (check_op b msg)" "no_dangling (set_remote f)"
  "no_dangling (set_handshake g2)" "no_dangling (set_relation g3)"
  by (simp_all add: no_dangling_def set_remote_def set_handshake_def set_relation_def)

lemma no_dangling_fault [dangling_rules]: "f \<noteq> Dangling_pointer \<Longrightarrow> no_dangling (fault_op f)"
  by (simp add: no_dangling_def)

lemma no_dangling_read [dangling_rules]: "no_dangling (read_buffer q n)"
  by (auto simp: no_dangling_def read_buffer_def buffer_fault_def split: option.splits)

lemma no_dangling_bind [dangling_rules]:
  "no_dangling m \<Longrightarrow> (\<And>x. no_dangling (f x)) \<Longrightarrow> no_dangling (bind_op m f)"
  by (auto simp: no_dangling_def bind_op_def split: outcome.splits sum.splits)

lemma no_dangling_cases [dangling_rules]:
  "(b \<Longrightarrow> no_dangling m) \<Longrightarrow> (\<not> b \<Longrightarrow> no_dangling m') \<Longrightarrow> no_dangling (if b then m else m')"
  "no_dangling m \<Longrightarrow> (\<And>y. no_dangling (g y)) \<Longrightarrow> no_dangling (case x of None \<Rightarrow> m | Some y \<Rightarrow> g y)"
  "(\<And>a b. no_dangling (k a b)) \<Longrightarrow> no_dangling (case p of (a, b) \<Rightarrow> k a b)"
  "no_dangling mreq \<Longrightarrow> no_dangling mrep \<Longrightarrow>
     no_dangling (case step of CREATEDREQUEST \<Rightarrow> mreq | CREATEDREPLY \<Rightarrow> mrep)"
  by (auto split: option.splits prod.splits CreatedHandshakeStep_t.splits)

lemma no_dangling_stages [dangling_rules]:
  "no_dangling (validate_peer_credentials H t trusted token ty)" "no_dangling (validate_rchallenge ty ch)"
  "no_dangling (validate_hashes_and_lchallenge H token ty ch rp)" "no_dangling (update_remote pc)"
  "no_dangling (save_pdata pdata)" "no_dangling (challenge_value v)"
  "no_dangling (make_shared_secret impl secret)" "no_dangling (setup_expiry H t)"
  unfolding validate_peer_credentials_def validate_peer_identity_def validate_peer_algorithms_def
    validate_rchallenge_def validate_hash_def validate_hashes_and_lchallenge_def update_remote_def save_pdata_def
    challenge_value_def make_shared_secret_def setup_expiry_def Let_def
  by (intro dangling_rules; simp)+

lemma wp_on_hs:
  assumes "no_dangling m"
    and "\<And>x c. m (cc_hs s) = Ret (Inr x, c) \<Longrightarrow> Q x (s\<lparr>cc_hs := c\<rparr>)"
    and "\<And>e c. m (cc_hs s) = Ret (Inl e, c) \<Longrightarrow> X (s\<lparr>cc_hs := c\<rparr>)"
  shows "wp (on_hs m) s Q X not_dangling"
  using assms by (auto simp: wp_def on_hs_def no_dangling_def split: outcome.splits sum.splits prod.splits)

lemma wp_on_dh: "wp (on_dh m) s Q X Z \<longleftrightarrow>
    wp m (cc_dh s) (\<lambda>x h. Q x (s\<lparr>cc_dh := h\<rparr>)) (\<lambda>h. X (s\<lparr>cc_dh := h\<rparr>)) Z"
  by (auto simp: wp_def on_dh_def split: outcome.splits sum.splits prod.splits)

section \<open>Validation and the handlers\<close>

definition ctx_balanced :: "live \<Rightarrow> classical_ctx \<Rightarrow> bool" where
  "ctx_balanced b s \<longleftrightarrow> balanced b (cc_dh s) \<and> li_kagreeAlgoKind (cx_local (cc_hs s)) = AUTH_ALGO_KIND_EC_PRIME256V1"

lemma credentials_frame:
  assumes "validate_peer_credentials H t trusted token ty c = Ret (Inr pc, c')"
  shows "cx_local c' = cx_local c \<and> (ty \<noteq> HS_TOKEN_FINAL \<longrightarrow> negotiated pc = li_kagreeAlgoKind (cx_local c))"
proof (cases "ty = HS_TOKEN_FINAL")
  case False
  then show ?thesis
    using validate_peer_credentials_ok [OF assms False] negotiated_credentials by (metis hs_ctx.select_convs(3)
        hs_ctx.surjective hs_ctx.update_convs(1,4))
qed (use assms in \<open>simp add: validate_peer_credentials_def\<close>)

lemma wp_with_result: "wp m s Q X Z \<Longrightarrow> wp m s (\<lambda>x s'. Q x s' \<and> m s = Ret (Inr x, s')) X Z"
  by (auto simp: wp_def split: outcome.splits sum.splits prod.splits)

lemma wp_validate_dh1:
  assumes "balanced b (cc_dh s)" and "ty \<noteq> HS_TOKEN_FINAL \<longrightarrow> negotiated pc = AUTH_ALGO_KIND_EC_PRIME256V1"
  shows "wp (validate_dh1 E H t token ty pc r) s (\<lambda>_ s'. balanced b (cc_dh s')) (\<lambda>s'. balanced b (cc_dh s'))
    not_dangling"
  using assms unfolding validate_dh1_def
  by (auto simp: wp_bind_iff wp_on_dh intro!: wp_lift wp_mono [OF wp_receive_dh_key])

lemma wp_find_classical:
  assumes "balanced b (cc_dh s)" and "ty \<noteq> HS_TOKEN_FINAL \<longrightarrow> negotiated pc = AUTH_ALGO_KIND_EC_PRIME256V1"
  shows "wp (find_classical_properties E H t token ty pc r) s (\<lambda>_ s'. balanced b (cc_dh s'))
    (\<lambda>s'. balanced b (cc_dh s')) not_dangling"
  using assms unfolding find_classical_properties_def
  by (auto simp: wp_bind_iff wp_on_dh intro!: wp_lift wp_mono [OF wp_receive_dh_key] split: option.splits)

lemma wp_on_hs_balanced:
  assumes "no_dangling m" and "balanced b (cc_dh s)"
  shows "wp (on_hs m) s (\<lambda>_ s'. balanced b (cc_dh s')) (\<lambda>s'. balanced b (cc_dh s')) not_dangling"
  by (rule wp_on_hs) (use assms in simp_all)

text \<open>Operations that do not fail.\<close>

definition never_fails :: "('s, 'a) op \<Rightarrow> bool" where
  "never_fails m \<longleftrightarrow> (\<forall>s e s'. m s \<noteq> Ret (Inl e, s'))"

lemma never_fails_ops:
  "never_fails (save_pdata pdata)" "never_fails (set_handshake g)" "never_fails (challenge_value v)"
  "never_fails (set_remote f)" "never_fails (make_shared_secret impl secret)"
  by (auto simp: never_fails_def save_pdata_def set_handshake_def set_remote_def challenge_value_def
      make_shared_secret_def bind_op_def split: option.splits CreatedHandshakeStep_t.splits)

lemma wp_on_hs_total:
  assumes "never_fails m" and "no_dangling m" and "balanced b (cc_dh s)"
  shows "wp (on_hs m) s (\<lambda>_ s'. balanced b (cc_dh s')) (\<lambda>_. False) not_dangling"
  by (rule wp_on_hs) (use assms in \<open>simp_all add: never_fails_def\<close>)

lemma wp_check_signature:
  assumes "balanced b (cc_dh s)"
  shows "wp (check_classical_signature H t ty dh1 ch1 p) s (\<lambda>_ s'. balanced b (cc_dh s'))
    (\<lambda>s'. balanced b (cc_dh s')) not_dangling"
proof -
  have run: "wp (on_dh (on_live (validate_classical_signature H t cert ty h1 h2 m sig))) s
      (\<lambda>_ s'. balanced b (cc_dh s')) (\<lambda>s'. balanced b (cc_dh s')) not_dangling" for cert h1 h2 m sig
    unfolding wp_on_dh wp_on_live
    by (rule wp_mono [OF wp_validate_classical_signature]) (use assms in \<open>auto simp: balanced_def held_keys_def\<close>)
  show ?thesis
    using run assms by (auto simp: check_classical_signature_def wp_bind_iff split: option.splits)
qed

lemma wp_guard:
  "wp (f ()) s Q X Z \<Longrightarrow> Assertion_failed \<in> Z \<Longrightarrow> wp (bind_op (assert_op b) f) s Q X Z"
  "wp (f ()) s Q X Z \<Longrightarrow> X s \<Longrightarrow> wp (bind_op (check_op b msg) f) s Q X Z"
  by (auto simp: wp_bind_iff)

lemma wp_validate_classical:
  assumes "ctx_balanced b s"
  shows "wp (validate_handshake_token_classical E H t trusted token ty r1 r2) s (\<lambda>_ s'. balanced b (cc_dh s'))
    (\<lambda>s'. balanced b (cc_dh s')) not_dangling"
proof -
  have bal: "balanced b (cc_dh s)" and kind: "li_kagreeAlgoKind (cx_local (cc_hs s)) = AUTH_ALGO_KIND_EC_PRIME256V1"
    using assms by (simp_all add: ctx_balanced_def)
  let ?B = "\<lambda>_ s'. balanced b (cc_dh s')" and ?X = "\<lambda>s'. balanced b (cc_dh s')"
  have cred: "wp (on_hs (validate_peer_credentials H t trusted token ty)) s
      (\<lambda>pc s'. balanced b (cc_dh s') \<and> (ty \<noteq> HS_TOKEN_FINAL \<longrightarrow> negotiated pc = AUTH_ALGO_KIND_EC_PRIME256V1))
      ?X not_dangling"
    by (rule wp_on_hs) (use bal kind in \<open>auto intro: dangling_rules dest: credentials_frame\<close>)
  have stages: "wp (bind_op (validate_dh1 E H t token ty pc r1) (\<lambda>dh1.
      bind_op (find_classical_properties E H t token ty pc r2) (\<lambda>(ch1, rp).
      bind_op (on_hs (validate_rchallenge ty (g ch1 rp))) (\<lambda>_.
      bind_op (on_hs (validate_hashes_and_lchallenge H token ty ch1 rp)) (\<lambda>_.
      bind_op (on_hs (update_remote pc)) (\<lambda>_.
        case rp of None \<Rightarrow> ret_op () | Some p \<Rightarrow> check_classical_signature H t ty dh1 ch1 p)))))) s' ?B ?X not_dangling"
    if "balanced b (cc_dh s')" "ty \<noteq> HS_TOKEN_FINAL \<longrightarrow> negotiated pc = AUTH_ALGO_KIND_EC_PRIME256V1" for s' pc g
    using that by (auto simp: wp_bind_iff split: option.splits
        intro!: wp_mono [OF wp_validate_dh1] wp_mono [OF wp_find_classical]
          wp_mono [OF wp_on_hs_balanced] wp_mono [OF wp_check_signature] dangling_rules)
  have impl: "wp (validate_handshake_token_impl_classical E H t trusted token ty r1 r2) s ?B ?X not_dangling"
    unfolding validate_handshake_token_impl_classical_def
    by (intro wp_guard wp_bind [where m = "on_hs (validate_peer_credentials _ _ _ _ _)"] wp_mono [OF cred] stages)
      (simp_all add: bal)
  have clean: "wp (if ty = HS_TOKEN_FINAL then ret_op ()
      else bind_op (on_hs (set_remote (\<lambda>r. r\<lparr>ri_identityCert := None\<rparr>))) (\<lambda>_. on_dh drop_rdh)) s' (\<lambda>_. ?X) ?X
      not_dangling" if "balanced b (cc_dh s')" for s'
    using that by (auto simp: wp_bind_iff wp_on_dh
        intro!: wp_mono [OF wp_on_hs_balanced] wp_mono [OF wp_drop_rdh] dangling_rules)
  show ?thesis
    unfolding validate_handshake_token_classical_def wp_on_fail_iff
    by (rule wp_mono [OF impl]) (use clean in auto)
qed

lemma wp_on_live_buffer:
  assumes "wp m (dx_live (cc_dh s)) (\<lambda>_ l. l = add_mset Buffer_object (dx_live (cc_dh s))) (\<lambda>l. l = dx_live (cc_dh s)) Z"
    and "balanced b (cc_dh s)"
  shows "wp (on_dh (on_live m)) s (\<lambda>_ s'. cc_hs s' = cc_hs s \<and> balanced (add_mset Buffer_object b) (cc_dh s'))
    (\<lambda>s'. balanced b (cc_dh s')) Z"
  using assms unfolding wp_on_dh wp_on_live
  by (intro wp_mono [OF assms(1)]) (auto simp: balanced_def held_keys_def)

lemma wp_sign_balanced:
  assumes "balanced b (cc_dh s)"
  shows "wp (on_dh (on_live (sign_classical H t k ty h1 h2 m))) s
    (\<lambda>_ s'. cc_hs s' = cc_hs s \<and> balanced (add_mset Buffer_object b) (cc_dh s')) (\<lambda>s'. balanced b (cc_dh s'))
    not_dangling"
  by (rule wp_on_live_buffer [OF wp_mono [OF wp_sign_classical] assms]) simp_all

lemma wp_reply_tokens_classical:
  assumes "balanced b (cc_dh s)"
  shows "wp (reply_tokens_classical H t optional cert message_in pdata d) s
    (\<lambda>_ s'. balanced (add_mset Buffer_object b) (cc_dh s')) (\<lambda>s'. balanced b (cc_dh s')) not_dangling"
  using assms unfolding reply_tokens_classical_def Let_def
  by (auto simp: wp_bind_iff split: option.split
      intro!: wp_mono [OF wp_on_hs_total [OF never_fails_ops(1)]] wp_mono [OF wp_on_hs_total [OF never_fails_ops(2)]]
        wp_mono [OF wp_sign_balanced] dangling_rules)

lemma wp_final_tokens_classical:
  assumes "balanced b (cc_dh s)"
  shows "wp (final_tokens_classical H t optional dh1 dh2) s
    (\<lambda>_ s'. balanced (add_mset Buffer_object b) (cc_dh s')) (\<lambda>s'. balanced b (cc_dh s')) not_dangling"
  using assms unfolding final_tokens_classical_def Let_def
  by (auto simp: wp_bind_iff intro!: wp_mono [OF wp_sign_balanced])

lemma wp_free_buffer:
  assumes "balanced (add_mset Buffer_object b) (cc_dh s)"
  shows "wp (on_dh (on_live (free_object Buffer_object))) s (\<lambda>_ s'. balanced b (cc_dh s')) (\<lambda>_. False) Z"
  using assms by (auto simp: wp_on_dh wp_on_live balanced_def held_keys_def)

lemma wp_store_secret:
  assumes "balanced b (cc_dh s)"
  shows "wp (store_secret_classical E H t impl) s (\<lambda>_ s'. balanced (add_mset Buffer_object b) (cc_dh s'))
    (\<lambda>s'. balanced b (cc_dh s')) not_dangling"
  using assms unfolding store_secret_classical_def
  by (auto simp: wp_bind_iff wp_on_fail_iff intro!: wp_mono [OF wp_on_live_buffer [OF wp_shared_secret]]
      wp_mono [OF wp_on_hs_total [OF never_fails_ops(5)]] wp_mono [OF wp_on_hs_balanced [OF no_dangling_stages(8)]] wp_mono [OF wp_free_buffer] dangling_rules)

lemma wp_releasing:
  assumes "wp m s (\<lambda>x s'. balanced (add_mset Buffer_object (g x)) (cc_dh s'))
      (\<lambda>s'. balanced (add_mset Buffer_object b) (cc_dh s')) not_dangling"
  shows "wp (releasing free_dh_property m) s (\<lambda>x s'. balanced (g x) (cc_dh s')) (\<lambda>s'. balanced b (cc_dh s')) not_dangling"
  unfolding releasing_def free_dh_property_def wp_bind_iff wp_on_fail_iff
  by (rule wp_mono [OF assms]) (auto intro!: wp_mono [OF wp_free_buffer])

lemma wp_request_classical:
  assumes "ctx_balanced b s"
  shows "wp (begin_handshake_request_classical E H t optional cert pdata) s
    (\<lambda>_ s'. balanced (add_mset Buffer_object b) (cc_dh s')) (\<lambda>s'. balanced b (cc_dh s')) not_dangling"
  using assms unfolding begin_handshake_request_classical_def ctx_balanced_def
  by (auto simp: wp_bind_iff wp_on_dh Let_def wp_case_prod
      intro!: wp_mono [OF wp_request_dh_key] wp_mono [OF wp_on_hs_total [OF never_fails_ops(1)]]
        wp_mono [OF wp_on_hs_total [OF never_fails_ops(2)]] wp_mono [OF wp_on_hs_total [OF never_fails_ops(3)]]
        dangling_rules)

lemma wp_reply_classical:
  assumes "ctx_balanced b s"
  shows "wp (begin_handshake_reply_classical E H t optional trusted message_in pdata) s
    (\<lambda>_ s'. balanced (add_mset Buffer_object (add_mset Buffer_object b)) (cc_dh s')) (\<lambda>s'. balanced b (cc_dh s'))
    not_dangling"
proof -
  have valid: "wp (validate_handshake_token_classical E H t trusted message_in HS_TOKEN_REQ None None) s
      (\<lambda>_ s'. balanced b (cc_dh s') \<and> ri_kagreeAlgoKind (cx_remote (cc_hs s')) = AUTH_ALGO_KIND_EC_PRIME256V1)
      (\<lambda>s'. balanced b (cc_dh s')) not_dangling"
  proof (rule wp_mono [OF wp_with_result [OF wp_validate_classical [OF assms]]])
    fix u s' assume "balanced b (cc_dh s') \<and>
      validate_handshake_token_classical E H t trusted message_in HS_TOKEN_REQ None None s = Ret (Inr u, s')"
    then show "balanced b (cc_dh s') \<and> ri_kagreeAlgoKind (cx_remote (cc_hs s')) = AUTH_ALGO_KIND_EC_PRIME256V1"
      using assms unfolding validate_token_classical_ok ctx_balanced_def by (auto elim: validate_classical_key)
  qed simp_all
  show ?thesis
    unfolding begin_handshake_reply_classical_def
    by (auto simp: wp_bind_iff wp_on_dh wp_on_fail_iff wp_case_prod intro!: wp_lift wp_mono [OF valid]
        wp_mono [OF wp_reply_dh_key] wp_mono [OF wp_reply_tokens_classical]
        wp_mono [OF wp_free_buffer [unfolded wp_on_dh]]
        dangling_rules)
qed

text \<open>What \<open>process_handshake\<close> hands out: the secret and, in an answer, its signature.\<close>

definition handed_out :: "handshake_result \<Rightarrow> live" where
  "handed_out res = (case res of OK \<Rightarrow> {#Buffer_object#} | OK_FINAL_MESSAGE m \<Rightarrow> {#Buffer_object, Buffer_object#})"

lemma wp_dh_property:
  assumes "balanced b (cc_dh s)"
  shows "wp (dh_property E H t name k AUTH_ALGO_KIND_EC_PRIME256V1) s
    (\<lambda>_ s'. cc_hs s' = cc_hs s \<and> balanced (add_mset Buffer_object b) (cc_dh s')) (\<lambda>s'. balanced b (cc_dh s')) not_dangling"
  unfolding dh_property_def by (rule wp_on_live_buffer [OF wp_dhkey_property assms])

lemma wp_process_reply_classical:
  assumes "ctx_balanced b s"
  shows "wp (process_reply_classical E H t impl optional trusted message_in) s
    (\<lambda>x s'. balanced (handed_out (fst x) + b) (cc_dh s')) (\<lambda>s'. balanced b (cc_dh s')) not_dangling"
proof -
  have tail: "wp (bind_op (final_tokens_classical H t optional dh1 dh2) (\<lambda>tokens.
      bind_op (on_fail (store_secret_classical E H t impl) free_message_signature) (\<lambda>expiry.
      ret_op (OK_FINAL_MESSAGE (handshake_message DDS_AUTHTOKEN_FINAL_CLASS_ID tokens), expiry)))) u
    (\<lambda>x s'. balanced (add_mset Buffer_object (handed_out (fst x) + b)) (cc_dh s'))
    (\<lambda>s'. balanced (add_mset Buffer_object b) (cc_dh s')) not_dangling"
    if "balanced (add_mset Buffer_object b) (cc_dh u)" for u dh1 dh2
    unfolding wp_bind_iff wp_on_fail_iff wp_ret free_message_signature_def
    by (rule wp_mono [OF wp_final_tokens_classical [OF that]])
      (auto simp: handed_out_def add_mset_commute intro!: wp_mono [OF wp_store_secret] wp_mono [OF wp_free_buffer])
  show ?thesis
    using assms unfolding process_reply_classical_def ctx_balanced_def
    by (auto simp: wp_bind_iff wp_on_dh split: option.splits
        intro!: wp_mono [OF wp_dh_property] wp_releasing wp_mono [OF wp_copy_parameters] tail [unfolded wp_bind_iff wp_ret fst_conv]
          wp_mono [OF wp_validate_classical [unfolded ctx_balanced_def]])
qed

lemma wp_process_final_classical:
  assumes "ctx_balanced b s" and "ri_kagreeAlgoKind (cx_remote (cc_hs s)) = AUTH_ALGO_KIND_EC_PRIME256V1"
  shows "wp (process_final_classical E H t impl trusted message_in) s
    (\<lambda>x s'. balanced (handed_out (fst x) + b) (cc_dh s')) (\<lambda>s'. balanced b (cc_dh s')) not_dangling"
  using assms unfolding process_final_classical_def ctx_balanced_def Let_def
  by (auto simp: wp_bind_iff wp_on_dh handed_out_def
      intro!: wp_mono [OF wp_dh_property] wp_releasing wp_mono [OF wp_store_secret]
        wp_mono [OF wp_validate_classical [unfolded ctx_balanced_def]])

lemma wp_free_dh_keys:
  assumes "balanced b h"
  shows "wp free_dh_keys h (\<lambda>_ h'. dx_live h' = b) (\<lambda>_. False) {}"
  using assms by (auto simp: free_dh_keys_def wp_bind_iff wp_on_live balanced_def held_keys_def)

section \<open>Property\<close>

text \<open>
  The objects live after a call: the keys held, those of others (\<open>b\<close>) and, when it succeeds, the
  buffers \<open>g x\<close> it hands out with its value.
\<close>

definition accounted :: "live \<Rightarrow> ('a \<Rightarrow> live) \<Rightarrow> ('a vres \<times> classical_ctx) outcome \<Rightarrow> bool" where
  "accounted b g out \<longleftrightarrow>
     (case out of
        Fault f \<Rightarrow> f \<noteq> Dangling_pointer
      | Ret (r, s') \<Rightarrow>
          dx_live (cc_dh s') = held_keys (cc_dh s') + (case r of Inr x \<Rightarrow> g x | Inl e \<Rightarrow> {#}) + b)"

lemma accounted_wp:
  assumes "wp m s (\<lambda>x s'. balanced (g x + b) (cc_dh s')) (\<lambda>s'. balanced b (cc_dh s')) not_dangling"
  shows "accounted b g (m s)"
proof (cases "m s")
  case (Ret p)
  then show ?thesis
    using assms by (cases p; cases "fst p") (auto simp: wp_def accounted_def balanced_def add.assoc)
qed (use assms in \<open>simp add: wp_def accounted_def\<close>)

lemma wp_succeeds: "wp m s (\<lambda>_. Q) (\<lambda>_. False) {} \<Longrightarrow> \<exists>x s'. m s = Ret (Inr x, s') \<and> Q s'"
proof (cases "m s")
  case (Ret p)
  assume "wp m s (\<lambda>_. Q) (\<lambda>_. False) {}"
  then show ?thesis using Ret by (cases p; cases "fst p") (auto simp: wp_def)
qed (simp add: wp_def)


end
