(* ===== verification/ClassicalDemo.thy ===== *)
theory ClassicalDemo
  imports ClassicalResources Witnesses
begin

text \<open>
  A run of the classical key exchange and of its signatures, in \<open>demo_derive\<close>, where the key of
  number \<open>n\<close> has the public point \<open>n\<close> and two keys derive the product of their numbers.
\<close>

section \<open>The functions used\<close>

fun opt_num :: "evp_pkey option \<Rightarrow> nat" where
  "opt_num None = 0"
| "opt_num (Some k) = key_num k"

definition demo_derive :: openssl_derive where
  "demo_derive = openssl_dh.extend demo_dh
     \<lparr>EVP_PKEY_copy_parameters = (\<lambda>r l. r), EVP_PKEY_CTX_new_derive = (\<lambda>_ _. True),
      EVP_PKEY_derive_init = (\<lambda>_ _. 1), EVP_PKEY_derive_set_peer = (\<lambda>_ _ _. 1),
      EVP_PKEY_derive_size = (\<lambda>_ _ _. (1, 7)),
      EVP_PKEY_derive = (\<lambda>_ a b. (1, replicate (opt_num a * opt_num b) 1)),
      BinaryProperty_equal = (=), BinaryProperty_alloc = (\<lambda>_. True), digest_sha256 = demo_sha\<rparr>"

lemma demo_derive_laws: "dh_codec_laws demo_derive" "dh_agreement_law demo_derive"
proof -
  show "dh_codec_laws demo_derive"
    by (auto simp: dh_codec_laws_def demo_derive_def openssl_dh.defs demo_dh_def)
  have num: "key_num k = key_num k'" if "same_dh_public demo_derive algo k k'" for algo k k'
    using that by (cases k; cases k') (auto simp: same_dh_public_def demo_derive_def openssl_dh.defs demo_dh_def
        split: if_splits)
  show "dh_agreement_law demo_derive"
    using num by (auto simp: dh_agreement_law_def demo_derive_def openssl_dh.defs mult.commute)
qed

lemma demo_derive_length: "dh_length_law demo_derive"
  by (auto simp: dh_length_law_def demo_derive_def openssl_dh.defs demo_dh_def)

text \<open>The functions of \<open>demo_derive\<close>, and what the simplifier needs to run the classical handlers.\<close>

lemma demo_derive_sel:
  "EVP_PKEY_new demo_derive t" "EVP_PKEY_CTX_new_id demo_derive t" "EVP_PKEY_paramgen_init demo_derive t = 1"
  "EVP_PKEY_CTX_set_curve demo_derive t = 1" "EVP_PKEY_paramgen demo_derive t = (1, EVP_PKEY 0)"
  "EVP_PKEY_CTX_new demo_derive t k" "EVP_PKEY_keygen_init_dh demo_derive t k = 1"
  "EVP_PKEY_keygen demo_derive t k = (1, EVP_PKEY t)" "EVP_PKEY_get1_EC_KEY demo_derive k = Some (EC_KEY (key_num k))"
  "EC_KEY_get0_public_key demo_derive e = Some (EC_POINT (ec_key_num e))" "EC_KEY_get0_group demo_derive e"
  "EC_POINT_point2oct_size demo_derive p = point_num p"
  "EC_POINT_point2oct demo_derive p = (point_num p, replicate (point_num p) 1)"
  "EC_GROUP_new_by_curve_name demo_derive t" "EC_POINT_new demo_derive t"
  "EC_POINT_oct2point demo_derive b = (1, EC_POINT (length b))" "EC_KEY_new demo_derive t"
  "EC_KEY_set_group demo_derive t = 1" "EC_KEY_set_public_key demo_derive p = 1"
  "EVP_PKEY_set1_EC_KEY demo_derive t p = (1, EVP_PKEY (point_num p))" "malloc_buffer demo_derive t n"
  "EVP_PKEY_copy_parameters demo_derive r l = r" "EVP_PKEY_CTX_new_derive demo_derive t o1"
  "EVP_PKEY_derive_init demo_derive t o1 = 1" "EVP_PKEY_derive_set_peer demo_derive t o1 o2 = 1"
  "EVP_PKEY_derive_size demo_derive t o1 o2 = (1, 7)"
  "EVP_PKEY_derive demo_derive t o1 o2 = (1, replicate (opt_num o1 * opt_num o2) 1)"
  "BinaryProperty_equal demo_derive = (=)" "BinaryProperty_alloc demo_derive t" "digest_sha256 demo_derive = demo_sha"
  by (simp_all add: demo_derive_def openssl_dh.defs demo_dh_def)

lemmas classical_defs = new_object_def free_object_def free_two_def on_live_def on_hs_def on_dh_def
  generate_dh_keys_def get_ec_dh_parameters_def dh_public_key_to_oct_def dh_public_key_to_oct_ecdh_def
  dh_oct_to_public_key_def dh_oct_to_public_key_ecdh_def ecdh_key_from_octets_def
  request_dh_key_def copy_parameters_def reply_dh_key_def receive_dh_key_def check_dh_reference_def
  create_dhkey_property_def generate_shared_secret_classical_def create_validate_signature_impl_def
  create_validate_asymmetrical_signature_def create_signature_def validate_signature_classical_def classical_reply_transcript_def
  classical_final_transcript_def classical_transcript_def sign_classical_def validate_classical_signature_def
  negotiated_def validate_dh1_def find_classical_properties_def check_classical_signature_def
  validate_handshake_token_impl_classical_def drop_rdh_def validate_handshake_token_classical_def
  begin_handshake_request_classical_def reply_tokens_classical_def begin_handshake_reply_classical_def
  final_tokens_classical_def store_secret_classical_def free_message_signature_def releasing_def dh_property_def free_dh_property_def
  process_reply_classical_def process_final_classical_def process_handshake_classical_def bind_outcome_def
  DDS_AUTHTOKEN_PROP_DH1_def DDS_AUTHTOKEN_PROP_DH2_def bind_vres_def

lemmas classical_eval = eval classical_defs [unfolded let_eval] demo_derive_sel run_def opt_bind_def

section \<open>The run\<close>

definition dh_start :: "nat \<Rightarrow> bytes \<Rightarrow> CreatedHandshakeStep_t \<Rightarrow> classical_ctx" where
  "dh_start n challenge created =
     \<lparr>cc_hs = demo_ctx n None (Some challenge) None created, cc_dh = \<lparr>dx_ldh = None, dx_rdh = None, dx_live = {#}\<rparr>\<rparr>"

definition dh_pdata :: "octet \<Rightarrow> octet \<Rightarrow> octseq" where
  "dh_pdata x y = octets_to_seq [x, y, 0, 0, 0, 0, 9, 9, 9, 9, 9, 9]"

definition dh_run_classical :: "(bin_property list \<times> classical_ctx \<times> bin_property list \<times> classical_ctx \<times>
    data_holder \<times> classical_ctx \<times> classical_ctx) option" where
  "dh_run_classical =
     opt_bind (run (begin_handshake_request_classical demo_derive demo 2 False [65] (dh_pdata 160 128))
       (dh_start 65 (replicate 32 5) CREATEDREQUEST)) (\<lambda>(request, a1).
     opt_bind (run (begin_handshake_reply_classical demo_derive demo 3 False demo_no_cas
       (handshake_message DDS_AUTHTOKEN_REQ_CLASS_ID request) (dh_pdata 161 0))
       (dh_start 66 (replicate 32 105) CREATEDREPLY)) (\<lambda>(reply, b1).
     opt_bind (run (process_handshake_classical demo_derive demo 4 6000 False demo_no_cas
       (handshake_message DDS_AUTHTOKEN_REPLY_CLASS_ID reply)) a1) (\<lambda>((result, eA), a2).
     case result of
       OK \<Rightarrow> None
     | OK_FINAL_MESSAGE final \<Rightarrow>
         opt_bind (run (process_handshake_classical demo_derive demo 5 7000 False demo_no_cas final) b1)
           (\<lambda>((d, eB), b2). if d = OK then Some (request, a1, reply, b1, final, a2, b2) else None))))"

lemma dh_classical_completes: "\<exists>x. dh_run_classical = Some x"
  by (simp add: dh_run_classical_def classical_eval dh_start_def dh_pdata_def demo_message_defs cong: eval_congs)

lemma dh_run_steps:
  obtains request a1 reply b1 final eA a2 eB b2 where
    "begin_handshake_request_classical demo_derive demo 2 False [65] (dh_pdata 160 128)
       (dh_start 65 (replicate 32 5) CREATEDREQUEST) = Ret (Inr request, a1)"
    "begin_handshake_reply_classical demo_derive demo 3 False demo_no_cas
       (handshake_message DDS_AUTHTOKEN_REQ_CLASS_ID request) (dh_pdata 161 0)
       (dh_start 66 (replicate 32 105) CREATEDREPLY) = Ret (Inr reply, b1)"
    "process_handshake_classical demo_derive demo 4 6000 False demo_no_cas
       (handshake_message DDS_AUTHTOKEN_REPLY_CLASS_ID reply) a1 = Ret (Inr (OK_FINAL_MESSAGE final, eA), a2)"
    "process_handshake_classical demo_derive demo 5 7000 False demo_no_cas final b1 = Ret (Inr (OK, eB), b2)"
  using dh_classical_completes unfolding dh_run_classical_def
  by (auto elim!: opt_bind_SomeE dest!: run_SomeD split: handshake_result.splits if_splits)


theorem classical_reply_authenticates_witness:
  "\<exists>token k pub dh1 s s'.
     validate_handshake_token_classical demo_derive demo 4 demo_no_cas token HS_TOKEN_REPLY (Some dh1) None s =
       Ret (Inr (), s') \<and>
     claims_in_token demo token k \<and> X509_get_pubkey demo (sc_cert k) = Some pub"
proof (rule dh_run_steps, goal_cases)
  case (1 request a1 reply b1 final eA a2 eB b2)
  have "\<exists>token dh1 s s'. validate_handshake_token_classical demo_derive demo 4 demo_no_cas token HS_TOKEN_REPLY
      (Some dh1) None s = Ret (Inr (), s')"
    using 1(3) unfolding process_handshake_classical_def process_reply_classical_def process_final_classical_def
      releasing_def dh_property_def Let_def
    by (auto simp: bind_op_ok on_fail_ok get_op_def split: CreatedHandshakeStep_t.splits)
  then show ?case using classical_reply_authenticates by meson
qed

theorem classical_signature_accepted_witness:
  "\<exists>signature. sign_classical demo 7 (EVP_PKEY 66) HS_TOKEN_REPLY (replicate 32 1) (replicate 32 2)
       \<lparr>dm_challenge1 = demo_set_by_value ''challenge1'' [3], dm_challenge2 = demo_set_by_value ''challenge2'' [4],
         dm_dh1 = demo_set_by_value ''dh1'' [5], dm_dh2 = demo_set_by_value ''dh2'' [6]\<rparr> {#} =
       Ret (Inr signature, {#Buffer_object#}) \<and>
     validate_classical_signature demo 8 (X509 66) HS_TOKEN_REPLY (replicate 32 1) (replicate 32 2)
       \<lparr>dm_challenge1 = demo_set_by_value ''challenge1'' [3], dm_challenge2 = demo_set_by_value ''challenge2'' [4],
         dm_dh1 = demo_set_by_value ''dh1'' [5], dm_dh2 = demo_set_by_value ''dh2'' [6]\<rparr> signature {#} =
       Ret (Inr (), {#})"
    (is "\<exists>signature. sign_classical demo 7 _ _ _ _ ?m _ = _ \<and> _")
proof -
  obtain signature where s: "sign_classical demo 7 (EVP_PKEY 66) HS_TOKEN_REPLY (replicate 32 1) (replicate 32 2) ?m {#} =
      Ret (Inr signature, {#Buffer_object#})"
    by (auto simp: sign_classical_def create_signature_def create_validate_signature_impl_def const_defs dh_run
        create_validate_asymmetrical_signature_def demo_digest_sign_def)
  have "classical_signature_correct demo (=)"
    by (simp add: classical_signature_correct_def demo_digest_sign_def demo_digest_verify_def)
  moreover have "verifier_ready demo 8 (EVP_PKEY 66)"
    by (simp add: verifier_ready_def const_defs)
  moreover have "X509_get_pubkey demo (X509 66) = Some (EVP_PKEY 66)"
    by (simp add: demo_pubkey_def)
  moreover have "same_message ?m ?m" by (simp add: same_message_def same_transcript_def)
  ultimately show ?thesis
    using classical_signature_accepted [OF demo_data_laws _ s] s by blast
qed


end
