(* ===== verification/OpenDdsPlugin.thy ===== *)
theory OpenDdsPlugin
  imports OpenDdsAuth
begin

text \<open>
  Registration of the OpenDDS adapter (\<open>Plugin.cpp\<close>).  The registry holds references to plugin
  objects; an object here is an index into the list \<open>plugins\<close>, and the nil reference is \<open>None\<close>.
  The registry is OpenDDS's: its two functions are the record \<open>security_registry\<close>.
\<close>

record 'r security_registry =
  get_plugin_inst :: "string \<Rightarrow> bool \<Rightarrow> 'r \<Rightarrow> nat option"
  register_plugin :: "string \<Rightarrow> nat \<Rightarrow> 'r \<Rightarrow> 'r"

record PQSecSecurityPluginInst =
  plugin_authentication :: "od_auth option"

record 'r plugin_state =
  registry :: 'r
  plugins :: "PQSecSecurityPluginInst list"

definition new_PQSecSecurityPluginInst :: "od_auth \<Rightarrow> PQSecSecurityPluginInst" where
  "new_PQSecSecurityPluginInst auth = \<lparr>plugin_authentication = Some auth\<rparr>"

section \<open>The plugin object\<close>

definition create_authentication :: "PQSecSecurityPluginInst \<Rightarrow> od_auth option" where
  "create_authentication p = plugin_authentication p"

text \<open>The other plugins of DDS Security are not provided: the references are nil.\<close>

definition create_access_control :: "PQSecSecurityPluginInst \<Rightarrow> nat option" where
  "create_access_control p = None"

definition create_crypto_key_exchange :: "PQSecSecurityPluginInst \<Rightarrow> nat option" where
  "create_crypto_key_exchange p = None"

definition create_crypto_key_factory :: "PQSecSecurityPluginInst \<Rightarrow> nat option" where
  "create_crypto_key_factory p = None"

definition create_crypto_transform :: "PQSecSecurityPluginInst \<Rightarrow> nat option" where
  "create_crypto_transform p = None"

definition create_utility :: "PQSecSecurityPluginInst \<Rightarrow> nat option" where
  "create_utility p = None"

definition shutdown :: "PQSecSecurityPluginInst \<Rightarrow> PQSecSecurityPluginInst" where
  "shutdown p = p\<lparr>plugin_authentication := None\<rparr>"

section \<open>Loading the library\<close>

text \<open>\<open>auth\<close> is the new object the constructor of the plugin makes.\<close>

definition init_plugin :: "'r security_registry \<Rightarrow> od_auth \<Rightarrow> 'r plugin_state \<Rightarrow> int \<times> 'r plugin_state" where
  "init_plugin G auth s =
     (case get_plugin_inst G ''PQSec'' False (registry s) of
        Some p \<Rightarrow> (0, s)
      | None \<Rightarrow>
          let p = length (plugins s) in
          (0, \<lparr>registry = register_plugin G ''PQSec'' p (registry s),
               plugins = plugins s @ [new_PQSecSecurityPluginInst auth]\<rparr>))"

text \<open>The registry gives back what was registered under a name, and keeps the other names.\<close>

definition registry_law :: "'r security_registry \<Rightarrow> bool" where
  "registry_law G \<longleftrightarrow>
     (\<forall>n p r m make. get_plugin_inst G m make (register_plugin G n p r) =
        (if m = n then Some p else get_plugin_inst G m make r))"

lemma init_plugin_idempotent:
  assumes "registry_law G"
  shows "init_plugin G auth' (snd (init_plugin G auth s)) = (0, snd (init_plugin G auth s))"
  using assms by (auto simp: init_plugin_def registry_law_def Let_def split: option.split)

lemma init_plugin_provides:
  assumes "registry_law G" and "get_plugin_inst G ''PQSec'' False (registry s) = None"
  shows "\<exists>p. get_plugin_inst G ''PQSec'' False (registry (snd (init_plugin G auth s))) = Some p \<and>
    create_authentication (plugins (snd (init_plugin G auth s)) ! p) = Some auth"
  using assms by (simp add: init_plugin_def registry_law_def create_authentication_def
      new_PQSecSecurityPluginInst_def)

text \<open>A second load does not bring a plugin back that was shut down: the registered object stays nil.\<close>

lemma init_plugin_after_shutdown:
  assumes "get_plugin_inst G ''PQSec'' False (registry s) = Some p" and "p < length (plugins s)"
  shows "create_authentication (plugins (snd (init_plugin G auth
    (s\<lparr>plugins := (plugins s)[p := shutdown (plugins s ! p)]\<rparr>))) ! p) = None"
  using assms by (simp add: init_plugin_def create_authentication_def shutdown_def)

end
