(* ===== verification/BenchHook.thy ===== *)
theory BenchHook
  imports Main
begin

text \<open>
  The timing hook (\<open>bench_hook.c\<close>, compiled with MEASURE_HANDSHAKE_TIME): one time stamp in a POSIX
  shared memory object.  Whether a system call succeeds is a parameter that depends on the time of
  the call; what the calls do to the object and to the descriptor table is in the operations.
\<close>

type_synonym timespec = "int \<times> int"

text \<open>The object does not exist, exists with size 0, or holds a time stamp.\<close>

datatype shm_object = Absent | Empty | Holds timespec

record shm_state =
  shm_object :: shm_object
  shm_fds :: nat
  shm_mappings :: nat

record posix_shm =
  shm_open_ok :: "nat \<Rightarrow> bool"
  ftruncate_ok :: "nat \<Rightarrow> bool"
  mmap_ok :: "nat \<Rightarrow> bool"
  shm_unlink_ok :: "nat \<Rightarrow> bool"

text \<open>\<open>exit(EXIT_FAILURE)\<close>, an access beyond the end of the object, or a result.\<close>

datatype 'a hook = Exit_failure shm_state | Bus_error | Returns 'a shm_state

section \<open>Operations\<close>

definition shm_write :: "posix_shm \<Rightarrow> nat \<Rightarrow> timespec \<Rightarrow> shm_state \<Rightarrow> unit hook" where
  "shm_write P t start s =
     (if \<not> shm_open_ok P t then Exit_failure s
      else
        let s = s\<lparr>shm_object := (if shm_object s = Absent then Empty else shm_object s), shm_fds := shm_fds s + 1\<rparr> in
        if \<not> ftruncate_ok P t then Exit_failure s
        else
          let s = s\<lparr>shm_object := (if shm_object s = Empty then Holds (0, 0) else shm_object s)\<rparr> in
          if \<not> mmap_ok P t then Exit_failure s
          else
            let s = s\<lparr>shm_mappings := shm_mappings s + 1\<rparr>;
                s = s\<lparr>shm_object := Holds start\<rparr> in
            Returns () (s\<lparr>shm_mappings := shm_mappings s - 1, shm_fds := shm_fds s - 1\<rparr>))"

definition shm_read :: "posix_shm \<Rightarrow> nat \<Rightarrow> shm_state \<Rightarrow> timespec hook" where
  "shm_read P t s =
     (if shm_object s = Absent \<or> \<not> shm_open_ok P t then Exit_failure s
      else
        let s = s\<lparr>shm_fds := shm_fds s + 1\<rparr> in
        if \<not> mmap_ok P t then Exit_failure s
        else
          let s = s\<lparr>shm_mappings := shm_mappings s + 1\<rparr> in
          case shm_object s of
            Holds start \<Rightarrow> Returns start (s\<lparr>shm_mappings := shm_mappings s - 1, shm_fds := shm_fds s - 1\<rparr>)
          | _ \<Rightarrow> Bus_error)"

text \<open>The boolean tells which of the two lines is printed.\<close>

definition shm_finalize :: "posix_shm \<Rightarrow> nat \<Rightarrow> shm_state \<Rightarrow> bool hook" where
  "shm_finalize P t s =
     (if shm_object s = Absent \<or> \<not> shm_unlink_ok P t then Returns False s
      else Returns True (s\<lparr>shm_object := Absent\<rparr>))"

section \<open>What is written is read\<close>

lemma shm_write_returns:
  assumes "shm_write P t start s = Returns () s'"
  shows "s' = s\<lparr>shm_object := Holds start\<rparr>"
  using assms by (auto simp: shm_write_def Let_def split: if_splits)

lemma shm_roundtrip:
  assumes "shm_write P t start s = Returns () s'" and "shm_open_ok P t'" and "mmap_ok P t'"
  shows "shm_read P t' s' = Returns start s'"
  using assms(2,3) by (simp add: shm_write_returns [OF assms(1)] shm_read_def)

lemma shm_read_after_finalize:
  assumes "shm_finalize P t s = Returns True s'"
  shows "shm_read P t' s' = Exit_failure s'"
  using assms by (auto simp: shm_finalize_def shm_read_def split: if_splits)

text \<open>Neither function leaves a descriptor or a mapping behind when it returns.\<close>

lemma shm_descriptors_released:
  "shm_write P t start s = Returns u s' \<Longrightarrow> shm_fds s' = shm_fds s \<and> shm_mappings s' = shm_mappings s"
  "shm_read P t s = Returns r s' \<Longrightarrow> shm_fds s' = shm_fds s \<and> shm_mappings s' = shm_mappings s"
  by (auto simp: shm_write_def shm_read_def Let_def split: if_splits shm_object.splits)

end
