(* ===== verification/Spec2Isabelle.thy ===== *)
theory Spec2Isabelle
  imports Instances Debug OpensslSupport ClassicalDemo OpenDdsPlugin BenchHook
begin

text \<open>
  Verification of PQSec-DDS: the post-quantum authentication plugins for DDS Security, the one for
  CycloneDDS (C, \<open>src/adapters/cyclonedds/src\<close>) and the one for OpenDDS (C++,
  \<open>src/adapters/opendds/src\<close>).

  \<^bold>\<open>The program.\<close>  A participant of a DDS domain proves its identity with an ML-DSA certificate and agrees
  on a secret with a key encapsulation mechanism (KEM).  The DDS implementation calls the plugin:
  it registers the local participant (\<open>validate_local_identity\<close>), announces remote ones
  (\<open>validate_remote_identity\<close>, which decides who starts), and then runs a handshake of three messages:
  \<open>begin_handshake_request\<close> makes the request (credentials, a fresh KEM key, a challenge),
  \<open>begin_handshake_reply\<close> checks it and answers (credentials, KEM ciphertext, challenges, signature),
  \<open>process_handshake\<close> checks the reply and sends the final message, and on the other side checks the
  final message.  \<open>get_shared_secret\<close> gives the secret out; the \<open>return_\<close> operations take handles back.

  \<^bold>\<open>The model.\<close>  An operation is a function from a state to an \<open>outcome\<close> (theory \<open>Prelude\<close>): \<open>Fault\<close> for what C
  leaves undefined or aborts (a NULL or dangling pointer, a read past a buffer or of an
  uninitialised variable, a failed assertion, signed overflow, no memory), or \<open>Ret (r, s')\<close> with \<open>r\<close> either \<open>Inl\<close> (VALIDATION_FAILED with the
  exception, if one is set) or \<open>Inr\<close> the result, and the new state.  \<open>on_fail\<close> is the clean-up label of
  a function.  Octets are 8-bit words, \<open>dds_time_t\<close> a 64-bit word, enumerations datatypes, structs
  records; names are those of the source (with the suffix \<open>_OD\<close> in the OpenDDS adapter, where both
  adapters have a function of that name).  OpenSSL, CycloneDDS and OpenDDS are not under \<open>src\<close>: the
  functions used of them are fields of the environment records (\<open>openssl_kem\<close>, \<open>openssl_x509\<close>, \<open>dds_data\<close>,
  \<open>cyclone\<close>, \<open>opendds\<close>, \<open>openssl_dh\<close>, \<open>openssl_derive\<close>, \<open>security_registry\<close>, \<open>error_env\<close>, \<open>debug_env\<close>), with a time argument where they draw
  randomness or read the clock, and what is relied on of them is a named hypothesis (\<open>kem_correct\<close>,
  \<open>signature_correct\<close>, \<open>dds_data_laws\<close>, \<open>hash_table_laws\<close>, \<open>token_laws\<close>, \<open>opendds_laws\<close>, \<open>offset_law\<close>,
  \<open>guid_order\<close>, \<open>dh_codec_laws\<close>, \<open>dh_agreement_law\<close>, \<open>fread_contract\<close>, ...).

  \<^bold>\<open>Theories of the CycloneDDS plugin.\<close>
  \<^item> \<open>AuthAlgs\<close>: \<open>auth_algs.c\<close>, the algorithm tables and their lookups (locale \<open>algorithm_table\<close>).
  \<^item> \<open>PqKem\<close>: \<open>pq_kem.c\<close>, key generation, encapsulation and decapsulation over OpenSSL.
  \<^item> \<open>CertUtils\<close>, \<open>PqSignature\<close>: \<open>auth_utils.c\<close>, loading and checking certificates and keys, files and the
    trusted CA directory, challenges; signatures over lists of properties (locale \<open>transcript_signing\<close>).
  \<^item> \<open>ClassicalDh\<close>: the Diffie-Hellman half of \<open>auth_utils.c\<close>; the state is the multiset of the OpenSSL
    objects that are live.
  \<^item> \<open>Tokens\<close>: \<open>include/auth_tokens.h\<close> and the lookups of \<open>authentication.c\<close> on tokens.
  \<^item> \<open>Guid\<close>: adjusted GUIDs, participant data, who starts (locale \<open>role_order\<close>).
  \<^item> \<open>Objects\<close>: the objects of \<open>authentication.c\<close> (local and remote identities, relations, handshakes) as
    a heap from addresses to records, and their hash tables (locale \<open>hash_key\<close>).  The record \<open>auth\<close> is
    \<open>dds_security_authentication_impl\<close> with that heap, the table entries, the listener and a clock.
  \<^item> \<open>Identities\<close>, \<open>HandshakeToken\<close>, \<open>HandshakeOps\<close>, \<open>Lifecycle\<close>: the operations of the plugin interface
    and the validation of a handshake message (\<open>validate_handshake_token_impl\<close>), in the PQ_CRYPTO build.
  \<^item> \<open>Store\<close>, \<open>StoreOps\<close>, \<open>StoreSteps\<close>, \<open>HandshakeSteps\<close>: the invariant of an instance (the heap as a graph
    of handles and pointers that is closed, linked and listed exactly by the tables) and, operation by
    operation, that it is kept and which faults are possible.
  \<^item> \<open>Plugin\<close>: the plugin as a step relation over calls and expiry callbacks, and its reachable states.
  \<^item> \<open>Agreement\<close>: two instances and a whole handshake between them.
  \<^item> \<open>ClassicalExchange\<close>, \<open>ClassicalHandshake\<close>, \<open>ClassicalResources\<close>: the handshake of the build without
    PQ_CRYPTO in \<open>authentication.c\<close>: the Diffie-Hellman keys of a \<open>HandshakeInfo\<close> and the derived
    secret, the signatures (\<open>transcript_signing\<close> again), validation of the messages, the three handlers,
    and the OpenSSL objects they leave live.  The state \<open>classical_ctx\<close> joins the objects a handshake
    points to (\<open>hs_ctx\<close>, whose stages are those of \<open>HandshakeToken\<close>) with its two keys.
  \<^item> \<open>Debug\<close>, \<open>OpensslSupport\<close>, \<open>BenchHook\<close>: \<open>debug.c\<close>, \<open>debug.h\<close>, \<open>openssl_support.c\<close> and
    \<open>bench_hook.c\<close>.

  \<^bold>\<open>Theories of the OpenDDS adapter.\<close>
  \<^item> \<open>OpenDdsCrypto\<close> (\<open>Crypto.cpp\<close>), \<open>OpenDdsTranscript\<close> (\<open>Transcript.cpp\<close>), \<open>OpenDdsAuth\<close>
    (\<open>Authentication.cpp\<close>): the fallback provider and the class \<open>Kem\<close>, the signed and hashed lists, and
    every method of the class \<open>Authentication\<close>.  The record \<open>od_auth\<close> holds its members; shared pointers
    are indices into lists of objects, reference parameters are the fields \<open>out_handle\<close>, \<open>out_token\<close>, \<open>out_guid\<close>.
  \<^item> \<open>OpenDdsPlugin\<close> (\<open>Plugin.cpp\<close>): the plugin object and its registration.
  \<^item> \<open>OpenDdsInv\<close>, \<open>OpenDdsProps\<close>: the invariant of an instance, its step relation, the properties.
  \<^item> \<open>Interop\<close>: the two adapters side by side.

  \<open>Systems\<close> holds what both adapters share: weakest preconditions of operations (\<open>wp\<close>) and the locale
  \<open>state_invariant\<close> (an invariant that holds at the start and is kept by every step holds in every
  reachable state), interpreted on both plugins.  \<open>Demo\<close>, \<open>Runs\<close>, \<open>Witnesses\<close>, \<open>OpenDdsDemo\<close>, \<open>ClassicalDemo\<close> and
  \<open>Instances\<close> hold concrete environments in which all laws hold, complete handshakes evaluated in
  them, and an instance of every property that has hypotheses.

  \<^bold>\<open>What is shown.\<close>
  \<^item> Authentication: an accepted reply or final message was signed by the holder of a certificate that
    a trusted authority issued for the peer, over the challenges, keys and credentials of this
    handshake; OpenDDS gives a secret out only after such a check, and a handshake ends with its first
    message, accepted or not.
  \<^item> Agreement and progress: when both sides of a handshake succeed they hold the same secret and
    challenges; two configured OpenDDS participants complete it.  The same authentication of a reply and
    agreement on the secret hold for the classical handshake.
  \<^item> Safety: in every reachable instance each call returns and keeps the invariant, except in the
    cases the statement lists (these are defects of the code).  One of them comes from the peer: a
    challenge or hash whose length is 32 is read without a look at its buffer (\<open>read_buffer\<close>).
  \<^item> Resources: returning an identity frees it and exactly what depends on it; finalizing leaves the
    relations; the objects that the Diffie-Hellman helpers leave live, exactly, with the two paths
    that follow a NULL pointer and the one that leaks; the classical handlers account for keys,
    contexts and buffers, also those of making and checking a signature.
  \<^item> Functional behaviour and round trips: algorithm names, KEM sizes and secrets, adjusted GUIDs and
    their check, participant data, certificate loading and expiry, the trusted CA
    directory, file reading (also of a file without end), exception messages, hex dumps, log levels.
  \<^item> The adapters together: KEM keys, ciphertexts and GUIDs of one are good for the other; their reply
    and final messages are not.

  \<^bold>\<open>Bounds and fuel.\<close>  Recursion is structural or has a measure, with one exception: \<open>read_reads\<close>, the loop
  of \<open>load_file_into_BIO\<close> on a file that may never end, takes fuel, and \<open>remain div 512 + 3\<close> is enough for
  every file (\<open>read_reads_terminates\<close>); on a finite file it is \<open>read_loop\<close> (\<open>read_reads_stream\<close>).
  CORBA handles are bounded by \<open>LONG_MAX\<close> and time stamps wrap at 64 bits.

  \<^bold>\<open>Not modelled.\<close>  Locks: each call runs alone, so races (such as the one of \<open>validity_callback\<close>) are
  outside.  Log calls inside the operations, since they change no state of theirs.  The build without
  PQ_CRYPTO on the heap of objects and its tables: its handlers are modelled from the point where the
  handshake is found, which is where the two builds part.  The build with logging disabled, and the
  code for OpenSSL before 1.1.0, which the KEM functions exclude.  The calls of the timing hook, test
  programs, scripts and configuration.  Erasing of secrets from memory and, in the CycloneDDS plugin,
  leaks of buffers that are neither security objects nor objects of the classical key exchange;
  in the latter the certificates, and what loading and checking one makes and frees, are not tracked.
  Octet sequences of \<open>2 ^ 32\<close> octets or more.  A buffer of a message that is handed to OpenSSL or to
  CycloneDDS is taken to hold the octets its length says; the code checks that it is not NULL.
\<close>

end
